(* ===== verification/Prelude.thy ===== *)
theory Prelude
  imports Main
begin

text \<open>
  Shared vocabulary of the development: the error classes of the SDK, effects as
  world-passing functions that end in a value or an error, the JavaScript idioms the
  components use (nullish coalescing, truthiness, \<open>Promise.all\<close>), and generic lemmas.

  A method that awaits calls to the outside is a function from a state \<open>'w\<close> of everything
  it may touch to an outcome and the state afterwards (type \<open>('w, 'a) io\<close>).
  \<open>await m k\<close> is \<open>const x = await m; k x\<close>; an error of \<open>m\<close> ends the method,
  as an uncaught exception does.
\<close>

named_theorems io_simps \<open>rewriting of effectful code\<close>

section \<open>Errors\<close>

text \<open>
  The classes of \<open>src/public/errors.ts\<close>, each with its optional message, then the errors
  that are not classes of the SDK: \<open>PlainError\<close> is \<open>new Error(msg)\<close>,
  \<open>MatrixError\<close> is the Matrix SDK's error with its \<open>errcode\<close>, \<open>TypeError\<close> is the
  run-time error of a property read on undefined, the next five are classes of the
  platform's common library, and \<open>ForeignError\<close> is any other value thrown by code
  that is not modelled.
\<close>

datatype sc_error =
    SecureCommsError "string option"
  | InternalError string
  | InvalidArgumentError "string option"
  | UnauthorizedError "string option"
  | UnacceptableWordsError "string option"
  | HandleNotAvailableError "string option"
  | HandleNotFoundError "string option"
  | InvalidHandleNameError "string option"
  | InvalidHandleIdError "string option"
  | AliasNotAvailableError "string option"
  | ChannelNotFoundError "string option"
  | ChannelNameNotAvailableError "string option"
  | InvalidChannelStateError "string option"
  | InvalidChannelAliasError "string option"
  | RoomNotFoundError "string option"
  | PermissionDeniedError "string option"
  | NotAllowedError "string option"
  | DirectChatExistsError "string option"
  | DirectChatMembershipError "string option"
  | SecureCommsServiceConfigNotFoundError "string option"
  | S3UploadError "string option"
  | S3DownloadError "string option"
  | PlainError string
  | MatrixError string
  | TypeError
  | NotRegisteredError string
  | ServiceError string
  | FatalError string
  | NotAuthorizedError
  | UnknownGraphQLError
  | ForeignError nat

type_synonym 'a result = "sc_error + 'a"

section \<open>Effects\<close>

type_synonym ('w, 'a) io = "'w \<Rightarrow> 'a result \<times> 'w"

definition ret :: "'a \<Rightarrow> ('w, 'a) io" where
  "ret x = (\<lambda>w. (Inr x, w))"

definition throw :: "sc_error \<Rightarrow> ('w, 'a) io" where
  "throw e = (\<lambda>w. (Inl e, w))"

definition await :: "('w, 'a) io \<Rightarrow> ('a \<Rightarrow> ('w, 'b) io) \<Rightarrow> ('w, 'b) io" where
  "await m k = (\<lambda>w. case m w of
       (Inl e, w') \<Rightarrow> (Inl e, w')
     | (Inr x, w') \<Rightarrow> k x w')"

text \<open>\<open>try_catch m h\<close> is \<open>try { m } catch (err) { h err }\<close>.\<close>

definition try_catch :: "('w, 'a) io \<Rightarrow> (sc_error \<Rightarrow> ('w, 'a) io) \<Rightarrow> ('w, 'a) io" where
  "try_catch m h = (\<lambda>w. case m w of
       (Inl e, w') \<Rightarrow> h e w'
     | (Inr x, w') \<Rightarrow> (Inr x, w'))"

text \<open>The value of a pure computation that may throw, used inside an effectful method.\<close>

definition lift_result :: "'a result \<Rightarrow> ('w, 'a) io" where
  "lift_result r = (\<lambda>w. (r, w))"

text \<open>
  \<open>Promise.all(ms)\<close>: every promise runs, and the rejection of one does not stop the
  others. Run in list order, the outcome is the first rejection of that order, else the
  list of values.
\<close>

fun promise_all :: "('w, 'a) io list \<Rightarrow> ('w, 'a list) io" where
  "promise_all [] w = (Inr [], w)"
| "promise_all (m # ms) w =
     (case m w of (r, w1) \<Rightarrow>
       (case promise_all ms w1 of (rs, w2) \<Rightarrow>
         (case r of Inl e \<Rightarrow> (Inl e, w2)
          | Inr x \<Rightarrow> (case rs of Inl e \<Rightarrow> (Inl e, w2) | Inr xs \<Rightarrow> (Inr (x # xs), w2)))))"

text \<open>A \<open>for\<close> loop that awaits its body: it stops at the first error.\<close>

fun for_each :: "('a \<Rightarrow> ('w, unit) io) \<Rightarrow> 'a list \<Rightarrow> ('w, unit) io" where
  "for_each f [] w = (Inr (), w)"
| "for_each f (x # xs) w =
     (case f x w of (Inl e, w') \<Rightarrow> (Inl e, w') | (Inr _, w') \<Rightarrow> for_each f xs w')"

text \<open>A call that only reads: whatever it answers, the state is as before.\<close>

definition reads_only :: "('w, 'a) io \<Rightarrow> bool" where
  "reads_only m \<longleftrightarrow> (\<forall>w. snd (m w) = w)"

lemma await_ret [simp]: "await (ret x) k = k x"
  by (simp add: await_def ret_def)

lemma await_throw [simp]: "await (throw e) k = throw e"
  by (simp add: await_def throw_def fun_eq_iff)

lemma try_catch_ret [simp]: "try_catch (ret x) h = ret x"
  by (simp add: try_catch_def ret_def fun_eq_iff)

lemma try_catch_throw [simp]: "try_catch (throw e) h = h e"
  by (simp add: try_catch_def throw_def)

lemma await_assoc: "await (await m f) g = await m (\<lambda>x. await (f x) g)"
  by (simp add: await_def fun_eq_iff split: prod.splits sum.splits)

lemma ret_apply [io_simps]: "ret x w = (Inr x, w)"
  by (simp add: ret_def)

lemma throw_apply [io_simps]: "throw e w = (Inl e, w)"
  by (simp add: throw_def)

lemma lift_result_apply [io_simps]: "lift_result r w = (r, w)"
  by (simp add: lift_result_def)

lemma await_apply [io_simps]:
  "await m k w = (case fst (m w) of Inl e \<Rightarrow> (Inl e, snd (m w)) | Inr x \<Rightarrow> k x (snd (m w)))"
  by (simp add: await_def split: prod.splits sum.splits)

lemma try_catch_apply [io_simps]:
  "try_catch m h w = (case fst (m w) of Inl e \<Rightarrow> h e (snd (m w)) | Inr x \<Rightarrow> (Inr x, snd (m w)))"
  by (simp add: try_catch_def split: prod.splits sum.splits)

lemma reads_onlyD [simp]: "reads_only m \<Longrightarrow> snd (m w) = w"
  by (simp add: reads_only_def)

lemma reads_only_ret [simp, intro]: "reads_only (ret x)"
  by (simp add: reads_only_def ret_def)

lemma reads_only_throw [simp, intro]: "reads_only (throw e)"
  by (simp add: reads_only_def throw_def)

lemma reads_only_lift [simp, intro]: "reads_only (lift_result r)"
  by (simp add: reads_only_def lift_result_def)

lemma reads_only_await [intro]:
  "reads_only m \<Longrightarrow> (\<And>x. reads_only (k x)) \<Longrightarrow> reads_only (await m k)"
  by (auto simp: reads_only_def await_apply split: sum.splits)

lemma reads_only_try_catch [intro]:
  "reads_only m \<Longrightarrow> (\<And>e. reads_only (h e)) \<Longrightarrow> reads_only (try_catch m h)"
  by (auto simp: reads_only_def try_catch_apply split: sum.splits)

lemma await_InrD:
  "await m k w = (Inr y, w'') \<Longrightarrow> \<exists>x w'. m w = (Inr x, w') \<and> k x w' = (Inr y, w'')"
  by (auto simp: await_def split: prod.splits sum.splits)

lemma promise_all_reads_only:
  "(\<And>m. m \<in> set ms \<Longrightarrow> reads_only m) \<Longrightarrow> snd (promise_all ms w) = w"
proof (induction ms arbitrary: w)
  case Nil
  then show ?case by simp
next
  case (Cons m ms)
  from Cons.prems have "snd (m w) = w" by (simp add: reads_only_def)
  moreover from Cons have "snd (promise_all ms w) = w" by simp
  ultimately show ?case
    by (auto split: prod.splits sum.splits)
qed

lemma promise_all_state: "snd (promise_all ms w) = foldl (\<lambda>w m. snd (m w)) w ms"
  by (induction ms arbitrary: w) (auto simp: case_prod_unfold split: sum.split)

lemma await_Inr_iff:
  "await m k w = (Inr y, w'') \<longleftrightarrow> (\<exists>x w'. m w = (Inr x, w') \<and> k x w' = (Inr y, w''))"
  by (auto simp: await_def split: prod.splits sum.splits)

lemma promise_all_length:
  "promise_all ms w = (Inr xs, w') \<Longrightarrow> length xs = length ms"
  by (induction ms arbitrary: w xs w') (auto split: prod.splits sum.splits)

lemma promise_all_value:
  "promise_all ms w = (Inr xs, w') \<Longrightarrow> m \<in> set ms \<Longrightarrow> (\<And>m. m \<in> set ms \<Longrightarrow> reads_only m) \<Longrightarrow>
     m w = (Inr x, w) \<Longrightarrow> x \<in> set xs"
proof (induction ms arbitrary: xs w')
  case (Cons m' ms)
  have "snd (m' w) = w" using Cons.prems(3) by simp
  then obtain r where "m' w = (r, w)" by (metis prod.collapse)
  then show ?case using Cons by (auto split: prod.splits sum.splits)
qed simp

section \<open>Fallible pure code\<close>

definition sum_bind :: "'a result \<Rightarrow> ('a \<Rightarrow> 'b result) \<Rightarrow> 'b result" where
  "sum_bind r f = (case r of Inl e \<Rightarrow> Inl e | Inr x \<Rightarrow> f x)"

lemma sum_bind_simps [simp]: "sum_bind (Inl e) f = Inl e" "sum_bind (Inr x) f = f x"
  by (simp_all add: sum_bind_def)

lemma sum_bind_Inr_iff:
  "sum_bind r f = Inr y \<longleftrightarrow> (\<exists>x. r = Inr x \<and> f x = Inr y)"
  by (cases r) simp_all

text \<open>\<open>xs.map(f)\<close> for a function that may throw: the first error ends the map.\<close>

fun map_result :: "('a \<Rightarrow> 'b result) \<Rightarrow> 'a list \<Rightarrow> 'b list result" where
  "map_result f [] = Inr []"
| "map_result f (x # xs) = sum_bind (f x) (\<lambda>y. sum_bind (map_result f xs) (\<lambda>ys. Inr (y # ys)))"

section \<open>Loops that may not end\<close>

text \<open>
  A method with a loop whose end depends on the answers of a server: with the fuel it is
  given, it has an outcome, or none yet. \<open>do_while n body again s\<close> is
  \<open>do { s = body(s) } while (again(s))\<close>, for at most \<open>n\<close> rounds.
\<close>

type_synonym ('w, 'a) loop_io = "'w \<Rightarrow> ('a result \<times> 'w) option"

definition once :: "('w, 'a) io \<Rightarrow> ('w, 'a) loop_io" where
  "once m = (\<lambda>w. Some (m w))"

definition loop_await :: "('w, 'a) loop_io \<Rightarrow> ('a \<Rightarrow> ('w, 'b) loop_io) \<Rightarrow> ('w, 'b) loop_io" where
  "loop_await m k = (\<lambda>w. case m w of
       None \<Rightarrow> None
     | Some (Inl e, w') \<Rightarrow> Some (Inl e, w')
     | Some (Inr x, w') \<Rightarrow> k x w')"

definition loop_or_fail :: "string \<Rightarrow> ('w, 'a) loop_io \<Rightarrow> ('w, 'a) loop_io" where
  "loop_or_fail msg m = (\<lambda>w. case m w of
       None \<Rightarrow> None
     | Some (Inl e, w') \<Rightarrow> Some (Inl (PlainError msg), w')
     | Some (Inr x, w') \<Rightarrow> Some (Inr x, w'))"

fun do_while :: "nat \<Rightarrow> ('s \<Rightarrow> ('w, 's) io) \<Rightarrow> ('s \<Rightarrow> bool) \<Rightarrow> 's \<Rightarrow> ('w, 's) loop_io" where
  "do_while 0 body again s w = None"
| "do_while (Suc n) body again s w =
     (case body s w of
        (Inl e, w') \<Rightarrow> Some (Inl e, w')
      | (Inr s', w') \<Rightarrow> if again s' then do_while n body again s' w' else Some (Inr s', w'))"

lemma do_while_more: "do_while n body again s w = Some r \<Longrightarrow> do_while (n + k) body again s w = Some r"
  by (induction n arbitrary: s w) (auto split: prod.splits sum.splits if_splits)

text \<open>Enough fuel: a measure that every continued round decreases.\<close>

lemma do_while_ends:
  assumes "\<And>s w s' w'. body s w = (Inr s', w') \<Longrightarrow> again s' \<Longrightarrow> P s \<Longrightarrow> P s' \<and> m s' < (m s :: nat)"
    and "P s"
  shows "do_while (Suc (m s)) body again s w \<noteq> None"
  using assms(2)
proof (induction "m s" arbitrary: s w rule: less_induct)
  case less
  show ?case
  proof (cases "body s w")
    case (Pair r w')
    show ?thesis
    proof (cases "\<exists>s'. r = Inr s' \<and> again s'")
      case True
      then obtain s' where s': "r = Inr s'" "again s'" by blast
      with assms(1) Pair less.prems have lt: "P s'" "m s' < m s" by auto
      from less.hyps [OF lt(2,1)] obtain x where "do_while (Suc (m s')) body again s' w' = Some x"
        by (metis not_None_eq)
      from do_while_more [OF this, of "m s - Suc (m s')"] lt(2)
      have "do_while (m s) body again s' w' = Some x" by simp
      then show ?thesis using Pair s' by simp
    next
      case False
      then show ?thesis using Pair by (cases r) auto
    qed
  qed
qed

text \<open>What every round keeps holds at the end.\<close>

lemma do_while_invariant:
  assumes "do_while n body again s w = Some (Inr s', w')" and "P s"
    and "\<And>s w s' w'. body s w = (Inr s', w') \<Longrightarrow> P s \<Longrightarrow> P s'"
  shows "P s' \<and> \<not> again s'"
  using assms(1,2)
proof (induction n arbitrary: s w)
  case (Suc n)
  then show ?case using assms(3) by (auto split: prod.splits sum.splits if_splits)
qed simp

text \<open>Running out of fuel passes through the combinators.\<close>

lemma once_not_None [simp]: "once m w \<noteq> None"
  by (simp add: once_def)

lemma loop_await_None_iff:
  "loop_await m k w = None \<longleftrightarrow> m w = None \<or> (\<exists>x w'. m w = Some (Inr x, w') \<and> k x w' = None)"
  by (auto simp: loop_await_def split: option.splits prod.splits sum.splits)

lemma loop_or_fail_None_iff: "loop_or_fail msg m w = None \<longleftrightarrow> m w = None"
  by (auto simp: loop_or_fail_def split: option.splits prod.splits sum.splits)

section \<open>JavaScript idioms\<close>

text \<open>\<open>a ?? b\<close>, with \<open>undefined\<close> as \<open>None\<close>.\<close>

definition nullish :: "'a option \<Rightarrow> 'a \<Rightarrow> 'a" where
  "nullish a b = (case a of None \<Rightarrow> b | Some x \<Rightarrow> x)"

definition nullish_opt :: "'a option \<Rightarrow> 'a option \<Rightarrow> 'a option" where
  "nullish_opt a b = (case a of None \<Rightarrow> b | Some x \<Rightarrow> Some x)"

lemma nullish_simps [simp]: "nullish None b = b" "nullish (Some x) b = x"
  by (simp_all add: nullish_def)

lemma nullish_opt_simps [simp]: "nullish_opt None b = b" "nullish_opt (Some x) b = Some x"
  by (simp_all add: nullish_opt_def)

text \<open>A string option is truthy when it is present and not empty.\<close>

definition truthy_str :: "string option \<Rightarrow> bool" where
  "truthy_str s \<longleftrightarrow> s \<noteq> None \<and> s \<noteq> Some ''''"

text \<open>A number option is truthy when it is present and not zero.\<close>

definition truthy_num :: "int option \<Rightarrow> bool" where
  "truthy_num n \<longleftrightarrow> n \<noteq> None \<and> n \<noteq> Some 0"

text \<open>\<open>new Set(xs)\<close> read back with \<open>Array.from\<close>: first occurrences, in order.\<close>

fun set_of_array :: "'a list \<Rightarrow> 'a list" where
  "set_of_array [] = []"
| "set_of_array (x # xs) = x # filter (\<lambda>y. y \<noteq> x) (set_of_array xs)"

lemma set_set_of_array [simp]: "set (set_of_array xs) = set xs"
  by (induction xs) auto

lemma distinct_set_of_array [simp]: "distinct (set_of_array xs)"
  by (induction xs) auto

lemma length_set_of_array_le: "length (set_of_array xs) \<le> length xs"
proof (induction xs)
  case (Cons x xs)
  have "length (filter (\<lambda>y. y \<noteq> x) (set_of_array xs)) \<le> length (set_of_array xs)"
    by (rule length_filter_le)
  also note Cons.IH
  finally show ?case by simp
qed simp

lemma set_of_array_distinct: "distinct xs \<Longrightarrow> set_of_array xs = xs"
proof (induction xs)
  case (Cons x xs)
  then have "set_of_array xs = xs" and "x \<notin> set xs" by simp_all
  moreover from \<open>x \<notin> set xs\<close> have "filter (\<lambda>y. y \<noteq> x) xs = xs"
    by (auto intro: filter_True)
  ultimately show ?case by simp
qed simp

lemma length_set_of_array: "length (set_of_array xs) = card (set xs)"
  by (metis distinct_card distinct_set_of_array set_set_of_array)

text \<open>\<open>map.set(k, v)\<close>: an existing key keeps its place, a new one comes last (also the
  assignment of an object's property).\<close>

fun map_set :: "'k \<Rightarrow> 'v \<Rightarrow> ('k \<times> 'v) list \<Rightarrow> ('k \<times> 'v) list" where
  "map_set k v [] = [(k, v)]"
| "map_set k v ((k', v') # m) = (if k' = k then (k, v) # m else (k', v') # map_set k v m)"

lemma map_of_map_set: "map_of (map_set k v m) = (map_of m)(k \<mapsto> v)"
  by (induction m) auto

text \<open>Identifiers of the Matrix and platform APIs are opaque strings.\<close>

type_synonym handle_id = string
type_synonym user_id = string
type_synonym room_id = string
type_synonym event_id = string

section \<open>Ladders: an order represented by numbers\<close>

text \<open>
  What the components rely on when a role is stored as a number and read back: reading
  a stored role gives the role, and a role that ranks at least as high is stored as a
  number at least as large.
\<close>

locale ladder =
  fixes store :: "'r::linorder \<Rightarrow> int" and read :: "int \<Rightarrow> 'r"
  assumes read_store: "read (store r) = r"
    and store_mono: "r \<le> r' \<Longrightarrow> store r \<le> store r'"
    and read_mono: "n \<le> n' \<Longrightarrow> read n \<le> read n'"
begin

lemma store_inj: "store r = store r' \<longleftrightarrow> r = r'"
  by (metis read_store)

lemma store_le_iff: "store r \<le> store r' \<longleftrightarrow> r \<le> r'"
  by (metis read_store read_mono store_mono)

lemma store_less_iff: "store r < store r' \<longleftrightarrow> r < r'"
  by (simp add: store_le_iff less_le_not_le)

text \<open>A level that reaches the level required by \<open>r\<close> is read as a role that reaches \<open>r\<close>.\<close>

lemma meets_requirement: "store r \<le> n \<Longrightarrow> r \<le> read n"
  by (metis read_store read_mono)

end

section \<open>Enumerations translated between layers\<close>

text \<open>
  The public API, the domain and the GraphQL schema each declare their own copy of an
  enumeration; a transformer translates between two of them. What its clients rely on is
  that no value is lost in either direction.
\<close>

locale enum_codec =
  fixes enc :: "'a \<Rightarrow> 'b" and dec :: "'b \<Rightarrow> 'a"
  assumes dec_enc: "dec (enc x) = x"
    and enc_dec: "enc (dec y) = y"
begin

lemma enc_bij: "bij enc"
  by (metis bijI' dec_enc enc_dec)

lemma enc_eq_iff: "enc x = enc x' \<longleftrightarrow> x = x'"
  by (metis dec_enc)

lemma enc_eq_dec: "enc x = y \<longleftrightarrow> x = dec y"
  by (metis dec_enc enc_dec)

lemma map_option_roundtrip: "map_option dec (map_option enc v) = v"
  by (cases v) (simp_all add: dec_enc)

end

end
