(* ===== verification/Roles.thy ===== *)
theory Roles
  imports Prelude
begin

text \<open>
  Roles, permissions and power levels: the enumerations of the domain entities and of the
  public API, and the transformers that store a role as a Matrix power level and read it
  back (\<open>src/private/domain/entities\<close>, \<open>src/private/data/channels/transformer\<close>,
  \<open>src/private/data/groups/transformer\<close>, \<open>src/private/data/directChats/transformer\<close>,
  \<open>src/private/data/rooms/transformer\<close>).
  Power levels are the integers of the Matrix specification.
\<close>

section \<open>Channel roles\<close>

datatype ChannelRoleEntity =
  CRE_ADMIN | CRE_MODERATOR | CRE_PARTICIPANT | CRE_REACT_ONLY_PARTICIPANT

datatype ChannelRole =
  CR_ADMIN | CR_MODERATOR | CR_PARTICIPANT | CR_REACT_ONLY_PARTICIPANT

fun channel_role_fromAPIToEntity :: "ChannelRole \<Rightarrow> ChannelRoleEntity" where
  "channel_role_fromAPIToEntity CR_ADMIN = CRE_ADMIN"
| "channel_role_fromAPIToEntity CR_MODERATOR = CRE_MODERATOR"
| "channel_role_fromAPIToEntity CR_PARTICIPANT = CRE_PARTICIPANT"
| "channel_role_fromAPIToEntity CR_REACT_ONLY_PARTICIPANT = CRE_REACT_ONLY_PARTICIPANT"

fun channel_role_fromEntityToAPI :: "ChannelRoleEntity \<Rightarrow> ChannelRole" where
  "channel_role_fromEntityToAPI CRE_ADMIN = CR_ADMIN"
| "channel_role_fromEntityToAPI CRE_MODERATOR = CR_MODERATOR"
| "channel_role_fromEntityToAPI CRE_PARTICIPANT = CR_PARTICIPANT"
| "channel_role_fromEntityToAPI CRE_REACT_ONLY_PARTICIPANT = CR_REACT_ONLY_PARTICIPANT"

interpretation channel_role: enum_codec channel_role_fromEntityToAPI channel_role_fromAPIToEntity
proof unfold_locales
  show "channel_role_fromAPIToEntity (channel_role_fromEntityToAPI x) = x" for x
    by (cases x) simp_all
  show "channel_role_fromEntityToAPI (channel_role_fromAPIToEntity y) = y" for y
    by (cases y) simp_all
qed

fun channel_fromEntityToPowerLevel :: "ChannelRoleEntity \<Rightarrow> int" where
  "channel_fromEntityToPowerLevel CRE_ADMIN = 100"
| "channel_fromEntityToPowerLevel CRE_MODERATOR = 50"
| "channel_fromEntityToPowerLevel CRE_PARTICIPANT = 25"
| "channel_fromEntityToPowerLevel CRE_REACT_ONLY_PARTICIPANT = 10"

definition channel_fromPowerLevelToEntity :: "int \<Rightarrow> ChannelRoleEntity" where
  "channel_fromPowerLevelToEntity powerLevel =
     (if powerLevel \<ge> 100 then CRE_ADMIN
      else if powerLevel \<ge> 50 then CRE_MODERATOR
      else if powerLevel \<ge> 25 then CRE_PARTICIPANT
      else CRE_REACT_ONLY_PARTICIPANT)"

text \<open>
  The documentation of the enumeration ranks the roles in descending order and grants a
  higher role the permissions of the lower ones; the order is the one of the declaration.
\<close>

fun channel_rank :: "ChannelRoleEntity \<Rightarrow> nat" where
  "channel_rank CRE_ADMIN = 3"
| "channel_rank CRE_MODERATOR = 2"
| "channel_rank CRE_PARTICIPANT = 1"
| "channel_rank CRE_REACT_ONLY_PARTICIPANT = 0"

lemma channel_rank_inj: "channel_rank a = channel_rank b \<Longrightarrow> a = b"
  by (cases a; cases b) simp_all

instantiation ChannelRoleEntity :: linorder
begin

definition less_eq_ChannelRoleEntity :: "ChannelRoleEntity \<Rightarrow> ChannelRoleEntity \<Rightarrow> bool" where
  "less_eq_ChannelRoleEntity a b \<longleftrightarrow> channel_rank a \<le> channel_rank b"

definition less_ChannelRoleEntity :: "ChannelRoleEntity \<Rightarrow> ChannelRoleEntity \<Rightarrow> bool" where
  "less_ChannelRoleEntity a b \<longleftrightarrow> channel_rank a < channel_rank b"

instance
  by standard
    (auto simp: less_eq_ChannelRoleEntity_def less_ChannelRoleEntity_def channel_rank_inj)

end

interpretation channel_levels: ladder channel_fromEntityToPowerLevel channel_fromPowerLevelToEntity
proof unfold_locales
  show "channel_fromPowerLevelToEntity (channel_fromEntityToPowerLevel r) = r" for r
    by (cases r) (simp_all add: channel_fromPowerLevelToEntity_def)
  show "channel_fromEntityToPowerLevel r \<le> channel_fromEntityToPowerLevel r'" if "r \<le> r'" for r r'
    using that by (cases r; cases r') (simp_all add: less_eq_ChannelRoleEntity_def)
  show "channel_fromPowerLevelToEntity n \<le> channel_fromPowerLevelToEntity n'" if "n \<le> n'" for n n'
    using that by (auto simp: channel_fromPowerLevelToEntity_def less_eq_ChannelRoleEntity_def)
qed

section \<open>Power levels of a room\<close>

text \<open>
  \<open>PowerLevelsEntity\<close> is the domain's record, \<open>RoomPowerLevelsEntity\<close> the content of the
  Matrix event \<open>m.room.power_levels\<close>; every field is optional.
\<close>

type_synonym num_record = "string \<rightharpoonup> int"

record PowerLevelsEntity =
  pe_usersDefault :: "int option"
  pe_eventsDefault :: "int option"
  pe_invite :: "int option"
  pe_kick :: "int option"
  pe_ban :: "int option"
  pe_redact :: "int option"
  pe_events :: "num_record option"

record RoomPowerLevelsEntity =
  pl_ban :: "int option"
  pl_events :: "num_record option"
  pl_events_default :: "int option"
  pl_invite :: "int option"
  pl_kick :: "int option"
  pl_notifications :: "num_record option"
  pl_redact :: "int option"
  pl_state_default :: "int option"
  pl_users :: "num_record option"
  pl_users_default :: "int option"

definition fromEntityPowerLevelToRoomPowerLevel ::
    "PowerLevelsEntity \<Rightarrow> RoomPowerLevelsEntity" where
  "fromEntityPowerLevelToRoomPowerLevel p =
     \<lparr>pl_ban = pe_ban p,
      pl_events = pe_events p,
      pl_events_default = pe_eventsDefault p,
      pl_invite = pe_invite p,
      pl_kick = pe_kick p,
      pl_notifications = None,
      pl_redact = pe_redact p,
      pl_state_default = None,
      pl_users = None,
      pl_users_default = pe_usersDefault p\<rparr>"

text \<open>
  The effective level of a user, the reading the SDK uses everywhere:
  \<open>powerLevels?.users?.[userId] ?? powerLevels?.users_default ?? 0\<close>.
\<close>

definition user_entry :: "RoomPowerLevelsEntity option \<Rightarrow> user_id \<Rightarrow> int option" where
  "user_entry pl u =
     (case pl of None \<Rightarrow> None
      | Some p \<Rightarrow> (case pl_users p of None \<Rightarrow> None | Some us \<Rightarrow> us u))"

definition effective_level :: "RoomPowerLevelsEntity option \<Rightarrow> user_id \<Rightarrow> int" where
  "effective_level pl u =
     nullish (nullish_opt (user_entry pl u) (Option.bind pl pl_users_default)) 0"

section \<open>Channel permissions\<close>

record ChannelPermissionsEntity =
  cp_sendMessages :: ChannelRoleEntity
  cp_inviteHandles :: ChannelRoleEntity
  cp_kickHandles :: ChannelRoleEntity
  cp_banHandles :: ChannelRoleEntity
  cp_changeChannelName :: ChannelRoleEntity
  cp_changeChannelDescription :: ChannelRoleEntity
  cp_changeChannelAvatar :: ChannelRoleEntity
  cp_deleteOthersMessages :: ChannelRoleEntity

definition default_channel_permissions :: ChannelPermissionsEntity where
  "default_channel_permissions =
     \<lparr>cp_sendMessages = CRE_PARTICIPANT,
      cp_inviteHandles = CRE_PARTICIPANT,
      cp_kickHandles = CRE_MODERATOR,
      cp_banHandles = CRE_MODERATOR,
      cp_changeChannelName = CRE_MODERATOR,
      cp_changeChannelDescription = CRE_MODERATOR,
      cp_changeChannelAvatar = CRE_MODERATOR,
      cp_deleteOthersMessages = CRE_MODERATOR\<rparr>"

record ChannelPermissionsInputEntity =
  ci_sendMessages :: "ChannelRoleEntity option"
  ci_inviteHandles :: "ChannelRoleEntity option"
  ci_kickHandles :: "ChannelRoleEntity option"
  ci_banHandles :: "ChannelRoleEntity option"
  ci_changeChannelName :: "ChannelRoleEntity option"
  ci_changeChannelDescription :: "ChannelRoleEntity option"
  ci_changeChannelAvatar :: "ChannelRoleEntity option"
  ci_deleteOthersMessages :: "ChannelRoleEntity option"

definition toInitialPowerLevels ::
    "ChannelPermissionsInputEntity \<Rightarrow> ChannelRoleEntity \<Rightarrow> PowerLevelsEntity" where
  "toInitialPowerLevels perms usersDefault =
     (let d = default_channel_permissions;
          level = (\<lambda>given fallback. channel_fromEntityToPowerLevel (nullish given fallback))
      in \<lparr>pe_usersDefault = Some (channel_fromEntityToPowerLevel usersDefault),
          pe_eventsDefault = Some (level (ci_sendMessages perms) (cp_sendMessages d)),
          pe_invite = Some (level (ci_inviteHandles perms) (cp_inviteHandles d)),
          pe_kick = Some (level (ci_kickHandles perms) (cp_kickHandles d)),
          pe_ban = Some (level (ci_banHandles perms) (cp_banHandles d)),
          pe_redact = Some (level (ci_deleteOthersMessages perms) (cp_deleteOthersMessages d)),
          pe_events = Some
            [''m.room.name'' \<mapsto> level (ci_changeChannelName perms) (cp_changeChannelName d),
             ''m.room.topic'' \<mapsto>
               level (ci_changeChannelDescription perms) (cp_changeChannelDescription d),
             ''m.room.avatar'' \<mapsto> level (ci_changeChannelAvatar perms) (cp_changeChannelAvatar d),
             ''m.reaction'' \<mapsto> channel_fromEntityToPowerLevel CRE_REACT_ONLY_PARTICIPANT,
             ''m.room.redaction'' \<mapsto> channel_fromEntityToPowerLevel CRE_REACT_ONLY_PARTICIPANT]\<rparr>)"

text \<open>\<open>powerLevels.events?.[key]\<close>\<close>

definition event_entry :: "RoomPowerLevelsEntity \<Rightarrow> string \<Rightarrow> int option" where
  "event_entry pl k = (case pl_events pl of None \<Rightarrow> None | Some ev \<Rightarrow> ev k)"

definition permissions_of_levels :: "RoomPowerLevelsEntity \<Rightarrow> ChannelPermissionsInputEntity" where
  "permissions_of_levels pl =
     (let role = (\<lambda>given fallback. Some (channel_fromPowerLevelToEntity (nullish given fallback)))
      in \<lparr>ci_sendMessages = role (pl_events_default pl) 25,
          ci_inviteHandles = role (pl_invite pl) 25,
          ci_kickHandles = role (pl_kick pl) 50,
          ci_banHandles = role (pl_ban pl) 50,
          ci_changeChannelName = role (event_entry pl ''m.room.name'') 50,
          ci_changeChannelDescription = role (event_entry pl ''m.room.topic'') 50,
          ci_changeChannelAvatar = role (event_entry pl ''m.room.avatar'') 50,
          ci_deleteOthersMessages = role (pl_redact pl) 50\<rparr>)"

definition default_role_of_levels :: "RoomPowerLevelsEntity \<Rightarrow> ChannelRoleEntity" where
  "default_role_of_levels pl = channel_fromPowerLevelToEntity (nullish (pl_users_default pl) 25)"

text \<open>
  The map is built room by room, a later room with the same id replacing an earlier one;
  a room without power levels adds nothing. The rooms are given by id and power levels,
  the two fields the loop reads.
\<close>

fun toPowerLevelsMap ::
    "(room_id \<times> RoomPowerLevelsEntity option) list \<Rightarrow>
     (room_id \<rightharpoonup> ChannelPermissionsInputEntity \<times> ChannelRoleEntity) \<Rightarrow>
     (room_id \<rightharpoonup> ChannelPermissionsInputEntity \<times> ChannelRoleEntity)" where
  "toPowerLevelsMap [] m = m"
| "toPowerLevelsMap ((roomId, powerLevels) # rooms) m =
     (case powerLevels of
        None \<Rightarrow> toPowerLevelsMap rooms m
      | Some pl \<Rightarrow>
          toPowerLevelsMap rooms
            (m(roomId \<mapsto> (permissions_of_levels pl, default_role_of_levels pl))))"

text \<open>
  \<open>fromEntityToGraphQLInput\<close> sends the levels to the service; \<open>Object.entries\<close> of
  the event levels is given as the list of the entries for the keys in \<open>ks\<close>, the keys
  in the order the object holds them.
\<close>

record NamedPowerLevel =
  npl_id :: string
  npl_powerLevel :: int

definition toNamedPowerLevels :: "(string \<times> int) list \<Rightarrow> NamedPowerLevel list" where
  "toNamedPowerLevels entries = map (\<lambda>(key, value). \<lparr>npl_id = key, npl_powerLevel = value\<rparr>) entries"

record ChannelPowerLevelsGraphQLInput =
  gql_ban :: "int option"
  gql_events :: "NamedPowerLevel list option"
  gql_eventsDefault :: "int option"
  gql_invite :: "int option"
  gql_kick :: "int option"
  gql_redact :: "int option"
  gql_usersDefault :: "int option"

definition object_entries :: "string list \<Rightarrow> num_record \<Rightarrow> (string \<times> int) list" where
  "object_entries ks r = List.map_filter (\<lambda>k. map_option (\<lambda>v. (k, v)) (r k)) ks"

definition channel_fromEntityToGraphQLInput ::
    "string list \<Rightarrow> PowerLevelsEntity \<Rightarrow> ChannelPowerLevelsGraphQLInput" where
  "channel_fromEntityToGraphQLInput ks e =
     \<lparr>gql_ban = pe_ban e,
      gql_events = map_option (\<lambda>ev. toNamedPowerLevels (object_entries ks ev)) (pe_events e),
      gql_eventsDefault = pe_eventsDefault e,
      gql_invite = pe_invite e,
      gql_kick = pe_kick e,
      gql_redact = pe_redact e,
      gql_usersDefault = pe_usersDefault e\<rparr>"

record ChannelPermissions =
  ca_sendMessages :: ChannelRole
  ca_inviteHandles :: ChannelRole
  ca_kickHandles :: ChannelRole
  ca_banHandles :: ChannelRole
  ca_changeChannelName :: ChannelRole
  ca_changeChannelDescription :: ChannelRole
  ca_changeChannelAvatar :: ChannelRole
  ca_deleteOthersMessages :: ChannelRole

definition channel_permissions_fromEntityToAPI ::
    "ChannelPermissionsEntity \<Rightarrow> ChannelPermissions" where
  "channel_permissions_fromEntityToAPI e =
     \<lparr>ca_sendMessages = channel_role_fromEntityToAPI (cp_sendMessages e),
      ca_inviteHandles = channel_role_fromEntityToAPI (cp_inviteHandles e),
      ca_kickHandles = channel_role_fromEntityToAPI (cp_kickHandles e),
      ca_banHandles = channel_role_fromEntityToAPI (cp_banHandles e),
      ca_changeChannelName = channel_role_fromEntityToAPI (cp_changeChannelName e),
      ca_changeChannelDescription = channel_role_fromEntityToAPI (cp_changeChannelDescription e),
      ca_changeChannelAvatar = channel_role_fromEntityToAPI (cp_changeChannelAvatar e),
      ca_deleteOthersMessages = channel_role_fromEntityToAPI (cp_deleteOthersMessages e)\<rparr>"

record ChannelPermissionsInput =
  cia_sendMessages :: "ChannelRole option"
  cia_inviteHandles :: "ChannelRole option"
  cia_kickHandles :: "ChannelRole option"
  cia_banHandles :: "ChannelRole option"
  cia_changeChannelName :: "ChannelRole option"
  cia_changeChannelDescription :: "ChannelRole option"
  cia_changeChannelAvatar :: "ChannelRole option"
  cia_deleteOthersMessages :: "ChannelRole option"

text \<open>The values of the enumeration are non-empty strings, so a present role is truthy.\<close>

definition channel_permissions_fromInputAPIToEntity ::
    "ChannelPermissionsInput \<Rightarrow> ChannelPermissionsInputEntity" where
  "channel_permissions_fromInputAPIToEntity d =
     \<lparr>ci_sendMessages = map_option channel_role_fromAPIToEntity (cia_sendMessages d),
      ci_inviteHandles = map_option channel_role_fromAPIToEntity (cia_inviteHandles d),
      ci_kickHandles = map_option channel_role_fromAPIToEntity (cia_kickHandles d),
      ci_banHandles = map_option channel_role_fromAPIToEntity (cia_banHandles d),
      ci_changeChannelName = map_option channel_role_fromAPIToEntity (cia_changeChannelName d),
      ci_changeChannelDescription =
        map_option channel_role_fromAPIToEntity (cia_changeChannelDescription d),
      ci_changeChannelAvatar = map_option channel_role_fromAPIToEntity (cia_changeChannelAvatar d),
      ci_deleteOthersMessages =
        map_option channel_role_fromAPIToEntity (cia_deleteOthersMessages d)\<rparr>"

text \<open>What the caller asked for, with the defaults filled in: the requirement in force.\<close>

definition effective_permissions ::
    "ChannelPermissionsInputEntity \<Rightarrow> ChannelPermissionsInputEntity" where
  "effective_permissions perms =
     (let d = default_channel_permissions
      in \<lparr>ci_sendMessages = Some (nullish (ci_sendMessages perms) (cp_sendMessages d)),
          ci_inviteHandles = Some (nullish (ci_inviteHandles perms) (cp_inviteHandles d)),
          ci_kickHandles = Some (nullish (ci_kickHandles perms) (cp_kickHandles d)),
          ci_banHandles = Some (nullish (ci_banHandles perms) (cp_banHandles d)),
          ci_changeChannelName = Some (nullish (ci_changeChannelName perms) (cp_changeChannelName d)),
          ci_changeChannelDescription =
            Some (nullish (ci_changeChannelDescription perms) (cp_changeChannelDescription d)),
          ci_changeChannelAvatar =
            Some (nullish (ci_changeChannelAvatar perms) (cp_changeChannelAvatar d)),
          ci_deleteOthersMessages =
            Some (nullish (ci_deleteOthersMessages perms) (cp_deleteOthersMessages d))\<rparr>)"

lemma permissions_of_initial_levels:
  "permissions_of_levels
     (fromEntityPowerLevelToRoomPowerLevel (toInitialPowerLevels perms usersDefault)) =
   effective_permissions perms"
  by (simp add: permissions_of_levels_def fromEntityPowerLevelToRoomPowerLevel_def
      toInitialPowerLevels_def effective_permissions_def event_entry_def
      channel_levels.read_store Let_def)

lemma default_role_of_initial_levels:
  "default_role_of_levels
     (fromEntityPowerLevelToRoomPowerLevel (toInitialPowerLevels perms usersDefault)) =
   usersDefault"
  by (simp add: default_role_of_levels_def fromEntityPowerLevelToRoomPowerLevel_def
      toInitialPowerLevels_def channel_levels.read_store Let_def)

lemma toPowerLevelsMap_notin:
  "r \<notin> fst ` set rooms \<Longrightarrow> toPowerLevelsMap rooms m r = m r"
  by (induction rooms m rule: toPowerLevelsMap.induct) (auto split: option.splits)

text \<open>The abstract reading of the loop: the last room of that id which has power levels.\<close>

lemma toPowerLevelsMap_append:
  "toPowerLevelsMap (xs @ ys) m = toPowerLevelsMap ys (toPowerLevelsMap xs m)"
  by (induction xs arbitrary: m) (auto split: option.splits)

lemma toPowerLevelsMap_last:
  "r \<notin> fst ` set later \<Longrightarrow>
   toPowerLevelsMap (earlier @ (r, Some pl) # later) m r =
     Some (permissions_of_levels pl, default_role_of_levels pl)"
  by (simp add: toPowerLevelsMap_append toPowerLevelsMap_notin)

section \<open>Properties\<close>


definition no_permissions_given :: ChannelPermissionsInputEntity where
  "no_permissions_given =
     \<lparr>ci_sendMessages = None, ci_inviteHandles = None, ci_kickHandles = None,
      ci_banHandles = None, ci_changeChannelName = None, ci_changeChannelDescription = None,
      ci_changeChannelAvatar = None, ci_deleteOthersMessages = None\<rparr>"


text \<open>
  A stored permission means what it says. A user whose level reaches the number stored
  for a permission is read as a role at least as high as the role the permission names,
  and a user holding a role (at the level the SDK stores for it) reaches the stored number
  exactly when the role is at least as high as the one named.
\<close>

theorem channel_permission_sound:
  "(channel_fromEntityToPowerLevel required \<le> level \<longrightarrow>
      required \<le> channel_fromPowerLevelToEntity level)
   \<and> (channel_fromEntityToPowerLevel required \<le> channel_fromEntityToPowerLevel held
        \<longleftrightarrow> required \<le> held)"
  using channel_levels.meets_requirement channel_levels.store_le_iff by blast

theorem channel_permission_sound_witness:
  "CRE_MODERATOR \<le> channel_fromPowerLevelToEntity 75
   \<and> \<not> channel_fromEntityToPowerLevel CRE_MODERATOR \<le> channel_fromEntityToPowerLevel CRE_PARTICIPANT"
  using channel_permission_sound [of CRE_MODERATOR 75 CRE_PARTICIPANT] by simp

end
