(* ===== verification/GroupRoles.thy ===== *)
theory GroupRoles
  imports Roles
begin

text \<open>
  Roles and permissions of groups and direct chats
  (\<open>src/private/domain/entities/groups/groupEntity.ts\<close>,
  \<open>src/private/data/groups/transformer\<close>, \<open>src/private/data/directChats/transformer\<close>).
  A group stores \<open>NOBODY\<close> as a level above every member's, and reading a level back
  throws for the numbers that no group role uses.
\<close>

section \<open>Group roles\<close>

datatype GroupRoleEntity = GRE_ADMIN | GRE_PARTICIPANT | GRE_NOBODY

datatype GroupRole = GR_ADMIN | GR_PARTICIPANT | GR_NOBODY

fun group_role_fromAPIToEntity :: "GroupRole \<Rightarrow> GroupRoleEntity" where
  "group_role_fromAPIToEntity GR_ADMIN = GRE_ADMIN"
| "group_role_fromAPIToEntity GR_PARTICIPANT = GRE_PARTICIPANT"
| "group_role_fromAPIToEntity GR_NOBODY = GRE_NOBODY"

fun group_role_fromEntityToAPI :: "GroupRoleEntity \<Rightarrow> GroupRole" where
  "group_role_fromEntityToAPI GRE_ADMIN = GR_ADMIN"
| "group_role_fromEntityToAPI GRE_PARTICIPANT = GR_PARTICIPANT"
| "group_role_fromEntityToAPI GRE_NOBODY = GR_NOBODY"

interpretation group_role: enum_codec group_role_fromEntityToAPI group_role_fromAPIToEntity
proof unfold_locales
  show "group_role_fromAPIToEntity (group_role_fromEntityToAPI x) = x" for x
    by (cases x) simp_all
  show "group_role_fromEntityToAPI (group_role_fromAPIToEntity y) = y" for y
    by (cases y) simp_all
qed

fun group_fromEntityToPowerLevel :: "GroupRoleEntity \<Rightarrow> int" where
  "group_fromEntityToPowerLevel GRE_NOBODY = 101"
| "group_fromEntityToPowerLevel GRE_ADMIN = 100"
| "group_fromEntityToPowerLevel GRE_PARTICIPANT = 25"

definition level_out_of_range :: sc_error where
  "level_out_of_range = InvalidArgumentError (Some ''power level is out of range'')"

text \<open>
  The argument is a number in the declared type, but the callers index a record with a
  key that may be missing; every comparison with \<open>undefined\<close> is false, so the switch
  then falls through to its default.
\<close>

definition group_fromPowerLevelToEntity :: "int option \<Rightarrow> GroupRoleEntity result" where
  "group_fromPowerLevelToEntity powerLevel =
     (case powerLevel of
        None \<Rightarrow> Inl level_out_of_range
      | Some l \<Rightarrow>
          (if l = 101 then Inr GRE_NOBODY
           else if l \<ge> 51 \<and> l \<le> 100 then Inr GRE_ADMIN
           else if l \<ge> 0 \<and> l < 26 then Inr GRE_PARTICIPANT
           else Inl level_out_of_range))"

section \<open>Group permissions\<close>

record GroupPermissionsEntity =
  gp_sendMessages :: GroupRoleEntity
  gp_inviteHandles :: GroupRoleEntity
  gp_kickHandles :: GroupRoleEntity
  gp_banHandles :: GroupRoleEntity
  gp_changeGroupName :: GroupRoleEntity
  gp_changeGroupDescription :: GroupRoleEntity
  gp_changeGroupAvatar :: GroupRoleEntity
  gp_deleteOthersMessages :: GroupRoleEntity

definition default_group_permissions :: GroupPermissionsEntity where
  "default_group_permissions =
     \<lparr>gp_sendMessages = GRE_PARTICIPANT,
      gp_inviteHandles = GRE_PARTICIPANT,
      gp_kickHandles = GRE_ADMIN,
      gp_banHandles = GRE_ADMIN,
      gp_changeGroupName = GRE_PARTICIPANT,
      gp_changeGroupDescription = GRE_PARTICIPANT,
      gp_changeGroupAvatar = GRE_PARTICIPANT,
      gp_deleteOthersMessages = GRE_NOBODY\<rparr>"

text \<open>
  A field of the levels that is present and not zero is translated, otherwise the default
  stands: the test is JavaScript truthiness, so a level of 0 counts as missing. The three
  event levels are guarded by the presence of the \<open>events\<close> record only.
\<close>

definition group_field :: "int option \<Rightarrow> GroupRoleEntity \<Rightarrow> GroupRoleEntity result" where
  "group_field l dflt = (if truthy_num l then group_fromPowerLevelToEntity l else Inr dflt)"

definition group_event_field ::
    "num_record option \<Rightarrow> string \<Rightarrow> GroupRoleEntity \<Rightarrow> GroupRoleEntity result" where
  "group_event_field events key dflt =
     (case events of None \<Rightarrow> Inr dflt | Some ev \<Rightarrow> group_fromPowerLevelToEntity (ev key))"

definition fromRoomPermissionsEntityToGroupPermissionsEntity ::
    "RoomPowerLevelsEntity \<Rightarrow> GroupPermissionsEntity result" where
  "fromRoomPermissionsEntityToGroupPermissionsEntity pl =
     (let d = default_group_permissions in
      sum_bind (group_field (pl_events_default pl) (gp_sendMessages d)) (\<lambda>send.
      sum_bind (group_field (pl_invite pl) (gp_inviteHandles d)) (\<lambda>invite.
      sum_bind (group_field (pl_kick pl) (gp_kickHandles d)) (\<lambda>kick.
      sum_bind (group_field (pl_ban pl) (gp_banHandles d)) (\<lambda>ban.
      sum_bind (group_event_field (pl_events pl) ''m.room.name'' (gp_changeGroupName d)) (\<lambda>name.
      sum_bind (group_event_field (pl_events pl) ''m.room.topic'' (gp_changeGroupDescription d)) (\<lambda>topic.
      sum_bind (group_event_field (pl_events pl) ''m.room.avatar'' (gp_changeGroupAvatar d)) (\<lambda>avatar.
      sum_bind (group_field (pl_redact pl) (gp_deleteOthersMessages d)) (\<lambda>redact.
        Inr \<lparr>gp_sendMessages = send, gp_inviteHandles = invite, gp_kickHandles = kick,
             gp_banHandles = ban, gp_changeGroupName = name, gp_changeGroupDescription = topic,
             gp_changeGroupAvatar = avatar, gp_deleteOthersMessages = redact\<rparr>)))))))))"

record GroupPermissions =
  ga_sendMessages :: GroupRole
  ga_inviteHandles :: GroupRole
  ga_kickHandles :: GroupRole
  ga_banHandles :: GroupRole
  ga_changeGroupName :: GroupRole
  ga_changeGroupDescription :: GroupRole
  ga_changeGroupAvatar :: GroupRole
  ga_deleteOthersMessages :: GroupRole

definition group_permissions_fromEntityToAPI :: "GroupPermissionsEntity \<Rightarrow> GroupPermissions" where
  "group_permissions_fromEntityToAPI e =
     \<lparr>ga_sendMessages = group_role_fromEntityToAPI (gp_sendMessages e),
      ga_inviteHandles = group_role_fromEntityToAPI (gp_inviteHandles e),
      ga_kickHandles = group_role_fromEntityToAPI (gp_kickHandles e),
      ga_banHandles = group_role_fromEntityToAPI (gp_banHandles e),
      ga_changeGroupName = group_role_fromEntityToAPI (gp_changeGroupName e),
      ga_changeGroupDescription = group_role_fromEntityToAPI (gp_changeGroupDescription e),
      ga_changeGroupAvatar = group_role_fromEntityToAPI (gp_changeGroupAvatar e),
      ga_deleteOthersMessages = group_role_fromEntityToAPI (gp_deleteOthersMessages e)\<rparr>"

text \<open>The levels a new group is created with (\<open>CreateGroupUseCase.execute\<close>).\<close>

definition initial_group_levels :: PowerLevelsEntity where
  "initial_group_levels =
     (let d = default_group_permissions; level = group_fromEntityToPowerLevel
      in \<lparr>pe_usersDefault = Some (level GRE_PARTICIPANT),
          pe_eventsDefault = Some (level (gp_sendMessages d)),
          pe_invite = Some (level (gp_inviteHandles d)),
          pe_kick = Some (level (gp_kickHandles d)),
          pe_ban = Some (level (gp_banHandles d)),
          pe_redact = Some (level (gp_deleteOthersMessages d)),
          pe_events = Some
            [''m.room.name'' \<mapsto> level (gp_changeGroupName d),
             ''m.room.topic'' \<mapsto> level (gp_changeGroupDescription d),
             ''m.room.avatar'' \<mapsto> level (gp_changeGroupAvatar d)]\<rparr>)"

section \<open>Direct chats\<close>

datatype DirectChatRoleEntity = DRE_PARTICIPANT | DRE_NOBODY

definition direct_chat_deleteOthersMessages :: DirectChatRoleEntity where
  "direct_chat_deleteOthersMessages = DRE_NOBODY"

fun direct_fromEntityToPowerLevel :: "DirectChatRoleEntity \<Rightarrow> int" where
  "direct_fromEntityToPowerLevel DRE_NOBODY = 101"
| "direct_fromEntityToPowerLevel DRE_PARTICIPANT = 100"

section \<open>Lemmas\<close>

lemma group_levels_roundtrip [simp]:
  "group_fromPowerLevelToEntity (Some (group_fromEntityToPowerLevel r)) = Inr r"
  by (cases r) (simp_all add: group_fromPowerLevelToEntity_def)

lemma group_fromPowerLevel_Inl_iff:
  "group_fromPowerLevelToEntity (Some l) = Inl e \<longleftrightarrow>
     e = level_out_of_range \<and> \<not> (0 \<le> l \<and> l \<le> 25 \<or> 51 \<le> l \<and> l \<le> 101)"
  by (auto simp: group_fromPowerLevelToEntity_def)

lemma truthy_num_group [simp]: "truthy_num (Some (group_fromEntityToPowerLevel r))"
  by (cases r) (simp_all add: truthy_num_def)

lemma group_field_stored [simp]: "group_field (Some (group_fromEntityToPowerLevel r)) d = Inr r"
  by (simp add: group_field_def)

text \<open>Storing the permissions of a group the way a new group stores its defaults.\<close>

definition levels_of_group_permissions :: "GroupPermissionsEntity \<Rightarrow> PowerLevelsEntity" where
  "levels_of_group_permissions p =
     initial_group_levels
       \<lparr>pe_eventsDefault := Some (group_fromEntityToPowerLevel (gp_sendMessages p)),
        pe_invite := Some (group_fromEntityToPowerLevel (gp_inviteHandles p)),
        pe_kick := Some (group_fromEntityToPowerLevel (gp_kickHandles p)),
        pe_ban := Some (group_fromEntityToPowerLevel (gp_banHandles p)),
        pe_redact := Some (group_fromEntityToPowerLevel (gp_deleteOthersMessages p)),
        pe_events := Some
          [''m.room.name'' \<mapsto> group_fromEntityToPowerLevel (gp_changeGroupName p),
           ''m.room.topic'' \<mapsto> group_fromEntityToPowerLevel (gp_changeGroupDescription p),
           ''m.room.avatar'' \<mapsto> group_fromEntityToPowerLevel (gp_changeGroupAvatar p)]\<rparr>"

lemma levels_of_default_permissions:
  "levels_of_group_permissions default_group_permissions = initial_group_levels"
  by (simp add: levels_of_group_permissions_def initial_group_levels_def Let_def)

lemma group_permissions_stored:
  "fromRoomPermissionsEntityToGroupPermissionsEntity
     (fromEntityPowerLevelToRoomPowerLevel (levels_of_group_permissions p)) = Inr p"
  by (simp add: fromRoomPermissionsEntityToGroupPermissionsEntity_def
      fromEntityPowerLevelToRoomPowerLevel_def levels_of_group_permissions_def
      group_event_field_def Let_def)

lemma group_event_field_missing:
  "events = Some ev \<Longrightarrow> ev key = None \<Longrightarrow>
   group_event_field events key d = Inl level_out_of_range"
  by (simp add: group_event_field_def group_fromPowerLevelToEntity_def)

lemma group_event_field_error:
  "group_event_field events key d = Inl e \<Longrightarrow> e = level_out_of_range"
  by (auto simp: group_event_field_def group_fromPowerLevelToEntity_def
      split: option.splits if_splits)

lemma group_field_error: "group_field l d = Inl e \<Longrightarrow> e = level_out_of_range"
  by (auto simp: group_field_def group_fromPowerLevelToEntity_def
      split: option.splits if_splits)

lemma group_permissions_error:
  "fromRoomPermissionsEntityToGroupPermissionsEntity pl = Inl e \<Longrightarrow> e = level_out_of_range"
  by (auto simp: fromRoomPermissionsEntityToGroupPermissionsEntity_def Let_def sum_bind_def
      dest: group_field_error group_event_field_error split: sum.splits)

section \<open>Properties\<close>

text \<open>
  The permissions of a new group are read back as the documented defaults: the levels
  of the creation request, stored as the room's levels, translate without an error to
  the default permissions.
\<close>

theorem new_group_permissions_roundtrip:
  "fromRoomPermissionsEntityToGroupPermissionsEntity
     (fromEntityPowerLevelToRoomPowerLevel initial_group_levels) =
   Inr default_group_permissions"
  using group_permissions_stored [of default_group_permissions]
  by (simp add: levels_of_default_permissions)

text \<open>
  Which rooms cannot be listed as groups. Reading the permissions of a room whose power
  levels have an \<open>events\<close> record fails as soon as that record lacks one of the name, topic
  and avatar entries, or holds for one of them a level from 26 to 50, below 0 or above 101;
  the failure is always the out-of-range error. So the levels a Matrix server gives a
  room by default (name and avatar at 50) are refused.
\<close>

theorem group_permissions_rejects:
  assumes "pl_events pl = Some ev"
    and "key \<in> {''m.room.name'', ''m.room.topic'', ''m.room.avatar''}"
    and "\<forall>l. ev key = Some l \<longrightarrow> \<not> (0 \<le> l \<and> l \<le> 25) \<and> \<not> (51 \<le> l \<and> l \<le> 101)"
  shows "fromRoomPermissionsEntityToGroupPermissionsEntity pl = Inl level_out_of_range"
proof -
  have bad: "\<And>d. \<exists>e. group_event_field (pl_events pl) key d = Inl e"
    using assms(1,3)
    by (auto simp: group_event_field_def group_fromPowerLevelToEntity_def split: option.splits)
  have "\<nexists>p. fromRoomPermissionsEntityToGroupPermissionsEntity pl = Inr p"
  proof
    assume "\<exists>p. fromRoomPermissionsEntityToGroupPermissionsEntity pl = Inr p"
    then have "\<exists>d r. group_event_field (pl_events pl) key d = Inr r"
      using assms(2)
      by (auto simp: fromRoomPermissionsEntityToGroupPermissionsEntity_def Let_def
          sum_bind_Inr_iff)
    with bad show False by (metis Inl_Inr_False group_event_field_def assms(1) option.simps(5))
  qed
  then show ?thesis
    using group_permissions_error [of pl] by (metis sum.exhaust)
qed

theorem group_permissions_rejects_witness:
  "fromRoomPermissionsEntityToGroupPermissionsEntity
     ((fromEntityPowerLevelToRoomPowerLevel initial_group_levels)
        \<lparr>pl_events := Some [''m.room.name'' \<mapsto> 50, ''m.room.avatar'' \<mapsto> 50]\<rparr>)
   = Inl level_out_of_range"
  by (rule group_permissions_rejects [where ev = "[''m.room.name'' \<mapsto> 50, ''m.room.avatar'' \<mapsto> 50]"
        and key = "''m.room.name''"]) simp_all

end
