(* ===== verification/Domain.thy ===== *)
theory Domain
  imports GroupRoles
begin

text \<open>
  The remaining enumerations of the domain and their transformers (join rules, search
  order, membership, message state, poll type, room type, recipients), and the identifier
  helpers of \<open>src/private/util/id.ts\<close>.
\<close>

section \<open>Join rules\<close>

datatype ChannelJoinRuleEntity = JRE_PRIVATE | JRE_PUBLIC | JRE_PUBLIC_WITH_INVITE

datatype ChannelJoinRule = JR_PRIVATE | JR_PUBLIC | JR_PUBLIC_WITH_INVITE

datatype SecureCommsChannelJoinRule = GJR_Private | GJR_Public | GJR_PublicWithInvite

fun join_rule_fromAPIToEntity :: "ChannelJoinRule \<Rightarrow> ChannelJoinRuleEntity" where
  "join_rule_fromAPIToEntity JR_PRIVATE = JRE_PRIVATE"
| "join_rule_fromAPIToEntity JR_PUBLIC = JRE_PUBLIC"
| "join_rule_fromAPIToEntity JR_PUBLIC_WITH_INVITE = JRE_PUBLIC_WITH_INVITE"

fun join_rule_fromEntityToAPI :: "ChannelJoinRuleEntity \<Rightarrow> ChannelJoinRule" where
  "join_rule_fromEntityToAPI JRE_PRIVATE = JR_PRIVATE"
| "join_rule_fromEntityToAPI JRE_PUBLIC = JR_PUBLIC"
| "join_rule_fromEntityToAPI JRE_PUBLIC_WITH_INVITE = JR_PUBLIC_WITH_INVITE"

fun join_rule_fromEntityToGraphQL :: "ChannelJoinRuleEntity \<Rightarrow> SecureCommsChannelJoinRule" where
  "join_rule_fromEntityToGraphQL JRE_PRIVATE = GJR_Private"
| "join_rule_fromEntityToGraphQL JRE_PUBLIC = GJR_Public"
| "join_rule_fromEntityToGraphQL JRE_PUBLIC_WITH_INVITE = GJR_PublicWithInvite"

fun join_rule_fromGraphQLToEntity :: "SecureCommsChannelJoinRule \<Rightarrow> ChannelJoinRuleEntity" where
  "join_rule_fromGraphQLToEntity GJR_Private = JRE_PRIVATE"
| "join_rule_fromGraphQLToEntity GJR_Public = JRE_PUBLIC"
| "join_rule_fromGraphQLToEntity GJR_PublicWithInvite = JRE_PUBLIC_WITH_INVITE"

definition isChannelVisible :: "ChannelJoinRuleEntity \<Rightarrow> bool" where
  "isChannelVisible joinRule \<longleftrightarrow> joinRule = JRE_PUBLIC \<or> joinRule = JRE_PUBLIC_WITH_INVITE"

interpretation join_rule_api: enum_codec join_rule_fromEntityToAPI join_rule_fromAPIToEntity
proof unfold_locales
  show "join_rule_fromAPIToEntity (join_rule_fromEntityToAPI x) = x" for x by (cases x) simp_all
  show "join_rule_fromEntityToAPI (join_rule_fromAPIToEntity y) = y" for y by (cases y) simp_all
qed

interpretation join_rule_gql: enum_codec join_rule_fromEntityToGraphQL join_rule_fromGraphQLToEntity
proof unfold_locales
  show "join_rule_fromGraphQLToEntity (join_rule_fromEntityToGraphQL x) = x" for x
    by (cases x) simp_all
  show "join_rule_fromEntityToGraphQL (join_rule_fromGraphQLToEntity y) = y" for y
    by (cases y) simp_all
qed

section \<open>Public channel search\<close>

datatype PublicChannelJoinRuleEntity = PJRE_PUBLIC | PJRE_PUBLIC_WITH_INVITE

datatype PublicChannelJoinRule = PJR_PUBLIC | PJR_PUBLIC_WITH_INVITE

datatype SecureCommsPublicChannelJoinRule = GPJR_Public | GPJR_PublicWithInvite

fun public_rule_fromAPIToEntity :: "PublicChannelJoinRule \<Rightarrow> PublicChannelJoinRuleEntity" where
  "public_rule_fromAPIToEntity PJR_PUBLIC = PJRE_PUBLIC"
| "public_rule_fromAPIToEntity PJR_PUBLIC_WITH_INVITE = PJRE_PUBLIC_WITH_INVITE"

fun public_rule_fromEntityToAPI :: "PublicChannelJoinRuleEntity \<Rightarrow> PublicChannelJoinRule" where
  "public_rule_fromEntityToAPI PJRE_PUBLIC = PJR_PUBLIC"
| "public_rule_fromEntityToAPI PJRE_PUBLIC_WITH_INVITE = PJR_PUBLIC_WITH_INVITE"

fun public_rule_fromEntityToGraphQL ::
    "PublicChannelJoinRuleEntity \<Rightarrow> SecureCommsPublicChannelJoinRule" where
  "public_rule_fromEntityToGraphQL PJRE_PUBLIC = GPJR_Public"
| "public_rule_fromEntityToGraphQL PJRE_PUBLIC_WITH_INVITE = GPJR_PublicWithInvite"

fun public_rule_fromGraphQLToEntity ::
    "SecureCommsPublicChannelJoinRule \<Rightarrow> PublicChannelJoinRuleEntity" where
  "public_rule_fromGraphQLToEntity GPJR_Public = PJRE_PUBLIC"
| "public_rule_fromGraphQLToEntity GPJR_PublicWithInvite = PJRE_PUBLIC_WITH_INVITE"

interpretation public_rule_api: enum_codec public_rule_fromEntityToAPI public_rule_fromAPIToEntity
proof unfold_locales
  show "public_rule_fromAPIToEntity (public_rule_fromEntityToAPI x) = x" for x
    by (cases x) simp_all
  show "public_rule_fromEntityToAPI (public_rule_fromAPIToEntity y) = y" for y
    by (cases y) simp_all
qed

interpretation public_rule_gql:
  enum_codec public_rule_fromEntityToGraphQL public_rule_fromGraphQLToEntity
proof unfold_locales
  show "public_rule_fromGraphQLToEntity (public_rule_fromEntityToGraphQL x) = x" for x
    by (cases x) simp_all
  show "public_rule_fromEntityToGraphQL (public_rule_fromGraphQLToEntity y) = y" for y
    by (cases y) simp_all
qed

datatype ChannelSortFieldEntity = SFE_NAME | SFE_MEMBER_COUNT

datatype ChannelSortDirectionEntity = SDE_ASCENDING | SDE_DESCENDING

record ChannelSortOrderEntity =
  so_field :: ChannelSortFieldEntity
  so_direction :: ChannelSortDirectionEntity

datatype ChannelSortField = SF_NAME | SF_MEMBER_COUNT

datatype ChannelSortDirection = SD_ASCENDING | SD_DESCENDING

datatype OrderingField = GOF_Name | GOF_MemberCount

datatype OrderingDirection = GOD_Asc | GOD_Desc

fun sort_field_fromAPIToEntity :: "ChannelSortField \<Rightarrow> ChannelSortFieldEntity" where
  "sort_field_fromAPIToEntity SF_NAME = SFE_NAME"
| "sort_field_fromAPIToEntity SF_MEMBER_COUNT = SFE_MEMBER_COUNT"

fun sort_field_fromEntityToGraphQL :: "ChannelSortFieldEntity \<Rightarrow> OrderingField" where
  "sort_field_fromEntityToGraphQL SFE_NAME = GOF_Name"
| "sort_field_fromEntityToGraphQL SFE_MEMBER_COUNT = GOF_MemberCount"

fun sort_direction_fromAPIToEntity :: "ChannelSortDirection \<Rightarrow> ChannelSortDirectionEntity" where
  "sort_direction_fromAPIToEntity SD_ASCENDING = SDE_ASCENDING"
| "sort_direction_fromAPIToEntity SD_DESCENDING = SDE_DESCENDING"

fun sort_direction_fromEntityToGraphQL :: "ChannelSortDirectionEntity \<Rightarrow> OrderingDirection" where
  "sort_direction_fromEntityToGraphQL SDE_ASCENDING = GOD_Asc"
| "sort_direction_fromEntityToGraphQL SDE_DESCENDING = GOD_Desc"

definition sort_order_fromAPIToEntity ::
    "ChannelSortField \<times> ChannelSortDirection \<Rightarrow> ChannelSortOrderEntity" where
  "sort_order_fromAPIToEntity d =
     \<lparr>so_field = sort_field_fromAPIToEntity (fst d),
      so_direction = sort_direction_fromAPIToEntity (snd d)\<rparr>"

definition sort_order_fromEntityToGraphQL ::
    "ChannelSortOrderEntity \<Rightarrow> OrderingField \<times> OrderingDirection" where
  "sort_order_fromEntityToGraphQL e =
     (sort_field_fromEntityToGraphQL (so_field e),
      sort_direction_fromEntityToGraphQL (so_direction e))"

section \<open>Membership\<close>

datatype MembershipStateEntity = MS_INVITED | MS_REQUESTED | MS_JOINED | MS_LEFT | MS_BANNED

datatype MembershipState = API_INVITED | API_REQUESTED | API_JOINED | API_LEFT | API_BANNED

fun membership_fromEntityToAPI :: "MembershipStateEntity \<Rightarrow> MembershipState" where
  "membership_fromEntityToAPI MS_BANNED = API_BANNED"
| "membership_fromEntityToAPI MS_INVITED = API_INVITED"
| "membership_fromEntityToAPI MS_JOINED = API_JOINED"
| "membership_fromEntityToAPI MS_REQUESTED = API_REQUESTED"
| "membership_fromEntityToAPI MS_LEFT = API_LEFT"

text \<open>
  The argument is a string of the room state; the five known memberships of the Matrix
  specification are told apart, anything else counts as joined.
\<close>

definition membership_fromMatrixToEntity :: "string \<Rightarrow> MembershipStateEntity" where
  "membership_fromMatrixToEntity membership =
     (if membership = ''ban'' then MS_BANNED
      else if membership = ''invite'' then MS_INVITED
      else if membership = ''join'' then MS_JOINED
      else if membership = ''knock'' then MS_REQUESTED
      else if membership = ''leave'' then MS_LEFT
      else MS_JOINED)"

section \<open>Messages and polls\<close>

datatype MessageStateEntity = STE_PENDING | STE_COMMITTED | STE_FAILED

datatype MessageState = ST_PENDING | ST_COMMITTED | ST_FAILED

fun message_state_fromAPIToEntity :: "MessageState \<Rightarrow> MessageStateEntity" where
  "message_state_fromAPIToEntity ST_PENDING = STE_PENDING"
| "message_state_fromAPIToEntity ST_COMMITTED = STE_COMMITTED"
| "message_state_fromAPIToEntity ST_FAILED = STE_FAILED"

fun message_state_fromEntityToAPI :: "MessageStateEntity \<Rightarrow> MessageState" where
  "message_state_fromEntityToAPI STE_PENDING = ST_PENDING"
| "message_state_fromEntityToAPI STE_COMMITTED = ST_COMMITTED"
| "message_state_fromEntityToAPI STE_FAILED = ST_FAILED"

interpretation message_state:
  enum_codec message_state_fromEntityToAPI message_state_fromAPIToEntity
proof unfold_locales
  show "message_state_fromAPIToEntity (message_state_fromEntityToAPI x) = x" for x
    by (cases x) simp_all
  show "message_state_fromEntityToAPI (message_state_fromAPIToEntity y) = y" for y
    by (cases y) simp_all
qed

datatype PollTypeEntity = PTE_DISCLOSED | PTE_UNDISCLOSED

datatype PollType = PT_DISCLOSED | PT_UNDISCLOSED

fun poll_type_fromAPIToEntity :: "PollType \<Rightarrow> PollTypeEntity" where
  "poll_type_fromAPIToEntity PT_DISCLOSED = PTE_DISCLOSED"
| "poll_type_fromAPIToEntity PT_UNDISCLOSED = PTE_UNDISCLOSED"

fun poll_type_fromEntityToAPI :: "PollTypeEntity \<Rightarrow> PollType" where
  "poll_type_fromEntityToAPI PTE_DISCLOSED = PT_DISCLOSED"
| "poll_type_fromEntityToAPI PTE_UNDISCLOSED = PT_UNDISCLOSED"

interpretation poll_type: enum_codec poll_type_fromEntityToAPI poll_type_fromAPIToEntity
proof unfold_locales
  show "poll_type_fromAPIToEntity (poll_type_fromEntityToAPI x) = x" for x by (cases x) simp_all
  show "poll_type_fromEntityToAPI (poll_type_fromAPIToEntity y) = y" for y by (cases y) simp_all
qed

section \<open>Rooms and recipients\<close>

datatype CustomRoomType =
  DIRECT_CHAT | GROUP | PRIVATE_CHANNEL | PUBLIC_CHANNEL | PUBLIC_INVITE_ONLY_CHANNEL

fun room_type_value :: "CustomRoomType \<Rightarrow> string" where
  "room_type_value DIRECT_CHAT = ''chat.direct''"
| "room_type_value GROUP = ''chat.group''"
| "room_type_value PRIVATE_CHANNEL = ''channel.private''"
| "room_type_value PUBLIC_CHANNEL = ''channel.public''"
| "room_type_value PUBLIC_INVITE_ONLY_CHANNEL = ''channel.public.invite''"

datatype Recipient = GroupId string | ChannelId string | ChatId string

fun recipient_value :: "Recipient \<Rightarrow> string" where
  "recipient_value (GroupId v) = v"
| "recipient_value (ChannelId v) = v"
| "recipient_value (ChatId v) = v"

record HandleEntity =
  he_handleId :: handle_id
  he_name :: string

section \<open>Identifiers\<close>

text \<open>\<open>s.split(c)\<close> for a one-character separator.\<close>

fun js_split :: "char \<Rightarrow> string \<Rightarrow> string list" where
  "js_split c [] = [[]]"
| "js_split c (x # xs) =
     (if x = c then [] # js_split c xs
      else (case js_split c xs of [] \<Rightarrow> [[x]] | y # ys \<Rightarrow> (x # y) # ys))"

text \<open>\<open>xs[i]\<close>, undefined out of range.\<close>

definition js_index :: "'a list \<Rightarrow> nat \<Rightarrow> 'a option" where
  "js_index xs i = (if i < length xs then Some (xs ! i) else None)"

definition toMatrixUserId :: "string \<Rightarrow> string \<Rightarrow> user_id" where
  "toMatrixUserId i homeServer = ''@'' @ i @ '':'' @ homeServer"

text \<open>\<open>id.split('@')[1]?.split(':')[0] || ''\<close>; the first piece of a split always exists.\<close>

definition toHandleId :: "user_id \<Rightarrow> handle_id" where
  "toHandleId i =
     (case js_index (js_split CHR ''@'' i) 1 of
        None \<Rightarrow> ''''
      | Some rest \<Rightarrow> (case js_index (js_split CHR '':'' rest) 0 of None \<Rightarrow> '''' | Some h \<Rightarrow> h))"

definition toChatId :: "string \<Rightarrow> Recipient" where
  "toChatId i = ChatId i"

lemma js_split_nonempty: "js_split c s \<noteq> []"
  by (induction s) (auto split: list.splits)

lemma js_split_no_sep: "c \<notin> set s \<Longrightarrow> js_split c s = [s]"
  by (induction s) auto

lemma js_split_append_sep:
  "c \<notin> set s \<Longrightarrow> js_split c (s @ c # t) = s # js_split c t"
  by (induction s) auto

lemma js_split_hd_append:
  "\<lbrakk>c \<notin> set s; js_split c t = y # ys\<rbrakk> \<Longrightarrow> js_split c (s @ t) = (s @ y) # ys"
  by (induction s) auto

lemma js_split_first: "hd (js_split c s) = takeWhile (\<lambda>x. x \<noteq> c) s"
proof (induction s)
  case (Cons a s)
  then show ?case using js_split_nonempty [of c s] by (auto split: list.splits)
qed simp

lemma toHandleId_toMatrixUserId:
  assumes "CHR ''@'' \<notin> set i" and "CHR '':'' \<notin> set i"
  shows "toHandleId (toMatrixUserId i homeServer) = i"
proof -
  obtain y ys where t: "js_split CHR ''@'' ('':'' @ homeServer) = y # ys"
    using js_split_nonempty by (metis list.exhaust)
  have y: "y = CHR '':'' # takeWhile (\<lambda>x. x \<noteq> CHR ''@'') homeServer"
    using js_split_first [of "CHR ''@''" "'':'' @ homeServer"] t by simp
  have "js_split CHR ''@'' (toMatrixUserId i homeServer) = [] # (i @ y) # ys"
    using js_split_hd_append [OF assms(1) t] by (simp add: toMatrixUserId_def)
  moreover have "js_split CHR '':'' (i @ y) = i # js_split CHR '':'' (takeWhile (\<lambda>x. x \<noteq> CHR ''@'') homeServer)"
    unfolding y by (rule js_split_append_sep [OF assms(2)])
  ultimately show ?thesis by (simp add: toHandleId_def js_index_def)
qed

lemma toMatrixUserId_inj:
  "\<lbrakk>CHR ''@'' \<notin> set i; CHR '':'' \<notin> set i; CHR ''@'' \<notin> set j; CHR '':'' \<notin> set j;
    toMatrixUserId i hs = toMatrixUserId j hs\<rbrakk> \<Longrightarrow> i = j"
  by (metis toHandleId_toMatrixUserId)

end
