(* ===== verification/ApiClient.thy ===== *)
theory ApiClient
  imports Domain
begin

text \<open>
  \<open>ApiClient\<close> (\<open>src/private/data/common/apiClient.ts\<close>) and its \<open>ErrorTransformer\<close>: the calls
  to the platform's GraphQL service and the classification of their failures.

  The GraphQL transport and the error mapping of the platform's common library are not part
  of the repository; they are the record \<open>graphql_client\<close>: one call per document, each of
  which may throw, or answer with errors, with data, or with neither.
\<close>

section \<open>Messages of the service\<close>

record Owner =
  ow_id :: string
  ow_issuer :: string

record SecureCommsSession =
  ss_createdAtEpochMs :: int
  ss_deviceId :: string
  ss_expiresAtEpochMs :: int
  ss_handleId :: string
  ss_handleName :: string
  ss_owner :: string
  ss_owners :: "Owner list"
  ss_token :: string

record SecureCommsHandle =
  sh_createdAtEpochMs :: int
  sh_id :: string
  sh_name :: string
  sh_owner :: string
  sh_owners :: "Owner list"
  sh_updatedAtEpochMs :: int
  sh_version :: int

record SecureCommsHandleConnection =
  shc_items :: "SecureCommsHandle list"
  shc_nextToken :: "string option"

record PublicSecureCommsHandleInfo =
  ph_id :: string
  ph_name :: string

record CreateSecureCommsHandleInput =
  ch_deviceId :: string
  ch_id :: "string option"
  ch_name :: string

record UpdateSecureCommsHandleInput =
  uh_id :: string
  uh_name :: string

record GetSecureCommsSessionInput =
  gs_deviceId :: string
  gs_handleId :: string
  gs_tokenLifetime :: "int option"

record PublicSecureCommsChannelInfo =
  pc_avatarImageUrl :: "string option"
  pc_createdAtEpochMs :: int
  pc_description :: "string option"
  pc_id :: string
  pc_joinRule :: SecureCommsChannelJoinRule
  pc_name :: string
  pc_tags :: "string list"
  pc_updatedAtEpochMs :: int
  pc_version :: int

record SecureCommsChannel =
  sc_avatarImageUrl :: "string option"
  sc_createdAtEpochMs :: int
  sc_creatorHandleId :: string
  sc_description :: "string option"
  sc_id :: string
  sc_joinRule :: SecureCommsChannelJoinRule
  sc_members :: "string list"
  sc_name :: string
  sc_tags :: "string list"
  sc_updatedAtEpochMs :: int
  sc_version :: int

record ListedSecureCommsChannelInfo =
  lc_avatarImageUrl :: "string option"
  lc_createdAtEpochMs :: int
  lc_description :: "string option"
  lc_id :: string
  lc_joinRule :: SecureCommsPublicChannelJoinRule
  lc_memberCount :: int
  lc_name :: string
  lc_tags :: "string list"
  lc_updatedAtEpochMs :: int
  lc_version :: int

record BatchPublicSecureCommsChannelInfo =
  bp_items :: "PublicSecureCommsChannelInfo list"
  bp_unprocessedIds :: "string list"

record ListedSecureCommsChannelInfoConnection =
  lcc_items :: "ListedSecureCommsChannelInfo list"
  lcc_nextToken :: "string option"

record CreateSecureCommsChannelInput =
  csc_avatarImageMetadata :: "string option"
  csc_avatarImageUrl :: "string option"
  csc_creatorHandleId :: string
  csc_description :: "string option"
  csc_invitations :: "string list option"
  csc_joinRule :: SecureCommsChannelJoinRule
  csc_name :: string
  csc_powerLevels :: "ChannelPowerLevelsGraphQLInput option"
  csc_tags :: "string list option"

record UpdateSecureCommsChannelSetInput =
  us_avatarImageMetadata :: "string option"
  us_avatarImageUrl :: "string option"
  us_description :: "string option"
  us_joinRule :: "SecureCommsChannelJoinRule option"
  us_name :: "string option"
  us_tags :: "string list option"

datatype SecureCommsChannelOptionalProperties =
  OP_AvatarImageUrl | OP_Description

record UpdateSecureCommsChannelInput =
  usc_id :: string
  usc_handleId :: string
  usc_set :: UpdateSecureCommsChannelSetInput
  usc_unset :: "SecureCommsChannelOptionalProperties list"

record ListSecureCommsPublicChannelsInput =
  lpc_handleId :: string
  lpc_search :: "string option"
  lpc_tags :: "string list option"
  lpc_isJoined :: "bool option"
  lpc_joinRule :: "SecureCommsPublicChannelJoinRule option"
  lpc_ordering :: "OrderingField \<times> OrderingDirection"
  lpc_limit :: "int option"
  lpc_nextToken :: "string option"

datatype MediaBucketOperation = MBO_Read | MBO_ReadWrite

record GetMediaBucketCredentialInput =
  gm_handleId :: string
  gm_operation :: MediaBucketOperation
  gm_roomId :: string

record MediaBucketCredential =
  mbc_accessKeyId :: string
  mbc_expiration :: int
  mbc_identityId :: string
  mbc_keyPrefix :: string
  mbc_secretAccessKey :: string
  mbc_sessionToken :: string

section \<open>The transport\<close>

record graphql_error =
  ge_errorType :: "string option"
  ge_message :: string

text \<open>
  What a call may throw: a network error (with the status the platform's library maps), and
  otherwise a value that may carry a list \<open>graphQLErrors\<close> and an \<open>errorType\<close> of its own.
\<close>

record call_failure =
  cf_network :: "nat option"
  cf_graphQLErrors :: "graphql_error list option"
  cf_errorType :: "string option"
  cf_message :: string

record 'a gql_response =
  gr_errors :: "graphql_error list option"
  gr_data :: "'a option"

type_synonym ('w, 'a) gql_call = "'w \<Rightarrow> (call_failure + 'a gql_response) \<times> 'w"

record 'w graphql_client =
  gc_mapNetworkError :: "nat \<Rightarrow> sc_error"
  gc_mapGraphQLToClientError :: "graphql_error \<Rightarrow> sc_error"
  gc_createHandle :: "CreateSecureCommsHandleInput \<Rightarrow> ('w, SecureCommsSession) gql_call"
  gc_getSession :: "GetSecureCommsSessionInput \<Rightarrow> ('w, SecureCommsSession) gql_call"
  gc_getHandleByName :: "string \<Rightarrow> ('w, PublicSecureCommsHandleInfo option) gql_call"
  gc_updateHandle :: "UpdateSecureCommsHandleInput \<Rightarrow> ('w, SecureCommsHandle) gql_call"
  gc_deleteHandle :: "string \<Rightarrow> ('w, SecureCommsHandle) gql_call"
  gc_listHandles :: "int option \<Rightarrow> string option \<Rightarrow> ('w, SecureCommsHandleConnection) gql_call"
  gc_createChannel :: "CreateSecureCommsChannelInput \<Rightarrow> ('w, SecureCommsChannel) gql_call"
  gc_updateChannel :: "UpdateSecureCommsChannelInput \<Rightarrow> ('w, PublicSecureCommsChannelInfo) gql_call"
  gc_deleteChannel :: "string \<Rightarrow> string \<Rightarrow> ('w, PublicSecureCommsChannelInfo) gql_call"
  gc_getChannel :: "string \<Rightarrow> ('w, PublicSecureCommsChannelInfo option) gql_call"
  gc_getChannels :: "string list \<Rightarrow> ('w, BatchPublicSecureCommsChannelInfo) gql_call"
  gc_listPublicChannels ::
    "ListSecureCommsPublicChannelsInput \<Rightarrow> ('w, ListedSecureCommsChannelInfoConnection) gql_call"
  gc_checkWordValidity :: "string list \<Rightarrow> ('w, string list) gql_call"
  gc_getMediaBucketCredential :: "GetMediaBucketCredentialInput \<Rightarrow> ('w, MediaBucketCredential) gql_call"

section \<open>Errors\<close>

definition error_type :: "graphql_error \<Rightarrow> string" where
  "error_type e = nullish (ge_errorType e) (ge_message e)"

definition toClientError :: "'w graphql_client \<Rightarrow> graphql_error \<Rightarrow> sc_error" where
  "toClientError G e =
     (let t = error_type e; msg = Some (ge_message e) in
      if t = ''sudoplatform.securecomms.IdentityContextMissing'' then NotRegisteredError (ge_message e)
      else if t = ''sudoplatform.ServiceError'' then ServiceError (ge_message e)
      else if t = ''sudoplatform.InvalidArgumentError'' then InvalidArgumentError msg
      else if t = ''sudoplatform.securecomms.HandleNotAvailable'' then HandleNotAvailableError msg
      else if t = ''sudoplatform.securecomms.HandleNotFound'' then HandleNotFoundError msg
      else if t = ''sudoplatform.securecomms.InvalidHandleName'' then InvalidHandleNameError msg
      else if t = ''sudoplatform.securecomms.InvalidHandleId'' then InvalidHandleIdError msg
      else if t = ''sudoplatform.securecomms.AliasNotAvailable'' then AliasNotAvailableError msg
      else if t = ''sudoplatform.securecomms.NameNotAvailable'' then ChannelNameNotAvailableError msg
      else if t = ''sudoplatform.securecomms.InvalidRoomAlias'' then InvalidChannelAliasError msg
      else if t = ''sudoplatform.securecomms.ChannelNotFound'' then ChannelNotFoundError msg
      else if t = ''sudoplatform.securecomms.InvalidChannelState'' then InvalidChannelStateError msg
      else if t = ''sudoplatform.securecomms.NotAllowed'' then NotAllowedError msg
      else gc_mapGraphQLToClientError G e)"

definition mapGraphQLCallError :: "'w graphql_client \<Rightarrow> call_failure \<Rightarrow> sc_error" where
  "mapGraphQLCallError G err =
     (case cf_graphQLErrors err of
        Some (e # _) \<Rightarrow> toClientError G e
      | _ \<Rightarrow>
          (case cf_errorType err of
             Some t \<Rightarrow> toClientError G \<lparr>ge_errorType = Some t, ge_message = cf_message err\<rparr>
           | None \<Rightarrow> UnknownGraphQLError))"

definition call_error :: "'w graphql_client \<Rightarrow> call_failure \<Rightarrow> sc_error" where
  "call_error G err =
     (case cf_network err of
        Some n \<Rightarrow> gc_mapNetworkError G n
      | None \<Rightarrow> mapGraphQLCallError G err)"

definition performQuery ::
    "'w graphql_client \<Rightarrow> string \<Rightarrow> ('w, 'a) gql_call \<Rightarrow> ('w, 'a) io" where
  "performQuery G calleeName query w =
     (case query w of
        (Inl err, w') \<Rightarrow> (Inl (call_error G err), w')
      | (Inr result, w') \<Rightarrow>
          (case gr_errors result of
             Some (error # _) \<Rightarrow> (Inl (toClientError G error), w')
           | _ \<Rightarrow>
               (case gr_data result of
                  Some d \<Rightarrow> (Inr d, w')
                | None \<Rightarrow> (Inl (FatalError (calleeName @ '' did not return any result'')), w'))))"

definition performMutation ::
    "'w graphql_client \<Rightarrow> string \<Rightarrow> ('w, 'a) gql_call \<Rightarrow> ('w, 'a) io" where
  "performMutation G calleeName mutation w =
     (case mutation w of
        (Inl err, w') \<Rightarrow> (Inl (call_error G err), w')
      | (Inr result, w') \<Rightarrow>
          (case gr_errors result of
             Some (error # _) \<Rightarrow> (Inl (toClientError G error), w')
           | _ \<Rightarrow>
               (case gr_data result of
                  Some d \<Rightarrow> (Inr d, w')
                | None \<Rightarrow> (Inl (FatalError (calleeName @ '' did not return any result'')), w'))))"

section \<open>The operations\<close>

definition api_createSecureCommsHandle ::
    "'w graphql_client \<Rightarrow> CreateSecureCommsHandleInput \<Rightarrow> ('w, SecureCommsSession) io" where
  "api_createSecureCommsHandle G input =
     performMutation G ''createSecureCommsHandle'' (gc_createHandle G input)"

definition api_getSecureCommsSession ::
    "'w graphql_client \<Rightarrow> GetSecureCommsSessionInput \<Rightarrow> ('w, SecureCommsSession) io" where
  "api_getSecureCommsSession G input =
     performQuery G ''getSecureCommsSession'' (gc_getSession G input)"

definition api_getSecureCommsHandleByName ::
    "'w graphql_client \<Rightarrow> string \<Rightarrow> ('w, PublicSecureCommsHandleInfo option) io" where
  "api_getSecureCommsHandleByName G name =
     performQuery G ''getSecureCommsHandleByName'' (gc_getHandleByName G name)"

definition api_updateSecureCommsHandle ::
    "'w graphql_client \<Rightarrow> UpdateSecureCommsHandleInput \<Rightarrow> ('w, SecureCommsHandle) io" where
  "api_updateSecureCommsHandle G input =
     performMutation G ''updateSecureCommsHandle'' (gc_updateHandle G input)"

definition api_deleteSecureCommsHandle ::
    "'w graphql_client \<Rightarrow> string \<Rightarrow> ('w, SecureCommsHandle) io" where
  "api_deleteSecureCommsHandle G i =
     performMutation G ''deleteSecureCommsHandle'' (gc_deleteHandle G i)"

definition api_listSecureCommsHandles ::
    "'w graphql_client \<Rightarrow> int option \<Rightarrow> string option \<Rightarrow> ('w, SecureCommsHandleConnection) io" where
  "api_listSecureCommsHandles G limit nextToken =
     performQuery G ''listSecureCommsHandles'' (gc_listHandles G limit nextToken)"

definition api_createSecureCommsChannel ::
    "'w graphql_client \<Rightarrow> CreateSecureCommsChannelInput \<Rightarrow> ('w, SecureCommsChannel) io" where
  "api_createSecureCommsChannel G input =
     performMutation G ''createSecureCommsChannel'' (gc_createChannel G input)"

definition api_updateSecureCommsChannel ::
    "'w graphql_client \<Rightarrow> UpdateSecureCommsChannelInput \<Rightarrow> ('w, PublicSecureCommsChannelInfo) io" where
  "api_updateSecureCommsChannel G input =
     performMutation G ''updateSecureCommsChannel'' (gc_updateChannel G input)"

definition api_deleteSecureCommsChannel ::
    "'w graphql_client \<Rightarrow> string \<Rightarrow> string \<Rightarrow> ('w, PublicSecureCommsChannelInfo) io" where
  "api_deleteSecureCommsChannel G i handleId =
     performMutation G ''deleteSecureCommsChannel'' (gc_deleteChannel G i handleId)"

definition api_getSecureCommsChannel ::
    "'w graphql_client \<Rightarrow> string \<Rightarrow> ('w, PublicSecureCommsChannelInfo option) io" where
  "api_getSecureCommsChannel G i =
     performQuery G ''getSecureCommsChannel'' (gc_getChannel G i)"

definition api_listSecureCommsChannels ::
    "'w graphql_client \<Rightarrow> string list \<Rightarrow> ('w, BatchPublicSecureCommsChannelInfo) io" where
  "api_listSecureCommsChannels G ids =
     performQuery G ''listSecureCommsChannels'' (gc_getChannels G ids)"

definition api_listSecureCommsPublicChannels ::
    "'w graphql_client \<Rightarrow> ListSecureCommsPublicChannelsInput \<Rightarrow>
     ('w, ListedSecureCommsChannelInfoConnection) io" where
  "api_listSecureCommsPublicChannels G input =
     performQuery G ''listSecureCommsPublicChannels'' (gc_listPublicChannels G input)"

definition api_checkSecureCommsWordValidity ::
    "'w graphql_client \<Rightarrow> string list \<Rightarrow> ('w, string list) io" where
  "api_checkSecureCommsWordValidity G words =
     performQuery G ''checkSecureCommsWordValidity'' (gc_checkWordValidity G words)"

definition api_getMediaBucketCredential ::
    "'w graphql_client \<Rightarrow> GetMediaBucketCredentialInput \<Rightarrow> ('w, MediaBucketCredential) io" where
  "api_getMediaBucketCredential G input =
     performQuery G ''getMediaBucketCredential'' (gc_getMediaBucketCredential G input)"

section \<open>Lemmas\<close>

lemma performMutation_eq [simp]: "performMutation G n m = performQuery G n m"
  by (simp add: performMutation_def performQuery_def fun_eq_iff)

text \<open>The error types the service documents, with the class each becomes.\<close>

definition service_error_types :: "string list" where
  "service_error_types =
     [''sudoplatform.securecomms.IdentityContextMissing'', ''sudoplatform.ServiceError'',
      ''sudoplatform.InvalidArgumentError'', ''sudoplatform.securecomms.HandleNotAvailable'',
      ''sudoplatform.securecomms.HandleNotFound'', ''sudoplatform.securecomms.InvalidHandleName'',
      ''sudoplatform.securecomms.InvalidHandleId'', ''sudoplatform.securecomms.AliasNotAvailable'',
      ''sudoplatform.securecomms.NameNotAvailable'', ''sudoplatform.securecomms.InvalidRoomAlias'',
      ''sudoplatform.securecomms.ChannelNotFound'', ''sudoplatform.securecomms.InvalidChannelState'',
      ''sudoplatform.securecomms.NotAllowed'']"

fun error_tag :: "sc_error \<Rightarrow> nat" where
  "error_tag (NotRegisteredError _) = 0"
| "error_tag (ServiceError _) = 1"
| "error_tag (InvalidArgumentError _) = 2"
| "error_tag (HandleNotAvailableError _) = 3"
| "error_tag (HandleNotFoundError _) = 4"
| "error_tag (InvalidHandleNameError _) = 5"
| "error_tag (InvalidHandleIdError _) = 6"
| "error_tag (AliasNotAvailableError _) = 7"
| "error_tag (ChannelNameNotAvailableError _) = 8"
| "error_tag (InvalidChannelAliasError _) = 9"
| "error_tag (ChannelNotFoundError _) = 10"
| "error_tag (InvalidChannelStateError _) = 11"
| "error_tag (NotAllowedError _) = 12"
| "error_tag _ = 13"

lemma error_tags_of_types:
  "map (\<lambda>t. error_tag (toClientError G \<lparr>ge_errorType = Some t, ge_message = m\<rparr>)) service_error_types
     = [0,1,2,3,4,5,6,7,8,9,10,11,12]"
  by (simp add: service_error_types_def toClientError_def error_type_def Let_def)

lemma error_tag_of_type:
  assumes "i < length service_error_types"
  shows "error_tag (toClientError G \<lparr>ge_errorType = Some (service_error_types ! i), ge_message = m\<rparr>) = i"
proof -
  have "[0..<13] = [0,1,2,3,4,5,6,7,8,9,10,11,12::nat]" by (simp add: upt_rec)
  with error_tags_of_types [of G m] have
    "map (\<lambda>t. error_tag (toClientError G \<lparr>ge_errorType = Some t, ge_message = m\<rparr>)) service_error_types
      = [0..<13]" by simp
  then have "map (\<lambda>t. error_tag (toClientError G \<lparr>ge_errorType = Some t, ge_message = m\<rparr>))
      service_error_types ! i = [0..<13] ! i" by simp
  moreover have "length service_error_types = 13" by (simp add: service_error_types_def)
  ultimately show ?thesis using assms by simp
qed

section \<open>Properties\<close>

text \<open>
  A GraphQL call succeeds only with complete data. For every transport: a query or
  mutation returns a value exactly when the transport did not throw, reported no error and
  sent data, and the value is that data; an answer with data and an error is a failure.
\<close>

theorem graphql_success_iff:
  "performQuery G callee q w = (Inr d, w') \<longleftrightarrow>
     (\<exists>result. q w = (Inr result, w') \<and> gr_data result = Some d
        \<and> (gr_errors result = None \<or> gr_errors result = Some []))"
  by (auto simp: performQuery_def split: prod.splits sum.splits option.splits list.splits)



text \<open>A transport that is off line: every call throws. Used by witnesses that make no call.\<close>

definition off_line :: "('w, 'a) gql_call" where
  "off_line = (\<lambda>w. (Inl \<lparr>cf_network = Some 0, cf_graphQLErrors = None, cf_errorType = None,
     cf_message = ''offline''\<rparr>, w))"

definition offline_client :: "'w graphql_client" where
  "offline_client =
     \<lparr>gc_mapNetworkError = (\<lambda>n. ForeignError n),
      gc_mapGraphQLToClientError = (\<lambda>e. ForeignError 0),
      gc_createHandle = (\<lambda>_. off_line),
      gc_getSession = (\<lambda>_. off_line),
      gc_getHandleByName = (\<lambda>_. off_line),
      gc_updateHandle = (\<lambda>_. off_line),
      gc_deleteHandle = (\<lambda>_. off_line),
      gc_listHandles = (\<lambda>_ _. off_line),
      gc_createChannel = (\<lambda>_. off_line),
      gc_updateChannel = (\<lambda>_. off_line),
      gc_deleteChannel = (\<lambda>_ _. off_line),
      gc_getChannel = (\<lambda>_. off_line),
      gc_getChannels = (\<lambda>_. off_line),
      gc_listPublicChannels = (\<lambda>_. off_line),
      gc_checkWordValidity = (\<lambda>_. off_line),
      gc_getMediaBucketCredential = (\<lambda>_. off_line)\<rparr>"

end
