(* ===== verification/RoomsClient.thy ===== *)
theory RoomsClient
  imports Domain
begin

text \<open>
  The room operations of \<open>MatrixClientManager\<close>
  (\<open>src/private/data/common/matrixClientManager.ts\<close>): each calls the third-party Matrix
  client and turns its failures into the SDK's errors.

  The Matrix client is not part of the repository; it is the parameter \<open>rooms_client\<close>, a
  record of the methods these operations call, over an arbitrary state \<open>'w\<close> of everything
  the client may read or change. A \<open>room\<close> is what the client's room object answers to the
  accessors used here.
\<close>

section \<open>The Matrix client, as far as rooms use it\<close>

record RoomMember =
  mb_roomId :: room_id
  mb_userId :: user_id
  mb_membership :: "string option"
  mb_name :: string
  mb_isDirect :: bool
  mb_eventSender :: "user_id option"

record room =
  r_roomId :: room_id
  r_name :: string
  r_members :: "RoomMember list"
  r_myMembership :: string
  r_joinedCount :: int
  r_powerLevels :: "RoomPowerLevelsEntity option"

text \<open>The body of a state request, as far as it is read: \<open>response.type\<close> and so on.\<close>

record state_response =
  sr_type :: "string option"
  sr_tags :: "string list option"
  sr_topic :: "string option"
  sr_url :: "string option"

record member_event =
  me_state_key :: user_id
  me_displayname :: "string option"
  me_membership :: "string option"

record ICreateRoomOpts =
  co_name :: "string option"
  co_topic :: "string option"
  co_is_direct :: bool
  co_visibility :: string
  co_preset :: string
  co_invite :: "user_id list option"
  co_power_levels :: "RoomPowerLevelsEntity option"
  co_initial_state :: "(string \<times> (string \<times> string) list) list"

record SearchRoomsOutput =
  sro_chunk :: "room_id list"
  sro_next_batch :: "string option"
  sro_prev_batch :: "string option"
  sro_total_room_count_estimate :: "int option"

record 'w rooms_client =
  rc_homeServer :: string
  rc_slidingSync :: bool
  rc_getUserId :: "('w, user_id option) io"
  rc_getProfileInfo :: "user_id \<Rightarrow> ('w, unit) io"
  rc_getRoom :: "room_id \<Rightarrow> ('w, room option) io"
  rc_subscribeRoom :: "room_id \<Rightarrow> ('w, unit) io"
  rc_roomEventOrTimeout :: "room_id \<Rightarrow> int \<Rightarrow> ('w, room option) io"
  rc_getRooms :: "('w, room list) io"
  rc_getJoinedRooms :: "('w, room_id list) io"
  rc_httpState :: "room_id \<Rightarrow> string \<Rightarrow> ('w, state_response) io"
  rc_httpMembers :: "room_id \<Rightarrow> ('w, member_event list) io"
  rc_statePowerLevels :: "room_id \<Rightarrow> ('w, RoomPowerLevelsEntity option) io"
  rc_stateMember :: "room_id \<Rightarrow> user_id \<Rightarrow> ('w, string option) io"
  rc_publicRooms :: "string \<Rightarrow> int \<Rightarrow> string option \<Rightarrow> ('w, SearchRoomsOutput) io"
  rc_createRoom :: "ICreateRoomOpts \<Rightarrow> ('w, room_id) io"
  rc_setRoomName :: "room_id \<Rightarrow> string \<Rightarrow> ('w, unit) io"
  rc_setRoomTopic :: "room_id \<Rightarrow> string \<Rightarrow> ('w, unit) io"
  rc_sendAvatar :: "room_id \<Rightarrow> string option \<Rightarrow> ('w, unit) io"
  rc_sendPowerLevels :: "room_id \<Rightarrow> RoomPowerLevelsEntity \<Rightarrow> ('w, unit) io"
  rc_setPowerLevel :: "room_id \<Rightarrow> user_id \<Rightarrow> int \<Rightarrow> ('w, unit) io"
  rc_kick :: "room_id \<Rightarrow> user_id \<Rightarrow> string option \<Rightarrow> ('w, unit) io"
  rc_ban :: "room_id \<Rightarrow> user_id \<Rightarrow> string option \<Rightarrow> ('w, unit) io"
  rc_unban :: "room_id \<Rightarrow> user_id \<Rightarrow> ('w, unit) io"
  rc_invite :: "room_id \<Rightarrow> user_id \<Rightarrow> ('w, unit) io"
  rc_joinRoom :: "room_id \<Rightarrow> ('w, unit) io"
  rc_leave :: "room_id \<Rightarrow> ('w, unit) io"
  rc_forget :: "room_id \<Rightarrow> bool \<Rightarrow> ('w, unit) io"
  rc_knockRoom :: "room_id \<Rightarrow> string option \<Rightarrow> ('w, unit) io"

text \<open>
  The reads of the client leave its state alone: what the safety properties of the
  service rely on.
\<close>

definition room_reads_pure :: "'w rooms_client \<Rightarrow> bool" where
  "room_reads_pure C \<longleftrightarrow>
     reads_only (rc_getUserId C)
     \<and> (\<forall>r. reads_only (rc_getRoom C r))
     \<and> (\<forall>r. reads_only (rc_subscribeRoom C r))
     \<and> (\<forall>r t. reads_only (rc_roomEventOrTimeout C r t))
     \<and> (\<forall>r k. reads_only (rc_httpState C r k))
     \<and> (\<forall>r. reads_only (rc_httpMembers C r))
     \<and> (\<forall>r. reads_only (rc_statePowerLevels C r))"

section \<open>Failures\<close>

text \<open>\<open>try { m } catch (err) { throw new Error(msg) }\<close>\<close>

definition or_fail :: "string \<Rightarrow> ('w, 'a) io \<Rightarrow> ('w, 'a) io" where
  "or_fail msg m = try_catch m (\<lambda>_. throw (PlainError msg))"

definition M_NOT_FOUND :: sc_error where
  "M_NOT_FOUND = MatrixError ''M_NOT_FOUND''"

definition M_FORBIDDEN :: sc_error where
  "M_FORBIDDEN = MatrixError ''M_FORBIDDEN''"

text \<open>A read where a missing object is \<open>undefined\<close> and any other failure an error.\<close>

definition missing_or_fail :: "string \<Rightarrow> ('w, 'a option) io \<Rightarrow> ('w, 'a option) io" where
  "missing_or_fail msg m =
     try_catch m (\<lambda>err. if err = M_NOT_FOUND then ret None else throw (PlainError msg))"

definition missing_forbidden_or_fail :: "string \<Rightarrow> ('w, 'a option) io \<Rightarrow> ('w, 'a option) io" where
  "missing_forbidden_or_fail msg m =
     try_catch m (\<lambda>err. if err = M_NOT_FOUND then ret None
                        else if err = M_FORBIDDEN then throw (UnauthorizedError None)
                        else throw (PlainError msg))"

lemma or_fail_apply [io_simps]:
  "or_fail msg m w =
     (case fst (m w) of Inl _ \<Rightarrow> (Inl (PlainError msg), snd (m w)) | Inr x \<Rightarrow> (Inr x, snd (m w)))"
  by (simp add: or_fail_def try_catch_apply throw_apply split: sum.split)

lemma or_fail_Inr_iff: "or_fail msg m w = (Inr x, w') \<longleftrightarrow> m w = (Inr x, w')"
  by (auto simp: or_fail_def try_catch_def throw_def split: prod.splits sum.splits)

lemma reads_only_or_fail [intro]: "reads_only m \<Longrightarrow> reads_only (or_fail msg m)"
  by (auto simp: or_fail_def)

lemma reads_only_missing_or_fail [intro]: "reads_only m \<Longrightarrow> reads_only (missing_or_fail msg m)"
  by (auto simp: missing_or_fail_def)

lemma reads_only_missing_forbidden [intro]:
  "reads_only m \<Longrightarrow> reads_only (missing_forbidden_or_fail msg m)"
  by (auto simp: missing_forbidden_or_fail_def)

lemma missing_forbidden_errors:
  "missing_forbidden_or_fail msg m w = (Inl e, w') \<Longrightarrow>
     e = UnauthorizedError None \<or> e = PlainError msg"
  by (auto simp: missing_forbidden_or_fail_def io_simps split: sum.splits if_splits)

section \<open>Users and members\<close>

text \<open>The client answers null or an empty string when there is no user.\<close>

definition cm_getUserId :: "'w rooms_client \<Rightarrow> ('w, user_id) io" where
  "cm_getUserId C =
     await (rc_getUserId C) (\<lambda>userId.
       case userId of
         None \<Rightarrow> throw (HandleNotFoundError None)
       | Some u \<Rightarrow> if u = '''' then throw (HandleNotFoundError None) else ret u)"

definition cm_userExists :: "'w rooms_client \<Rightarrow> user_id \<Rightarrow> ('w, bool) io" where
  "cm_userExists C u =
     try_catch (await (rc_getProfileInfo C u) (\<lambda>_. ret True))
       (\<lambda>err. if err = M_NOT_FOUND then ret False
              else throw (PlainError ''Failed to retrieve user profile''))"

definition cm_kickHandle ::
    "'w rooms_client \<Rightarrow> room_id \<Rightarrow> user_id \<Rightarrow> string option \<Rightarrow> ('w, unit) io" where
  "cm_kickHandle C r target reason =
     or_fail ''Failed to kick handle from room'' (rc_kick C r target reason)"

definition cm_banHandle ::
    "'w rooms_client \<Rightarrow> room_id \<Rightarrow> user_id \<Rightarrow> string option \<Rightarrow> ('w, unit) io" where
  "cm_banHandle C r target reason =
     or_fail ''Failed to ban handle from room'' (rc_ban C r target reason)"

definition cm_unbanHandle :: "'w rooms_client \<Rightarrow> room_id \<Rightarrow> user_id \<Rightarrow> ('w, unit) io" where
  "cm_unbanHandle C r target =
     or_fail ''Failed to unban handle from room'' (rc_unban C r target)"

section \<open>Rooms\<close>

definition SLIDING_SYNC_ROOM_SUBSCRIBE_WAIT_MS :: int where
  "SLIDING_SYNC_ROOM_SUBSCRIBE_WAIT_MS = 35000"

definition JOIN_ROOM_LOCAL_CACHE_WAIT_MS :: int where
  "JOIN_ROOM_LOCAL_CACHE_WAIT_MS = 10000"

definition cm_createRoom :: "'w rooms_client \<Rightarrow> ICreateRoomOpts \<Rightarrow> ('w, room_id) io" where
  "cm_createRoom C opts = or_fail ''Failed to create a room'' (rc_createRoom C opts)"

text \<open>
  \<open>waitForRoomInLocalCache\<close>: a room already in the cache is answered at once, otherwise the
  first room event for that id, or what the cache holds when the timer fires.
\<close>

definition cm_waitForRoomInLocalCache ::
    "'w rooms_client \<Rightarrow> room_id \<Rightarrow> int \<Rightarrow> ('w, room option) io" where
  "cm_waitForRoomInLocalCache C r timeoutMs =
     await (rc_getRoom C r) (\<lambda>existing.
       case existing of
         Some room \<Rightarrow> ret (Some room)
       | None \<Rightarrow> rc_roomEventOrTimeout C r timeoutMs)"

definition cm_getRoom :: "'w rooms_client \<Rightarrow> room_id \<Rightarrow> ('w, room option) io" where
  "cm_getRoom C r =
     or_fail ''Failed to retrieve a room''
       (await (rc_getRoom C r) (\<lambda>room.
          case room of
            Some rm \<Rightarrow> ret (Some rm)
          | None \<Rightarrow>
              if rc_slidingSync C
              then await (rc_subscribeRoom C r) (\<lambda>_.
                     cm_waitForRoomInLocalCache C r SLIDING_SYNC_ROOM_SUBSCRIBE_WAIT_MS)
              else ret None))"

definition cm_getRoomType :: "'w rooms_client \<Rightarrow> room_id \<Rightarrow> ('w, string option) io" where
  "cm_getRoomType C r =
     missing_or_fail ''Failed to retrieve room type''
       (await (rc_httpState C r ''com.sudoplatform.secure-comms.type'') (\<lambda>response.
          ret (sr_type response)))"

definition cm_getRoomTags :: "'w rooms_client \<Rightarrow> room_id \<Rightarrow> ('w, string list option) io" where
  "cm_getRoomTags C r =
     missing_or_fail ''Failed to retrieve room tags''
       (await (rc_httpState C r ''com.sudoplatform.secure-comms.channel.tags'') (\<lambda>response.
          ret (sr_tags response)))"

definition cm_setRoomName :: "'w rooms_client \<Rightarrow> room_id \<Rightarrow> string \<Rightarrow> ('w, unit) io" where
  "cm_setRoomName C r name = or_fail ''Failed to set room name'' (rc_setRoomName C r name)"

definition cm_setRoomTopic :: "'w rooms_client \<Rightarrow> room_id \<Rightarrow> string \<Rightarrow> ('w, unit) io" where
  "cm_setRoomTopic C r topic = or_fail ''Failed to set room topic'' (rc_setRoomTopic C r topic)"

definition cm_getRoomTopic :: "'w rooms_client \<Rightarrow> room_id \<Rightarrow> ('w, string option) io" where
  "cm_getRoomTopic C r =
     missing_or_fail ''Failed to retrieve room topic''
       (await (rc_httpState C r ''m.room.topic'') (\<lambda>response. ret (sr_topic response)))"

definition cm_setRoomAvatar :: "'w rooms_client \<Rightarrow> room_id \<Rightarrow> string option \<Rightarrow> ('w, unit) io" where
  "cm_setRoomAvatar C r url = or_fail ''Failed to set room avatar'' (rc_sendAvatar C r url)"

definition cm_getRoomAvatarUrl :: "'w rooms_client \<Rightarrow> room_id \<Rightarrow> ('w, string option) io" where
  "cm_getRoomAvatarUrl C r =
     missing_or_fail ''Failed to retrieve room avatar url''
       (await (rc_httpState C r ''m.room.avatar'') (\<lambda>response. ret (sr_url response)))"

definition cm_getRoomPowerLevels ::
    "'w rooms_client \<Rightarrow> room_id \<Rightarrow> ('w, RoomPowerLevelsEntity option) io" where
  "cm_getRoomPowerLevels C r =
     missing_forbidden_or_fail ''Failed to retrieve room power levels'' (rc_statePowerLevels C r)"

definition cm_setRoomPowerLevels ::
    "'w rooms_client \<Rightarrow> room_id \<Rightarrow> RoomPowerLevelsEntity \<Rightarrow> ('w, unit) io" where
  "cm_setRoomPowerLevels C r pl =
     or_fail ''Failed to set room power levels'' (rc_sendPowerLevels C r pl)"

definition cm_setRoomMemberPowerLevel ::
    "'w rooms_client \<Rightarrow> room_id \<Rightarrow> user_id \<Rightarrow> int \<Rightarrow> ('w, unit) io" where
  "cm_setRoomMemberPowerLevel C r u powerLevel =
     or_fail ''Failed to set room member power level'' (rc_setPowerLevel C r u powerLevel)"

definition cm_deleteRoom :: "'w rooms_client \<Rightarrow> room_id \<Rightarrow> ('w, unit) io" where
  "cm_deleteRoom C r = or_fail ''Failed to delete room'' (rc_forget C r True)"

definition cm_joinRoom :: "'w rooms_client \<Rightarrow> room_id \<Rightarrow> ('w, unit) io" where
  "cm_joinRoom C r =
     await (or_fail ''Failed to join room: join failed'' (rc_joinRoom C r)) (\<lambda>_.
     await (cm_waitForRoomInLocalCache C r JOIN_ROOM_LOCAL_CACHE_WAIT_MS) (\<lambda>room.
       case room of
         None \<Rightarrow> throw (PlainError
           ''Failed to join room: joined but room did not appear in local cache'')
       | Some _ \<Rightarrow> ret ()))"

definition cm_leaveRoom :: "'w rooms_client \<Rightarrow> room_id \<Rightarrow> ('w, unit) io" where
  "cm_leaveRoom C r = or_fail ''Failed to leave room: leave failed'' (rc_leave C r)"

definition cm_invite :: "'w rooms_client \<Rightarrow> room_id \<Rightarrow> user_id \<Rightarrow> ('w, unit) io" where
  "cm_invite C r u = or_fail ''Failed to invite user to room'' (rc_invite C r u)"

definition cm_listRooms :: "'w rooms_client \<Rightarrow> ('w, room list) io" where
  "cm_listRooms C = or_fail ''Failed to retrieve rooms'' (rc_getRooms C)"

definition cm_listJoinedRooms :: "'w rooms_client \<Rightarrow> ('w, room_id list) io" where
  "cm_listJoinedRooms C = or_fail ''Failed to retrieve joined rooms'' (rc_getJoinedRooms C)"

text \<open>
  The promise is returned, not awaited, inside the \<open>try\<close> block: its rejection does not pass
  through the \<open>catch\<close> and reaches the caller as it is.
\<close>

definition cm_searchRooms ::
    "'w rooms_client \<Rightarrow> string \<Rightarrow> int option \<Rightarrow> string option \<Rightarrow> ('w, SearchRoomsOutput) io" where
  "cm_searchRooms C query limit since = rc_publicRooms C query (nullish limit 20) since"

definition cm_knockRoom :: "'w rooms_client \<Rightarrow> room_id \<Rightarrow> string option \<Rightarrow> ('w, unit) io" where
  "cm_knockRoom C r reason =
     await (or_fail ''Failed to knock room: knock failed'' (rc_knockRoom C r reason)) (\<lambda>_.
     await (cm_waitForRoomInLocalCache C r JOIN_ROOM_LOCAL_CACHE_WAIT_MS) (\<lambda>room.
       case room of
         None \<Rightarrow> throw (PlainError
           ''Failed to knock room: knocked but room did not appear in local cache'')
       | Some _ \<Rightarrow> ret ()))"

record RoomMemberOutput =
  mo_roomId :: room_id
  mo_userId :: user_id
  mo_displayName :: "string option"
  mo_membership :: "string option"

definition cm_getMembers ::
    "'w rooms_client \<Rightarrow> room_id \<Rightarrow> ('w, RoomMemberOutput list option) io" where
  "cm_getMembers C r =
     missing_forbidden_or_fail ''Failed to retrieve room members''
       (await (rc_httpMembers C r) (\<lambda>chunk.
          ret (Some (map (\<lambda>event.
            \<lparr>mo_roomId = r,
             mo_userId = me_state_key event,
             mo_displayName = me_displayname event,
             mo_membership = me_membership event\<rparr>) chunk))))"

definition cm_getMembershipState ::
    "'w rooms_client \<Rightarrow> room_id \<Rightarrow> user_id \<Rightarrow> ('w, string option) io" where
  "cm_getMembershipState C r u =
     or_fail ''Failed to retrieve membership state''
       (missing_or_fail ''Failed to retrieve state event'' (rc_stateMember C r u))"

section \<open>Lemmas\<close>

lemma reads_only_getUserId [intro]:
  "room_reads_pure C \<Longrightarrow> reads_only (cm_getUserId C)"
  by (auto simp: cm_getUserId_def room_reads_pure_def intro!: reads_only_await split: option.split)

lemma reads_only_waitForRoom [intro]:
  "room_reads_pure C \<Longrightarrow> reads_only (cm_waitForRoomInLocalCache C r t)"
  by (auto simp: cm_waitForRoomInLocalCache_def room_reads_pure_def
      intro!: reads_only_await split: option.split)

lemma reads_only_getRoom [intro]:
  "room_reads_pure C \<Longrightarrow> reads_only (cm_getRoom C r)"
  unfolding cm_getRoom_def
  by (intro reads_only_or_fail reads_only_await)
    (auto simp: room_reads_pure_def intro!: reads_only_await reads_only_waitForRoom
      split: option.split)

lemma reads_only_getMembers [intro]:
  "room_reads_pure C \<Longrightarrow> reads_only (cm_getMembers C r)"
  by (auto simp: cm_getMembers_def room_reads_pure_def
      intro!: reads_only_missing_forbidden reads_only_await)

lemma reads_only_getRoomPowerLevels [intro]:
  "room_reads_pure C \<Longrightarrow> reads_only (cm_getRoomPowerLevels C r)"
  by (auto simp: cm_getRoomPowerLevels_def room_reads_pure_def)

lemma reads_only_state_reads [intro]:
  assumes "room_reads_pure C"
  shows "reads_only (cm_getRoomType C r)" "reads_only (cm_getRoomTags C r)"
    "reads_only (cm_getRoomTopic C r)" "reads_only (cm_getRoomAvatarUrl C r)"
  using assms
  by (auto simp: cm_getRoomType_def cm_getRoomTags_def cm_getRoomTopic_def
      cm_getRoomAvatarUrl_def room_reads_pure_def intro!: reads_only_missing_or_fail reads_only_await)

lemma cm_getUserId_Inr: "cm_getUserId C w = (Inr u, w') \<Longrightarrow> rc_getUserId C w = (Inr (Some u), w') \<and> u \<noteq> ''''"
  by (auto simp: cm_getUserId_def await_def io_simps split: prod.splits sum.splits option.splits if_splits)

end
