(* ===== verification/Homeserver.thy ===== *)
theory Homeserver
  imports RoomsClient
begin

text \<open>
  A small in-memory homeserver, an instance of the parameter \<open>rooms_client\<close>: rooms with
  members and power levels, a signed-in user, and the state-changing calls in the order they
  were made. It models no code of the repository; the witnesses of the properties that
  have a hypothesis on the client use it to show that the hypothesis can hold.
\<close>

datatype call =
    Kicked room_id user_id
  | Banned room_id user_id
  | Unbanned room_id user_id
  | Invited room_id user_id
  | Joined room_id
  | Left room_id
  | Knocked room_id
  | Forgot room_id
  | Created "string option"
  | SetName room_id string
  | SetTopic room_id string
  | SetAvatar room_id "string option"
  | SetLevels room_id
  | SetLevel room_id user_id int

record server =
  sv_user :: user_id
  sv_rooms :: "room list"
  sv_topics :: "room_id \<rightharpoonup> string"
  sv_calls :: "call list"

definition sv_room :: "server \<Rightarrow> room_id \<Rightarrow> room option" where
  "sv_room s r = find (\<lambda>rm. r_roomId rm = r) (sv_rooms s)"

definition sv_write :: "call \<Rightarrow> (room \<Rightarrow> room) \<Rightarrow> room_id \<Rightarrow> (server, unit) io" where
  "sv_write c f r s =
     (Inr (), s\<lparr>sv_rooms := map (\<lambda>rm. if r_roomId rm = r then f rm else rm) (sv_rooms s),
                sv_calls := sv_calls s @ [c]\<rparr>)"

definition set_membership :: "user_id \<Rightarrow> string \<Rightarrow> room \<Rightarrow> room" where
  "set_membership u ms rm =
     rm\<lparr>r_members :=
       (if u \<in> mb_userId ` set (r_members rm)
        then map (\<lambda>m. if mb_userId m = u then m\<lparr>mb_membership := Some ms\<rparr> else m) (r_members rm)
        else r_members rm @
          [\<lparr>mb_roomId = r_roomId rm, mb_userId = u, mb_membership = Some ms, mb_name = u,
            mb_isDirect = False, mb_eventSender = None\<rparr>])\<rparr>"

definition set_level :: "user_id \<Rightarrow> int \<Rightarrow> room \<Rightarrow> room" where
  "set_level u l rm =
     (case r_powerLevels rm of
        None \<Rightarrow> rm
      | Some pl \<Rightarrow> rm\<lparr>r_powerLevels :=
          Some (pl\<lparr>pl_users := Some ((nullish (pl_users pl) Map.empty)(u \<mapsto> l))\<rparr>)\<rparr>)"

text \<open>Only a joined user may kick.\<close>

definition sv_kick :: "room_id \<Rightarrow> user_id \<Rightarrow> (server, unit) io" where
  "sv_kick r u s =
     (case sv_room s r of
        None \<Rightarrow> (Inl M_NOT_FOUND, s)
      | Some rm \<Rightarrow>
          if r_myMembership rm = ''join''
          then sv_write (Kicked r u) (set_membership u ''leave'') r s
          else (Inl M_FORBIDDEN, s))"

lemma sv_kick_refused:
  assumes "\<forall>rm \<in> set (sv_rooms s). r_myMembership rm \<noteq> ''join''"
  shows "snd (sv_kick r u s) = s"
proof -
  have "\<And>rm. sv_room s r = Some rm \<Longrightarrow> rm \<in> set (sv_rooms s)"
    by (auto simp: sv_room_def find_Some_iff)
  with assms show ?thesis by (auto simp: sv_kick_def split: option.split)
qed

definition memory_client :: "server rooms_client" where
  "memory_client =
     \<lparr>rc_homeServer = ''hs'',
      rc_slidingSync = False,
      rc_getUserId = (\<lambda>s. (Inr (Some (sv_user s)), s)),
      rc_getProfileInfo = (\<lambda>u. ret ()),
      rc_getRoom = (\<lambda>r s. (Inr (sv_room s r), s)),
      rc_subscribeRoom = (\<lambda>r. ret ()),
      rc_roomEventOrTimeout = (\<lambda>r t s. (Inr (sv_room s r), s)),
      rc_getRooms = (\<lambda>s. (Inr (sv_rooms s), s)),
      rc_getJoinedRooms = (\<lambda>s. (Inr (map r_roomId (filter (\<lambda>rm. r_myMembership rm = ''join'')
        (sv_rooms s))), s)),
      rc_httpState = (\<lambda>r k s. (Inr \<lparr>sr_type = None, sr_tags = None,
        sr_topic = sv_topics s r, sr_url = None\<rparr>, s)),
      rc_httpMembers = (\<lambda>r s. case sv_room s r of
          None \<Rightarrow> (Inl M_NOT_FOUND, s)
        | Some rm \<Rightarrow> (Inr (map (\<lambda>m. \<lparr>me_state_key = mb_userId m,
            me_displayname = Some (mb_name m), me_membership = mb_membership m\<rparr>)
            (r_members rm)), s)),
      rc_statePowerLevels = (\<lambda>r s. case sv_room s r of
          None \<Rightarrow> (Inl M_NOT_FOUND, s)
        | Some rm \<Rightarrow> (Inr (r_powerLevels rm), s)),
      rc_stateMember = (\<lambda>r u s. case sv_room s r of
          None \<Rightarrow> (Inl M_NOT_FOUND, s)
        | Some rm \<Rightarrow> (Inr (Option.bind (find (\<lambda>m. mb_userId m = u) (r_members rm)) mb_membership), s)),
      rc_publicRooms = (\<lambda>q l since s. (Inr \<lparr>sro_chunk = map r_roomId (sv_rooms s),
        sro_next_batch = None, sro_prev_batch = None, sro_total_room_count_estimate = None\<rparr>, s)),
      rc_createRoom = (\<lambda>opts s. (Inr ''!new:hs'', s\<lparr>sv_calls := sv_calls s @ [Created (co_name opts)]\<rparr>)),
      rc_setRoomName = (\<lambda>r n. sv_write (SetName r n) (\<lambda>rm. rm\<lparr>r_name := n\<rparr>) r),
      rc_setRoomTopic = (\<lambda>r t s. (Inr (), s\<lparr>sv_topics := (sv_topics s)(r \<mapsto> t),
        sv_calls := sv_calls s @ [SetTopic r t]\<rparr>)),
      rc_sendAvatar = (\<lambda>r u. sv_write (SetAvatar r u) id r),
      rc_sendPowerLevels = (\<lambda>r pl. sv_write (SetLevels r) (\<lambda>rm. rm\<lparr>r_powerLevels := Some pl\<rparr>) r),
      rc_setPowerLevel = (\<lambda>r u l. sv_write (SetLevel r u l) (set_level u l) r),
      rc_kick = (\<lambda>r u reason. sv_kick r u),
      rc_ban = (\<lambda>r u reason. sv_write (Banned r u) (set_membership u ''ban'') r),
      rc_unban = (\<lambda>r u. sv_write (Unbanned r u) (set_membership u ''leave'') r),
      rc_invite = (\<lambda>r u. sv_write (Invited r u) (set_membership u ''invite'') r),
      rc_joinRoom = (\<lambda>r s. sv_write (Joined r)
        (\<lambda>rm. (set_membership (sv_user s) ''join'' rm)\<lparr>r_myMembership := ''join''\<rparr>) r s),
      rc_leave = (\<lambda>r s. sv_write (Left r)
        (\<lambda>rm. (set_membership (sv_user s) ''leave'' rm)\<lparr>r_myMembership := ''leave''\<rparr>) r s),
      rc_forget = (\<lambda>r rooms s. (Inr (), s\<lparr>sv_rooms := filter (\<lambda>rm. r_roomId rm \<noteq> r) (sv_rooms s),
        sv_calls := sv_calls s @ [Forgot r]\<rparr>)),
      rc_knockRoom = (\<lambda>r reason s. sv_write (Knocked r)
        (\<lambda>rm. (set_membership (sv_user s) ''knock'' rm)\<lparr>r_myMembership := ''knock''\<rparr>) r s)\<rparr>"

lemma memory_client_pure: "room_reads_pure memory_client"
  by (auto simp: room_reads_pure_def memory_client_def reads_only_def ret_def split: option.split)

text \<open>A room with an administrator (100), a moderator (50) and two members, one banned.\<close>

definition demo_member :: "user_id \<Rightarrow> string \<Rightarrow> RoomMember" where
  "demo_member u ms =
     \<lparr>mb_roomId = ''!r:hs'', mb_userId = u, mb_membership = Some ms, mb_name = u,
      mb_isDirect = False, mb_eventSender = None\<rparr>"

definition demo_levels :: RoomPowerLevelsEntity where
  "demo_levels =
     \<lparr>pl_ban = Some 50, pl_events = None, pl_events_default = Some 25, pl_invite = Some 25,
      pl_kick = Some 50, pl_notifications = None, pl_redact = Some 50, pl_state_default = None,
      pl_users = Some [''@ann:hs'' \<mapsto> 100, ''@bob:hs'' \<mapsto> 50], pl_users_default = Some 25\<rparr>"

definition demo_room :: room where
  "demo_room =
     \<lparr>r_roomId = ''!r:hs'', r_name = ''club'',
      r_members = [demo_member ''@ann:hs'' ''join'', demo_member ''@bob:hs'' ''join'',
                   demo_member ''@cat:hs'' ''join'', demo_member ''@dan:hs'' ''ban''],
      r_myMembership = ''join'', r_joinedCount = 3, r_powerLevels = Some demo_levels\<rparr>"

definition demo_server :: "user_id \<Rightarrow> server" where
  "demo_server u =
     \<lparr>sv_user = u, sv_rooms = [demo_room], sv_topics = Map.empty, sv_calls = []\<rparr>"

lemma memory_client_hs [simp]: "rc_homeServer memory_client = ''hs''"
  by (simp add: memory_client_def)

lemma demo_getUserId: "cm_getUserId memory_client (demo_server u) =
    (if u = '''' then (Inl (HandleNotFoundError None), demo_server u) else (Inr u, demo_server u))"
  by (simp add: cm_getUserId_def memory_client_def demo_server_def await_def throw_def ret_def)

lemma demo_getRoom:
  "cm_getRoom memory_client ''!r:hs'' (demo_server u) = (Inr (Some demo_room), demo_server u)"
  by (simp add: cm_getRoom_def or_fail_def memory_client_def io_simps demo_server_def demo_room_def
      sv_room_def)

lemma memory_client_sel:
  "rc_getRoom memory_client r s = (Inr (sv_room s r), s)"
  "rc_httpState memory_client r k s =
     (Inr \<lparr>sr_type = None, sr_tags = None, sr_topic = sv_topics s r, sr_url = None\<rparr>, s)"
  "rc_statePowerLevels memory_client r s =
     (case sv_room s r of None \<Rightarrow> (Inl M_NOT_FOUND, s) | Some rm \<Rightarrow> (Inr (r_powerLevels rm), s))"
  "rc_setRoomName memory_client r n = sv_write (SetName r n) (\<lambda>rm. rm\<lparr>r_name := n\<rparr>) r"
  "rc_kick memory_client r u reason = sv_kick r u"
  "rc_createRoom memory_client opts s =
     (Inr ''!new:hs'', s\<lparr>sv_calls := sv_calls s @ [Created (co_name opts)]\<rparr>)"
  "rc_httpMembers memory_client r s = (case sv_room s r of
     None \<Rightarrow> (Inl M_NOT_FOUND, s)
   | Some rm \<Rightarrow> (Inr (map (\<lambda>m. \<lparr>me_state_key = mb_userId m,
       me_displayname = Some (mb_name m), me_membership = mb_membership m\<rparr>) (r_members rm)), s))"
  "rc_leave memory_client r s = sv_write (Left r)
     (\<lambda>rm. (set_membership (sv_user s) ''leave'' rm)\<lparr>r_myMembership := ''leave''\<rparr>) r s"
  "rc_sendPowerLevels memory_client r pl =
     sv_write (SetLevels r) (\<lambda>rm. rm\<lparr>r_powerLevels := Some pl\<rparr>) r"
  by (simp_all add: memory_client_def)

lemma demo_state_reads:
  "cm_getRoomTopic memory_client r (demo_server u) = (Inr None, demo_server u)"
  "cm_getRoomAvatarUrl memory_client r (demo_server u) = (Inr None, demo_server u)"
  "cm_getRoomType memory_client r (demo_server u) = (Inr None, demo_server u)"
  "cm_getRoomTags memory_client r (demo_server u) = (Inr None, demo_server u)"
  "cm_getRoomPowerLevels memory_client ''!r:hs'' (demo_server u) =
     (Inr (Some demo_levels), demo_server u)"
  by (simp_all add: cm_getRoomTopic_def cm_getRoomAvatarUrl_def cm_getRoomType_def
      cm_getRoomTags_def cm_getRoomPowerLevels_def missing_or_fail_def
      missing_forbidden_or_fail_def memory_client_sel io_simps demo_server_def sv_room_def
      demo_room_def)


text \<open>A client of any state whose reads answer from fixed rooms and whose writes do nothing.\<close>

definition quiet_client :: "room list \<Rightarrow> 'w rooms_client" where
  "quiet_client rooms =
     \<lparr>rc_homeServer = ''hs'', rc_slidingSync = False,
      rc_getUserId = ret (Some ''@ann:hs''),
      rc_getProfileInfo = (\<lambda>_. ret ()),
      rc_getRoom = (\<lambda>r. ret (find (\<lambda>rm. r_roomId rm = r) rooms)),
      rc_subscribeRoom = (\<lambda>_. ret ()),
      rc_roomEventOrTimeout = (\<lambda>r _. ret (find (\<lambda>rm. r_roomId rm = r) rooms)),
      rc_getRooms = ret rooms,
      rc_getJoinedRooms = ret (map r_roomId rooms),
      rc_httpState = (\<lambda>_ _. ret \<lparr>sr_type = None, sr_tags = None, sr_topic = None, sr_url = None\<rparr>),
      rc_httpMembers = (\<lambda>r. ret (case find (\<lambda>rm. r_roomId rm = r) rooms of
          None \<Rightarrow> []
        | Some rm \<Rightarrow> map (\<lambda>m. \<lparr>me_state_key = mb_userId m, me_displayname = Some (mb_name m),
            me_membership = mb_membership m\<rparr>) (r_members rm))),
      rc_statePowerLevels = (\<lambda>_. ret None),
      rc_stateMember = (\<lambda>_ _. ret None),
      rc_publicRooms = (\<lambda>_ _ _. ret \<lparr>sro_chunk = [], sro_next_batch = None, sro_prev_batch = None,
        sro_total_room_count_estimate = None\<rparr>),
      rc_createRoom = (\<lambda>_. ret ''!new:hs''),
      rc_setRoomName = (\<lambda>_ _. ret ()), rc_setRoomTopic = (\<lambda>_ _. ret ()), rc_sendAvatar = (\<lambda>_ _. ret ()),
      rc_sendPowerLevels = (\<lambda>_ _. ret ()), rc_setPowerLevel = (\<lambda>_ _ _. ret ()),
      rc_kick = (\<lambda>_ _ _. ret ()), rc_ban = (\<lambda>_ _ _. ret ()), rc_unban = (\<lambda>_ _. ret ()),
      rc_invite = (\<lambda>_ _. ret ()), rc_joinRoom = (\<lambda>_. ret ()), rc_leave = (\<lambda>_. ret ()),
      rc_forget = (\<lambda>_ _. ret ()), rc_knockRoom = (\<lambda>_ _. ret ())\<rparr>"

lemma quiet_client_pure: "room_reads_pure (quiet_client rooms)"
  by (auto simp: room_reads_pure_def quiet_client_def)

lemma quiet_client_sel [simp]:
  "rc_homeServer (quiet_client rooms) = ''hs''"
  "rc_getUserId (quiet_client rooms) = ret (Some ''@ann:hs'')"
  "rc_getProfileInfo (quiet_client rooms) u = ret ()"
  "rc_getRoom (quiet_client rooms) r = ret (find (\<lambda>rm. r_roomId rm = r) rooms)"
  "rc_getRooms (quiet_client rooms) = ret rooms"
  "rc_createRoom (quiet_client rooms) opts = ret ''!new:hs''"
  "rc_httpMembers (quiet_client rooms) r = ret (case find (\<lambda>rm. r_roomId rm = r) rooms of
     None \<Rightarrow> []
   | Some rm \<Rightarrow> map (\<lambda>m. \<lparr>me_state_key = mb_userId m, me_displayname = Some (mb_name m),
       me_membership = mb_membership m\<rparr>) (r_members rm))"
  by (simp_all add: quiet_client_def)

end
