(* ===== verification/RoomsService.thy ===== *)
theory RoomsService
  imports Homeserver
begin

text \<open>
  \<open>MatrixRoomsService\<close> (\<open>src/private/data/rooms/matrixRoomsService.ts\<close>): creating, reading
  and updating rooms, invitations, membership, and the moderation operations with their
  power-level guards. The media service an update may upload an avatar with is a
  parameter: the method \<open>uploadMediaFile\<close>, absent when the service was built without one.
\<close>

section \<open>Entities\<close>

record RoomEntity =
  re_roomId :: room_id
  re_type :: "string option"
  re_name :: "string option"
  re_description :: "string option"
  re_tags :: "string list option"
  re_avatarUrl :: "string option"
  re_powerLevels :: "RoomPowerLevelsEntity option"
  re_memberCount :: int
  re_inviter :: "HandleEntity option"

definition plain_room :: "room_id \<Rightarrow> string option \<Rightarrow> int \<Rightarrow> RoomEntity" where
  "plain_room r name count =
     \<lparr>re_roomId = r, re_type = None, re_name = name, re_description = None, re_tags = None,
      re_avatarUrl = None, re_powerLevels = None, re_memberCount = count, re_inviter = None\<rparr>"

record RoomMemberEntity =
  rme_handle :: HandleEntity
  rme_membership :: MembershipStateEntity
  rme_powerLevel :: int

record CreateRoomInput =
  cri_name :: "string option"
  cri_description :: "string option"
  cri_avatarUrl :: "string option"
  cri_invitedHandleIds :: "handle_id list"
  cri_powerLevels :: "PowerLevelsEntity option"

text \<open>
  \<open>Input<T | undefined>\<close> marks a field as being modified: \<open>None\<close> is an absent field,
  \<open>Some None\<close> an explicit \<open>{ value: undefined }\<close>.
\<close>

type_synonym 'a input = "'a option option"

record ('file, 'cred) AvatarInput =
  av_file :: 'file
  av_fileName :: string
  av_fileType :: string
  av_mediaCredential :: 'cred

record ('file, 'cred) UpdateRoomInput =
  uri_roomId :: room_id
  uri_name :: "string input"
  uri_description :: "string input"
  uri_avatar :: "('file, 'cred) AvatarInput input"
  uri_isVisible :: "bool input"
  uri_powerLevels :: "RoomPowerLevelsEntity input"

section \<open>Creating, reading and updating\<close>

definition group_initial_state :: "(string \<times> (string \<times> string) list) list" where
  "group_initial_state =
     [(''m.room.encryption'', [(''algorithm'', ''m.megolm.v1.aes-sha2'')]),
      (''com.sudoplatform.secure-comms.type'', [(''type'', room_type_value GROUP)])]"

definition rs_create :: "'w rooms_client \<Rightarrow> CreateRoomInput \<Rightarrow> ('w, RoomEntity) io" where
  "rs_create C inp =
     (let matrixUserIds = map (\<lambda>i. toMatrixUserId i (rc_homeServer C)) (cri_invitedHandleIds inp);
          levels = map_option fromEntityPowerLevelToRoomPowerLevel (cri_powerLevels inp)
      in await (cm_createRoom C
             \<lparr>co_name = cri_name inp,
              co_topic = cri_description inp,
              co_is_direct = False,
              co_visibility = ''private'',
              co_preset = ''private_chat'',
              co_invite = (if matrixUserIds \<noteq> [] then Some matrixUserIds else None),
              co_power_levels = levels,
              co_initial_state = group_initial_state\<rparr>) (\<lambda>roomId.
         ret (plain_room roomId (cri_name inp) 1
           \<lparr>re_description := cri_description inp,
            re_avatarUrl := cri_avatarUrl inp,
            re_powerLevels := levels\<rparr>)))"

definition rs_get :: "'w rooms_client \<Rightarrow> room_id \<Rightarrow> ('w, RoomEntity option) io" where
  "rs_get C roomId =
     await (cm_getRoom C roomId) (\<lambda>room.
       case room of
         None \<Rightarrow> ret None
       | Some rm \<Rightarrow>
           await (cm_getRoomTopic C roomId) (\<lambda>description.
           await (cm_getRoomAvatarUrl C roomId) (\<lambda>avatarUrl.
           await (cm_getRoomPowerLevels C roomId) (\<lambda>powerLevels.
           await (cm_getRoomType C roomId) (\<lambda>roomType.
           await (cm_getRoomTags C roomId) (\<lambda>roomTags.
             ret (Some
               \<lparr>re_roomId = r_roomId rm,
                re_type = roomType,
                re_name = Some (r_name rm),
                re_description = description,
                re_tags = roomTags,
                re_avatarUrl = avatarUrl,
                re_powerLevels = powerLevels,
                re_memberCount = r_joinedCount rm,
                re_inviter = None\<rparr>)))))))"

definition rs_update_avatar ::
    "'w rooms_client \<Rightarrow> (('file, 'cred) AvatarInput \<Rightarrow> ('w, string) io) option \<Rightarrow> room_id \<Rightarrow>
     ('file, 'cred) AvatarInput input \<Rightarrow> ('w, string option) io" where
  "rs_update_avatar C media roomId avatar =
     (case avatar of
        None \<Rightarrow> ret None
      | Some None \<Rightarrow> await (cm_setRoomAvatar C roomId None) (\<lambda>_. ret None)
      | Some (Some a) \<Rightarrow>
          (case media of
             None \<Rightarrow> throw (SecureCommsError (Some ''Media service is not available''))
           | Some upload \<Rightarrow>
               await (upload a) (\<lambda>url.
               await (cm_setRoomAvatar C roomId (Some url)) (\<lambda>_. ret (Some url)))))"

text \<open>
  The field \<open>isVisible\<close> of the input is accepted and never read.
\<close>

definition rs_update ::
    "'w rooms_client \<Rightarrow> (('file, 'cred) AvatarInput \<Rightarrow> ('w, string) io) option \<Rightarrow>
     ('file, 'cred) UpdateRoomInput \<Rightarrow> ('w, RoomEntity) io" where
  "rs_update C media inp =
     await (rs_get C (uri_roomId inp)) (\<lambda>found.
       case found of
         None \<Rightarrow> throw (RoomNotFoundError None)
       | Some room \<Rightarrow>
           await (case uri_name inp of None \<Rightarrow> ret ()
                  | Some v \<Rightarrow> cm_setRoomName C (re_roomId room) (nullish v '''')) (\<lambda>_.
           await (case uri_description inp of None \<Rightarrow> ret ()
                  | Some v \<Rightarrow> cm_setRoomTopic C (re_roomId room) (nullish v '''')) (\<lambda>_.
           await (rs_update_avatar C media (re_roomId room) (uri_avatar inp)) (\<lambda>avatarMxcUrl.
           await (case uri_powerLevels inp of
                    Some (Some pl) \<Rightarrow> cm_setRoomPowerLevels C (re_roomId room) pl
                  | _ \<Rightarrow> ret ()) (\<lambda>_.
             ret (plain_room (re_roomId room)
                    (nullish_opt (Option.bind (uri_name inp) id) (re_name room))
                    (re_memberCount room)
               \<lparr>re_description :=
                  nullish_opt (Option.bind (uri_description inp) id) (re_description room),
                re_avatarUrl := nullish_opt avatarMxcUrl (re_avatarUrl room),
                re_powerLevels :=
                  nullish_opt (Option.bind (uri_powerLevels inp) id) (re_powerLevels room)\<rparr>))))))"

definition rs_list :: "'w rooms_client \<Rightarrow> room_id list \<Rightarrow> ('w, RoomEntity list) io" where
  "rs_list C roomIds =
     await (promise_all (map (rs_get C) roomIds)) (\<lambda>rooms.
       ret (List.map_filter id rooms))"

section \<open>Members and invitations\<close>

definition room_member_of ::
    "RoomPowerLevelsEntity \<Rightarrow> RoomMemberOutput \<Rightarrow> RoomMemberEntity" where
  "room_member_of powerLevels member =
     \<lparr>rme_handle = \<lparr>he_handleId = toHandleId (mo_userId member),
                    he_name = nullish (mo_displayName member) ''''\<rparr>,
      rme_membership =
        (if truthy_str (mo_membership member)
         then membership_fromMatrixToEntity (the (mo_membership member))
         else MS_JOINED),
      rme_powerLevel = effective_level (Some powerLevels) (mo_userId member)\<rparr>"

definition rs_getMembers :: "'w rooms_client \<Rightarrow> room_id \<Rightarrow> ('w, RoomMemberEntity list) io" where
  "rs_getMembers C roomId =
     await (cm_getMembers C roomId) (\<lambda>found.
       case found of
         None \<Rightarrow> throw (RoomNotFoundError None)
       | Some members \<Rightarrow>
           await (cm_getRoomPowerLevels C roomId) (\<lambda>levels.
             case levels of
               None \<Rightarrow> throw (RoomNotFoundError None)
             | Some powerLevels \<Rightarrow> ret (map (room_member_of powerLevels) members)))"

definition rs_join :: "'w rooms_client \<Rightarrow> room_id \<Rightarrow> ('w, unit) io" where
  "rs_join C roomId = cm_joinRoom C roomId"

definition rs_leave :: "'w rooms_client \<Rightarrow> room_id \<Rightarrow> ('w, unit) io" where
  "rs_leave C roomId = cm_leaveRoom C roomId"

definition already_in_room :: "room \<Rightarrow> handle_id list" where
  "already_in_room rm =
     map (\<lambda>m. toHandleId (mb_userId m))
       (filter (\<lambda>m. case mb_membership m of None \<Rightarrow> False
                    | Some ms \<Rightarrow> ms \<in> {''join'', ''invite'', ''ban''}) (r_members rm))"

definition handles_to_invite :: "room \<Rightarrow> handle_id list \<Rightarrow> handle_id list" where
  "handles_to_invite rm targets =
     set_of_array (filter (\<lambda>h. h \<notin> set (already_in_room rm)) targets)"

definition rs_sendInvitations ::
    "'w rooms_client \<Rightarrow> room_id \<Rightarrow> handle_id list \<Rightarrow> ('w, unit) io" where
  "rs_sendInvitations C roomId targetHandleIds =
     await (cm_getRoom C roomId) (\<lambda>found.
       case found of
         None \<Rightarrow> throw (RoomNotFoundError None)
       | Some rm \<Rightarrow>
           await (promise_all
             (map (\<lambda>h. cm_invite C roomId (toMatrixUserId h (rc_homeServer C)))
                (handles_to_invite rm targetHandleIds))) (\<lambda>_. ret ()))"

definition rs_knockRoom :: "'w rooms_client \<Rightarrow> room_id \<Rightarrow> string option \<Rightarrow> ('w, unit) io" where
  "rs_knockRoom C roomId reason = cm_knockRoom C roomId reason"

definition rooms_with_membership :: "string \<Rightarrow> room list \<Rightarrow> RoomEntity list" where
  "rooms_with_membership ms rooms =
     map (\<lambda>rm. plain_room (r_roomId rm) (Some (r_name rm)) (r_joinedCount rm))
       (filter (\<lambda>rm. r_myMembership rm = ms) rooms)"

definition rs_listInvitedRooms :: "'w rooms_client \<Rightarrow> ('w, RoomEntity list) io" where
  "rs_listInvitedRooms C =
     await (cm_listRooms C) (\<lambda>rooms. ret (rooms_with_membership ''invite'' rooms))"

definition rs_listJoinedRoomIds :: "'w rooms_client \<Rightarrow> ('w, room_id list) io" where
  "rs_listJoinedRoomIds C = cm_listJoinedRooms C"

definition rs_listKnockedRooms :: "'w rooms_client \<Rightarrow> ('w, RoomEntity list) io" where
  "rs_listKnockedRooms C =
     await (cm_listRooms C) (\<lambda>rooms. ret (rooms_with_membership ''knock'' rooms))"

record ChannelInvitationRequestEntity =
  cir_channelId :: string
  cir_handleId :: handle_id
  cir_reason :: "string option"
  cir_createdAt :: "int option"

definition rs_listKnockRequests ::
    "'w rooms_client \<Rightarrow> room_id \<Rightarrow> ('w, ChannelInvitationRequestEntity list) io" where
  "rs_listKnockRequests C roomId =
     await (cm_getRoom C roomId) (\<lambda>found.
       case found of
         None \<Rightarrow> throw (RoomNotFoundError None)
       | Some rm \<Rightarrow>
           ret (map (\<lambda>m. \<lparr>cir_channelId = mb_roomId m, cir_handleId = toHandleId (mb_userId m),
                              cir_reason = None, cir_createdAt = None\<rparr>)
             (filter (\<lambda>m. mb_membership m = Some ''knock'') (r_members rm))))"

definition rs_getMembershipState ::
    "'w rooms_client \<Rightarrow> room_id \<Rightarrow> handle_id \<Rightarrow> ('w, MembershipStateEntity option) io" where
  "rs_getMembershipState C roomId handleId =
     await (cm_getMembershipState C roomId (toMatrixUserId handleId (rc_homeServer C))) (\<lambda>ms.
       ret (if truthy_str ms then Some (membership_fromMatrixToEntity (the ms)) else None))"

section \<open>Moderation\<close>

definition rs_updateRoomMemberPowerLevel ::
    "'w rooms_client \<Rightarrow> room_id \<Rightarrow> handle_id \<Rightarrow> int \<Rightarrow> ('w, unit) io" where
  "rs_updateRoomMemberPowerLevel C roomId targetHandleId powerLevel =
     await (cm_getUserId C) (\<lambda>userId.
     await (cm_getRoom C roomId) (\<lambda>found.
       case found of
         None \<Rightarrow> throw (RoomNotFoundError None)
       | Some rm \<Rightarrow>
           (let target = toMatrixUserId targetHandleId (rc_homeServer C);
                current = effective_level (r_powerLevels rm) userId;
                memberLevel = effective_level (r_powerLevels rm) target
            in if userId = target \<or> current > memberLevel
               then cm_setRoomMemberPowerLevel C (r_roomId rm) target powerLevel
               else throw (PermissionDeniedError
                 (Some ''You are not permitted to update this members role'')))))"

definition rs_kickHandle ::
    "'w rooms_client \<Rightarrow> room_id \<Rightarrow> handle_id \<Rightarrow> string option \<Rightarrow> ('w, unit) io" where
  "rs_kickHandle C roomId targetHandleId reason =
     await (cm_getUserId C) (\<lambda>userId.
     await (cm_getRoom C roomId) (\<lambda>found.
       case found of
         None \<Rightarrow> throw (RoomNotFoundError None)
       | Some rm \<Rightarrow>
           (let target = toMatrixUserId targetHandleId (rc_homeServer C);
                current = effective_level (r_powerLevels rm) userId;
                memberLevel = effective_level (r_powerLevels rm) target
            in if userId = target \<or> current > memberLevel
               then cm_kickHandle C (r_roomId rm) target reason
               else throw (PermissionDeniedError (Some ''You are not permitted to kick'')))))"

definition rs_banHandle ::
    "'w rooms_client \<Rightarrow> room_id \<Rightarrow> handle_id \<Rightarrow> string option \<Rightarrow> ('w, unit) io" where
  "rs_banHandle C roomId targetHandleId reason =
     await (cm_getUserId C) (\<lambda>userId.
     await (cm_getRoom C roomId) (\<lambda>found.
       case found of
         None \<Rightarrow> throw (RoomNotFoundError None)
       | Some rm \<Rightarrow>
           (let target = toMatrixUserId targetHandleId (rc_homeServer C);
                current = effective_level (r_powerLevels rm) userId;
                memberLevel = effective_level (r_powerLevels rm) target
            in if current > memberLevel
               then cm_banHandle C (r_roomId rm) target reason
               else throw (PermissionDeniedError (Some ''You are not permitted to ban'')))))"

definition rs_unbanHandle :: "'w rooms_client \<Rightarrow> room_id \<Rightarrow> handle_id \<Rightarrow> ('w, unit) io" where
  "rs_unbanHandle C roomId targetHandleId =
     await (cm_getUserId C) (\<lambda>userId.
     await (cm_getRoom C roomId) (\<lambda>found.
       case found of
         None \<Rightarrow> throw (RoomNotFoundError None)
       | Some rm \<Rightarrow>
           (let target = toMatrixUserId targetHandleId (rc_homeServer C);
                current = effective_level (r_powerLevels rm) userId;
                memberLevel = effective_level (r_powerLevels rm) target
            in if current > memberLevel
               then cm_unbanHandle C (r_roomId rm) target
               else throw (PermissionDeniedError (Some ''You are not permitted to unban'')))))"

section \<open>Lemmas\<close>

text \<open>
  The rule the moderation operations check: the signed-in user is the target (where that is
  allowed), or has a strictly higher effective level in the room.
\<close>

definition may_moderate ::
    "bool \<Rightarrow> 'w rooms_client \<Rightarrow> room_id \<Rightarrow> handle_id \<Rightarrow> 'w \<Rightarrow> bool" where
  "may_moderate self C roomId h w =
     (case (fst (cm_getUserId C w), fst (cm_getRoom C roomId w)) of
        (Inr u, Inr (Some rm)) \<Rightarrow>
          (let target = toMatrixUserId h (rc_homeServer C)
           in (self \<and> u = target)
              \<or> effective_level (r_powerLevels rm) target < effective_level (r_powerLevels rm) u)
      | _ \<Rightarrow> False)"

lemma moderation_reads:
  assumes "room_reads_pure C"
  shows "snd (cm_getUserId C w) = w" "snd (cm_getRoom C r w) = w"
  using assms by (auto intro!: reads_onlyD)

lemma reads_only_rs_get [intro]:
  assumes "room_reads_pure C"
  shows "reads_only (rs_get C r)"
  unfolding rs_get_def
  using reads_only_getRoom [OF assms] reads_only_state_reads [OF assms]
    reads_only_getRoomPowerLevels [OF assms]
  by (auto intro!: reads_only_await split: option.split)

lemma set_already_in_room:
  "h \<in> set (already_in_room rm) \<longleftrightarrow>
     (\<exists>m \<in> set (r_members rm). toHandleId (mb_userId m) = h
        \<and> mb_membership m \<in> {Some ''join'', Some ''invite'', Some ''ban''})"
  by (force simp: already_in_room_def split: option.splits)

lemma rs_update_name_step:
  assumes "rs_get C (uri_roomId inp) w = (Inr (Some room), w1)"
    and "uri_name inp = Some v"
    and "rs_update C media inp w = (Inr e, w')"
  shows "\<exists>w2. cm_setRoomName C (re_roomId room) (nullish v '''') w1 = (Inr (), w2)
    \<and> re_name e = nullish_opt v (re_name room) \<and> re_roomId e = re_roomId room"
proof -
  from assms(3)[unfolded rs_update_def] assms(1)
  have "\<exists>w2. cm_setRoomName C (re_roomId room) (nullish v '''') w1 = (Inr (), w2)"
    by (auto simp: assms(2) await_Inr_iff)
  moreover have "re_name e = nullish_opt v (re_name room) \<and> re_roomId e = re_roomId room"
    using assms(3)[unfolded rs_update_def] assms(1)
    by (auto simp: assms(2) plain_room_def await_Inr_iff ret_apply)
  ultimately show ?thesis by blast
qed

lemma demo_rs_get:
  "rs_get memory_client ''!r:hs'' (demo_server u) =
     (Inr (Some (plain_room ''!r:hs'' (Some ''club'') 3
        \<lparr>re_powerLevels := Some demo_levels\<rparr>)), demo_server u)"
  by (simp add: rs_get_def demo_getRoom demo_state_reads io_simps demo_room_def plain_room_def)

definition clear_name :: "(unit, unit) UpdateRoomInput" where
  "clear_name = \<lparr>uri_roomId = ''!r:hs'', uri_name = Some None, uri_description = None,
     uri_avatar = None, uri_isVisible = None, uri_powerLevels = None\<rparr>"

section \<open>Properties\<close>

text \<open>
  C1: Nobody is moderated by an equal. For every Matrix client whose reads leave its state
  alone: kicking a member or changing a member's role ends in an error and changes
  nothing unless the signed-in user is that member or has a strictly higher effective
  power level in the room; banning and unbanning need the strictly higher level even for
  oneself.
\<close>

theorem moderation_guard:
  assumes "room_reads_pure C"
  shows "(\<not> may_moderate True C r h w \<longrightarrow>
      (\<exists>e. rs_kickHandle C r h reason w = (Inl e, w))
      \<and> (\<exists>e. rs_updateRoomMemberPowerLevel C r h l w = (Inl e, w)))
    \<and> (\<not> may_moderate False C r h w \<longrightarrow>
      (\<exists>e. rs_banHandle C r h reason w = (Inl e, w))
      \<and> (\<exists>e. rs_unbanHandle C r h w = (Inl e, w)))"
  using moderation_reads [OF assms]
  by (auto simp: may_moderate_def rs_kickHandle_def rs_updateRoomMemberPowerLevel_def
      rs_banHandle_def rs_unbanHandle_def io_simps Let_def split: sum.splits option.splits)

theorem moderation_guard_witness:
  "\<exists>e. rs_banHandle memory_client ''!r:hs'' ''ann'' None (demo_server ''@bob:hs'') =
     (Inl e, demo_server ''@bob:hs'')"
proof -
  have "\<not> may_moderate False memory_client ''!r:hs'' ''ann'' (demo_server ''@bob:hs'')"
    by (simp add: may_moderate_def demo_getUserId demo_getRoom demo_room_def demo_levels_def
        effective_level_def user_entry_def toMatrixUserId_def)
  then show ?thesis
    using moderation_guard [OF memory_client_pure] by blast
qed

text \<open>
  C20: An invitation goes to everyone who needs one, once. Sending invitations to a room that
  is found makes one invite call for each requested handle that is not already joined,
  invited or banned, in the order of first request, never two for the same handle, and an
  invite that fails does not keep the later ones from being made.
\<close>

theorem invitations_exact:
  assumes "cm_getRoom C r w = (Inr (Some rm), w1)"
  shows "snd (rs_sendInvitations C r targets w) =
      foldl (\<lambda>w h. snd (cm_invite C r (toMatrixUserId h (rc_homeServer C)) w)) w1
        (handles_to_invite rm targets)
    \<and> distinct (handles_to_invite rm targets)
    \<and> set (handles_to_invite rm targets) =
        {h \<in> set targets. \<not> (\<exists>m \<in> set (r_members rm). toHandleId (mb_userId m) = h
           \<and> mb_membership m \<in> {Some ''join'', Some ''invite'', Some ''ban''})}"
proof -
  have "foldl (\<lambda>w m. snd (m w)) w1
      (map (\<lambda>h. cm_invite C r (toMatrixUserId h (rc_homeServer C))) hs) =
    foldl (\<lambda>w h. snd (cm_invite C r (toMatrixUserId h (rc_homeServer C)) w)) w1 hs" for hs
    by (induction hs arbitrary: w1) simp_all
  then show ?thesis
    using assms
    by (auto simp: rs_sendInvitations_def io_simps promise_all_state handles_to_invite_def
        set_already_in_room split: sum.split)
qed

theorem invitations_exact_witness:
  "set (handles_to_invite demo_room [''bob'', ''eve'', ''dan'', ''eve'']) = {''eve''}"
proof -
  have "set (handles_to_invite demo_room [''bob'', ''eve'', ''dan'', ''eve'']) =
      {h \<in> {''bob'', ''eve'', ''dan''}. \<not> (\<exists>m \<in> set (r_members demo_room).
         toHandleId (mb_userId m) = h
         \<and> mb_membership m \<in> {Some ''join'', Some ''invite'', Some ''ban''})}"
    using invitations_exact [OF demo_getRoom [of "''@ann:hs''"],
        of "[''bob'', ''eve'', ''dan'', ''eve'']"] by auto
  also have "\<dots> = {''eve''}"
    by (auto simp: demo_room_def demo_member_def toHandleId_def js_index_def)
  finally show ?thesis .
qed

text \<open>
  Clearing a room's name is reported wrongly. When an update with the name field present
  but undefined succeeds, the server was told to set the empty name, and the entity the
  caller gets back still carries the old name.
\<close>

theorem update_reports_old_name:
  assumes "rs_get C (uri_roomId inp) w = (Inr (Some room), w1)"
    and "uri_name inp = Some None"
    and "rs_update C media inp w = (Inr e, w')"
  shows "(\<exists>w2. cm_setRoomName C (re_roomId room) '''' w1 = (Inr (), w2)) \<and> re_name e = re_name room"
  using rs_update_name_step [OF assms] by auto

theorem update_reports_old_name_witness:
  "\<exists>e w'. rs_update memory_client None clear_name (demo_server ''@ann:hs'') = (Inr e, w')
    \<and> re_name e = Some ''club'' \<and> SetName ''!r:hs'' '''' \<in> set (sv_calls w')"
proof -
  let ?w = "demo_server ''@ann:hs''"
  obtain e w' where upd: "rs_update memory_client None clear_name ?w = (Inr e, w')"
    and call: "SetName ''!r:hs'' '''' \<in> set (sv_calls w')"
    by (simp add: rs_update_def rs_update_avatar_def demo_rs_get cm_setRoomName_def or_fail_def
        clear_name_def memory_client_sel sv_write_def plain_room_def io_simps)
  have "re_name e = Some ''club''"
    using update_reports_old_name [of memory_client clear_name ?w _ _ None e w', OF _ _ upd]
    by (auto simp: demo_rs_get plain_room_def clear_name_def)
  with upd call show ?thesis by blast
qed

end
