(* ===== verification/Channels.thy ===== *)
theory Channels
  imports ApiClient RoomsService
begin

text \<open>
  Channels: the entities, the transformers between the service, the domain and the public
  API (\<open>src/private/data/channels/transformer\<close>), \<open>DefaultChannelsService\<close>
  (\<open>src/private/data/channels/defaultChannelsService.ts\<close>) and
  \<open>DefaultWordValidationService\<close>. Dates are the integral milliseconds they are made from.
  The generator of the fallback name (\<open>uuid\<close>) is a parameter.
\<close>

section \<open>Entities\<close>

record ChannelEntity =
  ce_channelId :: string
  ce_name :: "string option"
  ce_description :: "string option"
  ce_avatarUrl :: "string option"
  ce_joinRule :: "ChannelJoinRuleEntity option"
  ce_tags :: "string list"
  ce_permissions :: "ChannelPermissionsEntity option"
  ce_defaultMemberRole :: "ChannelRoleEntity option"
  ce_memberCount :: int
  ce_createdAt :: int
  ce_updatedAt :: int
  ce_inviter :: "HandleEntity option"

record Channel =
  cha_channelId :: string
  cha_name :: "string option"
  cha_description :: "string option"
  cha_avatarUrl :: "string option"
  cha_joinRule :: "ChannelJoinRule option"
  cha_tags :: "string list"
  cha_permissions :: ChannelPermissions
  cha_defaultMemberRole :: "ChannelRole option"
  cha_memberCount :: int
  cha_createdAt :: int
  cha_updatedAt :: int
  cha_inviter :: "HandleEntity option"

record PublicChannelSearchResultEntity =
  ps_channelId :: string
  ps_name :: string
  ps_description :: "string option"
  ps_avatarUrl :: "string option"
  ps_joinRule :: PublicChannelJoinRuleEntity
  ps_tags :: "string list"
  ps_memberCount :: int
  ps_createdAt :: int
  ps_updatedAt :: int

record PublicChannelSearchResult =
  psa_channelId :: string
  psa_name :: string
  psa_description :: "string option"
  psa_avatarUrl :: "string option"
  psa_joinRule :: PublicChannelJoinRule
  psa_tags :: "string list"
  psa_memberCount :: int
  psa_createdAt :: int
  psa_updatedAt :: int

record ChannelMemberEntity =
  cme_handle :: HandleEntity
  cme_membership :: MembershipStateEntity
  cme_role :: ChannelRoleEntity

record ChannelMember =
  cma_handle :: HandleEntity
  cma_membership :: MembershipState
  cma_role :: ChannelRole

record CreateChannelInput =
  cci_selfHandleId :: string
  cci_name :: "string option"
  cci_description :: "string option"
  cci_joinRule :: ChannelJoinRuleEntity
  cci_tags :: "string list"
  cci_invitedHandleIds :: "string list"
  cci_powerLevels :: "PowerLevelsEntity option"
  cci_avatarUrl :: "string option"
  cci_avatarImageMetadata :: "string option"

record UpdateChannelInput =
  uci_selfHandleId :: string
  uci_channelId :: string
  uci_name :: "string input"
  uci_description :: "string input"
  uci_tags :: "string list option"
  uci_joinRule :: "ChannelJoinRuleEntity option"
  uci_avatarUrl :: "string input"
  uci_avatarImageMetadata :: "string input"

record SearchPublicChannelsInput =
  spi_selfHandleId :: string
  spi_order :: ChannelSortOrderEntity
  spi_searchTerm :: "string option"
  spi_joinRule :: "PublicChannelJoinRuleEntity option"
  spi_isJoined :: "bool option"
  spi_tags :: "string list option"
  spi_limit :: "int option"
  spi_nextToken :: "string option"

section \<open>Transformers\<close>

definition channel_fromGraphQLToEntity :: "SecureCommsChannel \<Rightarrow> ChannelEntity" where
  "channel_fromGraphQLToEntity d =
     \<lparr>ce_channelId = sc_id d,
      ce_name = Some (sc_name d),
      ce_description = sc_description d,
      ce_avatarUrl = sc_avatarImageUrl d,
      ce_joinRule = Some (join_rule_fromGraphQLToEntity (sc_joinRule d)),
      ce_tags = sc_tags d,
      ce_permissions = None,
      ce_defaultMemberRole = None,
      ce_memberCount = int (length (sc_members d)),
      ce_createdAt = sc_createdAtEpochMs d,
      ce_updatedAt = sc_updatedAtEpochMs d,
      ce_inviter = None\<rparr>"

definition public_channel_info_fromGraphQLToEntity ::
    "PublicSecureCommsChannelInfo \<Rightarrow> ChannelEntity" where
  "public_channel_info_fromGraphQLToEntity d =
     \<lparr>ce_channelId = pc_id d,
      ce_name = Some (pc_name d),
      ce_description = pc_description d,
      ce_avatarUrl = pc_avatarImageUrl d,
      ce_joinRule = Some (join_rule_fromGraphQLToEntity (pc_joinRule d)),
      ce_tags = pc_tags d,
      ce_permissions = None,
      ce_defaultMemberRole = None,
      ce_memberCount = 0,
      ce_createdAt = pc_createdAtEpochMs d,
      ce_updatedAt = pc_updatedAtEpochMs d,
      ce_inviter = None\<rparr>"

definition search_result_fromGraphQLToEntity ::
    "ListedSecureCommsChannelInfo \<Rightarrow> PublicChannelSearchResultEntity" where
  "search_result_fromGraphQLToEntity d =
     \<lparr>ps_channelId = lc_id d,
      ps_name = lc_name d,
      ps_description = lc_description d,
      ps_avatarUrl = lc_avatarImageUrl d,
      ps_joinRule = public_rule_fromGraphQLToEntity (lc_joinRule d),
      ps_tags = lc_tags d,
      ps_memberCount = lc_memberCount d,
      ps_createdAt = lc_createdAtEpochMs d,
      ps_updatedAt = lc_updatedAtEpochMs d\<rparr>"

definition search_result_fromEntityToAPI ::
    "PublicChannelSearchResultEntity \<Rightarrow> PublicChannelSearchResult" where
  "search_result_fromEntityToAPI e =
     \<lparr>psa_channelId = ps_channelId e,
      psa_name = ps_name e,
      psa_description = ps_description e,
      psa_avatarUrl = ps_avatarUrl e,
      psa_joinRule = public_rule_fromEntityToAPI (ps_joinRule e),
      psa_tags = ps_tags e,
      psa_memberCount = ps_memberCount e,
      psa_createdAt = ps_createdAt e,
      psa_updatedAt = ps_updatedAt e\<rparr>"

definition channel_member_fromRoomToEntity :: "RoomMemberEntity \<Rightarrow> ChannelMemberEntity" where
  "channel_member_fromRoomToEntity e =
     \<lparr>cme_handle = rme_handle e,
      cme_membership = rme_membership e,
      cme_role = channel_fromPowerLevelToEntity (rme_powerLevel e)\<rparr>"

definition channel_member_fromEntityToAPI :: "ChannelMemberEntity \<Rightarrow> ChannelMember" where
  "channel_member_fromEntityToAPI e =
     \<lparr>cma_handle = cme_handle e,
      cma_membership = membership_fromEntityToAPI (cme_membership e),
      cma_role = channel_role_fromEntityToAPI (cme_role e)\<rparr>"

definition default_channel_permissions_api :: ChannelPermissions where
  "default_channel_permissions_api =
     \<lparr>ca_sendMessages = CR_PARTICIPANT,
      ca_inviteHandles = CR_PARTICIPANT,
      ca_kickHandles = CR_MODERATOR,
      ca_banHandles = CR_MODERATOR,
      ca_changeChannelName = CR_MODERATOR,
      ca_changeChannelDescription = CR_MODERATOR,
      ca_changeChannelAvatar = CR_MODERATOR,
      ca_deleteOthersMessages = CR_MODERATOR\<rparr>"

definition channel_fromEntityToAPI :: "ChannelEntity \<Rightarrow> Channel" where
  "channel_fromEntityToAPI e =
     \<lparr>cha_channelId = ce_channelId e,
      cha_name = ce_name e,
      cha_description = ce_description e,
      cha_avatarUrl = ce_avatarUrl e,
      cha_joinRule = map_option join_rule_fromEntityToAPI (ce_joinRule e),
      cha_tags = ce_tags e,
      cha_permissions =
        (case ce_permissions e of
           Some p \<Rightarrow> channel_permissions_fromEntityToAPI p
         | None \<Rightarrow> default_channel_permissions_api),
      cha_defaultMemberRole = map_option channel_role_fromEntityToAPI (ce_defaultMemberRole e),
      cha_memberCount = ce_memberCount e,
      cha_createdAt = ce_createdAt e,
      cha_updatedAt = ce_updatedAt e,
      cha_inviter = ce_inviter e\<rparr>"

text \<open>\<open>{ mimeType }\<close> is the mime type itself.\<close>

definition avatar_metadata_fromEntityToGraphQL :: "string \<Rightarrow> string" where
  "avatar_metadata_fromEntityToGraphQL mimeType = mimeType"

section \<open>The channels service\<close>

text \<open>
  \<open>ks\<close> is the order of the keys of the event levels in the input object, which
  \<open>Object.entries\<close> follows.
\<close>

definition ch_create ::
    "'w graphql_client \<Rightarrow> string list \<Rightarrow> ('w, string) io \<Rightarrow> CreateChannelInput \<Rightarrow>
     ('w, ChannelEntity) io" where
  "ch_create G ks v4 inp =
     await (case cci_name inp of Some n \<Rightarrow> ret n | None \<Rightarrow> v4) (\<lambda>name.
     await (api_createSecureCommsChannel G
       \<lparr>csc_avatarImageMetadata =
          map_option avatar_metadata_fromEntityToGraphQL (cci_avatarImageMetadata inp),
        csc_avatarImageUrl = cci_avatarUrl inp,
        csc_creatorHandleId = cci_selfHandleId inp,
        csc_description = cci_description inp,
        csc_invitations = Some (cci_invitedHandleIds inp),
        csc_joinRule = join_rule_fromEntityToGraphQL (cci_joinRule inp),
        csc_name = name,
        csc_powerLevels = map_option (channel_fromEntityToGraphQLInput ks) (cci_powerLevels inp),
        csc_tags = Some (cci_tags inp)\<rparr>) (\<lambda>result.
       ret (channel_fromGraphQLToEntity result)))"

definition ch_get :: "'w graphql_client \<Rightarrow> string \<Rightarrow> ('w, ChannelEntity option) io" where
  "ch_get G i =
     await (api_getSecureCommsChannel G i) (\<lambda>result.
       ret (case result of
              None \<Rightarrow> None
            | Some d \<Rightarrow> Some
               \<lparr>ce_channelId = pc_id d,
                ce_name = Some (pc_name d),
                ce_description = pc_description d,
                ce_avatarUrl = pc_avatarImageUrl d,
                ce_joinRule = Some (join_rule_fromGraphQLToEntity (pc_joinRule d)),
                ce_tags = pc_tags d,
                ce_permissions = None,
                ce_defaultMemberRole = None,
                ce_memberCount = 0,
                ce_createdAt = pc_createdAtEpochMs d,
                ce_updatedAt = pc_updatedAtEpochMs d,
                ce_inviter = None\<rparr>))"

text \<open>
  The request of an update: a present field with a value is set, a description or avatar
  that is present but undefined is unset.
\<close>

definition update_channel_request :: "UpdateChannelInput \<Rightarrow> UpdateSecureCommsChannelInput" where
  "update_channel_request inp =
     \<lparr>usc_id = uci_channelId inp,
      usc_handleId = uci_selfHandleId inp,
      usc_set =
        \<lparr>us_avatarImageMetadata =
           map_option avatar_metadata_fromEntityToGraphQL
             (Option.bind (uci_avatarImageMetadata inp) id),
         us_avatarImageUrl = Option.bind (uci_avatarUrl inp) id,
         us_description = Option.bind (uci_description inp) id,
         us_joinRule = map_option join_rule_fromEntityToGraphQL (uci_joinRule inp),
         us_name = Option.bind (uci_name inp) id,
         us_tags = uci_tags inp\<rparr>,
      usc_unset =
        (if uci_description inp = Some None then [OP_Description] else []) @
        (if uci_avatarUrl inp = Some None then [OP_AvatarImageUrl] else [])\<rparr>"

definition ch_update ::
    "'w graphql_client \<Rightarrow> UpdateChannelInput \<Rightarrow> ('w, ChannelEntity) io" where
  "ch_update G inp =
     await (api_updateSecureCommsChannel G (update_channel_request inp)) (\<lambda>result.
       ret (public_channel_info_fromGraphQLToEntity result))"

definition ch_delete :: "'w graphql_client \<Rightarrow> string \<Rightarrow> string \<Rightarrow> ('w, unit) io" where
  "ch_delete G channelId selfHandleId =
     await (api_deleteSecureCommsChannel G channelId selfHandleId) (\<lambda>_. ret ())"

record ListChannelsOutput =
  lco_channels :: "ChannelEntity list"
  lco_unprocessedIds :: "string list"

definition ch_list :: "'w graphql_client \<Rightarrow> string list \<Rightarrow> ('w, ListChannelsOutput) io" where
  "ch_list G ids =
     await (api_listSecureCommsChannels G ids) (\<lambda>result.
       ret \<lparr>lco_channels = map public_channel_info_fromGraphQLToEntity (bp_items result),
            lco_unprocessedIds = bp_unprocessedIds result\<rparr>)"

definition ch_search ::
    "'w graphql_client \<Rightarrow> SearchPublicChannelsInput \<Rightarrow>
     ('w, PublicChannelSearchResultEntity list \<times> string option) io" where
  "ch_search G inp =
     await (api_listSecureCommsPublicChannels G
       \<lparr>lpc_handleId = spi_selfHandleId inp,
        lpc_search = spi_searchTerm inp,
        lpc_tags = spi_tags inp,
        lpc_isJoined = spi_isJoined inp,
        lpc_joinRule = map_option public_rule_fromEntityToGraphQL (spi_joinRule inp),
        lpc_ordering = sort_order_fromEntityToGraphQL (spi_order inp),
        lpc_limit = spi_limit inp,
        lpc_nextToken = spi_nextToken inp\<rparr>) (\<lambda>result.
       ret (map search_result_fromGraphQLToEntity (lcc_items result), lcc_nextToken result))"

section \<open>Word validation\<close>

text \<open>Sets are lists without repetition, in insertion order.\<close>

definition checkWordValidity ::
    "'w graphql_client \<Rightarrow> string list \<Rightarrow> ('w, string list) io" where
  "checkWordValidity G words =
     await (api_checkSecureCommsWordValidity G words) (\<lambda>result. ret (set_of_array result))"

end
