(* ===== verification/Json.thy ===== *)
theory Json
  imports Prelude
begin

text \<open>
  JavaScript values as the content of Matrix events holds them: JSON values, and \<open>undefined\<close>,
  which a property can also hold once code has built an object. Reads, truthiness and the
  spread of objects are written out; a read of a property of \<open>undefined\<close> or \<open>null\<close> is
  the run-time \<open>TypeError\<close>. Numbers are integers: the code only compares and copies them.
\<close>

datatype json =
    JUndef
  | JNull
  | JBool bool
  | JNum int
  | JStr string
  | JArr "json list"
  | JObj "(string \<times> json) list"

type_synonym json_object = "(string \<times> json) list"

definition obj_get :: "json_object \<Rightarrow> string \<Rightarrow> json" where
  "obj_get kvs k = nullish (map_of kvs k) JUndef"

text \<open>\<open>v.k\<close>\<close>

fun js_get :: "string \<Rightarrow> json \<Rightarrow> json result" where
  "js_get k JUndef = Inl TypeError"
| "js_get k JNull = Inl TypeError"
| "js_get k (JObj kvs) = Inr (obj_get kvs k)"
| "js_get k (JBool b) = Inr JUndef"
| "js_get k (JNum n) = Inr JUndef"
| "js_get k (JStr s) = Inr JUndef"
| "js_get k (JArr xs) = Inr JUndef"

text \<open>\<open>v?.k\<close>\<close>

fun js_opt :: "string \<Rightarrow> json \<Rightarrow> json" where
  "js_opt k (JObj kvs) = obj_get kvs k"
| "js_opt k v = JUndef"

fun js_truthy :: "json \<Rightarrow> bool" where
  "js_truthy JUndef = False"
| "js_truthy JNull = False"
| "js_truthy (JBool b) = b"
| "js_truthy (JNum n) = (n \<noteq> 0)"
| "js_truthy (JStr s) = (s \<noteq> '''')"
| "js_truthy (JArr xs) = True"
| "js_truthy (JObj kvs) = True"

definition js_or :: "json \<Rightarrow> json \<Rightarrow> json" where
  "js_or a b = (if js_truthy a then a else b)"

text \<open>\<open>a ?? b\<close>\<close>

definition js_nullish :: "json \<Rightarrow> json \<Rightarrow> json" where
  "js_nullish a b = (if a = JUndef \<or> a = JNull then b else a)"

text \<open>\<open>{ ...a, ...b }\<close>\<close>

definition js_spread :: "json_object \<Rightarrow> json_object \<Rightarrow> json_object" where
  "js_spread a b = foldl (\<lambda>m (k, v). map_set k v m) a b"

text \<open>\<open>...(v && { k: v })\<close>\<close>

definition spread_if :: "string \<Rightarrow> json \<Rightarrow> json_object" where
  "spread_if k v = (if js_truthy v then [(k, v)] else [])"

text \<open>\<open>v.map(f)\<close>: only an array has the method.\<close>

fun js_map :: "(json \<Rightarrow> json result) \<Rightarrow> json \<Rightarrow> json list result" where
  "js_map f (JArr xs) = map_result f xs"
| "js_map f v = Inl TypeError"

text \<open>A string or an absent one, as a value.\<close>

definition js_of_str :: "string option \<Rightarrow> json" where
  "js_of_str s = (case s of None \<Rightarrow> JUndef | Some x \<Rightarrow> JStr x)"

lemma map_of_js_spread:
  "map_of (js_spread a b) k = (case map_of (rev b) k of None \<Rightarrow> map_of a k | Some v \<Rightarrow> Some v)"
proof (induction b arbitrary: a)
  case (Cons e b)
  obtain k' v' where "e = (k', v')" by (cases e)
  then show ?case
    using Cons.IH [of "map_set k' v' a"]
    by (auto simp: js_spread_def map_of_map_set map_add_def split: option.splits)
qed (simp add: js_spread_def)

lemma obj_get_spread_same:
  "map_of (rev b) k = None \<Longrightarrow> obj_get (js_spread a b) k = obj_get a k"
  by (simp add: obj_get_def map_of_js_spread)

end
