(* ===== verification/Media.thy ===== *)
theory Media
  imports ApiClient Json "HOL-Library.Word"
begin

text \<open>
  Media: credentials and their cache (\<open>src/private/data/media/mediaCredentialManager.ts\<close>),
  the S3 client (\<open>src/private/data/common/s3Client.ts\<close>), the media service that names
  objects and content URIs (\<open>src/private/data/media/matrixMediaService.ts\<close>), the helpers
  of \<open>src/private/util/mediaUtil.ts\<close> and \<open>cryptoUtil.ts\<close>, and the download use case.

  The AWS SDK, the identity pool, the random identifier and the attachment cipher of the
  Matrix SDK are not part of the repository; they are the record \<open>media_env\<close>.
\<close>

type_synonym bytes = "8 word list"

section \<open>Strings\<close>

fun replace_first :: "char \<Rightarrow> char \<Rightarrow> string \<Rightarrow> string" where
  "replace_first a b [] = []"
| "replace_first a b (x # xs) = (if x = a then b # xs else x # replace_first a b xs)"

fun js_startsWith :: "string \<Rightarrow> string \<Rightarrow> bool" where
  "js_startsWith s [] = True"
| "js_startsWith [] (p # ps) = False"
| "js_startsWith (x # xs) (p # ps) = (x = p \<and> js_startsWith xs ps)"

fun js_includes :: "string \<Rightarrow> string \<Rightarrow> bool" where
  "js_includes [] sub = (sub = [])"
| "js_includes (x # xs) sub = (js_startsWith (x # xs) sub \<or> js_includes xs sub)"

section \<open>Entities and environment\<close>

record FileEncryptionInfoEntity =
  fe_key :: json
  fe_iv :: string
  fe_v :: "string option"
  fe_hashes :: "string option option"

definition file_encryption_fromAPIToEntity ::
    "FileEncryptionInfoEntity \<Rightarrow> FileEncryptionInfoEntity" where
  "file_encryption_fromAPIToEntity d =
     \<lparr>fe_key = fe_key d, fe_iv = fe_iv d, fe_v = fe_v d, fe_hashes = fe_hashes d\<rparr>"

record MediaCredentialEntity =
  mc_accessKeyId :: string
  mc_secretAccessKey :: string
  mc_sessionToken :: string
  mc_bucket :: string
  mc_region :: string
  mc_keyPrefix :: "string option"
  mc_forWrite :: bool

record RoomMediaCredentialEntity =
  rmc_accessKeyId :: string
  rmc_secretAccessKey :: string
  rmc_sessionToken :: string
  rmc_keyPrefix :: string
  rmc_expiry :: int

datatype PublicMediaType = AVATARS | MEDIA

fun public_media_value :: "PublicMediaType \<Rightarrow> string" where
  "public_media_value AVATARS = ''avatars/''"
| "public_media_value MEDIA = ''media/''"

record SecureCommsServiceConfig =
  cfg_region :: string
  cfg_serviceEndpointUrl :: string
  cfg_homeServer :: string
  cfg_advancedSearchEnabled :: bool
  cfg_roomMediaBucket :: string
  cfg_publicMediaBucket :: string

record IdentityServiceConfig =
  idc_region :: string
  idc_poolId :: string
  idc_identityPoolId :: string

record aws_credential =
  aws_accessKeyId :: string
  aws_secretAccessKey :: string
  aws_sessionToken :: "string option"

record put_object =
  po_bucket :: string
  po_key :: string
  po_body :: bytes
  po_contentType :: string
  po_contentMD5 :: string

text \<open>A failing S3 command throws an error with a name and a message.\<close>

type_synonym ('w, 'a) s3_call = "'w \<Rightarrow> ((string \<times> string) + 'a) \<times> 'w"

record 'w media_env =
  env_config :: SecureCommsServiceConfig
  env_identity :: IdentityServiceConfig
  env_graphql :: "'w graphql_client"
  env_latestAuthToken :: "('w, string) io"
  env_cognito :: "string \<Rightarrow> string \<times> string \<Rightarrow> string \<Rightarrow> ('w, aws_credential) io"
  env_now :: "('w, int) io"
  env_uuid :: "('w, string) io"
  env_md5 :: "bytes \<Rightarrow> string"
  env_s3_put :: "string \<Rightarrow> string \<times> string \<times> string \<Rightarrow> put_object \<Rightarrow> ('w, unit) s3_call"
  env_s3_get :: "string \<Rightarrow> string \<times> string \<times> string \<Rightarrow> string \<times> string \<Rightarrow> ('w, bytes option) s3_call"
  env_decryptAttachment :: "bytes \<Rightarrow> FileEncryptionInfoEntity \<Rightarrow> ('w, bytes) io"

section \<open>Hashes\<close>

text \<open>
  \<open>hexToBase64\<close>: two hexadecimal digits to a byte, three bytes to four characters. The
  input is the digest of the \<open>md5\<close> package, an even number of hexadecimal digits.
\<close>

definition hex_digit :: "char \<Rightarrow> nat" where
  "hex_digit c =
     (if of_char c \<ge> (97::nat) then of_char c - 87
      else if of_char c \<ge> (65::nat) then of_char c - 55
      else of_char c - 48)"

fun hex_bytes :: "string \<Rightarrow> nat list" where
  "hex_bytes (c # d # cs) = (16 * hex_digit c + hex_digit d) # hex_bytes cs"
| "hex_bytes _ = []"

definition b64_alphabet :: string where
  "b64_alphabet = ''ABCDEFGHIJKLMNOPQRSTUVWXYZabcdefghijklmnopqrstuvwxyz0123456789+/''"

definition b64_char :: "nat \<Rightarrow> char" where
  "b64_char n = b64_alphabet ! (n mod 64)"

fun btoa :: "nat list \<Rightarrow> string" where
  "btoa [] = ''''"
| "btoa [a] = [b64_char (a div 4), b64_char ((a mod 4) * 16), CHR ''='', CHR ''='']"
| "btoa [a, b] =
     [b64_char (a div 4), b64_char ((a mod 4) * 16 + b div 16), b64_char ((b mod 16) * 4), CHR ''='']"
| "btoa (a # b # c # rest) =
     [b64_char (a div 4), b64_char ((a mod 4) * 16 + b div 16),
      b64_char ((b mod 16) * 4 + c div 64), b64_char (c mod 64)] @ btoa rest"

definition hexToBase64 :: "string \<Rightarrow> string" where
  "hexToBase64 hex = btoa (hex_bytes hex)"

definition getBase64EncodedMd5Hash :: "'w media_env \<Rightarrow> bytes \<Rightarrow> string" where
  "getBase64EncodedMd5Hash E inp = hexToBase64 (env_md5 E inp)"

section \<open>S3\<close>

definition s3_credentials :: "MediaCredentialEntity \<Rightarrow> string \<times> string \<times> string" where
  "s3_credentials c = (mc_accessKeyId c, mc_secretAccessKey c, mc_sessionToken c)"

definition s3_upload ::
    "'w media_env \<Rightarrow> MediaCredentialEntity \<Rightarrow> string \<Rightarrow> string \<Rightarrow> string \<Rightarrow> bytes \<Rightarrow> string \<Rightarrow>
     ('w, string) io" where
  "s3_upload E cred bucket region key body contentType w =
     (case env_s3_put E region (s3_credentials cred)
         \<lparr>po_bucket = bucket, po_key = key, po_body = body, po_contentType = contentType,
          po_contentMD5 = getBase64EncodedMd5Hash E body\<rparr> w of
        (Inr _, w') \<Rightarrow> (Inr key, w')
      | (Inl (name, message), w') \<Rightarrow> (Inl (S3UploadError (Some (name @ '': '' @ message))), w'))"

text \<open>
  An answer without a body is thrown inside the \<open>try\<close> block and rewrapped by its own
  \<open>catch\<close>.
\<close>

definition s3_download ::
    "'w media_env \<Rightarrow> MediaCredentialEntity \<Rightarrow> string \<Rightarrow> string \<Rightarrow> string \<Rightarrow> ('w, bytes) io" where
  "s3_download E cred bucket region key w =
     (case env_s3_get E region (s3_credentials cred) (bucket, key) w of
        (Inr (Some body), w') \<Rightarrow> (Inr body, w')
      | (Inr None, w') \<Rightarrow>
          (Inl (S3DownloadError (Some ''S3DownloadError: Did not find the file to download'')), w')
      | (Inl (name, message), w') \<Rightarrow> (Inl (S3DownloadError (Some (name @ '': '' @ message))), w'))"

section \<open>Object keys and content URIs\<close>

definition object_key :: "MediaCredentialEntity \<Rightarrow> string \<Rightarrow> string" where
  "object_key cred mediaId = nullish (mc_keyPrefix cred) '''' @ mediaId"

definition sanitize_key :: "string \<Rightarrow> string" where
  "sanitize_key url =
     map (\<lambda>c. if c = CHR ''/'' then CHR ''_'' else c) (dropWhile (\<lambda>c. c = CHR ''/'') url)"

definition media_url :: "string \<Rightarrow> string \<Rightarrow> string \<Rightarrow> string" where
  "media_url bucket region key =
     ''mxc://'' @ bucket @ ''.s3.'' @ region @ ''.amazonaws.com/'' @ sanitize_key key"

definition uploadMediaFile ::
    "'w media_env \<Rightarrow> MediaCredentialEntity \<Rightarrow> bytes \<Rightarrow> string \<Rightarrow> string \<Rightarrow> ('w, string) io" where
  "uploadMediaFile E cred file fileName fileType =
     await (env_uuid E) (\<lambda>mediaId.
     await (s3_upload E cred (mc_bucket cred) (mc_region cred) (object_key cred mediaId) file fileType)
       (\<lambda>url. ret (media_url (mc_bucket cred) (mc_region cred) url)))"

definition download_key :: "string \<Rightarrow> string" where
  "download_key uri =
     (let mediaIdPart = last (js_split CHR ''/'' uri)
      in replace_first CHR ''_'' CHR ''/''
           (if CHR ''_'' \<in> set mediaIdPart then mediaIdPart else ''media_'' @ mediaIdPart))"

definition cm_decryptFile ::
    "'w media_env \<Rightarrow> bytes \<Rightarrow> FileEncryptionInfoEntity \<Rightarrow> ('w, bytes) io" where
  "cm_decryptFile E file info =
     try_catch (env_decryptAttachment E file info) (\<lambda>_. throw (PlainError ''Failed to decrypt file''))"

definition downloadMediaFile ::
    "'w media_env \<Rightarrow> MediaCredentialEntity \<Rightarrow> string \<Rightarrow> FileEncryptionInfoEntity option \<Rightarrow>
     ('w, bytes) io" where
  "downloadMediaFile E cred uri encryptionInfo =
     await (s3_download E cred (mc_bucket cred) (mc_region cred) (download_key uri)) (\<lambda>file.
       case encryptionInfo of
         Some info \<Rightarrow> cm_decryptFile E file info
       | None \<Rightarrow> ret file)"

datatype MsgType = MT_File | MT_Image | MT_Video | MT_Audio

definition getMsgType :: "string \<Rightarrow> MsgType" where
  "getMsgType mimeType =
     (if js_startsWith mimeType ''image'' then MT_Image
      else if js_startsWith mimeType ''video'' then MT_Video
      else if js_startsWith mimeType ''audio'' then MT_Audio
      else MT_File)"

text \<open>
  \<open>new URL(s).pathname\<close> for a URL of the form \<open>scheme://host/path\<close>, up to a query or
  fragment; anything without \<open>://\<close> throws. Percent-encoding and dot segments, which no
  object key has, are not modelled.
\<close>

fun after_scheme :: "string \<Rightarrow> string option" where
  "after_scheme [] = None"
| "after_scheme (x # xs) =
     (if js_startsWith (x # xs) ''://'' then Some (drop 2 xs) else after_scheme xs)"

definition url_pathname :: "string \<Rightarrow> string option" where
  "url_pathname s =
     map_option (\<lambda>rest. takeWhile (\<lambda>c. c \<noteq> CHR ''?'' \<and> c \<noteq> CHR ''#'')
        (dropWhile (\<lambda>c. c \<noteq> CHR ''/'' \<and> c \<noteq> CHR ''?'' \<and> c \<noteq> CHR ''#'') rest)) (after_scheme s)"

definition extractObjectKeyPrefix :: "string \<Rightarrow> string option result" where
  "extractObjectKeyPrefix mxcUrl =
     (case url_pathname mxcUrl of
        None \<Rightarrow> Inl (SecureCommsError (Some (''Invalid media URL: '' @ mxcUrl)))
      | Some path \<Rightarrow>
          if CHR ''_'' \<notin> set path then Inr None
          else Inr (case js_index (js_split CHR ''/'' path) 1 of
                      None \<Rightarrow> None
                    | Some seg \<Rightarrow> js_index (js_split CHR ''_'' seg) 0))"

text \<open>A template literal prints an undefined value as \<open>undefined\<close>.\<close>

definition extractRoomId :: "string \<Rightarrow> string \<Rightarrow> string result" where
  "extractRoomId mxcUrl homeServer =
     (case extractObjectKeyPrefix mxcUrl of
        Inl e \<Rightarrow> Inl e
      | Inr keyPrefix \<Rightarrow> Inr (''!'' @ nullish keyPrefix ''undefined'' @ '':'' @ homeServer))"

definition extractPublicMediaType :: "string \<Rightarrow> PublicMediaType option result" where
  "extractPublicMediaType mxcUrl =
     (case extractObjectKeyPrefix mxcUrl of
        Inl e \<Rightarrow> Inl e
      | Inr keyPrefix \<Rightarrow>
          if \<not> truthy_str keyPrefix then Inr None
          else if the keyPrefix @ ''/'' = public_media_value AVATARS then Inr (Some AVATARS)
          else if the keyPrefix @ ''/'' = public_media_value MEDIA then Inr (Some MEDIA)
          else Inr None)"

section \<open>Credentials\<close>

definition getPublicMediaCredential ::
    "'w media_env \<Rightarrow> bool \<Rightarrow> PublicMediaType option \<Rightarrow> ('w, MediaCredentialEntity) io" where
  "getPublicMediaCredential E forWrite publicMediaType =
     await (env_latestAuthToken E) (\<lambda>authToken.
     await (env_cognito E (idc_identityPoolId (env_identity E))
        (''cognito-idp.'' @ idc_region (env_identity E) @ ''.amazonaws.com/'' @ idc_poolId (env_identity E),
         authToken)
        (cfg_region (env_config E))) (\<lambda>credential.
       ret \<lparr>mc_accessKeyId = aws_accessKeyId credential,
            mc_secretAccessKey = aws_secretAccessKey credential,
            mc_sessionToken = nullish (aws_sessionToken credential) '''',
            mc_bucket = cfg_publicMediaBucket (env_config E),
            mc_region = cfg_region (env_config E),
            mc_keyPrefix = map_option public_media_value publicMediaType,
            mc_forWrite = forWrite\<rparr>))"

definition media_credential_get ::
    "'w media_env \<Rightarrow> handle_id \<Rightarrow> bool \<Rightarrow> room_id \<Rightarrow> ('w, RoomMediaCredentialEntity) io" where
  "media_credential_get E handleId forWrite roomId =
     await (api_getMediaBucketCredential (env_graphql E)
       \<lparr>gm_handleId = handleId,
        gm_operation = (if forWrite then MBO_ReadWrite else MBO_Read),
        gm_roomId = roomId\<rparr>) (\<lambda>result.
       ret \<lparr>rmc_accessKeyId = mbc_accessKeyId result,
            rmc_secretAccessKey = mbc_secretAccessKey result,
            rmc_sessionToken = mbc_sessionToken result,
            rmc_keyPrefix = mbc_keyPrefix result,
            rmc_expiry = mbc_expiration result\<rparr>)"

text \<open>
  The cache is a JavaScript \<open>Map\<close> whose keys are objects, compared by identity. An object
  identity is a number that the allocation counter gives out: the key of a lookup is a
  new object, whatever its fields hold.
\<close>

record media_cache =
  mm_next :: nat
  mm_entries :: "nat \<rightharpoonup> RoomMediaCredentialEntity"

definition empty_cache :: media_cache where
  "empty_cache = \<lparr>mm_next = 0, mm_entries = Map.empty\<rparr>"

definition room_credential ::
    "'w media_env \<Rightarrow> bool \<Rightarrow> RoomMediaCredentialEntity \<Rightarrow> MediaCredentialEntity" where
  "room_credential E forWrite credential =
     \<lparr>mc_accessKeyId = rmc_accessKeyId credential,
      mc_secretAccessKey = rmc_secretAccessKey credential,
      mc_sessionToken = rmc_sessionToken credential,
      mc_bucket = cfg_roomMediaBucket (env_config E),
      mc_region = cfg_region (env_config E),
      mc_keyPrefix = Some (rmc_keyPrefix credential),
      mc_forWrite = forWrite\<rparr>"

definition getRoomMediaCredential ::
    "'w media_env \<Rightarrow> media_cache \<Rightarrow> handle_id \<Rightarrow> bool \<Rightarrow> room_id \<Rightarrow>
     ('w, MediaCredentialEntity \<times> media_cache) io" where
  "getRoomMediaCredential E cache handleId forWrite roomId =
     (let cacheKey = mm_next cache;
          cached = mm_entries cache cacheKey;
          cache1 = cache\<lparr>mm_next := cacheKey + 1\<rparr>
      in await (case cached of
                  None \<Rightarrow> ret None
                | Some c \<Rightarrow> await (env_now E) (\<lambda>now.
                    ret (if rmc_expiry c > now + 120000 then Some c else None))) (\<lambda>valid.
         case valid of
           Some c \<Rightarrow> ret (room_credential E forWrite c, cache1)
         | None \<Rightarrow>
             await (media_credential_get E handleId forWrite roomId) (\<lambda>c.
               ret (room_credential E forWrite c,
                    cache1\<lparr>mm_entries := (mm_entries cache1)(cacheKey \<mapsto> c)\<rparr>))))"

section \<open>The download use case\<close>

definition download_getMediaCredential ::
    "'w media_env \<Rightarrow> media_cache \<Rightarrow> handle_id \<Rightarrow> string \<Rightarrow>
     ('w, MediaCredentialEntity \<times> media_cache) io" where
  "download_getMediaCredential E cache handleId uri =
     (if js_includes uri (cfg_roomMediaBucket (env_config E))
      then await (lift_result (extractRoomId uri (cfg_homeServer (env_config E)))) (\<lambda>roomId.
             getRoomMediaCredential E cache handleId False roomId)
      else if js_includes uri (cfg_publicMediaBucket (env_config E))
      then await (lift_result (extractPublicMediaType uri)) (\<lambda>publicMediaType.
           await (getPublicMediaCredential E False publicMediaType) (\<lambda>c. ret (c, cache)))
      else await (getPublicMediaCredential E False (Some MEDIA)) (\<lambda>c. ret (c, cache)))"

definition uc_downloadMediaFile ::
    "'w media_env \<Rightarrow> (handle_id \<Rightarrow> ('w, 'c) io) \<Rightarrow> media_cache \<Rightarrow> handle_id \<Rightarrow> string \<Rightarrow>
     FileEncryptionInfoEntity option \<Rightarrow> ('w, bytes \<times> media_cache) io" where
  "uc_downloadMediaFile E getMatrixClient cache handleId uri encryptionInfo =
     await (getMatrixClient handleId) (\<lambda>_.
     await (download_getMediaCredential E cache handleId uri) (\<lambda>(mediaCredential, cache').
     await (downloadMediaFile E mediaCredential uri encryptionInfo) (\<lambda>file.
       ret (file, cache'))))"

section \<open>Lemmas\<close>

lemma js_split_last: "last (js_split c (s @ c # t)) = last (js_split c t)"
proof (induction s)
  case Nil
  then show ?case using js_split_nonempty [of c t] by simp
next
  case (Cons a s)
  obtain y ys where yys: "js_split c (s @ c # t) = y # ys"
    using js_split_nonempty by (metis list.exhaust)
  moreover have "ys \<noteq> []"
  proof
    assume "ys = []"
    with yys have "length (js_split c (s @ c # t)) = 1" by simp
    moreover have "length (js_split c (s @ c # t)) \<ge> 2"
    proof (induction s)
      case Nil
      then show ?case using js_split_nonempty [of c t] by (cases "js_split c t") simp_all
    next
      case (Cons a s)
      then show ?case by (auto split: list.splits)
    qed
    ultimately show False by simp
  qed
  ultimately show ?case using Cons.IH by auto
qed

lemma replace_first_mid: "a \<notin> set s \<Longrightarrow> replace_first a b (s @ a # t) = s @ b # t"
  by (induction s) auto

lemma js_startsWith_append: "js_startsWith (p @ s) p"
  by (induction p) simp_all

lemma js_startsWith_iff: "js_startsWith s p \<longleftrightarrow> (\<exists>t. s = p @ t)"
  by (induction s p rule: js_startsWith.induct) auto

lemma map_slash_id:
  "CHR ''/'' \<notin> set s \<Longrightarrow> map (\<lambda>c. if c = CHR ''/'' then CHR ''_'' else c) s = s"
  by (rule map_idI) auto

lemma sanitize_key_folder:
  assumes "p \<noteq> []" "CHR ''/'' \<notin> set p" "CHR ''/'' \<notin> set i"
  shows "sanitize_key (p @ ''/'' @ i) = p @ ''_'' @ i"
proof -
  have "dropWhile (\<lambda>c. c = CHR ''/'') (p @ ''/'' @ i) = p @ ''/'' @ i"
    using assms by (cases p) auto
  then show ?thesis
    using assms by (simp add: sanitize_key_def map_slash_id del: map_append)
      (simp add: map_slash_id)
qed

lemma media_url_last:
  assumes "CHR ''/'' \<notin> set (sanitize_key k)"
  shows "last (js_split CHR ''/'' (media_url b r k)) = sanitize_key k"
proof -
  have "media_url b r k =
      (''mxc://'' @ b @ ''.s3.'' @ r @ ''.amazonaws.com'') @ CHR ''/'' # sanitize_key k"
    by (simp add: media_url_def)
  then have "last (js_split CHR ''/'' (media_url b r k)) = last (js_split CHR ''/'' (sanitize_key k))"
    by (simp only: js_split_last)
  also have "\<dots> = sanitize_key k"
    using assms by (simp add: js_split_no_sep)
  finally show ?thesis .
qed

lemma sanitize_no_slash: "CHR ''/'' \<notin> set (sanitize_key k)"
  by (auto simp: sanitize_key_def)

text \<open>The key read back from the URI of an object in the folder \<open>p/\<close>.\<close>

lemma download_key_folder:
  assumes "p \<noteq> []" "CHR ''/'' \<notin> set p" "CHR ''/'' \<notin> set i"
  shows "download_key (media_url b r (p @ ''/'' @ i)) =
    replace_first CHR ''_'' CHR ''/'' (p @ ''_'' @ i)"
  using assms
  by (simp add: download_key_def Let_def media_url_last [OF sanitize_no_slash] sanitize_key_folder
      del: append.simps append_Cons)

lemma s3_upload_Inr:
  assumes "s3_upload E cred bucket region key body ct w = (Inr u, w')"
  shows "u = key" and "env_s3_put E region (s3_credentials cred)
    \<lparr>po_bucket = bucket, po_key = key, po_body = body, po_contentType = ct,
     po_contentMD5 = getBase64EncodedMd5Hash E body\<rparr> w = (Inr (), w')"
  using assms by (auto simp: s3_upload_def split: sum.splits prod.splits)

lemma uploadMediaFile_Inr:
  assumes "uploadMediaFile E cred file name ct w = (Inr uri, w')"
  obtains i w1 where "env_uuid E w = (Inr i, w1)"
    and "env_s3_put E (mc_region cred) (s3_credentials cred)
      \<lparr>po_bucket = mc_bucket cred, po_key = object_key cred i, po_body = file, po_contentType = ct,
       po_contentMD5 = getBase64EncodedMd5Hash E file\<rparr> w1 = (Inr (), w')"
    and "uri = media_url (mc_bucket cred) (mc_region cred) (object_key cred i)"
  using assms
  by (auto simp: uploadMediaFile_def await_Inr_iff ret_apply dest: s3_upload_Inr)

lemma replace_first_head:
  "CHR ''_'' \<in> set p \<Longrightarrow> \<exists>q. replace_first CHR ''_'' CHR ''/'' (p @ t) = q @ t
     \<and> length q = length p \<and> CHR ''/'' \<in> set q"
proof (induction p)
  case (Cons x p)
  show ?case
  proof (cases "x = CHR ''_''")
    case True
    then show ?thesis by (intro exI [of _ "CHR ''/'' # p"]) simp
  next
    case False
    with Cons obtain q where "replace_first CHR ''_'' CHR ''/'' (p @ t) = q @ t"
      "length q = length p" "CHR ''/'' \<in> set q" by auto
    with False show ?thesis by (intro exI [of _ "x # q"]) simp
  qed
qed simp

lemma key_read_back_iff:
  assumes "p \<noteq> []" "CHR ''/'' \<notin> set p" "CHR ''/'' \<notin> set i"
  shows "download_key (media_url b r (p @ ''/'' @ i)) = p @ ''/'' @ i \<longleftrightarrow> CHR ''_'' \<notin> set p"
proof (cases "CHR ''_'' \<in> set p")
  case True
  from replace_first_head [OF this, of "''_'' @ i"] obtain q where
    q: "replace_first CHR ''_'' CHR ''/'' (p @ ''_'' @ i) = q @ ''_'' @ i"
    "length q = length p" "CHR ''/'' \<in> set q" by blast
  have "q \<noteq> p" using q(3) assms(2) by blast
  then have "q @ ''_'' @ i \<noteq> p @ ''/'' @ i" using q(2) by simp
  then show ?thesis using True q(1) download_key_folder [OF assms] by simp
next
  case False
  then show ?thesis
    using download_key_folder [OF assms] replace_first_mid [OF False, of "CHR ''/''" i] by simp
qed

text \<open>Where an upload into the folder \<open>p/\<close> stores the file, a download of its URI looks.\<close>

lemma upload_then_get:
  assumes store: "\<And>region c ob w w' region' c'. env_s3_put E region c ob w = (Inr (), w') \<Longrightarrow>
      env_s3_get E region' c' (po_bucket ob, po_key ob) w' = (Inr (Some (po_body ob)), w')"
    and uuid: "\<And>w i w'. env_uuid E w = (Inr i, w') \<Longrightarrow> CHR ''/'' \<notin> set i"
    and folder: "mc_keyPrefix cred = Some (p @ ''/'')" "p \<noteq> []" "CHR ''/'' \<notin> set p" "CHR ''_'' \<notin> set p"
    and up: "uploadMediaFile E cred file name ct w = (Inr uri, w')"
    and same: "mc_bucket cred' = mc_bucket cred"
  shows "downloadMediaFile E cred' uri info w' =
    (case info of None \<Rightarrow> ret file | Some i \<Rightarrow> cm_decryptFile E file i) w'"
proof -
  from up obtain i w1 where i: "env_uuid E w = (Inr i, w1)"
    and s3: "env_s3_put E (mc_region cred) (s3_credentials cred)
      \<lparr>po_bucket = mc_bucket cred, po_key = object_key cred i, po_body = file, po_contentType = ct,
       po_contentMD5 = getBase64EncodedMd5Hash E file\<rparr> w1 = (Inr (), w')"
    and uri: "uri = media_url (mc_bucket cred) (mc_region cred) (object_key cred i)"
    by (rule uploadMediaFile_Inr)
  have key: "object_key cred i = p @ ''/'' @ i" by (simp add: object_key_def folder(1))
  have "download_key uri = p @ ''/'' @ i"
    unfolding uri key using key_read_back_iff [OF folder(2,3) uuid [OF i]] folder(4) by blast
  with store [OF s3] same key show ?thesis
    by (simp add: downloadMediaFile_def s3_download_def io_simps)
qed

text \<open>
  An environment over any transport whose store is off line, and one over a store of objects
  by bucket and key.
\<close>

definition plain_env :: "'w graphql_client \<Rightarrow> 'w media_env" where
  "plain_env G =
     \<lparr>env_config = \<lparr>cfg_region = ''r'', cfg_serviceEndpointUrl = ''https://hs'', cfg_homeServer = ''hs'', cfg_advancedSearchEnabled = False,
        cfg_roomMediaBucket = ''rooms'', cfg_publicMediaBucket = ''public''\<rparr>,
      env_identity = \<lparr>idc_region = ''r'', idc_poolId = ''p'', idc_identityPoolId = ''i''\<rparr>,
      env_graphql = G,
      env_latestAuthToken = ret ''token'',
      env_cognito = (\<lambda>_ _ _. ret \<lparr>aws_accessKeyId = ''a'', aws_secretAccessKey = ''s'',
        aws_sessionToken = None\<rparr>),
      env_now = ret 0,
      env_uuid = ret ''4f1d'',
      env_md5 = (\<lambda>_. ''00''),
      env_s3_put = (\<lambda>_ _ ob w. (Inl (''E'', ''offline''), w)),
      env_s3_get = (\<lambda>_ _ k w. (Inl (''E'', ''offline''), w)),
      env_decryptAttachment = (\<lambda>file _. ret file)\<rparr>"

definition store_env :: "(string \<times> string \<rightharpoonup> bytes) media_env" where
  "store_env = (plain_env offline_client)
     \<lparr>env_s3_put := (\<lambda>_ _ ob w. (Inr (), w((po_bucket ob, po_key ob) \<mapsto> po_body ob))),
      env_s3_get := (\<lambda>_ _ k w. (Inr (w k), w))\<rparr>"

definition store_credential :: MediaCredentialEntity where
  "store_credential =
     \<lparr>mc_accessKeyId = ''a'', mc_secretAccessKey = ''s'', mc_sessionToken = ''t'',
      mc_bucket = ''rooms'', mc_region = ''r'', mc_keyPrefix = Some ''room1/'', mc_forWrite = True\<rparr>"

section \<open>Properties\<close>

text \<open>
  An uploaded file is downloaded from where it was stored. For every store that answers a
  get with what the last put to that bucket and key wrote: when an upload with the
  credential's folder \<open>p/\<close> succeeds, a download of the returned URI with a credential for
  the same bucket returns the file, provided the folder name holds no underscore and no
  slash and the random identifier no slash.
\<close>

theorem upload_download_roundtrip:
  assumes "\<And>region c ob w w' region' c'. env_s3_put E region c ob w = (Inr (), w') \<Longrightarrow>
      env_s3_get E region' c' (po_bucket ob, po_key ob) w' = (Inr (Some (po_body ob)), w')"
    and "\<And>w i w'. env_uuid E w = (Inr i, w') \<Longrightarrow> CHR ''/'' \<notin> set i"
    and "mc_keyPrefix cred = Some (p @ ''/'')" "p \<noteq> []" "CHR ''/'' \<notin> set p" "CHR ''_'' \<notin> set p"
    and "uploadMediaFile E cred file name ct w = (Inr uri, w')"
    and "mc_bucket cred' = mc_bucket cred"
  shows "downloadMediaFile E cred' uri None w' = (Inr file, w')"
  using upload_then_get [OF assms, where info = None] by (simp add: ret_apply)

theorem upload_download_roundtrip_witness:
  "\<exists>uri w'. uploadMediaFile store_env store_credential [1, 2] ''f'' ''t'' Map.empty = (Inr uri, w')
     \<and> downloadMediaFile store_env store_credential uri None w' = (Inr [1, 2], w')"
proof -
  obtain uri w' where up: "uploadMediaFile store_env store_credential [1, 2] ''f'' ''t'' Map.empty
      = (Inr uri, w')"
    by (simp add: uploadMediaFile_def s3_upload_def store_env_def plain_env_def io_simps)
  have "downloadMediaFile store_env store_credential uri None w' = (Inr [1, 2], w')"
    by (rule upload_download_roundtrip [where E = store_env and p = "''room1''" and
          cred = store_credential, OF _ _ _ _ _ _ up])
      (auto simp: store_env_def plain_env_def store_credential_def ret_def)
  with up show ?thesis by blast
qed

text \<open>
  Exactly the folders without an underscore survive. For an object in a non-empty folder
  \<open>p/\<close> the key read back from its content URI is its key if and only if the folder name
  has no underscore: a room whose media folder contains one loses its media.
\<close>

theorem media_key_read_back_iff:
  assumes "p \<noteq> []" "CHR ''/'' \<notin> set p" "CHR ''/'' \<notin> set i"
  shows "download_key (media_url b r (p @ ''/'' @ i)) = p @ ''/'' @ i \<longleftrightarrow> CHR ''_'' \<notin> set p"
  using assms by (rule key_read_back_iff)

theorem media_key_read_back_iff_witness:
  "download_key (media_url ''b'' ''r'' ''room_1/abc'') \<noteq> ''room_1/abc''
   \<and> download_key (media_url ''b'' ''r'' ''room1/abc'') = ''room1/abc''"
  using media_key_read_back_iff [of "''room_1''" "''abc''" "''b''" "''r''"]
    media_key_read_back_iff [of "''room1''" "''abc''" "''b''" "''r''"] by simp

fun get_room_credentials ::
    "'w media_env \<Rightarrow> media_cache \<Rightarrow> (handle_id \<times> bool \<times> room_id) list \<Rightarrow>
     ('w, MediaCredentialEntity list) io" where
  "get_room_credentials E cache [] = ret []"
| "get_room_credentials E cache ((h, fw, r) # reqs) =
     await (getRoomMediaCredential E cache h fw r) (\<lambda>(c, cache').
     await (get_room_credentials E cache' reqs) (\<lambda>cs. ret (c # cs)))"

fun fetch_room_credentials ::
    "'w media_env \<Rightarrow> (handle_id \<times> bool \<times> room_id) list \<Rightarrow> ('w, MediaCredentialEntity list) io" where
  "fetch_room_credentials E [] = ret []"
| "fetch_room_credentials E ((h, fw, r) # reqs) =
     await (media_credential_get E h fw r) (\<lambda>c.
     await (fetch_room_credentials E reqs) (\<lambda>cs. ret (room_credential E fw c # cs)))"

definition fresh_cache :: "media_cache \<Rightarrow> bool" where
  "fresh_cache cache \<longleftrightarrow> (\<forall>k \<in> dom (mm_entries cache). k < mm_next cache)"

lemma fresh_cache_miss: "fresh_cache cache \<Longrightarrow> mm_entries cache (mm_next cache) = None"
  by (auto simp: fresh_cache_def)

lemma get_credentials_fresh:
  "fresh_cache cache \<Longrightarrow> get_room_credentials E cache reqs = fetch_room_credentials E reqs"
proof (induction reqs arbitrary: cache)
  case (Cons req reqs)
  obtain h fw r where req: "req = (h, fw, r)" by (cases req)
  have next_fresh: "fresh_cache (cache\<lparr>mm_next := mm_next cache + 1,
      mm_entries := (mm_entries cache)(mm_next cache \<mapsto> c)\<rparr>)" for c
    using Cons.prems by (auto simp: fresh_cache_def dom_def less_Suc_eq split: if_splits)
  show ?case
    unfolding req
    by (simp add: getRoomMediaCredential_def Let_def fresh_cache_miss [OF Cons.prems] await_assoc
        Cons.IH [OF next_fresh, simplified])
qed simp

text \<open>
  The room credential cache never answers. Starting from the empty cache, however many
  credentials are requested and whatever their expiry, every request calls the service:
  the credentials and the outside state are those of the same requests without a cache.
\<close>

theorem credential_cache_never_hits:
  "get_room_credentials E empty_cache reqs = fetch_room_credentials E reqs"
  by (rule get_credentials_fresh) (simp add: fresh_cache_def empty_cache_def)

end
