(* ===== verification/ChannelUseCases.thy ===== *)
theory ChannelUseCases
  imports Channels Media
begin

text \<open>
  The use cases of channels (\<open>src/private/domain/use-cases/channels\<close>): each obtains the
  Matrix client of the handle, calls the rooms service or the channels service, and most
  wait a moment for the server to settle.

  What a use case is constructed with is the record \<open>sdk\<close>: the session manager's
  \<open>getMatrixClient\<close>, the media environment with its GraphQL client, and the timer.
\<close>

record 'w sdk =
  sdk_getMatrixClient :: "handle_id \<Rightarrow> ('w, 'w rooms_client) io"
  sdk_media :: "'w media_env"
  sdk_delay :: "int \<Rightarrow> ('w, unit) io"
  sdk_uuid :: "('w, string) io"

abbreviation sdk_graphql :: "'w sdk \<Rightarrow> 'w graphql_client" where
  "sdk_graphql S \<equiv> env_graphql (sdk_media S)"

text \<open>\<open>const matrixRoomsService = new MatrixRoomsService(await getMatrixClient(handleId))\<close>\<close>

definition with_rooms ::
    "'w sdk \<Rightarrow> handle_id \<Rightarrow> ('w rooms_client \<Rightarrow> ('w, 'a) io) \<Rightarrow> ('w, 'a) io" where
  "with_rooms S handleId f = await (sdk_getMatrixClient S handleId) f"

text \<open>The action, then a delay that lets the server settle.\<close>

definition then_delay :: "'w sdk \<Rightarrow> ('w, 'a) io \<Rightarrow> ('w, 'a) io" where
  "then_delay S m = await m (\<lambda>x. await (sdk_delay S 3000) (\<lambda>_. ret x))"

section \<open>Word validation\<close>

text \<open>
  The gate of every use case that takes free text from the user: the set of words must have
  as many elements as the set of valid words the service answers.
\<close>

definition check_words :: "'w sdk \<Rightarrow> string list \<Rightarrow> ('w, unit) io" where
  "check_words S words =
     (let wordsToValidate = set_of_array words in
      await (checkWordValidity (sdk_graphql S) wordsToValidate) (\<lambda>validWords.
        if length wordsToValidate \<noteq> length validWords
        then throw (UnacceptableWordsError None) else ret ()))"

definition name_words :: "string option \<Rightarrow> string list" where
  "name_words name = (if truthy_str name then [the name] else [])"

section \<open>Membership and moderation\<close>

definition ucc_acceptInvitation :: "'w sdk \<Rightarrow> handle_id \<Rightarrow> string \<Rightarrow> ('w, unit) io" where
  "ucc_acceptInvitation S handleId channelId =
     then_delay S (with_rooms S handleId (\<lambda>C. rs_join C channelId))"

definition ucc_declineInvitation :: "'w sdk \<Rightarrow> handle_id \<Rightarrow> string \<Rightarrow> ('w, unit) io" where
  "ucc_declineInvitation S handleId channelId =
     then_delay S (with_rooms S handleId (\<lambda>C. rs_leave C channelId))"

definition ucc_leaveChannel :: "'w sdk \<Rightarrow> handle_id \<Rightarrow> string \<Rightarrow> ('w, unit) io" where
  "ucc_leaveChannel S handleId channelId =
     then_delay S (with_rooms S handleId (\<lambda>C. rs_leave C channelId))"

definition ucc_joinChannel :: "'w sdk \<Rightarrow> handle_id \<Rightarrow> string \<Rightarrow> ('w, unit) io" where
  "ucc_joinChannel S handleId channelId = with_rooms S handleId (\<lambda>C. rs_join C channelId)"

definition ucc_sendInvitationRequest ::
    "'w sdk \<Rightarrow> handle_id \<Rightarrow> string \<Rightarrow> string option \<Rightarrow> ('w, unit) io" where
  "ucc_sendInvitationRequest S handleId channelId reason =
     with_rooms S handleId (\<lambda>C. rs_knockRoom C channelId reason)"

definition ucc_sendInvitations ::
    "'w sdk \<Rightarrow> handle_id \<Rightarrow> string \<Rightarrow> handle_id list \<Rightarrow> ('w, unit) io" where
  "ucc_sendInvitations S handleId channelId targetHandleIds =
     then_delay S (with_rooms S handleId (\<lambda>C. rs_sendInvitations C channelId targetHandleIds))"

definition ucc_withdrawInvitation ::
    "'w sdk \<Rightarrow> handle_id \<Rightarrow> string \<Rightarrow> handle_id \<Rightarrow> ('w, unit) io" where
  "ucc_withdrawInvitation S handleId channelId targetHandleId =
     then_delay S (with_rooms S handleId (\<lambda>C. rs_kickHandle C channelId targetHandleId None))"

definition ucc_kickHandle ::
    "'w sdk \<Rightarrow> handle_id \<Rightarrow> string \<Rightarrow> handle_id \<Rightarrow> string option \<Rightarrow> ('w, unit) io" where
  "ucc_kickHandle S handleId channelId targetHandleId reason =
     then_delay S (with_rooms S handleId (\<lambda>C. rs_kickHandle C channelId targetHandleId reason))"

definition ucc_banHandle ::
    "'w sdk \<Rightarrow> handle_id \<Rightarrow> string \<Rightarrow> handle_id \<Rightarrow> string option \<Rightarrow> ('w, unit) io" where
  "ucc_banHandle S handleId channelId targetHandleId reason =
     then_delay S (with_rooms S handleId (\<lambda>C. rs_banHandle C channelId targetHandleId reason))"

definition ucc_unbanHandle ::
    "'w sdk \<Rightarrow> handle_id \<Rightarrow> string \<Rightarrow> handle_id \<Rightarrow> ('w, unit) io" where
  "ucc_unbanHandle S handleId channelId targetHandleId =
     then_delay S (with_rooms S handleId (\<lambda>C. rs_unbanHandle C channelId targetHandleId))"

definition ucc_updateChannelMemberRole ::
    "'w sdk \<Rightarrow> handle_id \<Rightarrow> string \<Rightarrow> handle_id \<Rightarrow> ChannelRoleEntity \<Rightarrow> ('w, unit) io" where
  "ucc_updateChannelMemberRole S handleId channelId targetHandleId role =
     (let powerLevel = channel_fromEntityToPowerLevel role
      in then_delay S (with_rooms S handleId (\<lambda>C.
           rs_updateRoomMemberPowerLevel C channelId targetHandleId powerLevel)))"

definition ucc_getChannelMembers ::
    "'w sdk \<Rightarrow> handle_id \<Rightarrow> string \<Rightarrow> ('w, ChannelMemberEntity list) io" where
  "ucc_getChannelMembers S handleId channelId =
     with_rooms S handleId (\<lambda>C.
       await (rs_getMembers C channelId) (\<lambda>members.
         ret (map channel_member_fromRoomToEntity members)))"

definition ucc_getChannelMembership ::
    "'w sdk \<Rightarrow> handle_id \<Rightarrow> string \<Rightarrow> ('w, MembershipStateEntity option) io" where
  "ucc_getChannelMembership S handleId channelId =
     with_rooms S handleId (\<lambda>C. rs_getMembershipState C channelId handleId)"

definition ucc_listReceivedInvitationRequests ::
    "'w sdk \<Rightarrow> handle_id \<Rightarrow> string \<Rightarrow> ('w, ChannelInvitationRequestEntity list) io" where
  "ucc_listReceivedInvitationRequests S handleId channelId =
     with_rooms S handleId (\<lambda>C. rs_listKnockRequests C channelId)"

section \<open>Creating, deleting and searching\<close>

record CreateChannelUseCaseInput =
  ccu_handleId :: handle_id
  ccu_name :: "string option"
  ccu_description :: "string option"
  ccu_joinRule :: ChannelJoinRuleEntity
  ccu_tags :: "string list"
  ccu_invitedHandleIds :: "handle_id list"
  ccu_permissions :: ChannelPermissionsInputEntity
  ccu_defaultMemberRole :: ChannelRoleEntity

text \<open>The order in which \<open>toInitialPowerLevels\<close> writes the event levels.\<close>

definition event_level_keys :: "string list" where
  "event_level_keys =
     [''m.room.name'', ''m.room.topic'', ''m.room.avatar'', ''m.reaction'', ''m.room.redaction'']"

definition ucc_createChannel ::
    "'w sdk \<Rightarrow> CreateChannelUseCaseInput \<Rightarrow> ('w, ChannelEntity) io" where
  "ucc_createChannel S inp =
     await (check_words S (ccu_tags inp @ name_words (ccu_name inp))) (\<lambda>_.
       ch_create (sdk_graphql S) event_level_keys (sdk_uuid S)
         \<lparr>cci_selfHandleId = ccu_handleId inp,
          cci_name = ccu_name inp,
          cci_description = ccu_description inp,
          cci_joinRule = ccu_joinRule inp,
          cci_tags = ccu_tags inp,
          cci_invitedHandleIds = ccu_invitedHandleIds inp,
          cci_powerLevels =
            Some (toInitialPowerLevels (ccu_permissions inp) (ccu_defaultMemberRole inp)),
          cci_avatarUrl = None,
          cci_avatarImageMetadata = None\<rparr>)"

definition ucc_deleteChannel :: "'w sdk \<Rightarrow> handle_id \<Rightarrow> string \<Rightarrow> ('w, unit) io" where
  "ucc_deleteChannel S handleId channelId = ch_delete (sdk_graphql S) channelId handleId"

definition ucc_searchPublicChannels ::
    "'w sdk \<Rightarrow> SearchPublicChannelsInput \<Rightarrow>
     ('w, PublicChannelSearchResultEntity list \<times> string option) io" where
  "ucc_searchPublicChannels S inp = ch_search (sdk_graphql S) inp"

section \<open>Reading\<close>

text \<open>
  The permissions read from the power levels, every field of which is present, as the
  permissions of the entity.
\<close>

definition given_permissions :: "ChannelPermissionsInputEntity \<Rightarrow> ChannelPermissionsEntity" where
  "given_permissions p =
     \<lparr>cp_sendMessages = the (ci_sendMessages p),
      cp_inviteHandles = the (ci_inviteHandles p),
      cp_kickHandles = the (ci_kickHandles p),
      cp_banHandles = the (ci_banHandles p),
      cp_changeChannelName = the (ci_changeChannelName p),
      cp_changeChannelDescription = the (ci_changeChannelDescription p),
      cp_changeChannelAvatar = the (ci_changeChannelAvatar p),
      cp_deleteOthersMessages = the (ci_deleteOthersMessages p)\<rparr>"

text \<open>\<open>{ ...channel, ...(powerLevels ?? {}), memberCount }\<close>\<close>

definition spread_levels ::
    "ChannelEntity \<Rightarrow> (ChannelPermissionsInputEntity \<times> ChannelRoleEntity) option \<Rightarrow> int \<Rightarrow>
     ChannelEntity" where
  "spread_levels channel powerLevels memberCount =
     (case powerLevels of
        None \<Rightarrow> channel\<lparr>ce_memberCount := memberCount\<rparr>
      | Some (permissions, role) \<Rightarrow>
          channel\<lparr>ce_permissions := Some (given_permissions permissions),
                  ce_defaultMemberRole := Some role,
                  ce_memberCount := memberCount\<rparr>)"

definition room_levels :: "RoomEntity \<Rightarrow> room_id \<times> RoomPowerLevelsEntity option" where
  "room_levels rm = (re_roomId rm, re_powerLevels rm)"

definition ucc_getChannel ::
    "'w sdk \<Rightarrow> handle_id \<Rightarrow> string \<Rightarrow> ('w, ChannelEntity option) io" where
  "ucc_getChannel S handleId channelId =
     await (ch_get (sdk_graphql S) channelId) (\<lambda>found.
       case found of
         None \<Rightarrow> ret None
       | Some channel \<Rightarrow>
           await (with_rooms S handleId (\<lambda>C. rs_get C channelId)) (\<lambda>room.
             ret (Some (spread_levels channel
               (case room of
                  None \<Rightarrow> None
                | Some rm \<Rightarrow>
                    if re_powerLevels rm = None then None
                    else toPowerLevelsMap [room_levels rm] Map.empty channelId)
               (case room of None \<Rightarrow> 0 | Some rm \<Rightarrow> re_memberCount rm)))))"

text \<open>
  \<open>Promise.all\<close> of two promises of different types: both run, and a rejection of the first is
  reported before one of the second.
\<close>

definition promise_both :: "('w, 'a) io \<Rightarrow> ('w, 'b) io \<Rightarrow> ('w, 'a \<times> 'b) io" where
  "promise_both m n w =
     (case m w of (r, w1) \<Rightarrow>
       (case n w1 of (q, w2) \<Rightarrow>
         (case r of
            Inl e \<Rightarrow> (Inl e, w2)
          | Inr x \<Rightarrow> (case q of Inl e \<Rightarrow> (Inl e, w2) | Inr y \<Rightarrow> (Inr (x, y), w2)))))"

text \<open>The ids that could not be processed are tried once more; what is left is logged.\<close>

definition processChannelsResult ::
    "'w sdk \<Rightarrow> ListChannelsOutput \<Rightarrow> ('w, ChannelEntity list) io" where
  "processChannelsResult S result =
     (if lco_unprocessedIds result = [] then ret (lco_channels result)
      else await (ch_list (sdk_graphql S) (lco_unprocessedIds result)) (\<lambda>retryResult.
             ret (lco_channels result @ lco_channels retryResult)))"

definition ucc_getChannels ::
    "'w sdk \<Rightarrow> handle_id \<Rightarrow> string list \<Rightarrow> ('w, ChannelEntity list) io" where
  "ucc_getChannels S handleId channelIds =
     (if channelIds = [] then ret []
      else await (promise_both (with_rooms S handleId (\<lambda>C. rs_list C channelIds))
                    (ch_list (sdk_graphql S) channelIds)) (\<lambda>(rooms, channels).
           let powerLevelsMap = toPowerLevelsMap (map room_levels rooms) Map.empty;
               memberCountMap = map_of (rev (map (\<lambda>rm. (re_roomId rm, re_memberCount rm)) rooms))
           in await (processChannelsResult S channels) (\<lambda>processedChannels.
                ret (map (\<lambda>channel.
                  spread_levels channel (powerLevelsMap (ce_channelId channel))
                    (nullish (memberCountMap (ce_channelId channel)) 0)) processedChannels))))"

definition ucc_listJoinedChannels :: "'w sdk \<Rightarrow> handle_id \<Rightarrow> ('w, ChannelEntity list) io" where
  "ucc_listJoinedChannels S handleId =
     await (with_rooms S handleId rs_listJoinedRoomIds) (\<lambda>joinedRoomIds.
       if joinedRoomIds = [] then ret []
       else await (ch_list (sdk_graphql S) joinedRoomIds) (processChannelsResult S))"

definition ucc_listSentInvitationRequests ::
    "'w sdk \<Rightarrow> handle_id \<Rightarrow> ('w, ChannelEntity list) io" where
  "ucc_listSentInvitationRequests S handleId =
     await (with_rooms S handleId rs_listKnockedRooms) (\<lambda>knockedRooms.
       if knockedRooms = [] then ret []
       else await (ch_list (sdk_graphql S) (map re_roomId knockedRooms)) (processChannelsResult S))"

definition room_getMember :: "room \<Rightarrow> user_id \<Rightarrow> RoomMember option" where
  "room_getMember rm u = find (\<lambda>m. mb_userId m = u) (r_members rm)"

text \<open>
  \<open>room.getMember(userId)?.events.member?.getSender()\<close>, and the handle of that sender.
\<close>

definition inviter_of :: "room \<Rightarrow> user_id \<Rightarrow> HandleEntity option" where
  "inviter_of rm userId =
     (let inviterUserId = Option.bind (room_getMember rm userId) mb_eventSender in
      if truthy_str inviterUserId
      then Some \<lparr>he_handleId = toHandleId (the inviterUserId),
                 he_name = (case room_getMember rm (the inviterUserId) of
                    None \<Rightarrow> '''' | Some m \<Rightarrow> mb_name m)\<rparr>
      else None)"

fun invited_channels ::
    "'w rooms_client \<Rightarrow> user_id \<Rightarrow> ChannelEntity list \<Rightarrow> RoomEntity list \<Rightarrow>
     ('w, ChannelEntity list) io" where
  "invited_channels C userId channels [] = ret []"
| "invited_channels C userId channels (invitedRoom # rest) =
     (case find (\<lambda>ch. re_roomId invitedRoom = ce_channelId ch) channels of
        None \<Rightarrow> invited_channels C userId channels rest
      | Some channel \<Rightarrow>
          await (cm_getRoom C (re_roomId invitedRoom)) (\<lambda>found.
            case found of
              None \<Rightarrow> invited_channels C userId channels rest
            | Some rm \<Rightarrow>
                await (invited_channels C userId channels rest) (\<lambda>more.
                  ret (channel\<lparr>ce_memberCount := re_memberCount invitedRoom,
                               ce_inviter := inviter_of rm userId\<rparr> # more))))"

definition ucc_listInvitations :: "'w sdk \<Rightarrow> handle_id \<Rightarrow> ('w, ChannelEntity list) io" where
  "ucc_listInvitations S handleId =
     await (sdk_getMatrixClient S handleId) (\<lambda>C.
     await (rs_listInvitedRooms C) (\<lambda>invitedRooms.
     await (cm_getUserId C) (\<lambda>userId.
     await (ch_list (sdk_graphql S) (map re_roomId invitedRooms)) (\<lambda>channelsInfo.
       invited_channels C userId (lco_channels channelsInfo) invitedRooms))))"

section \<open>Updating\<close>

record UpdateChannelUseCaseInput =
  ucu_handleId :: handle_id
  ucu_channelId :: string
  ucu_name :: "string input"
  ucu_description :: "string input"
  ucu_avatar :: "(bytes \<times> string \<times> string) input"
  ucu_joinRule :: "ChannelJoinRuleEntity option"
  ucu_tags :: "string list option"
  ucu_permissions :: "ChannelPermissionsInputEntity input"
  ucu_defaultMemberRole :: "ChannelRoleEntity option"

definition media_upload ::
    "'w media_env \<Rightarrow> (bytes, MediaCredentialEntity) AvatarInput \<Rightarrow> ('w, string) io" where
  "media_upload E a =
     uploadMediaFile E (av_mediaCredential a) (av_file a) (av_fileName a) (av_fileType a)"

definition ucc_uploadAvatar ::
    "'w sdk \<Rightarrow> handle_id \<Rightarrow> string \<Rightarrow> bytes \<times> string \<times> string \<Rightarrow> bool \<Rightarrow>
     ('w, string option) io" where
  "ucc_uploadAvatar S handleId i avatar isVisible =
     await (sdk_getMatrixClient S handleId) (\<lambda>C.
     await (getPublicMediaCredential (sdk_media S) True (Some AVATARS)) (\<lambda>mediaCredential.
     await (rs_update C (Some (media_upload (sdk_media S)))
       \<lparr>uri_roomId = i, uri_name = None, uri_description = None,
        uri_avatar = Some (Some \<lparr>av_file = fst avatar, av_fileName = fst (snd avatar),
          av_fileType = snd (snd avatar), av_mediaCredential = mediaCredential\<rparr>),
        uri_isVisible = Some (Some isVisible),
        uri_powerLevels = None\<rparr>) (\<lambda>updatedRoom.
       ret (re_avatarUrl updatedRoom))))"

text \<open>\<open>currentRoomPowerLevels?.users?.[userId] ?? currentRoomPowerLevels?.users_default\<close>\<close>

definition current_level :: "RoomPowerLevelsEntity option \<Rightarrow> user_id \<Rightarrow> int option" where
  "current_level pl u = nullish_opt (user_entry pl u) (Option.bind pl pl_users_default)"

fun keep_levels ::
    "RoomPowerLevelsEntity option \<Rightarrow> int \<Rightarrow> user_id list \<Rightarrow> num_record \<Rightarrow> num_record" where
  "keep_levels pl newDefaultLevel [] users = users"
| "keep_levels pl newDefaultLevel (u # us) users =
     keep_levels pl newDefaultLevel us
       (case current_level pl u of
          Some l \<Rightarrow> if l \<noteq> newDefaultLevel \<and> users u = None then users(u \<mapsto> l) else users
        | None \<Rightarrow> users)"

definition initial_users :: "RoomPowerLevelsEntity option \<Rightarrow> num_record" where
  "initial_users pl = nullish (Option.bind pl pl_users) Map.empty"

definition updated_levels ::
    "ChannelPermissionsInputEntity input \<Rightarrow> ChannelRoleEntity option \<Rightarrow> num_record \<Rightarrow>
     RoomPowerLevelsEntity" where
  "updated_levels permissions defaultMemberRole users =
     (let d = default_channel_permissions;
          given = Option.bind permissions id;
          level = (\<lambda>f dflt. channel_fromEntityToPowerLevel (nullish (Option.bind given f) dflt))
      in \<lparr>pl_ban = Some (level ci_banHandles (cp_banHandles d)),
          pl_events = Some
            [''m.room.name'' \<mapsto> level ci_changeChannelName (cp_changeChannelName d),
             ''m.room.topic'' \<mapsto> level ci_changeChannelDescription (cp_changeChannelDescription d),
             ''m.room.avatar'' \<mapsto> level ci_changeChannelAvatar (cp_changeChannelAvatar d)],
          pl_events_default = Some (level ci_sendMessages (cp_sendMessages d)),
          pl_invite = Some (level ci_inviteHandles (cp_inviteHandles d)),
          pl_kick = Some (level ci_kickHandles (cp_kickHandles d)),
          pl_notifications = None,
          pl_redact = Some (level ci_deleteOthersMessages (cp_deleteOthersMessages d)),
          pl_state_default = None,
          pl_users = Some users,
          pl_users_default =
            Some (channel_fromEntityToPowerLevel (nullish defaultMemberRole CRE_PARTICIPANT))\<rparr>)"

definition no_room_update :: "room_id \<Rightarrow> ('file, 'cred) UpdateRoomInput" where
  "no_room_update r = \<lparr>uri_roomId = r, uri_name = None, uri_description = None, uri_avatar = None,
     uri_isVisible = None, uri_powerLevels = None\<rparr>"

definition ucc_updateRoomPowerLevels ::
    "'w sdk \<Rightarrow> handle_id \<Rightarrow> string \<Rightarrow> ChannelPermissionsInputEntity input \<Rightarrow>
     ChannelRoleEntity option \<Rightarrow> ('w, unit) io" where
  "ucc_updateRoomPowerLevels S handleId channelId permissions defaultMemberRole =
     await (sdk_getMatrixClient S handleId) (\<lambda>C.
     await (rs_get C channelId) (\<lambda>room.
       let current = Option.bind room re_powerLevels;
           newDefaultLevel =
             channel_fromEntityToPowerLevel (nullish defaultMemberRole CRE_PARTICIPANT)
       in if Some newDefaultLevel = Option.bind current pl_users_default then ret ()
          else await (rs_getMembers C channelId) (\<lambda>members.
            let userIds = map (\<lambda>m. toMatrixUserId (he_handleId (rme_handle m)) (rc_homeServer C)) members;
                users = keep_levels current newDefaultLevel userIds (initial_users current)
            in await (rs_update C (None :: ((bytes, MediaCredentialEntity) AvatarInput \<Rightarrow> ('w, string) io) option)
                 ((no_room_update channelId)
                    \<lparr>uri_powerLevels :=
                       Some (Some (updated_levels permissions defaultMemberRole users))\<rparr>)) (\<lambda>_.
               ret ()))))"

definition ucc_updateChannel ::
    "'w sdk \<Rightarrow> UpdateChannelUseCaseInput \<Rightarrow> ('w, ChannelEntity) io" where
  "ucc_updateChannel S inp =
     await (check_words S (nullish (ucu_tags inp) [] @ name_words (Option.bind (ucu_name inp) id))) (\<lambda>_.
     await (case ucu_avatar inp of
              None \<Rightarrow> ret (None, None)
            | Some None \<Rightarrow> ret (Some None, Some None)
            | Some (Some avatar) \<Rightarrow>
                await (case ucu_joinRule inp of
                         Some r \<Rightarrow> ret r
                       | None \<Rightarrow> await (ch_get (sdk_graphql S) (ucu_channelId inp)) (\<lambda>channel.
                           ret (nullish (Option.bind channel ce_joinRule) JRE_PRIVATE))) (\<lambda>joinRule.
                await (ucc_uploadAvatar S (ucu_handleId inp) (ucu_channelId inp) avatar
                         (isChannelVisible joinRule))
                  (\<lambda>avatarMxcUrl. ret (Some avatarMxcUrl, Some (Some (snd (snd avatar)))))))
       (\<lambda>(avatarUrl, avatarImageMetadata).
     await (ch_update (sdk_graphql S)
       \<lparr>uci_selfHandleId = ucu_handleId inp,
        uci_channelId = ucu_channelId inp,
        uci_name = ucu_name inp,
        uci_description = ucu_description inp,
        uci_tags = ucu_tags inp,
        uci_joinRule = ucu_joinRule inp,
        uci_avatarUrl = avatarUrl,
        uci_avatarImageMetadata = avatarImageMetadata\<rparr>) (\<lambda>result.
     await (if ucu_defaultMemberRole inp \<noteq> None \<or> ucu_permissions inp \<noteq> None
            then ucc_updateRoomPowerLevels S (ucu_handleId inp) (ucu_channelId inp)
                   (ucu_permissions inp) (ucu_defaultMemberRole inp)
            else ret ()) (\<lambda>_.
       ret result))))"

section \<open>Lemmas\<close>

lemma check_words_outcome:
  assumes "api_checkSecureCommsWordValidity (sdk_graphql S) (set_of_array ws) w = (Inr res, w')"
    and "set res \<subseteq> set ws"
  shows "check_words S ws w =
    (if set ws \<subseteq> set res then Inr () else Inl (UnacceptableWordsError None), w')"
proof -
  have "length (set_of_array ws) = length (set_of_array res) \<longleftrightarrow> set ws \<subseteq> set res"
    unfolding length_set_of_array
    using assms(2) by (metis List.finite_set card_subset_eq equalityD1 subset_antisym)
  then show ?thesis
    using assms(1) by (simp add: check_words_def checkWordValidity_def io_simps Let_def)
qed

lemma keep_levels_result:
  "keep_levels pl nd us users u =
     (if users u \<noteq> None then users u
      else if u \<in> set us \<and> current_level pl u \<noteq> None \<and> current_level pl u \<noteq> Some nd
      then current_level pl u else None)"
  by (induction us arbitrary: users) (auto split: option.splits)

lemma current_level_initial: "initial_users pl u = Some l \<Longrightarrow> current_level pl u = Some l"
  by (cases pl) (auto simp: initial_users_def current_level_def user_entry_def nullish_def
      nullish_opt_def split: option.splits)

lemma effective_updated:
  "effective_level (Some (updated_levels perms role users)) u =
     nullish (users u) (channel_fromEntityToPowerLevel (nullish role CRE_PARTICIPANT))"
  by (simp add: effective_level_def user_entry_def updated_levels_def Let_def nullish_def
      nullish_opt_def split: option.split)

text \<open>
  The level the Matrix specification requires of the sender of an event of type \<open>k\<close>: its
  entry in \<open>events\<close>, else \<open>events_default\<close>, else 0.
\<close>

definition required_level :: "RoomPowerLevelsEntity \<Rightarrow> string \<Rightarrow> int" where
  "required_level pl k = nullish (nullish_opt (event_entry pl k) (pl_events_default pl)) 0"

lemma required_updated_reaction:
  "required_level (updated_levels perms role users) ''m.reaction'' =
     channel_fromEntityToPowerLevel
       (nullish (Option.bind (Option.bind perms id) ci_sendMessages) CRE_PARTICIPANT)"
  by (simp add: required_level_def event_entry_def updated_levels_def Let_def
      default_channel_permissions_def)

lemma required_initial_reaction:
  "required_level (fromEntityPowerLevelToRoomPowerLevel (toInitialPowerLevels perms role))
     ''m.reaction'' = 10"
  by (simp add: required_level_def event_entry_def fromEntityPowerLevelToRoomPowerLevel_def
      toInitialPowerLevels_def Let_def)

text \<open>An SDK over the in-memory homeserver, whose word service rejects one word.\<close>

definition demo_sdk :: "server sdk" where
  "demo_sdk =
     \<lparr>sdk_getMatrixClient = (\<lambda>_. ret memory_client),
      sdk_media = plain_env (offline_client
        \<lparr>gc_checkWordValidity := (\<lambda>ws w. (Inr \<lparr>gr_errors = None,
           gr_data = Some (filter (\<lambda>x. x \<noteq> ''bad'') ws)\<rparr>, w))\<rparr>),
      sdk_delay = (\<lambda>_. ret ()),
      sdk_uuid = ret ''4f1d''\<rparr>"

lemma demo_sdk_sel:
  "sdk_getMatrixClient demo_sdk h = ret memory_client"
  "sdk_delay demo_sdk n = ret ()"
  by (simp_all add: demo_sdk_def)

definition no_permissions :: ChannelPermissionsInputEntity where
  "no_permissions =
     \<lparr>ci_sendMessages = None, ci_inviteHandles = None, ci_kickHandles = None, ci_banHandles = None,
      ci_changeChannelName = None, ci_changeChannelDescription = None,
      ci_changeChannelAvatar = None, ci_deleteOthersMessages = None\<rparr>"

definition bad_channel :: CreateChannelUseCaseInput where
  "bad_channel =
     \<lparr>ccu_handleId = ''ann'', ccu_name = None, ccu_description = None, ccu_joinRule = JRE_PUBLIC,
      ccu_tags = [''fun'', ''bad''], ccu_invitedHandleIds = [], ccu_permissions = no_permissions,
      ccu_defaultMemberRole = CRE_PARTICIPANT\<rparr>"

section \<open>Properties\<close>





text \<open>
  A permission update can be dropped without a trace. Whenever the new default role is
  stored as the room's present default level (which an update that omits the default role
  meets in every room with the usual default of 25), the update of the permissions succeeds
  and changes nothing, whatever permissions were asked for.
\<close>

theorem permission_update_dropped:
  assumes "sdk_getMatrixClient S h w = (Inr C, w)" and "room_reads_pure C"
    and "fst (rs_get C ch w) = Inr (Some room)"
    and "re_powerLevels room = Some pl"
    and "pl_users_default pl = Some (channel_fromEntityToPowerLevel (nullish role CRE_PARTICIPANT))"
  shows "ucc_updateRoomPowerLevels S h ch permissions role w = (Inr (), w)"
  using assms reads_onlyD [OF reads_only_rs_get [OF assms(2)]]
  by (simp add: ucc_updateRoomPowerLevels_def io_simps Let_def)

theorem permission_update_dropped_witness:
  "ucc_updateRoomPowerLevels demo_sdk ''ann'' ''!r:hs''
     (Some (Some (no_permissions\<lparr>ci_kickHandles := Some CRE_ADMIN\<rparr>))) None (demo_server ''@ann:hs'')
   = (Inr (), demo_server ''@ann:hs'')"
  by (rule permission_update_dropped [where pl = demo_levels and C = memory_client and
        room = "plain_room ''!r:hs'' (Some ''club'') 3\<lparr>re_powerLevels := Some demo_levels\<rparr>"])
    (simp_all add: demo_sdk_def ret_def demo_levels_def demo_rs_get memory_client_pure)

text \<open>
  Reacting stops working after an update. A new channel lets members with the
  react-only role react; after an update of its permissions reacting needs the level of
  sending messages, which a react-only member reaches only if messages were opened to that
  role.
\<close>

theorem reactions_lost_on_update:
  "required_level (fromEntityPowerLevelToRoomPowerLevel (toInitialPowerLevels initial role0))
      ''m.reaction'' \<le> channel_fromEntityToPowerLevel CRE_REACT_ONLY_PARTICIPANT
   \<and> (required_level (updated_levels permissions role users) ''m.reaction''
        \<le> channel_fromEntityToPowerLevel CRE_REACT_ONLY_PARTICIPANT
      \<longleftrightarrow> Option.bind (Option.bind permissions id) ci_sendMessages = Some CRE_REACT_ONLY_PARTICIPANT)"
proof -
  have "channel_fromEntityToPowerLevel r \<le> 10 \<longleftrightarrow> r = CRE_REACT_ONLY_PARTICIPANT" for r
    by (cases r) simp_all
  then show ?thesis
    by (simp add: required_initial_reaction required_updated_reaction nullish_def split: option.split)
qed

text \<open>
  A channel update sets or unsets, never both. The request for an update sets the
  description exactly when a new one is given and unsets it exactly when the field is
  present without a value; the same for the avatar; an absent field is in neither part,
  and nothing else is ever unset.
\<close>

theorem channel_update_set_unset:
  "(us_description (usc_set (update_channel_request inp)) = Some d
      \<longleftrightarrow> uci_description inp = Some (Some d))
   \<and> (OP_Description \<in> set (usc_unset (update_channel_request inp))
      \<longleftrightarrow> uci_description inp = Some None)
   \<and> (us_avatarImageUrl (usc_set (update_channel_request inp)) = Some d
      \<longleftrightarrow> uci_avatarUrl inp = Some (Some d))
   \<and> (OP_AvatarImageUrl \<in> set (usc_unset (update_channel_request inp))
      \<longleftrightarrow> uci_avatarUrl inp = Some None)
   \<and> distinct (usc_unset (update_channel_request inp))"
  by (cases "uci_description inp"; cases "uci_avatarUrl inp")
    (auto simp: update_channel_request_def)

end
