(* ===== verification/GroupUseCases.thy ===== *)
theory GroupUseCases
  imports ChannelUseCases
begin

text \<open>
  Groups: their entities and transformers (\<open>src/private/data/groups/transformer\<close>) and their
  use cases (\<open>src/private/domain/use-cases/groups\<close>). Deleting a group starts one
  asynchronous task per member and does not wait for them; the tasks are explicit here, and
  every interleaving of what they still have to do is a step sequence.
\<close>

section \<open>Entities and transformers\<close>

record GroupEntity =
  ge_groupId :: string
  ge_name :: "string option"
  ge_description :: "string option"
  ge_avatarUrl :: "string option"
  ge_permissions :: "GroupPermissionsEntity option"
  ge_memberCount :: int
  ge_inviter :: "HandleEntity option"

record Group =
  ga_groupId :: string
  ga_name :: "string option"
  ga_description :: "string option"
  ga_avatarUrl :: "string option"
  ga_permissions :: "GroupPermissions option"
  ga_memberCount :: int
  ga_inviter :: "HandleEntity option"

record GroupMemberEntity =
  gme_handle :: HandleEntity
  gme_membership :: MembershipStateEntity
  gme_role :: GroupRoleEntity

record GroupMember =
  gma_handle :: HandleEntity
  gma_membership :: MembershipState
  gma_role :: GroupRole

definition group_fromEntityToAPI :: "GroupEntity \<Rightarrow> Group" where
  "group_fromEntityToAPI e =
     \<lparr>ga_groupId = ge_groupId e,
      ga_name = ge_name e,
      ga_description = ge_description e,
      ga_avatarUrl = ge_avatarUrl e,
      ga_permissions = map_option group_permissions_fromEntityToAPI (ge_permissions e),
      ga_memberCount = ge_memberCount e,
      ga_inviter = ge_inviter e\<rparr>"

definition group_fromRoomToEntity :: "RoomEntity \<Rightarrow> GroupEntity result" where
  "group_fromRoomToEntity e =
     sum_bind
       (case re_powerLevels e of
          None \<Rightarrow> Inr None
        | Some pl \<Rightarrow> sum_bind (fromRoomPermissionsEntityToGroupPermissionsEntity pl) (\<lambda>p. Inr (Some p)))
       (\<lambda>permissions.
         Inr \<lparr>ge_groupId = re_roomId e,
              ge_name = re_name e,
              ge_description = re_description e,
              ge_avatarUrl = re_avatarUrl e,
              ge_permissions = permissions,
              ge_memberCount = re_memberCount e,
              ge_inviter = re_inviter e\<rparr>)"

definition group_member_fromEntityToAPI :: "GroupMemberEntity \<Rightarrow> GroupMember" where
  "group_member_fromEntityToAPI e =
     \<lparr>gma_handle = gme_handle e,
      gma_membership = membership_fromEntityToAPI (gme_membership e),
      gma_role = group_role_fromEntityToAPI (gme_role e)\<rparr>"

definition group_member_fromRoomToEntity :: "RoomMemberEntity \<Rightarrow> GroupMemberEntity result" where
  "group_member_fromRoomToEntity e =
     sum_bind (group_fromPowerLevelToEntity (Some (rme_powerLevel e))) (\<lambda>role.
       Inr \<lparr>gme_handle = rme_handle e, gme_membership = rme_membership e, gme_role = role\<rparr>)"

section \<open>Membership and moderation\<close>

definition ucg_acceptInvitation :: "'w sdk \<Rightarrow> handle_id \<Rightarrow> string \<Rightarrow> ('w, unit) io" where
  "ucg_acceptInvitation S handleId groupId =
     then_delay S (with_rooms S handleId (\<lambda>C. rs_join C groupId))"

definition ucg_declineInvitation :: "'w sdk \<Rightarrow> handle_id \<Rightarrow> string \<Rightarrow> ('w, unit) io" where
  "ucg_declineInvitation S handleId groupId =
     then_delay S (with_rooms S handleId (\<lambda>C. rs_leave C groupId))"

definition ucg_leaveGroup :: "'w sdk \<Rightarrow> handle_id \<Rightarrow> string \<Rightarrow> ('w, unit) io" where
  "ucg_leaveGroup S handleId groupId =
     then_delay S (with_rooms S handleId (\<lambda>C. rs_leave C groupId))"

definition ucg_sendInvitations ::
    "'w sdk \<Rightarrow> handle_id \<Rightarrow> string \<Rightarrow> handle_id list \<Rightarrow> ('w, unit) io" where
  "ucg_sendInvitations S handleId groupId targetHandleIds =
     then_delay S (with_rooms S handleId (\<lambda>C. rs_sendInvitations C groupId targetHandleIds))"

definition ucg_withdrawInvitation ::
    "'w sdk \<Rightarrow> handle_id \<Rightarrow> string \<Rightarrow> handle_id \<Rightarrow> ('w, unit) io" where
  "ucg_withdrawInvitation S handleId groupId targetHandleId =
     then_delay S (with_rooms S handleId (\<lambda>C. rs_kickHandle C groupId targetHandleId None))"

definition ucg_kickHandle ::
    "'w sdk \<Rightarrow> handle_id \<Rightarrow> string \<Rightarrow> handle_id \<Rightarrow> string option \<Rightarrow> ('w, unit) io" where
  "ucg_kickHandle S handleId groupId targetHandleId reason =
     then_delay S (with_rooms S handleId (\<lambda>C. rs_kickHandle C groupId targetHandleId reason))"

definition ucg_banHandle ::
    "'w sdk \<Rightarrow> handle_id \<Rightarrow> string \<Rightarrow> handle_id \<Rightarrow> string option \<Rightarrow> ('w, unit) io" where
  "ucg_banHandle S handleId groupId targetHandleId reason =
     then_delay S (with_rooms S handleId (\<lambda>C. rs_banHandle C groupId targetHandleId reason))"

definition ucg_unbanHandle ::
    "'w sdk \<Rightarrow> handle_id \<Rightarrow> string \<Rightarrow> handle_id \<Rightarrow> ('w, unit) io" where
  "ucg_unbanHandle S handleId groupId targetHandleId =
     then_delay S (with_rooms S handleId (\<lambda>C. rs_unbanHandle C groupId targetHandleId))"

definition ucg_updateGroupMemberRole ::
    "'w sdk \<Rightarrow> handle_id \<Rightarrow> string \<Rightarrow> handle_id \<Rightarrow> GroupRoleEntity \<Rightarrow> ('w, unit) io" where
  "ucg_updateGroupMemberRole S handleId groupId targetHandleId role =
     (let powerLevel = group_fromEntityToPowerLevel role
      in then_delay S (with_rooms S handleId (\<lambda>C.
           rs_updateRoomMemberPowerLevel C groupId targetHandleId powerLevel)))"

section \<open>Reading\<close>

definition ucg_getGroup :: "'w sdk \<Rightarrow> handle_id \<Rightarrow> string \<Rightarrow> ('w, GroupEntity option) io" where
  "ucg_getGroup S handleId groupId =
     with_rooms S handleId (\<lambda>C.
       await (rs_get C groupId) (\<lambda>room.
         case room of
           None \<Rightarrow> ret None
         | Some rm \<Rightarrow> await (lift_result (group_fromRoomToEntity rm)) (\<lambda>g. ret (Some g))))"

definition ucg_getGroups ::
    "'w sdk \<Rightarrow> handle_id \<Rightarrow> string list \<Rightarrow> ('w, GroupEntity list) io" where
  "ucg_getGroups S handleId groupIds =
     (if groupIds = [] then ret []
      else with_rooms S handleId (\<lambda>C.
        await (rs_list C groupIds) (\<lambda>rooms. lift_result (map_result group_fromRoomToEntity rooms))))"

definition ucg_listJoinedGroups :: "'w sdk \<Rightarrow> handle_id \<Rightarrow> ('w, GroupEntity list) io" where
  "ucg_listJoinedGroups S handleId =
     with_rooms S handleId (\<lambda>C.
       await (rs_listJoinedRoomIds C) (\<lambda>joinedRoomIds.
         if joinedRoomIds = [] then ret []
         else await (rs_list C joinedRoomIds) (\<lambda>joinedRooms.
           lift_result (map_result group_fromRoomToEntity
             (filter (\<lambda>rm. re_type rm = Some (room_type_value GROUP)) joinedRooms)))))"

definition ucg_getGroupMembers ::
    "'w sdk \<Rightarrow> handle_id \<Rightarrow> string \<Rightarrow> ('w, GroupMemberEntity list) io" where
  "ucg_getGroupMembers S handleId groupId =
     with_rooms S handleId (\<lambda>C.
       await (rs_getMembers C groupId) (\<lambda>members.
         lift_result (map_result group_member_fromRoomToEntity members)))"

text \<open>
  An invited room is a group when it is not one of the channels of the service and none of
  its members carries the direct-chat flag.
\<close>

fun invited_groups ::
    "'w rooms_client \<Rightarrow> user_id \<Rightarrow> ChannelEntity list \<Rightarrow> RoomEntity list \<Rightarrow>
     ('w, RoomEntity list) io" where
  "invited_groups C userId channels [] = ret []"
| "invited_groups C userId channels (invitedRoom # rest) =
     (if find (\<lambda>ch. re_roomId invitedRoom = ce_channelId ch) channels \<noteq> None
      then invited_groups C userId channels rest
      else await (cm_getRoom C (re_roomId invitedRoom)) (\<lambda>found.
        case found of
          None \<Rightarrow> invited_groups C userId channels rest
        | Some rm \<Rightarrow>
            if \<exists>m \<in> set (r_members rm). mb_isDirect m
            then invited_groups C userId channels rest
            else await (invited_groups C userId channels rest) (\<lambda>more.
              ret (invitedRoom\<lparr>re_inviter := inviter_of rm userId\<rparr> # more))))"

definition ucg_listInvitations :: "'w sdk \<Rightarrow> handle_id \<Rightarrow> ('w, GroupEntity list) io" where
  "ucg_listInvitations S handleId =
     await (sdk_getMatrixClient S handleId) (\<lambda>C.
     await (rs_listInvitedRooms C) (\<lambda>invitedRooms.
     await (cm_getUserId C) (\<lambda>userId.
     await (ch_list (sdk_graphql S) (map re_roomId invitedRooms)) (\<lambda>channelsInfo.
     await (invited_groups C userId (lco_channels channelsInfo) invitedRooms) (\<lambda>rooms.
       lift_result (map_result group_fromRoomToEntity rooms))))))"

section \<open>Creating and updating\<close>

record CreateGroupUseCaseInput =
  cgu_handleId :: handle_id
  cgu_name :: "string option"
  cgu_description :: "string option"
  cgu_invitedHandleIds :: "handle_id list"

definition ucg_createGroup ::
    "'w sdk \<Rightarrow> CreateGroupUseCaseInput \<Rightarrow> ('w, GroupEntity) io" where
  "ucg_createGroup S inp =
     await (check_words S (name_words (cgu_name inp) @ name_words (cgu_description inp))) (\<lambda>_.
       then_delay S (with_rooms S (cgu_handleId inp) (\<lambda>C.
         await (rs_create C
           \<lparr>cri_name = cgu_name inp,
            cri_description = cgu_description inp,
            cri_avatarUrl = None,
            cri_invitedHandleIds = cgu_invitedHandleIds inp,
            cri_powerLevels = Some initial_group_levels\<rparr>) (\<lambda>room.
           lift_result (group_fromRoomToEntity room)))))"

record UpdateGroupUseCaseInput =
  ugu_handleId :: handle_id
  ugu_groupId :: string
  ugu_name :: "string input"
  ugu_description :: "string input"
  ugu_avatar :: "(bytes \<times> string \<times> string) input"

definition update_group_request ::
    "UpdateGroupUseCaseInput \<Rightarrow> (bytes, MediaCredentialEntity) AvatarInput input \<Rightarrow>
     (bytes, MediaCredentialEntity) UpdateRoomInput" where
  "update_group_request inp avatarInput =
     \<lparr>uri_roomId = ugu_groupId inp, uri_name = ugu_name inp, uri_description = ugu_description inp,
      uri_avatar = avatarInput, uri_isVisible = None, uri_powerLevels = None\<rparr>"

definition ucg_updateGroup ::
    "'w sdk \<Rightarrow> UpdateGroupUseCaseInput \<Rightarrow> ('w, GroupEntity) io" where
  "ucg_updateGroup S inp =
     await (check_words S (name_words (Option.bind (ugu_name inp) id)
                           @ name_words (Option.bind (ugu_description inp) id))) (\<lambda>_.
     await (case ugu_avatar inp of
              Some (Some a) \<Rightarrow>
                await (getPublicMediaCredential (sdk_media S) True (Some AVATARS)) (\<lambda>mediaCredential.
                  ret (Some (Some \<lparr>av_file = fst a, av_fileName = fst (snd a),
                    av_fileType = snd (snd a), av_mediaCredential = mediaCredential\<rparr>)))
            | _ \<Rightarrow> ret None) (\<lambda>avatarInput.
       then_delay S (with_rooms S (ugu_handleId inp) (\<lambda>C.
         await (rs_update C
             (case avatarInput of Some (Some _) \<Rightarrow> Some (media_upload (sdk_media S)) | _ \<Rightarrow> None)
             (update_group_request inp avatarInput)) (\<lambda>room.
           lift_result (group_fromRoomToEntity room))))))"

section \<open>Asynchronous tasks\<close>

text \<open>
  What an async function still has to do: nothing, or a segment that runs without
  interruption up to the function's next await.
\<close>

datatype 'w task = Done | Step "'w \<Rightarrow> 'w \<times> 'w task"

primrec run_task :: "'w task \<Rightarrow> 'w \<Rightarrow> 'w" where
  "run_task Done = (\<lambda>w. w)"
| "run_task (Step f) = (\<lambda>w. case (map_prod id run_task \<circ> f) w of (w', g) \<Rightarrow> g w')"

text \<open>Calling an async function runs its first segment.\<close>

definition start_task :: "'w task \<Rightarrow> 'w \<Rightarrow> 'w \<times> 'w task" where
  "start_task t w = (case t of Done \<Rightarrow> (w, Done) | Step f \<Rightarrow> f w)"

fun start_all :: "'w task list \<Rightarrow> 'w \<Rightarrow> 'w \<times> 'w task list" where
  "start_all [] w = (w, [])"
| "start_all (t # ts) w =
     (case start_task t w of (w1, t') \<Rightarrow>
       (case start_all ts w1 of (w2, ts') \<Rightarrow> (w2, t' # ts')))"

text \<open>Any task that is not done may run its next segment.\<close>

inductive task_step :: "'w \<times> 'w task list \<Rightarrow> 'w \<times> 'w task list \<Rightarrow> bool" where
  run: "\<lbrakk>i < length ts; ts ! i = Step f; f w = (w', t')\<rbrakk> \<Longrightarrow>
    task_step (w, ts) (w', ts[i := t'])"

inductive_cases task_stepE: "task_step (w, ts) s"

section \<open>Deleting\<close>

text \<open>
  The awaits of \<open>MatrixRoomsService.kickHandle\<close> cut it into three segments: the user id,
  the room, and the guarded kick.
\<close>

definition kick_guarded ::
    "'w rooms_client \<Rightarrow> room \<Rightarrow> user_id \<Rightarrow> handle_id \<Rightarrow> ('w, unit) io" where
  "kick_guarded C rm userId targetHandleId =
     (let target = toMatrixUserId targetHandleId (rc_homeServer C);
          current = effective_level (r_powerLevels rm) userId;
          memberLevel = effective_level (r_powerLevels rm) target
      in if userId = target \<or> current > memberLevel
         then cm_kickHandle C (r_roomId rm) target None
         else throw (PermissionDeniedError (Some ''You are not permitted to kick'')))"

definition kick_task :: "'w rooms_client \<Rightarrow> room_id \<Rightarrow> handle_id \<Rightarrow> 'w task" where
  "kick_task C groupId h =
     Step (\<lambda>w. case cm_getUserId C w of
         (Inl _, w1) \<Rightarrow> (w1, Done)
       | (Inr userId, w1) \<Rightarrow> (w1, Step (\<lambda>w. case cm_getRoom C groupId w of
             (Inl _, w2) \<Rightarrow> (w2, Done)
           | (Inr None, w2) \<Rightarrow> (w2, Done)
           | (Inr (Some rm), w2) \<Rightarrow> (w2, Step (\<lambda>w. (snd (kick_guarded C rm userId h w), Done))))))"

definition may_delete_group :: "handle_id \<Rightarrow> RoomMemberEntity list \<Rightarrow> unit result" where
  "may_delete_group handleId members =
     (case find (\<lambda>m. he_handleId (rme_handle m) = handleId) members of
        None \<Rightarrow> Inl (HandleNotFoundError (Some ''Handle not found in group''))
      | Some currentMember \<Rightarrow>
          if rme_membership currentMember \<noteq> MS_JOINED
          then Inl (HandleNotFoundError (Some ''Handle not found in group''))
          else sum_bind (group_fromPowerLevelToEntity (Some (rme_powerLevel currentMember))) (\<lambda>role.
            if role \<noteq> GRE_ADMIN
            then Inl (PermissionDeniedError (Some ''Cannot delete group as you are not the admin''))
            else if \<not> list_all (\<lambda>m. he_handleId (rme_handle m) = handleId
                        \<or> \<not> (rme_membership m = MS_JOINED \<or> rme_membership m = MS_INVITED)
                        \<or> rme_powerLevel m < rme_powerLevel currentMember) members
            then Inl (PermissionDeniedError (Some
              ''Cannot delete group as you do not have a role higher than all other members''))
            else Inr ()))"

text \<open>
  After the checks: the kick of every other member is called and not awaited, then the
  room is left. What is answered is the outcome of the use case, the tasks still
  pending, and the state.
\<close>

definition delete_group_tail ::
    "'w rooms_client \<Rightarrow> handle_id \<Rightarrow> room_id \<Rightarrow> RoomMemberEntity list \<Rightarrow> 'w \<Rightarrow>
     unit result \<times> 'w task list \<times> 'w" where
  "delete_group_tail C handleId groupId members w =
     (case start_all
         (map (\<lambda>m. kick_task C groupId (he_handleId (rme_handle m)))
           (filter (\<lambda>m. he_handleId (rme_handle m) \<noteq> handleId) members)) w of
        (w1, pending) \<Rightarrow>
          (case rs_leave C groupId w1 of (r, w2) \<Rightarrow> (r, pending, w2)))"

definition ucg_deleteGroup ::
    "'w sdk \<Rightarrow> handle_id \<Rightarrow> room_id \<Rightarrow> 'w \<Rightarrow> unit result \<times> 'w task list \<times> 'w" where
  "ucg_deleteGroup S handleId groupId w =
     (case await (sdk_getMatrixClient S handleId) (\<lambda>C.
           await (rs_getMembers C groupId) (\<lambda>members.
           await (lift_result (may_delete_group handleId members)) (\<lambda>_. ret (C, members)))) w of
        (Inl e, w1) \<Rightarrow> (Inl e, [], w1)
      | (Inr (C, members), w1) \<Rightarrow>
          (case delete_group_tail C handleId groupId members w1 of
             (Inl e, pending, w2) \<Rightarrow> (Inl e, pending, w2)
           | (Inr _, pending, w2) \<Rightarrow>
               (case sdk_delay S 3000 w2 of (r, w3) \<Rightarrow> (r, pending, w3))))"

section \<open>Lemmas\<close>

text \<open>A task that changes nothing in the states where \<open>gone\<close> holds.\<close>

inductive inert :: "('w \<Rightarrow> bool) \<Rightarrow> 'w task \<Rightarrow> bool" for gone :: "'w \<Rightarrow> bool" where
  inert_Done: "inert gone Done"
| inert_Step: "\<lbrakk>\<And>w. gone w \<Longrightarrow> fst (f w) = w; \<And>w. gone w \<Longrightarrow> inert gone (snd (f w))\<rbrakk> \<Longrightarrow>
    inert gone (Step f)"

inductive_cases inert_StepE: "inert gone (Step f)"

lemma task_step_inert:
  assumes "task_step (w, ts) s" and "gone w" and "\<forall>t \<in> set ts. inert gone t"
  shows "fst s = w \<and> (\<forall>t \<in> set (snd s). inert gone t)"
  using assms(1)
proof (rule task_stepE)
  fix i f w' t'
  assume s: "s = (w', ts[i := t'])" and i: "i < length ts" "ts ! i = Step f" and f: "f w = (w', t')"
  have "inert gone (Step f)" using i assms(3) by (metis nth_mem)
  then have "w' = w \<and> inert gone t'"
    using f assms(2) by (auto elim!: inert_StepE)
  then show ?thesis
    unfolding s using assms(3) set_update_subset_insert [of ts i t'] by fastforce
qed

lemma task_steps_inert:
  assumes "task_step\<^sup>*\<^sup>* (w, ts) s" and "gone w" and "\<forall>t \<in> set ts. inert gone t"
  shows "fst s = w \<and> (\<forall>t \<in> set (snd s). inert gone t)"
  using assms(1)
proof (induction rule: rtranclp_induct)
  case base
  then show ?case using assms(3) by simp
next
  case (step s s')
  then have "task_step (w, snd s) s'" by (metis prod.collapse)
  with step.IH show ?case
    using task_step_inert [of w "snd s" s' gone] assms(2) by blast
qed

lemma kick_guarded_inert:
  assumes "\<And>u. snd (rc_kick C (r_roomId rm) u None w) = w"
  shows "snd (kick_guarded C rm userId h w) = w"
  using assms by (simp add: kick_guarded_def cm_kickHandle_def io_simps Let_def split: sum.split)

lemma start_kick_inert:
  assumes pure: "room_reads_pure C"
    and kick: "\<And>w r u. gone w \<Longrightarrow> snd (rc_kick C r u None w) = w"
  shows "inert gone (snd (start_task (kick_task C groupId h) w))"
proof -
  have last: "inert gone (Step (\<lambda>w. (snd (kick_guarded C rm userId h w), Done)))" for rm userId
    by (rule inert_Step) (simp_all add: kick_guarded_inert kick inert_Done)
  have room: "fst (case cm_getRoom C groupId w of
        (Inl _, w2) \<Rightarrow> (w2, Done) | (Inr None, w2) \<Rightarrow> (w2, Done)
      | (Inr (Some rm), w2) \<Rightarrow> (w2, Step (\<lambda>w. (snd (kick_guarded C rm userId h w), Done)))) = w
    \<and> inert gone (snd (case cm_getRoom C groupId w of
        (Inl _, w2) \<Rightarrow> (w2, Done) | (Inr None, w2) \<Rightarrow> (w2, Done)
      | (Inr (Some rm), w2) \<Rightarrow> (w2, Step (\<lambda>w. (snd (kick_guarded C rm userId h w), Done)))))"
    for w userId
    using moderation_reads(2) [OF pure, of groupId w] last inert_Done
    by (auto split: prod.split sum.split option.split)
  show ?thesis
    unfolding start_task_def kick_task_def
    by (auto split: prod.split sum.split intro!: inert_Done inert_Step simp: room)
qed

lemma start_kick_state:
  assumes "room_reads_pure C"
  shows "fst (start_task (kick_task C groupId h) w) = w"
  using moderation_reads(1) [OF assms, of w]
  by (auto simp: start_task_def kick_task_def split: prod.split sum.split)

lemma start_all_kicks:
  assumes pure: "room_reads_pure C"
    and kick: "\<And>w r u. gone w \<Longrightarrow> snd (rc_kick C r u None w) = w"
  shows "fst (start_all (map (kick_task C groupId) hs) w) = w
    \<and> (\<forall>t \<in> set (snd (start_all (map (kick_task C groupId) hs) w)). inert gone t)"
proof (induction hs arbitrary: w)
  case (Cons h hs)
  obtain t where t: "start_task (kick_task C groupId h) w = (w, t)"
    using start_kick_state [OF pure, of groupId h w] by (metis prod.collapse)
  have "inert gone t" using start_kick_inert [OF pure kick, of gone groupId h w] t by simp
  with Cons [of w] t show ?case by (simp add: case_prod_beta)
qed simp

lemma run_kick_task: "run_task (kick_task C groupId h) w = snd (rs_kickHandle C groupId h None w)"
  by (auto simp: kick_task_def rs_kickHandle_def kick_guarded_def io_simps Let_def
      split: prod.split sum.split option.split)

lemma may_delete_group_Inr:
  "may_delete_group h members = Inr () \<longleftrightarrow>
     (\<exists>me. find (\<lambda>m. he_handleId (rme_handle m) = h) members = Some me
       \<and> rme_membership me = MS_JOINED \<and> 51 \<le> rme_powerLevel me \<and> rme_powerLevel me \<le> 100
       \<and> (\<forall>m \<in> set members. he_handleId (rme_handle m) \<noteq> h
            \<and> rme_membership m \<in> {MS_JOINED, MS_INVITED} \<longrightarrow> rme_powerLevel m < rme_powerLevel me))"
  by (auto simp: may_delete_group_def sum_bind_def group_fromPowerLevelToEntity_def list_all_iff
      split: option.split)

lemma reads_only_rs_getMembers [intro]:
  assumes "room_reads_pure C"
  shows "reads_only (rs_getMembers C r)"
  unfolding rs_getMembers_def
  using reads_only_getMembers [OF assms] reads_only_getRoomPowerLevels [OF assms]
  by (auto intro!: reads_only_await split: option.split)

text \<open>Facts about the in-memory homeserver that the witnesses share.\<close>

definition demo_outputs :: "RoomMemberOutput list" where
  "demo_outputs =
     map (\<lambda>m. \<lparr>mo_roomId = ''!r:hs'', mo_userId = mb_userId m, mo_displayName = Some (mb_name m),
                mo_membership = mb_membership m\<rparr>) (r_members demo_room)"

lemma demo_getMembers:
  "cm_getMembers memory_client ''!r:hs'' (demo_server u) = (Inr (Some demo_outputs), demo_server u)"
  by (simp add: cm_getMembers_def missing_forbidden_or_fail_def io_simps memory_client_sel
      demo_outputs_def demo_server_def sv_room_def demo_room_def demo_member_def)

lemma demo_rs_getMembers:
  "rs_getMembers memory_client ''!r:hs'' (demo_server u) =
     (Inr (map (room_member_of demo_levels) demo_outputs), demo_server u)"
  by (simp add: rs_getMembers_def demo_getMembers demo_state_reads io_simps)

lemma demo_members:
  "map (room_member_of demo_levels) demo_outputs =
     map (\<lambda>(h, ms, l). \<lparr>rme_handle = \<lparr>he_handleId = h, he_name = ''@'' @ h @ '':hs''\<rparr>,
                         rme_membership = ms, rme_powerLevel = l\<rparr>)
       [(''ann'', MS_JOINED, 100), (''bob'', MS_JOINED, 50), (''cat'', MS_JOINED, 25),
        (''dan'', MS_BANNED, 25)]"
  by (simp add: demo_outputs_def demo_room_def demo_member_def room_member_of_def demo_levels_def
      toHandleId_def js_index_def truthy_str_def membership_fromMatrixToEntity_def
      effective_level_def user_entry_def)

lemma demo_words_ok:
  "''bad'' \<notin> set ws \<Longrightarrow> check_words demo_sdk ws s = (Inr (), s)"
  by (rule check_words_outcome [where res = "set_of_array ws", THEN trans])
    (auto simp: demo_sdk_def plain_env_def api_checkSecureCommsWordValidity_def performQuery_def
      filter_id_conv)

section \<open>Properties\<close>

text \<open>
  C3: Only the highest administrator may delete a group. Unless the handle is a joined member
  whose level is an administrator's and strictly above the level of every other joined or
  invited member, deleting the group fails, starts no task and changes nothing.
\<close>

theorem delete_group_guard:
  assumes "sdk_getMatrixClient S h w = (Inr C, w)" and "room_reads_pure C"
    and "fst (rs_getMembers C g w) = Inr members"
    and "\<not> (\<exists>me. find (\<lambda>m. he_handleId (rme_handle m) = h) members = Some me
        \<and> rme_membership me = MS_JOINED \<and> 51 \<le> rme_powerLevel me \<and> rme_powerLevel me \<le> 100
        \<and> (\<forall>m \<in> set members. he_handleId (rme_handle m) \<noteq> h
             \<and> rme_membership m \<in> {MS_JOINED, MS_INVITED} \<longrightarrow> rme_powerLevel m < rme_powerLevel me))"
  shows "\<exists>e. ucg_deleteGroup S h g w = (Inl e, [], w)"
proof -
  have "may_delete_group h members \<noteq> Inr ()" using assms(4) may_delete_group_Inr by blast
  then obtain e where "may_delete_group h members = Inl e"
    by (cases "may_delete_group h members") auto
  then show ?thesis
    using assms(1,3) reads_onlyD [OF reads_only_rs_getMembers [OF assms(2)]]
    by (simp add: ucg_deleteGroup_def io_simps)
qed

theorem delete_group_guard_witness:
  "\<exists>e. ucg_deleteGroup demo_sdk ''bob'' ''!r:hs'' (demo_server ''@bob:hs'') =
     (Inl e, [], demo_server ''@bob:hs'')"
  by (rule delete_group_guard [where C = memory_client and members =
        "map (room_member_of demo_levels) demo_outputs"])
    (simp_all add: demo_sdk_def ret_def memory_client_pure demo_rs_getMembers demo_members)



text \<open>
  An avatar cannot be removed from a group. An update whose avatar field is present but
  undefined, the way the other optional fields are cleared, behaves exactly as an update
  without the field.
\<close>

theorem group_avatar_removal_ignored:
  "ucg_updateGroup S (inp\<lparr>ugu_avatar := Some None\<rparr>) = ucg_updateGroup S (inp\<lparr>ugu_avatar := None\<rparr>)"
  by (simp add: ucg_updateGroup_def update_group_request_def)

text \<open>
  A new group has the default permissions. When creating a group succeeds, the answer
  carries the id the server gave, the name and description asked for, one member and the
  default permissions.
\<close>

theorem created_group:
  assumes "ucg_createGroup S inp w = (Inr g, w')"
  shows "ge_permissions g = Some default_group_permissions \<and> ge_memberCount g = 1
    \<and> ge_name g = cgu_name inp \<and> ge_description g = cgu_description inp \<and> ge_inviter g = None"
proof -
  have levels: "group_fromRoomToEntity (plain_room r n 1\<lparr>re_description := d, re_avatarUrl := None,
      re_powerLevels := Some (fromEntityPowerLevelToRoomPowerLevel initial_group_levels)\<rparr>) =
    Inr \<lparr>ge_groupId = r, ge_name = n, ge_description = d, ge_avatarUrl = None,
         ge_permissions = Some default_group_permissions, ge_memberCount = 1, ge_inviter = None\<rparr>"
    for r n d
    using group_permissions_stored [of default_group_permissions]
    by (simp add: group_fromRoomToEntity_def plain_room_def levels_of_default_permissions)
  show ?thesis
    using assms
    by (auto simp: ucg_createGroup_def then_delay_def with_rooms_def rs_create_def Let_def
        await_Inr_iff ret_apply lift_result_apply levels)
qed


theorem created_group_witness:
  "\<exists>g w'. ucg_createGroup demo_sdk \<lparr>cgu_handleId = ''ann'', cgu_name = Some ''friends'',
        cgu_description = None, cgu_invitedHandleIds = [''bob'']\<rparr> (demo_server ''@ann:hs'') = (Inr g, w')
    \<and> ge_permissions g = Some default_group_permissions"
proof -
  let ?inp = "\<lparr>cgu_handleId = ''ann'', cgu_name = Some ''friends'', cgu_description = None,
    cgu_invitedHandleIds = [''bob'']\<rparr>"
  obtain g w' where c: "ucg_createGroup demo_sdk ?inp (demo_server ''@ann:hs'') = (Inr g, w')"
    by (simp add: ucg_createGroup_def then_delay_def with_rooms_def rs_create_def Let_def
        demo_words_ok demo_sdk_sel name_words_def truthy_str_def io_simps cm_createRoom_def memory_client_sel
        group_fromRoomToEntity_def plain_room_def group_permissions_stored [of default_group_permissions,
          unfolded levels_of_default_permissions])
  with created_group [OF c] show ?thesis by blast
qed

end
