(* ===== verification/DirectChats.thy ===== *)
theory DirectChats
  imports GroupUseCases
begin

text \<open>
  Direct chats: the direct-chat and ignore-list operations of \<open>MatrixClientManager\<close>,
  \<open>MatrixDirectChatsService\<close> (\<open>src/private/data/directChats\<close>) and the use cases of
  \<open>src/private/domain/use-cases/directChats\<close>.

  Which rooms are direct chats is kept in the account data \<open>m.direct\<close>, an object from user
  ids to lists of room ids; the client caches the event, and the code both reads the cached
  content and, when it cleans up stale rooms, removes entries of its arrays in place.
\<close>

section \<open>The Matrix client, as far as direct chats use it\<close>

text \<open>The entries of an object, in their order; its keys are distinct.\<close>

type_synonym direct_content = "(user_id \<times> room_id list) list"

record 'w direct_client =
  dc_rooms :: "'w rooms_client"
  dc_cached :: "'w \<Rightarrow> direct_content option"
  dc_mutate :: "direct_content \<Rightarrow> 'w \<Rightarrow> 'w"
  dc_setAccountData :: "direct_content \<Rightarrow> ('w, unit) io"
  dc_isUserIgnored :: "user_id \<Rightarrow> ('w, bool) io"
  dc_getIgnoredUsers :: "('w, user_id list) io"
  dc_setIgnoredUsers :: "user_id list \<Rightarrow> ('w, unit) io"

section \<open>Account data\<close>

definition getDirectChatAccountData :: "'w direct_client \<Rightarrow> ('w, direct_content option) io" where
  "getDirectChatAccountData C w = (Inr (dc_cached C w), w)"

text \<open>The room is removed from the lists of the other users.\<close>

definition remove_from_others ::
    "user_id \<Rightarrow> room_id \<Rightarrow> direct_content \<Rightarrow> direct_content \<times> bool" where
  "remove_from_others userId r content =
     (map (\<lambda>(u, rs). if u \<noteq> userId then (u, filter (\<lambda>r'. r' \<noteq> r) rs) else (u, rs)) content,
      \<exists>(u, rs) \<in> set content. u \<noteq> userId \<and> length (filter (\<lambda>r'. r' \<noteq> r) rs) \<noteq> length rs)"

text \<open>Then it is added to the list of the signed-in user, unless it is there.\<close>

definition add_to_user :: "user_id \<Rightarrow> room_id \<Rightarrow> direct_content \<Rightarrow> direct_content \<times> bool" where
  "add_to_user userId r content =
     (let userRoomList = nullish (map_of content userId) []
      in if r \<in> set userRoomList then (content, False)
         else (map_set userId (userRoomList @ [r]) content, True))"

definition direct_room_levels :: PowerLevelsEntity where
  "direct_room_levels =
     \<lparr>pe_usersDefault = Some (direct_fromEntityToPowerLevel DRE_PARTICIPANT),
      pe_eventsDefault = None, pe_invite = None, pe_kick = None, pe_ban = None,
      pe_redact = Some (direct_fromEntityToPowerLevel direct_chat_deleteOthersMessages),
      pe_events = None\<rparr>"

definition direct_room_opts :: "user_id \<Rightarrow> ICreateRoomOpts" where
  "direct_room_opts u =
     \<lparr>co_name = None, co_topic = None, co_is_direct = True, co_visibility = ''private'',
      co_preset = ''trusted_private_chat'', co_invite = Some [u],
      co_power_levels = Some (fromEntityPowerLevelToRoomPowerLevel direct_room_levels),
      co_initial_state =
        [(''m.room.encryption'', [(''algorithm'', ''m.megolm.v1.aes-sha2'')]),
         (''com.sudoplatform.secure-comms.type'', [(''type'', room_type_value DIRECT_CHAT)])]\<rparr>"

definition cm_createDirectChat :: "'w direct_client \<Rightarrow> user_id \<Rightarrow> ('w, room_id) io" where
  "cm_createDirectChat C userIdToChatTo =
     or_fail ''Failed to create a direct chat room''
       (await (cm_getUserId (dc_rooms C)) (\<lambda>userId.
        await (rc_createRoom (dc_rooms C) (direct_room_opts userIdToChatTo)) (\<lambda>r.
        await (getDirectChatAccountData C) (\<lambda>directEvent.
          case remove_from_others userId r (nullish directEvent []) of (roomMap, removed) \<Rightarrow>
          (case add_to_user userId r roomMap of (roomMap', added) \<Rightarrow>
             await (if removed \<or> added then dc_setAccountData C roomMap' else ret ()) (\<lambda>_.
               ret r))))))"

definition cm_joinDirectChat :: "'w direct_client \<Rightarrow> user_id \<Rightarrow> room_id \<Rightarrow> ('w, unit) io" where
  "cm_joinDirectChat C userId chatId =
     await (getDirectChatAccountData C) (\<lambda>directEvent.
       or_fail ''Failed to join direct chat room''
         (await (rc_joinRoom (dc_rooms C) chatId) (\<lambda>_.
            case add_to_user userId chatId (nullish directEvent []) of (roomMap, added) \<Rightarrow>
              if added then dc_setAccountData C roomMap else ret ())))"

section \<open>The ignore list\<close>

definition cm_ignoreHandle :: "'w direct_client \<Rightarrow> user_id \<Rightarrow> ('w, unit) io" where
  "cm_ignoreHandle C u = or_fail ''Failed to ignore a handle'' (dc_setIgnoredUsers C [u])"

definition cm_unignoreHandle :: "'w direct_client \<Rightarrow> user_id \<Rightarrow> ('w, unit) io" where
  "cm_unignoreHandle C u =
     await (dc_isUserIgnored C u) (\<lambda>isIgnored.
       if \<not> isIgnored then ret ()
       else or_fail ''Failed to unignore a handle''
              (await (dc_getIgnoredUsers C) (\<lambda>ignoreList.
                 dc_setIgnoredUsers C (filter (\<lambda>item. item \<noteq> u) ignoreList))))"

definition cm_listIgnoredHandles :: "'w direct_client \<Rightarrow> ('w, user_id list) io" where
  "cm_listIgnoredHandles C = or_fail ''Failed to list ignored handles'' (dc_getIgnoredUsers C)"

section \<open>The direct chats service\<close>

record DirectChatEntity =
  de_chatId :: Recipient
  de_otherHandle :: HandleEntity

record DirectChatInvitationEntity =
  di_chatId :: Recipient
  di_inviterHandle :: HandleEntity

definition ds_chatExists :: "'w direct_client \<Rightarrow> user_id \<Rightarrow> ('w, bool) io" where
  "ds_chatExists C otherHandleId =
     await (cm_getUserId (dc_rooms C)) (\<lambda>currentUserId.
     await (cm_listRooms (dc_rooms C)) (\<lambda>rooms.
     await (getDirectChatAccountData C) (\<lambda>accountData.
       let directContent = nullish (Option.bind accountData (\<lambda>c. map_of c currentUserId)) [];
           directChats = filter (\<lambda>room. r_roomId room \<in> set directContent) rooms
       in await (promise_all (map (\<lambda>room.
              await (cm_getMembers (dc_rooms C) (r_roomId room)) (\<lambda>members.
                ret (case members of
                       None \<Rightarrow> False
                     | Some ms \<Rightarrow>
                         \<exists>m \<in> set ms. mo_userId m = otherHandleId
                           \<and> (mo_membership m = Some ''join'' \<or> mo_membership m = Some ''invite''))))
              directChats)) (\<lambda>results. ret (True \<in> set results)))))"

definition ds_create :: "'w direct_client \<Rightarrow> handle_id \<Rightarrow> ('w, room_id) io" where
  "ds_create C handleIdToChatTo =
     (let userIdToChatTo = toMatrixUserId handleIdToChatTo (rc_homeServer (dc_rooms C))
      in await (cm_userExists (dc_rooms C) userIdToChatTo) (\<lambda>userExists.
         if \<not> userExists
         then throw (HandleNotFoundError (Some ''Handle to chat to does not exist''))
         else await (ds_chatExists C userIdToChatTo) (\<lambda>exists.
                if exists then throw (DirectChatExistsError (Some ''Direct chat already exists''))
                else cm_createDirectChat C userIdToChatTo)))"

definition ds_acceptInvitation :: "'w direct_client \<Rightarrow> room_id \<Rightarrow> ('w, unit) io" where
  "ds_acceptInvitation C chatId =
     await (cm_getUserId (dc_rooms C)) (\<lambda>userId.
     await (cm_getRoom (dc_rooms C) chatId) (\<lambda>room.
       case room of
         None \<Rightarrow> throw (RoomNotFoundError None)
       | Some rm \<Rightarrow> cm_joinDirectChat C userId (r_roomId rm)))"

definition ds_declineInvitation :: "'w direct_client \<Rightarrow> room_id \<Rightarrow> ('w, unit) io" where
  "ds_declineInvitation C chatId =
     await (cm_getRoom (dc_rooms C) chatId) (\<lambda>room.
       case room of
         None \<Rightarrow> throw (RoomNotFoundError None)
       | Some rm \<Rightarrow> cm_leaveRoom (dc_rooms C) (r_roomId rm))"

text \<open>
  The array of the user inside the cached event loses the first occurrence of the room
  (\<open>userRoomList.splice(index, 1)\<close>); the account data itself is not written.
\<close>

definition splice_room :: "'w direct_client \<Rightarrow> user_id \<Rightarrow> room_id \<Rightarrow> ('w, unit) io" where
  "splice_room C userId r w =
     (Inr (),
      case dc_cached C w of
        None \<Rightarrow> w
      | Some c \<Rightarrow>
          (case map_of c userId of
             None \<Rightarrow> w
           | Some rs \<Rightarrow>
               if r \<in> set rs then dc_mutate C (map_set userId (remove1 r rs) c) w else w))"

text \<open>
  The rooms of a membership listed as direct. A room some member has left is stale: it is
  removed and left on the way. When no room is found, the rooms with a member event
  marked direct are taken instead. The room objects are read once, before the loop.
\<close>

definition has_left_member :: "room \<Rightarrow> bool" where
  "has_left_member rm \<longleftrightarrow> (\<exists>m \<in> set (r_members rm). mb_membership m = Some ''leave'')"

definition ds_findDirectChatRooms ::
    "'w direct_client \<Rightarrow> user_id \<Rightarrow> string \<Rightarrow> ('w, room list) io" where
  "ds_findDirectChatRooms C userId membership =
     await (cm_listRooms (dc_rooms C)) (\<lambda>rooms.
     await (getDirectChatAccountData C) (\<lambda>accountData.
       let directContent = nullish (Option.bind accountData (\<lambda>c. map_of c userId)) [];
           listed = filter (\<lambda>rm. r_myMembership rm = membership \<and> r_roomId rm \<in> set directContent) rooms;
           directChatRooms = filter (\<lambda>rm. \<not> has_left_member rm) listed;
           roomsToLeave = filter has_left_member listed
       in await (for_each (\<lambda>rm.
              await (splice_room C userId (r_roomId rm)) (\<lambda>_.
                cm_leaveRoom (dc_rooms C) (r_roomId rm))) roomsToLeave) (\<lambda>_.
            ret (if directChatRooms = []
                 then filter (\<lambda>rm. r_myMembership rm = membership
                        \<and> (\<exists>m \<in> set (r_members rm). mb_isDirect m)) rooms
                 else directChatRooms))))"

definition membership_missing :: sc_error where
  "membership_missing = DirectChatMembershipError (Some ''Direct chat membership not available'')"

definition ds_listInvitations :: "'w direct_client \<Rightarrow> ('w, DirectChatInvitationEntity list) io" where
  "ds_listInvitations C =
     await (cm_getUserId (dc_rooms C)) (\<lambda>userId.
     await (ds_findDirectChatRooms C userId ''invite'') (\<lambda>invited.
       lift_result (map_result (\<lambda>room.
         case find (\<lambda>m. mb_userId m \<noteq> userId) (r_members room) of
           None \<Rightarrow> Inl membership_missing
         | Some inviter \<Rightarrow> Inr
             \<lparr>di_chatId = toChatId (r_roomId room),
              di_inviterHandle =
                \<lparr>he_handleId = toHandleId (mb_userId inviter), he_name = mb_name inviter\<rparr>\<rparr>) invited)))"

definition ds_listJoined :: "'w direct_client \<Rightarrow> ('w, DirectChatEntity list) io" where
  "ds_listJoined C =
     await (cm_getUserId (dc_rooms C)) (\<lambda>userId.
     await (ds_findDirectChatRooms C userId ''join'') (\<lambda>joined.
       promise_all (map (\<lambda>room.
         await (cm_getMembers (dc_rooms C) (r_roomId room)) (\<lambda>members.
           case Option.bind members (find (\<lambda>m. mo_userId m \<noteq> userId)) of
             None \<Rightarrow> throw membership_missing
           | Some other \<Rightarrow> ret
               \<lparr>de_chatId = toChatId (r_roomId room),
                de_otherHandle =
                  \<lparr>he_handleId = toHandleId (mo_userId other),
                   he_name = nullish (mo_displayName other) ''''\<rparr>\<rparr>)) joined)))"

definition ds_blockHandle :: "'w direct_client \<Rightarrow> handle_id \<Rightarrow> ('w, unit) io" where
  "ds_blockHandle C handleId =
     (let userIdToBlock = toMatrixUserId handleId (rc_homeServer (dc_rooms C))
      in await (cm_userExists (dc_rooms C) userIdToBlock) (\<lambda>userExists.
         if \<not> userExists
         then throw (HandleNotFoundError (Some ''Handle to block does not exist''))
         else cm_ignoreHandle C userIdToBlock))"

definition ds_unblockHandle :: "'w direct_client \<Rightarrow> handle_id \<Rightarrow> ('w, unit) io" where
  "ds_unblockHandle C handleId =
     (let userIdToUnblock = toMatrixUserId handleId (rc_homeServer (dc_rooms C))
      in await (cm_userExists (dc_rooms C) userIdToUnblock) (\<lambda>userExists.
         if \<not> userExists
         then throw (HandleNotFoundError (Some ''Handle to unblock does not exist''))
         else cm_unignoreHandle C userIdToUnblock))"

definition ds_listBlockedHandles :: "'w direct_client \<Rightarrow> ('w, user_id list) io" where
  "ds_listBlockedHandles C = cm_listIgnoredHandles C"

section \<open>Use cases\<close>

record 'w chat_sdk =
  cs_getMatrixClient :: "handle_id \<Rightarrow> ('w, 'w direct_client) io"
  cs_delay :: "int \<Rightarrow> ('w, unit) io"

definition chat_then_delay :: "'w chat_sdk \<Rightarrow> ('w, 'a) io \<Rightarrow> ('w, 'a) io" where
  "chat_then_delay S m = await m (\<lambda>x. await (cs_delay S 3000) (\<lambda>_. ret x))"

definition ucd_acceptInvitation :: "'w chat_sdk \<Rightarrow> handle_id \<Rightarrow> string \<Rightarrow> ('w, unit) io" where
  "ucd_acceptInvitation S handleId i =
     chat_then_delay S (await (cs_getMatrixClient S handleId) (\<lambda>C. ds_acceptInvitation C i))"

definition ucd_declineInvitation :: "'w chat_sdk \<Rightarrow> handle_id \<Rightarrow> string \<Rightarrow> ('w, unit) io" where
  "ucd_declineInvitation S handleId i =
     chat_then_delay S (await (cs_getMatrixClient S handleId) (\<lambda>C. ds_declineInvitation C i))"

definition ucd_createChat :: "'w chat_sdk \<Rightarrow> handle_id \<Rightarrow> handle_id \<Rightarrow> ('w, Recipient) io" where
  "ucd_createChat S handleId handleIdToChatTo =
     chat_then_delay S (await (cs_getMatrixClient S handleId) (\<lambda>C.
       await (ds_create C handleIdToChatTo) (\<lambda>r. ret (toChatId r))))"

definition ucd_blockHandle :: "'w chat_sdk \<Rightarrow> handle_id \<Rightarrow> handle_id \<Rightarrow> ('w, unit) io" where
  "ucd_blockHandle S handleId handleIdToBlock =
     chat_then_delay S (await (cs_getMatrixClient S handleId) (\<lambda>C. ds_blockHandle C handleIdToBlock))"

definition ucd_unblockHandle :: "'w chat_sdk \<Rightarrow> handle_id \<Rightarrow> handle_id \<Rightarrow> ('w, unit) io" where
  "ucd_unblockHandle S handleId handleIdToUnblock =
     chat_then_delay S (await (cs_getMatrixClient S handleId) (\<lambda>C. ds_unblockHandle C handleIdToUnblock))"

definition ucd_listBlockedHandles :: "'w chat_sdk \<Rightarrow> handle_id \<Rightarrow> ('w, handle_id list) io" where
  "ucd_listBlockedHandles S handleId =
     await (cs_getMatrixClient S handleId) (\<lambda>C.
       await (ds_listBlockedHandles C) (\<lambda>blockedIds. ret (map toHandleId blockedIds)))"

definition ucd_listInvitations ::
    "'w chat_sdk \<Rightarrow> handle_id \<Rightarrow> ('w, DirectChatInvitationEntity list) io" where
  "ucd_listInvitations S handleId = await (cs_getMatrixClient S handleId) ds_listInvitations"

definition ucd_listJoinedChats :: "'w chat_sdk \<Rightarrow> handle_id \<Rightarrow> ('w, DirectChatEntity list) io" where
  "ucd_listJoinedChats S handleId = await (cs_getMatrixClient S handleId) ds_listJoined"


section \<open>Lemmas\<close>

lemma map_of_remove_from_others:
  "map_of (fst (remove_from_others u r c)) v =
     (if v = u then map_of c v else map_option (filter (\<lambda>r'. r' \<noteq> r)) (map_of c v))"
  by (induction c) (auto simp: remove_from_others_def)

lemma not_removed: "\<not> snd (remove_from_others u r c) \<Longrightarrow> fst (remove_from_others u r c) = c"
proof -
  assume n: "\<not> snd (remove_from_others u r c)"
  have "(\<lambda>(v, rs). if v \<noteq> u then (v, filter (\<lambda>r'. r' \<noteq> r) rs) else (v, rs)) e = e"
    if e: "e \<in> set c" for e
  proof (cases e)
    case (Pair v rs)
    then have "v \<noteq> u \<longrightarrow> length (filter (\<lambda>r'. r' \<noteq> r) rs) = length rs"
      using n e by (auto simp: remove_from_others_def)
    then have "v \<noteq> u \<longrightarrow> r \<notin> set rs"
      by (metis (mono_tags, lifting) length_filter_less nat_neq_iff)
    then show ?thesis using Pair by (auto intro: filter_True)
  qed
  then show ?thesis by (simp add: remove_from_others_def map_idI)
qed

definition listed_for :: "direct_content \<Rightarrow> user_id \<Rightarrow> room_id list" where
  "listed_for c u = nullish (map_of c u) []"

lemma listed_after_create:
  assumes "remove_from_others u r c = (c1, removed)" and "add_to_user u r c1 = (c2, added)"
  shows "r \<in> set (listed_for c2 u)" and "v \<noteq> u \<Longrightarrow> r \<notin> set (listed_for c2 v)"
    and "\<not> removed \<and> \<not> added \<Longrightarrow> c2 = c"
proof -
  have c1: "map_of c1 v = (if v = u then map_of c v else map_option (filter (\<lambda>r'. r' \<noteq> r)) (map_of c v))" for v
    using map_of_remove_from_others [of u r c v] assms(1) by simp
  show "r \<in> set (listed_for c2 u)"
    using assms(2) by (auto simp: add_to_user_def listed_for_def map_of_map_set Let_def split: if_splits)
  show "v \<noteq> u \<Longrightarrow> r \<notin> set (listed_for c2 v)"
    using assms(2) c1 [of v]
    by (cases "map_of c v")
      (auto simp: add_to_user_def listed_for_def map_of_map_set Let_def split: if_splits)
  show "\<not> removed \<and> \<not> added \<Longrightarrow> c2 = c"
    using not_removed [of u r c] assms by (auto simp: add_to_user_def Let_def split: if_splits)
qed

lemma createDirectChat_Inr:
  assumes "cm_createDirectChat C x w = (Inr r, w')"
  obtains u w1 c2 where "\<exists>w0. cm_getUserId (dc_rooms C) w = (Inr u, w0)"
    and "r \<in> set (listed_for c2 u)" and "\<And>v. v \<noteq> u \<Longrightarrow> r \<notin> set (listed_for c2 v)"
    and "dc_setAccountData C c2 w1 = (Inr (), w') \<or> w' = w1 \<and> nullish (dc_cached C w1) [] = c2"
proof -
  from assms obtain u w0 w1 where u: "cm_getUserId (dc_rooms C) w = (Inr u, w0)"
    and w1: "rc_createRoom (dc_rooms C) (direct_room_opts x) w0 = (Inr r, w1)"
    and rest: "(case remove_from_others u r (nullish (dc_cached C w1) []) of (roomMap, removed) \<Rightarrow>
        case add_to_user u r roomMap of (roomMap', added) \<Rightarrow>
          await (if removed \<or> added then dc_setAccountData C roomMap' else ret ()) (\<lambda>_. ret r)) w1
        = (Inr r, w')"
    by (auto simp: cm_createDirectChat_def or_fail_def try_catch_def throw_def await_def ret_def
        getDirectChatAccountData_def split: prod.splits sum.splits)
  obtain c1 removed where c1: "remove_from_others u r (nullish (dc_cached C w1) []) = (c1, removed)"
    by fastforce
  obtain c2 added where c2: "add_to_user u r c1 = (c2, added)" by fastforce
  note listed = listed_after_create [OF c1 c2]
  show ?thesis
  proof (rule that [of u c2 w1])
    show "dc_setAccountData C c2 w1 = (Inr (), w') \<or> w' = w1 \<and> nullish (dc_cached C w1) [] = c2"
      using rest c1 c2 listed(3) by (auto simp: await_Inr_iff ret_apply split: if_splits)
  qed (use u listed in auto)
qed


section \<open>An instance\<close>

text \<open>
  A client whose account data and ignore list are the state, over two fixed rooms: one with
  the user bob, and one with cat, who has left.
\<close>

record chat_world =
  cw_direct :: direct_content
  cw_ignored :: "user_id list"

definition chat_room :: "room_id \<Rightarrow> user_id \<Rightarrow> string \<Rightarrow> room" where
  "chat_room r u ms =
     \<lparr>r_roomId = r, r_name = ''chat'',
      r_members = [demo_member ''@ann:hs'' ''join'', demo_member u ms],
      r_myMembership = ''join'', r_joinedCount = 2, r_powerLevels = None\<rparr>"

definition demo_direct :: "chat_world direct_client" where
  "demo_direct =
     \<lparr>dc_rooms = quiet_client [chat_room ''!b:hs'' ''@bob:hs'' ''join'', chat_room ''!c:hs'' ''@cat:hs'' ''leave''],
      dc_cached = (\<lambda>w. Some (cw_direct w)),
      dc_mutate = (\<lambda>c w. w\<lparr>cw_direct := c\<rparr>),
      dc_setAccountData = (\<lambda>c w. (Inr (), w\<lparr>cw_direct := c\<rparr>)),
      dc_isUserIgnored = (\<lambda>u w. (Inr (u \<in> set (cw_ignored w)), w)),
      dc_getIgnoredUsers = (\<lambda>w. (Inr (cw_ignored w), w)),
      dc_setIgnoredUsers = (\<lambda>us w. (Inr (), w\<lparr>cw_ignored := us\<rparr>))\<rparr>"

lemma demo_direct_sel [simp]:
  "dc_rooms demo_direct = quiet_client [chat_room ''!b:hs'' ''@bob:hs'' ''join'', chat_room ''!c:hs'' ''@cat:hs'' ''leave'']"
  "dc_cached demo_direct w = Some (cw_direct w)"
  "dc_setAccountData demo_direct c w = (Inr (), w\<lparr>cw_direct := c\<rparr>)"
  "dc_getIgnoredUsers demo_direct w = (Inr (cw_ignored w), w)"
  "dc_setIgnoredUsers demo_direct us w = (Inr (), w\<lparr>cw_ignored := us\<rparr>)"
  by (simp_all add: demo_direct_def)

definition demo_chats :: chat_world where
  "demo_chats = \<lparr>cw_direct = [(''@ann:hs'', [''!b:hs'', ''!c:hs''])], cw_ignored = [''@dan:hs'']\<rparr>"

lemma quiet_getUserId: "cm_getUserId (quiet_client rooms) w = (Inr ''@ann:hs'', w)"
  by (simp add: cm_getUserId_def ret_apply)

section \<open>Properties\<close>

text \<open>
  A new direct chat is listed for its creator and for nobody else. For every client
  whose write of the account data is read back from its cache, after a successful creation
  the cached content lists the new room under the signed-in user's own id, and under no
  other user's.
\<close>

theorem direct_chat_recorded:
  assumes "\<And>c w w'. dc_setAccountData C c w = (Inr (), w') \<Longrightarrow> dc_cached C w' = Some c"
    and "cm_createDirectChat C x w = (Inr r, w')"
  shows "\<exists>u w0. cm_getUserId (dc_rooms C) w = (Inr u, w0)
    \<and> (\<forall>v. r \<in> set (listed_for (nullish (dc_cached C w') []) v) \<longleftrightarrow> v = u)"
proof -
  from assms(2) obtain u w1 c2 where u: "\<exists>w0. cm_getUserId (dc_rooms C) w = (Inr u, w0)"
    "r \<in> set (listed_for c2 u)" "\<And>v. v \<noteq> u \<Longrightarrow> r \<notin> set (listed_for c2 v)"
    and c2: "dc_setAccountData C c2 w1 = (Inr (), w') \<or> w' = w1 \<and> nullish (dc_cached C w1) [] = c2"
    using createDirectChat_Inr by metis
  have "nullish (dc_cached C w') [] = c2" using c2 assms(1) by (metis nullish_simps(2))
  with u show ?thesis by blast
qed

theorem direct_chat_recorded_witness:
  "\<exists>w'. cm_createDirectChat demo_direct ''@eve:hs'' demo_chats = (Inr ''!new:hs'', w')
    \<and> ''!new:hs'' \<in> set (listed_for (nullish (dc_cached demo_direct w') []) ''@ann:hs'')"
proof -
  have "\<exists>w'. cm_createDirectChat demo_direct ''@eve:hs'' demo_chats = (Inr ''!new:hs'', w')"
    by (simp add: cm_createDirectChat_def or_fail_def try_catch_def await_def ret_apply quiet_getUserId
        getDirectChatAccountData_def remove_from_others_def add_to_user_def demo_chats_def)
  then obtain w' where w': "cm_createDirectChat demo_direct ''@eve:hs'' demo_chats = (Inr ''!new:hs'', w')"
    by blast
  have "\<And>c w w'. dc_setAccountData demo_direct c w = (Inr (), w') \<Longrightarrow> dc_cached demo_direct w' = Some c"
    by auto
  from direct_chat_recorded [OF this w'] w' show ?thesis by (auto simp: quiet_getUserId)
qed

text \<open>
  C36: No second chat with the same handle. When a room listed as direct for the signed-in user
  has the other handle as a joined or invited member, creating a direct chat with that
  handle ends in an error and changes nothing, for every client whose reads are pure.
\<close>

theorem no_second_chat:
  assumes "room_reads_pure (dc_rooms C)" and "\<And>u. reads_only (rc_getProfileInfo (dc_rooms C) u)"
    and "cm_getUserId (dc_rooms C) w = (Inr me, w)"
    and "rc_getRooms (dc_rooms C) w = (Inr rooms, w)" and "room \<in> set rooms"
    and "dc_cached C w = Some content" and "r_roomId room \<in> set (listed_for content me)"
    and "cm_getMembers (dc_rooms C) (r_roomId room) w = (Inr (Some ms), w)" and "m \<in> set ms"
    and "mo_userId m = toMatrixUserId h (rc_homeServer (dc_rooms C))"
    and "mo_membership m = Some ''join'' \<or> mo_membership m = Some ''invite''"
  shows "\<exists>e. ds_create C h w = (Inl e, w)"
proof -
  let ?u = "toMatrixUserId h (rc_homeServer (dc_rooms C))"
  let ?check = "\<lambda>room. await (cm_getMembers (dc_rooms C) (r_roomId room)) (\<lambda>members. ret
    (case members of None \<Rightarrow> False | Some ms \<Rightarrow> \<exists>m \<in> set ms. mo_userId m = ?u
      \<and> (mo_membership m = Some ''join'' \<or> mo_membership m = Some ''invite'')))"
  let ?chats = "filter (\<lambda>room. r_roomId room \<in> set (listed_for content me)) rooms"
  have pure: "reads_only (?check rm)" for rm
    by (intro reads_only_await reads_only_getMembers [OF assms(1)] reads_only_ret)
  have exists: "ds_chatExists C ?u w = await (promise_all (map ?check ?chats)) (\<lambda>rs. ret (True \<in> set rs)) w"
    using assms(3,4,6)
    by (simp add: ds_chatExists_def cm_listRooms_def or_fail_def try_catch_def await_def Let_def
        getDirectChatAccountData_def listed_for_def)
  have all: "snd (promise_all (map ?check ?chats) w) = w"
    by (rule promise_all_reads_only) (use pure in auto)
  have "?check room w = (Inr True, w)"
    using assms(8-11) by (auto simp: await_def ret_apply)
  then have "True \<in> set bs" if "promise_all (map ?check ?chats) w = (Inr bs, w)" for bs
    using promise_all_value [of "map ?check ?chats" w bs w "?check room"] that assms(5,7) pure
    by auto
  then have result: "ds_chatExists C ?u w = (Inr True, w) \<or> (\<exists>e. ds_chatExists C ?u w = (Inl e, w))"
    using exists all
    by (cases "promise_all (map ?check ?chats) w"; cases "fst (promise_all (map ?check ?chats) w)")
      (auto simp: await_def ret_apply)
  have "snd (cm_userExists (dc_rooms C) ?u w) = w"
    by (rule reads_onlyD, unfold cm_userExists_def)
      (intro reads_only_try_catch reads_only_await assms(2), simp_all split: if_split)
  then obtain r where "cm_userExists (dc_rooms C) ?u w = (r, w)" by (metis prod.collapse)
  with result show ?thesis
    by (cases r) (auto simp: ds_create_def Let_def await_def throw_apply)
qed

lemma demo_chat_members:
  "cm_getMembers (dc_rooms demo_direct) (r_roomId (chat_room ''!b:hs'' ''@bob:hs'' ''join'')) w = (Inr (Some
     [\<lparr>mo_roomId = ''!b:hs'', mo_userId = ''@ann:hs'', mo_displayName = Some ''@ann:hs'', mo_membership = Some ''join''\<rparr>,
      \<lparr>mo_roomId = ''!b:hs'', mo_userId = ''@bob:hs'', mo_displayName = Some ''@bob:hs'', mo_membership = Some ''join''\<rparr>]), w)"
  by (simp add: cm_getMembers_def missing_forbidden_or_fail_def try_catch_apply chat_room_def
      demo_member_def ret_apply)

theorem no_second_chat_witness:
  "\<exists>e. ds_create demo_direct ''bob'' demo_chats = (Inl e, demo_chats)"
  by (rule no_second_chat [OF _ _ _ _ _ _ _ demo_chat_members,
        where me = "''@ann:hs''" and content = "cw_direct demo_chats"
        and rooms = "[chat_room ''!b:hs'' ''@bob:hs'' ''join'', chat_room ''!c:hs'' ''@cat:hs'' ''leave'']"
        and m = "\<lparr>mo_roomId = ''!b:hs'', mo_userId = ''@bob:hs'', mo_displayName = Some ''@bob:hs'',
          mo_membership = Some ''join''\<rparr>"])
    (simp_all add: quiet_client_pure quiet_getUserId ret_apply demo_chats_def listed_for_def chat_room_def
      toMatrixUserId_def)

text \<open>
  Blocking a handle forgets the ones blocked before. For every client whose ignore list is
  read back as it was last set, after a successful block the list of blocked users holds
  that handle's user and nobody else, whatever it held before.
\<close>

theorem block_replaces_list:
  assumes "\<And>us w w'. dc_setIgnoredUsers C us w = (Inr (), w') \<Longrightarrow> dc_getIgnoredUsers C w' = (Inr us, w')"
    and "ds_blockHandle C h w = (Inr (), w')"
  shows "ds_listBlockedHandles C w' = (Inr [toMatrixUserId h (rc_homeServer (dc_rooms C))], w')"
proof -
  from assms(2) obtain w1 where
    "dc_setIgnoredUsers C [toMatrixUserId h (rc_homeServer (dc_rooms C))] w1 = (Inr (), w')"
    by (auto simp: ds_blockHandle_def cm_ignoreHandle_def or_fail_Inr_iff await_Inr_iff throw_apply
        Let_def split: if_splits)
  from assms(1) [OF this] show ?thesis
    by (simp add: ds_listBlockedHandles_def cm_listIgnoredHandles_def or_fail_def try_catch_def)
qed

theorem block_replaces_list_witness:
  "\<exists>w'. ds_blockHandle demo_direct ''bob'' demo_chats = (Inr (), w')
    \<and> ds_listBlockedHandles demo_direct demo_chats = (Inr [''@dan:hs''], demo_chats)
    \<and> ds_listBlockedHandles demo_direct w' = (Inr [''@bob:hs''], w')"
proof -
  obtain w' where w': "ds_blockHandle demo_direct ''bob'' demo_chats = (Inr (), w')"
    by (simp add: ds_blockHandle_def cm_userExists_def cm_ignoreHandle_def or_fail_def try_catch_def
        await_def ret_apply)
  have "\<And>us w w'. dc_setIgnoredUsers demo_direct us w = (Inr (), w') \<Longrightarrow>
      dc_getIgnoredUsers demo_direct w' = (Inr us, w')" by auto
  from block_replaces_list [OF this w'] w' show ?thesis
    by (simp add: toMatrixUserId_def ds_listBlockedHandles_def cm_listIgnoredHandles_def or_fail_def
        try_catch_def demo_chats_def)
qed

end
