(* ===== verification/Storage.thy ===== *)
theory Storage
  imports Prelude
begin

text \<open>
  Persistent storage: \<open>DefaultStorageModule\<close> (\<open>src/public/modules/storageModule.ts\<close>), its
  IndexedDB provider (\<open>src/private/data/storage/indexeddb\<close>) and the session store
  (\<open>src/private/data/storage/secureCommsStore.ts\<close>). The browser's databases, the provider
  objects (by identity) and the cache of the module are the state. The Matrix store that
  lives beside the session store is third-party; whether its teardown or the opening of a
  database fails is a parameter.
\<close>

section \<open>Databases and providers\<close>

datatype idb_value = IdbScalar string | IdbArray "string list"

type_synonym idb_stores = "string \<rightharpoonup> (string \<rightharpoonup> idb_value)"

record provider =
  pv_dbName :: string
  pv_open :: bool

record storage_world =
  sw_dbs :: "string \<rightharpoonup> nat \<times> idb_stores"
  sw_providers :: "nat \<rightharpoonup> provider"
  sw_next :: nat
  sw_cache :: "handle_id \<rightharpoonup> nat"

record storage_env =
  se_factory :: bool
  se_openError :: "string \<Rightarrow> sc_error option"
  se_matrixDestroyError :: "handle_id \<Rightarrow> sc_error option"

definition migrations :: "(idb_stores \<Rightarrow> idb_stores) list" where
  "migrations = [\<lambda>db. db(''session'' \<mapsto> Map.empty)]"

text \<open>\<open>migrations.forEach((migration, index) => { if (oldVersion <= index) migration(db) })\<close>\<close>

fun run_migrations ::
    "nat \<Rightarrow> nat \<Rightarrow> (idb_stores \<Rightarrow> idb_stores) list \<Rightarrow> idb_stores \<Rightarrow> idb_stores" where
  "run_migrations oldVersion index [] db = db"
| "run_migrations oldVersion index (m # ms) db =
     run_migrations oldVersion (index + 1) ms (if oldVersion \<le> index then m db else db)"

text \<open>
  Opening a database at a version: a new one starts at version 0, an older one is upgraded,
  a newer one is refused.
\<close>

definition open_database ::
    "nat \<Rightarrow> (idb_stores \<Rightarrow> idb_stores) list \<Rightarrow> (nat \<times> idb_stores) option \<Rightarrow>
     (nat \<times> idb_stores) option" where
  "open_database version ms existing =
     (case nullish existing (0, Map.empty) of (v, db) \<Rightarrow>
        if v > version then None
        else if v = version then Some (v, db)
        else Some (version, run_migrations v 0 ms db))"

definition db_name :: "handle_id \<Rightarrow> string" where
  "db_name handleId = ''secure-comms:'' @ handleId"

definition pv_openDB :: "storage_env \<Rightarrow> nat \<Rightarrow> (storage_world, unit) io" where
  "pv_openDB E p w =
     (case sw_providers w p of
        None \<Rightarrow> (Inl TypeError, w)
      | Some pv \<Rightarrow>
          (case se_openError E (pv_dbName pv) of
             Some e \<Rightarrow> (Inl e, w)
           | None \<Rightarrow>
               (case open_database (length migrations) migrations (sw_dbs w (pv_dbName pv)) of
                  None \<Rightarrow> (Inl (ForeignError 1), w)
                | Some db \<Rightarrow>
                    (Inr (), w\<lparr>sw_dbs := (sw_dbs w)(pv_dbName pv \<mapsto> db),
                              sw_providers := (sw_providers w)(p \<mapsto> pv\<lparr>pv_open := True\<rparr>)\<rparr>))))"

definition pv_closeDB :: "nat \<Rightarrow> (storage_world, unit) io" where
  "pv_closeDB p w =
     (case sw_providers w p of
        None \<Rightarrow> (Inl TypeError, w)
      | Some pv \<Rightarrow> (Inr (), w\<lparr>sw_providers := (sw_providers w)(p \<mapsto> pv\<lparr>pv_open := False\<rparr>)\<rparr>))"

definition pv_destroyDB :: "nat \<Rightarrow> (storage_world, unit) io" where
  "pv_destroyDB p =
     await (pv_closeDB p) (\<lambda>_ w.
       case sw_providers w p of
         None \<Rightarrow> (Inl TypeError, w)
       | Some pv \<Rightarrow> (Inr (), w\<lparr>sw_dbs := (sw_dbs w)(pv_dbName pv := None)\<rparr>))"

text \<open>
  The object store an item operation works on: the provider must be open
  (\<open>ensureDbOpen\<close>), and the database reports a missing object store as an error of its own.
\<close>

definition pv_store :: "nat \<Rightarrow> string \<Rightarrow> storage_world \<Rightarrow> (string \<times> (string \<rightharpoonup> idb_value)) result" where
  "pv_store p store w =
     (case sw_providers w p of
        None \<Rightarrow> Inl TypeError
      | Some pv \<Rightarrow>
          if \<not> pv_open pv then Inl (PlainError ''database not open'')
          else (case sw_dbs w (pv_dbName pv) of
                  None \<Rightarrow> Inl (ForeignError 2)
                | Some (v, stores) \<Rightarrow>
                    (case stores store of
                       None \<Rightarrow> Inl (ForeignError 3)
                     | Some items \<Rightarrow> Inr (pv_dbName pv, items))))"

definition put_store ::
    "string \<Rightarrow> string \<Rightarrow> (string \<rightharpoonup> idb_value) \<Rightarrow> storage_world \<Rightarrow> storage_world" where
  "put_store db store items w =
     w\<lparr>sw_dbs := (sw_dbs w)(db :=
         map_option (\<lambda>(v, stores). (v, stores(store \<mapsto> items))) (sw_dbs w db))\<rparr>"

definition pv_createItem ::
    "nat \<Rightarrow> string \<Rightarrow> string \<Rightarrow> idb_value \<Rightarrow> (storage_world, unit) io" where
  "pv_createItem p store key v w =
     (case pv_store p store w of
        Inl e \<Rightarrow> (Inl e, w)
      | Inr (db, items) \<Rightarrow> (Inr (), put_store db store (items(key \<mapsto> v)) w))"

definition pv_updateItem ::
    "nat \<Rightarrow> string \<Rightarrow> string \<Rightarrow> idb_value \<Rightarrow> (storage_world, unit) io" where
  "pv_updateItem p store key v w =
     (case pv_store p store w of
        Inl e \<Rightarrow> (Inl e, w)
      | Inr (db, items) \<Rightarrow> (Inr (), put_store db store (items(key \<mapsto> v)) w))"

definition pv_deleteItem :: "nat \<Rightarrow> string \<Rightarrow> string \<Rightarrow> (storage_world, unit) io" where
  "pv_deleteItem p store key w =
     (case pv_store p store w of
        Inl e \<Rightarrow> (Inl e, w)
      | Inr (db, items) \<Rightarrow> (Inr (), put_store db store (items(key := None)) w))"

definition pv_getItem ::
    "nat \<Rightarrow> string \<Rightarrow> string \<Rightarrow> (storage_world, idb_value option) io" where
  "pv_getItem p store key w =
     (case pv_store p store w of
        Inl e \<Rightarrow> (Inl e, w)
      | Inr (db, items) \<Rightarrow> (Inr (items key), w))"

definition pv_getItems ::
    "nat \<Rightarrow> string \<Rightarrow> string \<Rightarrow> nat option \<Rightarrow> nat option \<Rightarrow> (storage_world, string list) io" where
  "pv_getItems p store key limit offset w =
     (case pv_store p store w of
        Inl e \<Rightarrow> (Inl e, w)
      | Inr (db, items) \<Rightarrow>
          (Inr (case items key of
                  None \<Rightarrow> []
                | Some (IdbScalar x) \<Rightarrow> [x]
                | Some (IdbArray xs) \<Rightarrow>
                    (let rest = drop (nullish offset 0) xs
                     in case limit of None \<Rightarrow> rest | Some n \<Rightarrow> take n rest)), w))"

section \<open>The session store\<close>

text \<open>The token is stored as the scalar it is; another kind of value is not a token.\<close>

definition ss_getAccessToken :: "nat \<Rightarrow> (storage_world, string option) io" where
  "ss_getAccessToken p =
     await (pv_getItem p ''session'' ''accessToken'') (\<lambda>v.
       ret (case v of Some (IdbScalar t) \<Rightarrow> Some t | _ \<Rightarrow> None))"

definition ss_saveAccessToken :: "nat \<Rightarrow> string \<Rightarrow> (storage_world, unit) io" where
  "ss_saveAccessToken p accessToken =
     pv_updateItem p ''session'' ''accessToken'' (IdbScalar accessToken)"

definition ss_deleteAccessToken :: "nat \<Rightarrow> (storage_world, unit) io" where
  "ss_deleteAccessToken p = pv_deleteItem p ''session'' ''accessToken''"

section \<open>The storage module\<close>

definition new_provider :: "handle_id \<Rightarrow> (storage_world, nat) io" where
  "new_provider handleId w =
     (Inr (sw_next w),
      w\<lparr>sw_next := sw_next w + 1,
        sw_providers := (sw_providers w)(sw_next w \<mapsto> \<lparr>pv_dbName = db_name handleId, pv_open = False\<rparr>)\<rparr>)"

definition useHandleStorage ::
    "storage_env \<Rightarrow> handle_id \<Rightarrow> (storage_world, nat option) io" where
  "useHandleStorage E handleId w =
     (case sw_cache w handleId of
        Some p \<Rightarrow> (Inr (Some p), w\<lparr>sw_cache := (sw_cache w)(handleId \<mapsto> p)\<rparr>)
      | None \<Rightarrow>
          if \<not> se_factory E then (Inr None, w)
          else (case await (new_provider handleId)
                       (\<lambda>p. await (pv_openDB E p) (\<lambda>_. ret p)) w of
                  (Inl _, w') \<Rightarrow> (Inl (PlainError ''failed to use handle storage''), w')
                | (Inr p, w') \<Rightarrow> (Inr (Some p), w'\<lparr>sw_cache := (sw_cache w')(handleId \<mapsto> p)\<rparr>)))"

definition matrix_destroy :: "storage_env \<Rightarrow> handle_id \<Rightarrow> (storage_world, unit) io" where
  "matrix_destroy E handleId =
     (case se_matrixDestroyError E handleId of None \<Rightarrow> ret () | Some e \<Rightarrow> throw e)"

definition uncache :: "handle_id \<Rightarrow> (storage_world, unit) io" where
  "uncache handleId w = (Inr (), w\<lparr>sw_cache := (sw_cache w)(handleId := None)\<rparr>)"

definition closeHandleStorage :: "storage_env \<Rightarrow> handle_id \<Rightarrow> (storage_world, unit) io" where
  "closeHandleStorage E handleId =
     await (useHandleStorage E handleId) (\<lambda>handleStorage.
     await (case handleStorage of
              None \<Rightarrow> ret ()
            | Some p \<Rightarrow> await (matrix_destroy E handleId) (\<lambda>_. pv_closeDB p)) (\<lambda>_.
       uncache handleId))"

definition deleteHandleStorage :: "storage_env \<Rightarrow> handle_id \<Rightarrow> (storage_world, unit) io" where
  "deleteHandleStorage E handleId =
     await (useHandleStorage E handleId) (\<lambda>handleStorage.
     await (case handleStorage of
              None \<Rightarrow> ret ()
            | Some p \<Rightarrow> await (matrix_destroy E handleId) (\<lambda>_.
                        await (pv_closeDB p) (\<lambda>_. pv_destroyDB p))) (\<lambda>_.
       uncache handleId))"

section \<open>The interface the session manager relies on\<close>

record ('s, 'st) storage_module =
  sm_use :: "handle_id \<Rightarrow> string option \<Rightarrow> ('s, 'st option) io"
  sm_close :: "handle_id \<Rightarrow> ('s, unit) io"
  sm_delete :: "handle_id \<Rightarrow> ('s, unit) io"
  sm_getToken :: "'st \<Rightarrow> ('s, string option) io"
  sm_saveToken :: "'st \<Rightarrow> string \<Rightarrow> ('s, unit) io"
  sm_deleteToken :: "'st \<Rightarrow> ('s, unit) io"

text \<open>
  What a working storage promises: \<open>tok s h\<close> is the token stored for a handle, and
  \<open>holds s h st\<close> says that \<open>st\<close> is an open storage of that handle.
\<close>

locale token_store =
  fixes M :: "('s, 'st) storage_module"
    and ok :: "'s \<Rightarrow> bool"
    and tok :: "'s \<Rightarrow> handle_id \<Rightarrow> string option"
    and holds :: "'s \<Rightarrow> handle_id \<Rightarrow> 'st \<Rightarrow> bool"
  assumes use_law: "ok s \<Longrightarrow> \<exists>st s'. sm_use M h pass s = (Inr (Some st), s') \<and> ok s'
      \<and> holds s' h st \<and> tok s' = tok s"
    and get_law: "ok s \<Longrightarrow> holds s h st \<Longrightarrow> sm_getToken M st s = (Inr (tok s h), s)"
    and save_law: "ok s \<Longrightarrow> holds s h st \<Longrightarrow> \<exists>s'. sm_saveToken M st t s = (Inr (), s') \<and> ok s'
      \<and> holds s' h st \<and> tok s' = (tok s)(h := Some t)"
    and del_law: "ok s \<Longrightarrow> holds s h st \<Longrightarrow> \<exists>s'. sm_deleteToken M st s = (Inr (), s') \<and> ok s'
      \<and> holds s' h st \<and> tok s' = (tok s)(h := None)"
    and close_law: "ok s \<Longrightarrow> \<exists>s'. sm_close M h s = (Inr (), s') \<and> ok s' \<and> tok s' = tok s"
    and delete_law: "ok s \<Longrightarrow> \<exists>s'. sm_delete M h s = (Inr (), s') \<and> ok s'
      \<and> tok s' = (tok s)(h := None)"
begin

text \<open>A token saved through one opening of the storage is found through the next.\<close>

lemma reopen_finds_token:
  assumes "ok s" and "holds s h st" and "sm_saveToken M st t s = (Inr (), s1)"
  shows "\<exists>s2 st' s3. sm_close M h s1 = (Inr (), s2) \<and> sm_use M h pass s2 = (Inr (Some st'), s3)
    \<and> sm_getToken M st' s3 = (Inr (Some t), s3)"
proof -
  from save_law [OF assms(1,2), of t] assms(3) have s1: "ok s1" "tok s1 h = Some t" by auto
  from close_law [OF s1(1)] obtain s2 where s2: "sm_close M h s1 = (Inr (), s2)" "ok s2"
    "tok s2 = tok s1" by blast
  from use_law [OF s2(2)] obtain st' s3 where "sm_use M h pass s2 = (Inr (Some st'), s3)" "ok s3"
    "holds s3 h st'" "tok s3 = tok s2" by blast
  then show ?thesis using s1 s2 get_law by metis
qed

text \<open>Nothing done for one handle touches the token of another.\<close>

lemma other_handle:
  assumes "ok s" and "holds s h st" and "h' \<noteq> h"
  shows "tok (snd (sm_saveToken M st t s)) h' = tok s h'"
    and "tok (snd (sm_deleteToken M st s)) h' = tok s h'"
    and "tok (snd (sm_delete M h s)) h' = tok s h'"
  using save_law [OF assms(1,2), of t] del_law [OF assms(1,2)] delete_law [OF assms(1), of h] assms(3)
  by auto

end

definition indexeddb_module :: "storage_env \<Rightarrow> (storage_world, nat) storage_module" where
  "indexeddb_module E =
     \<lparr>sm_use = (\<lambda>h _. useHandleStorage E h),
      sm_close = closeHandleStorage E,
      sm_delete = deleteHandleStorage E,
      sm_getToken = ss_getAccessToken,
      sm_saveToken = ss_saveAccessToken,
      sm_deleteToken = ss_deleteAccessToken\<rparr>"

text \<open>A storage whose databases open and close without failures.\<close>

definition working_env :: storage_env where
  "working_env = \<lparr>se_factory = True, se_openError = (\<lambda>_. None), se_matrixDestroyError = (\<lambda>_. None)\<rparr>"

definition stored_token :: "storage_world \<Rightarrow> handle_id \<Rightarrow> string option" where
  "stored_token w h =
     (case sw_dbs w (db_name h) of
        None \<Rightarrow> None
      | Some (v, stores) \<Rightarrow>
          (case stores ''session'' of
             None \<Rightarrow> None
           | Some items \<Rightarrow> (case items ''accessToken'' of Some (IdbScalar t) \<Rightarrow> Some t | _ \<Rightarrow> None)))"

definition db_ok :: "nat \<times> idb_stores \<Rightarrow> bool" where
  "db_ok db \<longleftrightarrow> fst db = length migrations \<and> snd db ''session'' \<noteq> None"

definition open_storage :: "storage_world \<Rightarrow> handle_id \<Rightarrow> nat \<Rightarrow> bool" where
  "open_storage w h p \<longleftrightarrow> sw_providers w p = Some \<lparr>pv_dbName = db_name h, pv_open = True\<rparr>
     \<and> sw_dbs w (db_name h) \<noteq> None"

text \<open>
  The invariant of the module: databases are migrated, cached storages are open on the
  database of their handle, provider identities are below the counter.
\<close>

definition storage_ok :: "storage_world \<Rightarrow> bool" where
  "storage_ok w \<longleftrightarrow>
     (\<forall>n db. sw_dbs w n = Some db \<longrightarrow> db_ok db)
     \<and> (\<forall>h p. sw_cache w h = Some p \<longrightarrow> open_storage w h p)
     \<and> (\<forall>p \<in> dom (sw_providers w). p < sw_next w)"

lemma db_name_inj: "db_name h = db_name h' \<longleftrightarrow> h = h'"
  by (simp add: db_name_def)

lemma run_migrations_index:
  "run_migrations v i ms db = foldl (\<lambda>db m. m db) db (drop (v - i) ms)"
proof (induction v i ms db rule: run_migrations.induct)
  case (2 v i m ms db)
  show ?case
  proof (cases "v \<le> i")
    case True
    then show ?thesis using 2 by simp
  next
    case False
    then have "v - i = Suc (v - (i + 1))" by simp
    with 2 False show ?thesis by simp
  qed
qed simp

lemma open_database_new: "open_database (length migrations) migrations None =
    Some (1, [''session'' \<mapsto> Map.empty])"
  by (simp add: open_database_def migrations_def)

lemma open_database_ok:
  assumes "\<And>db. existing = Some db \<Longrightarrow> db_ok db"
  shows "\<exists>db. open_database (length migrations) migrations existing = Some db \<and> db_ok db
    \<and> (existing = None \<longrightarrow> db = (1, [''session'' \<mapsto> Map.empty])) \<and> (existing \<noteq> None \<longrightarrow> existing = Some db)"
proof (cases existing)
  case None
  then show ?thesis by (auto simp: open_database_def migrations_def db_ok_def)
next
  case (Some db)
  then show ?thesis
    using assms [OF Some] by (cases db) (simp add: open_database_def db_ok_def)
qed

lemma pv_store_open:
  assumes "storage_ok w" and "open_storage w h p"
  shows "\<exists>v stores items. sw_dbs w (db_name h) = Some (v, stores) \<and> stores ''session'' = Some items
    \<and> pv_store p ''session'' w = Inr (db_name h, items)"
proof -
  from assms(2) obtain v stores where db: "sw_dbs w (db_name h) = Some (v, stores)"
    by (auto simp: open_storage_def)
  with assms(1) obtain items where "stores ''session'' = Some items"
    by (fastforce simp: storage_ok_def db_ok_def)
  then show ?thesis using assms(2) db by (auto simp: pv_store_def open_storage_def)
qed

lemma put_session_ok:
  assumes "storage_ok w"
  shows "storage_ok (put_store db ''session'' items w)"
    and "open_storage w h p \<Longrightarrow> open_storage (put_store db ''session'' items w) h p"
proof -
  show op: "open_storage w h p \<Longrightarrow> open_storage (put_store db ''session'' items w) h p" for h p
    by (auto simp: open_storage_def put_store_def)
  show "storage_ok (put_store db ''session'' items w)"
    using assms op by (auto simp: storage_ok_def put_store_def db_ok_def split: if_splits)
qed

lemma put_session_token:
  assumes "sw_dbs w (db_name h) = Some (v, stores)"
  shows "stored_token (put_store (db_name h) ''session'' items w) =
    (stored_token w)(h := case items ''accessToken'' of Some (IdbScalar t) \<Rightarrow> Some t | _ \<Rightarrow> None)"
  using assms by (auto simp: stored_token_def put_store_def db_name_inj fun_eq_iff)

lemma use_storage_ok:
  assumes ok: "storage_ok w"
  shows "\<exists>p w'. useHandleStorage working_env h w = (Inr (Some p), w') \<and> storage_ok w'
    \<and> open_storage w' h p \<and> sw_cache w' h = Some p \<and> stored_token w' = stored_token w"
proof (cases "sw_cache w h")
  case (Some p)
  then have "w\<lparr>sw_cache := (sw_cache w)(h \<mapsto> p)\<rparr> = w" by (simp add: map_upd_triv)
  then show ?thesis using Some ok by (auto simp: useHandleStorage_def storage_ok_def)
next
  case None
  let ?p = "sw_next w"
  from ok open_database_ok [of "sw_dbs w (db_name h)"] obtain db where
    db: "open_database (length migrations) migrations (sw_dbs w (db_name h)) = Some db" "db_ok db"
      "sw_dbs w (db_name h) = None \<longrightarrow> db = (1, [''session'' \<mapsto> Map.empty])"
      "sw_dbs w (db_name h) \<noteq> None \<longrightarrow> sw_dbs w (db_name h) = Some db"
    by (auto simp: storage_ok_def)
  let ?w = "w\<lparr>sw_next := ?p + 1,
      sw_dbs := (sw_dbs w)(db_name h \<mapsto> db),
      sw_providers := (sw_providers w)(?p \<mapsto> \<lparr>pv_dbName = db_name h, pv_open = True\<rparr>),
      sw_cache := (sw_cache w)(h \<mapsto> ?p)\<rparr>"
  have use: "useHandleStorage working_env h w = (Inr (Some ?p), ?w)"
    using None db(1) by (simp add: useHandleStorage_def working_env_def new_provider_def
        pv_openDB_def io_simps)
  have fresh: "sw_cache w h' \<noteq> Some ?p" for h'
    using ok by (fastforce simp: storage_ok_def open_storage_def)
  have "open_storage ?w h' q" if "sw_cache w h' = Some q" for h' q
    using ok that fresh [of h'] by (auto simp: storage_ok_def open_storage_def)
  then have "storage_ok ?w"
    using ok db(2) by (auto simp: storage_ok_def open_storage_def less_Suc_eq)
  moreover have "stored_token ?w = stored_token w"
    using db(3,4)
    by (cases "sw_dbs w (db_name h)") (auto simp: stored_token_def db_name_inj fun_eq_iff)
  ultimately show ?thesis using use by (auto simp: open_storage_def)
qed

lemma closing_ok:
  assumes "storage_ok w" "sw_cache w h = Some p" "open_storage w h p"
  shows "storage_ok (w\<lparr>sw_providers := (sw_providers w)(p \<mapsto> \<lparr>pv_dbName = db_name h, pv_open = b\<rparr>),
      sw_cache := (sw_cache w)(h := None)\<rparr>)"
    and "storage_ok (w\<lparr>sw_providers := (sw_providers w)(p \<mapsto> \<lparr>pv_dbName = db_name h, pv_open = b\<rparr>),
      sw_dbs := (sw_dbs w)(db_name h := None), sw_cache := (sw_cache w)(h := None)\<rparr>)"
proof -
  have other: "sw_cache w h' \<noteq> Some p" if "h' \<noteq> h" for h'
  proof
    assume "sw_cache w h' = Some p"
    with assms(1) have "open_storage w h' p" by (simp add: storage_ok_def)
    with assms(3) have "db_name h = db_name h'" by (simp add: open_storage_def)
    with that show False by (simp add: db_name_inj)
  qed
  show "storage_ok (w\<lparr>sw_providers := (sw_providers w)(p \<mapsto> \<lparr>pv_dbName = db_name h, pv_open = b\<rparr>),
      sw_cache := (sw_cache w)(h := None)\<rparr>)"
    using assms other by (auto simp: storage_ok_def open_storage_def)
  show "storage_ok (w\<lparr>sw_providers := (sw_providers w)(p \<mapsto> \<lparr>pv_dbName = db_name h, pv_open = b\<rparr>),
      sw_dbs := (sw_dbs w)(db_name h := None), sw_cache := (sw_cache w)(h := None)\<rparr>)"
    using assms other by (auto simp: storage_ok_def open_storage_def db_name_inj)
qed

interpretation idb: token_store "indexeddb_module working_env" storage_ok stored_token open_storage
proof unfold_locales
  fix s :: storage_world and h :: handle_id and st :: nat and pass t
  assume ok: "storage_ok s"
  show "\<exists>st s'. sm_use (indexeddb_module working_env) h pass s = (Inr (Some st), s') \<and> storage_ok s'
      \<and> open_storage s' h st \<and> stored_token s' = stored_token s"
    using use_storage_ok [OF ok, of h] by (auto simp: indexeddb_module_def)
  obtain p s1 where use: "useHandleStorage working_env h s = (Inr (Some p), s1)" "storage_ok s1"
    "open_storage s1 h p" "sw_cache s1 h = Some p" "stored_token s1 = stored_token s"
    using use_storage_ok [OF ok] by blast
  have pv: "sw_providers s1 p = Some \<lparr>pv_dbName = db_name h, pv_open = True\<rparr>"
    using use(3) by (simp add: open_storage_def)
  show "\<exists>s'. sm_close (indexeddb_module working_env) h s = (Inr (), s') \<and> storage_ok s'
      \<and> stored_token s' = stored_token s"
    using use(1,5) pv closing_ok(1) [OF use(2,4,3), of False]
    by (simp add: indexeddb_module_def closeHandleStorage_def matrix_destroy_def working_env_def
        pv_closeDB_def uncache_def io_simps stored_token_def fun_eq_iff)
  show "\<exists>s'. sm_delete (indexeddb_module working_env) h s = (Inr (), s') \<and> storage_ok s'
      \<and> stored_token s' = (stored_token s)(h := None)"
    using use(1,5) pv closing_ok(2) [OF use(2,4,3), of False]
    by (auto simp: indexeddb_module_def deleteHandleStorage_def matrix_destroy_def working_env_def
        pv_closeDB_def pv_destroyDB_def uncache_def io_simps stored_token_def fun_eq_iff db_name_inj)
  assume op: "open_storage s h st"
  from pv_store_open [OF ok op] obtain v stores items where
    db: "sw_dbs s (db_name h) = Some (v, stores)" "stores ''session'' = Some items"
      "pv_store st ''session'' s = Inr (db_name h, items)" by blast
  show "sm_getToken (indexeddb_module working_env) st s = (Inr (stored_token s h), s)"
    using db by (simp add: indexeddb_module_def ss_getAccessToken_def pv_getItem_def io_simps
        stored_token_def)
  show "\<exists>s'. sm_saveToken (indexeddb_module working_env) st t s = (Inr (), s') \<and> storage_ok s'
      \<and> open_storage s' h st \<and> stored_token s' = (stored_token s)(h := Some t)"
    using db put_session_ok [OF ok] op put_session_token [OF db(1)]
    by (simp add: indexeddb_module_def ss_saveAccessToken_def pv_updateItem_def)
  show "\<exists>s'. sm_deleteToken (indexeddb_module working_env) st s = (Inr (), s') \<and> storage_ok s'
      \<and> open_storage s' h st \<and> stored_token s' = (stored_token s)(h := None)"
    using db put_session_ok [OF ok] op put_session_token [OF db(1)]
    by (simp add: indexeddb_module_def ss_deleteAccessToken_def pv_deleteItem_def)
qed

text \<open>The storage of one handle, opened on a new database.\<close>

definition demo_storage :: storage_world where
  "demo_storage =
     \<lparr>sw_dbs = [db_name ''ann'' \<mapsto> (1, [''session'' \<mapsto> Map.empty])],
      sw_providers = [0 \<mapsto> \<lparr>pv_dbName = db_name ''ann'', pv_open = True\<rparr>],
      sw_next = 1, sw_cache = [''ann'' \<mapsto> 0]\<rparr>"

lemma demo_storage_ok: "storage_ok demo_storage" "open_storage demo_storage ''ann'' 0"
  by (auto simp: storage_ok_def open_storage_def demo_storage_def db_ok_def migrations_def
      split: if_splits)

lemma demo_storage_save:
  "ss_saveAccessToken 0 t demo_storage =
     (Inr (), demo_storage\<lparr>sw_dbs := [db_name ''ann'' \<mapsto>
        (1, [''session'' \<mapsto> [''accessToken'' \<mapsto> IdbScalar t]])]\<rparr>)"
  by (simp add: ss_saveAccessToken_def pv_updateItem_def pv_store_def put_store_def
      demo_storage_def)

section \<open>Properties\<close>

text \<open>
  C34: A stored token survives a restart. In a state where the storage module's invariant
  holds, a token saved for a handle is read back after the handle's storage was closed and
  opened again.
\<close>

theorem token_survives_reopen:
  assumes "storage_ok w" and "open_storage w h p" and "ss_saveAccessToken p t w = (Inr (), w1)"
  shows "\<exists>w2 p' w3. closeHandleStorage working_env h w1 = (Inr (), w2)
    \<and> useHandleStorage working_env h w2 = (Inr (Some p'), w3)
    \<and> ss_getAccessToken p' w3 = (Inr (Some t), w3)"
  using idb.reopen_finds_token [OF assms(1,2), of t w1 None] assms(3)
  by (simp add: indexeddb_module_def)

theorem token_survives_reopen_witness:
  "\<exists>w1 w2 p' w3. ss_saveAccessToken 0 ''token'' demo_storage = (Inr (), w1)
    \<and> closeHandleStorage working_env ''ann'' w1 = (Inr (), w2)
    \<and> useHandleStorage working_env ''ann'' w2 = (Inr (Some p'), w3)
    \<and> ss_getAccessToken p' w3 = (Inr (Some ''token''), w3)"
  using token_survives_reopen [OF demo_storage_ok demo_storage_save] demo_storage_save by blast

text \<open>
  C35: Handles are isolated and deletion is local. Saving or deleting the token of one handle,
  or deleting its whole storage, leaves the stored token of every other handle as it was.
\<close>

theorem handles_isolated:
  assumes "storage_ok w" and "open_storage w h p" and "h' \<noteq> h"
  shows "stored_token (snd (ss_saveAccessToken p t w)) h' = stored_token w h'
    \<and> stored_token (snd (ss_deleteAccessToken p w)) h' = stored_token w h'
    \<and> stored_token (snd (deleteHandleStorage working_env h w)) h' = stored_token w h'"
  using idb.other_handle [OF assms] by (simp add: indexeddb_module_def)

theorem handles_isolated_witness:
  "stored_token (snd (ss_saveAccessToken 0 ''token'' demo_storage)) ''bob'' = stored_token demo_storage ''bob''"
  using handles_isolated [OF demo_storage_ok, of "''bob''" "''token''"] by simp

text \<open>
  Each migration runs once. Upgrading a database from a version applies exactly the
  migrations from that number on, in order, so upgrading in two stages (first to the
  migrations known then, later to the full list) gives the same database as upgrading at
  once.
\<close>

theorem migrations_run_once:
  assumes "v \<le> length ms"
  shows "run_migrations v 0 (ms @ ms') db =
    run_migrations (length ms) 0 (ms @ ms') (run_migrations v 0 ms db)"
  using assms by (simp add: run_migrations_index)

theorem migrations_run_once_witness:
  "run_migrations 1 0 ([\<lambda>db. db(''a'' \<mapsto> Map.empty)] @ [\<lambda>db. db(''b'' \<mapsto> Map.empty)])
      [''a'' \<mapsto> [''k'' \<mapsto> IdbScalar ''v'']]
   = [''a'' \<mapsto> [''k'' \<mapsto> IdbScalar ''v''], ''b'' \<mapsto> Map.empty]"
  using migrations_run_once [of 1 "[\<lambda>db. db(''a'' \<mapsto> Map.empty)]" "[\<lambda>db. db(''b'' \<mapsto> Map.empty)]"
      "[''a'' \<mapsto> [''k'' \<mapsto> IdbScalar ''v'']]"] by simp

end
