(* ===== verification/Sessions.thy ===== *)
theory Sessions
  imports Storage ApiClient
begin

text \<open>
  Sessions: \<open>DefaultSessionService\<close>, its transformer, and \<open>SessionManager\<close>
  (\<open>src/private/data/session\<close>), which keeps one signed-in Matrix client per handle, reuses
  or refreshes its access token, persists it, and queues concurrent requests per handle.

  The state has three parts: everything outside (\<open>'x\<close>), the storage (\<open>'s\<close>) behind the
  interface of theory Storage, and the record \<open>sessions\<close> of the manager. The token decoder,
  the clock, timers and the Matrix client are the parameter \<open>session_env\<close>. The clock is
  read from the outside state: it may move at any call to the outside, and not between two
  reads of one synchronous stretch. The zero-length timeouts that let pending background
  work run before a deletion are not steps of the model.
\<close>

section \<open>The session service\<close>

record SecureCommsSessionEntity =
  sn_handleId :: handle_id
  sn_handleName :: string
  sn_deviceId :: string
  sn_owner :: string
  sn_owners :: "Owner list"
  sn_token :: string
  sn_createdAt :: int
  sn_expiresAt :: int

definition session_fromGraphQLToEntity :: "SecureCommsSession \<Rightarrow> SecureCommsSessionEntity" where
  "session_fromGraphQLToEntity d =
     \<lparr>sn_handleId = ss_handleId d,
      sn_handleName = ss_handleName d,
      sn_deviceId = ss_deviceId d,
      sn_owner = ss_owner d,
      sn_owners = map (\<lambda>o'. \<lparr>ow_id = ow_id o', ow_issuer = ow_issuer o'\<rparr>) (ss_owners d),
      sn_token = ss_token d,
      sn_createdAt = ss_createdAtEpochMs d,
      sn_expiresAt = ss_expiresAtEpochMs d\<rparr>"

definition session_create ::
    "'w graphql_client \<Rightarrow> string option \<Rightarrow> string \<Rightarrow> string \<Rightarrow> ('w, SecureCommsSessionEntity) io" where
  "session_create G i name deviceId =
     await (api_createSecureCommsHandle G \<lparr>ch_deviceId = deviceId, ch_id = i, ch_name = name\<rparr>)
       (\<lambda>result. ret (session_fromGraphQLToEntity result))"

definition session_get ::
    "'w graphql_client \<Rightarrow> handle_id \<Rightarrow> string \<Rightarrow> ('w, SecureCommsSessionEntity) io" where
  "session_get G handleId deviceId =
     await (api_getSecureCommsSession G
         \<lparr>gs_deviceId = deviceId, gs_handleId = handleId, gs_tokenLifetime = None\<rparr>)
       (\<lambda>result. ret (session_fromGraphQLToEntity result))"

section \<open>State and environment\<close>

record jwt =
  jw_exp :: "int option"
  jw_device_id :: "string option"

record client_manager =
  cl_id :: nat
  cl_token :: string

record session =
  se_accessToken :: string
  se_storePassphrase :: "string option"
  se_client :: client_manager
  se_refreshTimeout :: "nat option"

record ('x, 's) session_state =
  st_ext :: 'x
  st_store :: 's
  st_sessions :: "handle_id \<rightharpoonup> session"

record 'x session_env =
  sx_decode :: "string \<Rightarrow> jwt option"
  sx_now :: "'x \<Rightarrow> int"
  sx_refreshMinutes :: int
  sx_enableCrypto :: bool
  sx_indexedDB :: bool
  sx_graphql :: "'x graphql_client"
  sx_uuid :: "('x, string) io"
  sx_createClient :: "handle_id \<Rightarrow> string \<Rightarrow> ('x, nat) io"
  sx_initRustCrypto :: "nat \<Rightarrow> string option \<Rightarrow> string option \<Rightarrow> ('x, unit) io"
  sx_deleteDatabase :: "string \<Rightarrow> ('x, unit) io"
  sx_matrixStoreStartup :: "handle_id \<Rightarrow> ('x, unit) io"
  sx_loginRequest :: "nat \<Rightarrow> string \<Rightarrow> ('x, unit) io"
  sx_dropSyncListener :: "nat \<Rightarrow> ('x, unit) io"
  sx_stopClient :: "nat \<Rightarrow> ('x, unit) io"
  sx_clearStores :: "nat \<Rightarrow> string \<Rightarrow> ('x, unit) io"
  sx_setAccessToken :: "nat \<Rightarrow> string \<Rightarrow> ('x, unit) io"
  sx_setTimeout :: "handle_id \<Rightarrow> string option \<Rightarrow> int \<Rightarrow> ('x, nat) io"
  sx_clearTimeout :: "nat \<Rightarrow> ('x, unit) io"

definition ext :: "('x, 'a) io \<Rightarrow> (('x, 's) session_state, 'a) io" where
  "ext m s = (case m (st_ext s) of (r, x) \<Rightarrow> (r, s\<lparr>st_ext := x\<rparr>))"

definition store :: "('s, 'a) io \<Rightarrow> (('x, 's) session_state, 'a) io" where
  "store m s = (case m (st_store s) of (r, x) \<Rightarrow> (r, s\<lparr>st_store := x\<rparr>))"

definition get_session :: "handle_id \<Rightarrow> (('x, 's) session_state, session option) io" where
  "get_session h s = (Inr (st_sessions s h), s)"

definition put_session :: "handle_id \<Rightarrow> session option \<Rightarrow> (('x, 's) session_state, unit) io" where
  "put_session h v s = (Inr (), s\<lparr>st_sessions := (st_sessions s)(h := v)\<rparr>)"

section \<open>Tokens\<close>

definition decodeToken :: "'x session_env \<Rightarrow> string \<Rightarrow> (int \<times> string) result" where
  "decodeToken E token =
     (case sx_decode E token of
        None \<Rightarrow> Inl (PlainError ''Invalid token'')
      | Some j \<Rightarrow>
          if truthy_num (jw_exp j) \<and> truthy_str (jw_device_id j)
          then Inr (the (jw_exp j), the (jw_device_id j))
          else Inl (PlainError ''Invalid token''))"

definition now_seconds :: "'x session_env \<Rightarrow> (('x, 's) session_state, int) io" where
  "now_seconds E s = (Inr (sx_now E (st_ext s) div 1000), s)"

definition isTokenExpired :: "'x session_env \<Rightarrow> int \<Rightarrow> (('x, 's) session_state, bool) io" where
  "isTokenExpired E expiry = await (now_seconds E) (\<lambda>now. ret (expiry - now \<le> 0))"

definition isTokenExpiringSoon :: "'x session_env \<Rightarrow> int \<Rightarrow> (('x, 's) session_state, bool) io" where
  "isTokenExpiringSoon E expiry =
     await (now_seconds E) (\<lambda>now.
       let refreshThresholdSeconds = sx_refreshMinutes E * 60;
           timeUntilExpiry = expiry - now
       in ret (timeUntilExpiry > 0 \<and> timeUntilExpiry \<le> refreshThresholdSeconds))"

definition isTokenExpiredOrExpiringSoon ::
    "'x session_env \<Rightarrow> int \<Rightarrow> (('x, 's) session_state, bool) io" where
  "isTokenExpiredOrExpiringSoon E expiry =
     await (isTokenExpired E expiry) (\<lambda>b. if b then ret True else isTokenExpiringSoon E expiry)"

definition scheduleTokenRefresh ::
    "'x session_env \<Rightarrow> handle_id \<Rightarrow> int \<Rightarrow> string option \<Rightarrow>
     (('x, 's) session_state, nat option) io" where
  "scheduleTokenRefresh E handleId expiry storePassphrase =
     await (now_seconds E) (\<lambda>now.
       let timeUntilExpiry = expiry - now;
           refreshThresholdSeconds = sx_refreshMinutes E * 60;
           timeBeforeExpiryToSchedule = timeUntilExpiry - refreshThresholdSeconds
       in if sx_refreshMinutes E > 0 \<and> timeBeforeExpiryToSchedule > 0
          then await (ext (sx_setTimeout E handleId storePassphrase (timeBeforeExpiryToSchedule * 1000)))
                 (\<lambda>t. ret (Some t))
          else ret None)"

section \<open>Deleting a session\<close>

text \<open>
  \<open>stopSyncing\<close> drops the client's sliding-sync listener, if it has one, stops the client,
  logs a failure and does not throw.
\<close>

definition cm_stopSyncing :: "'x session_env \<Rightarrow> nat \<Rightarrow> ('x, unit) io" where
  "cm_stopSyncing E c = 
     try_catch (await (sx_dropSyncListener E c) (\<lambda>_. sx_stopClient E c)) (\<lambda>_. ret ())"

definition cm_clearRustCrypto :: "'x session_env \<Rightarrow> nat \<Rightarrow> string \<Rightarrow> ('x, unit) io" where
  "cm_clearRustCrypto E c prefix = sx_clearStores E c prefix"

definition crypto_prefix :: "handle_id \<Rightarrow> string" where
  "crypto_prefix handleId = ''matrix-js-sdk:'' @ handleId"

definition deleteSession ::
    "'x session_env \<Rightarrow> ('s, 'st) storage_module \<Rightarrow> handle_id \<Rightarrow> bool \<Rightarrow>
     (('x, 's) session_state, unit) io" where
  "deleteSession E M handleId deleteStorage =
     await (get_session handleId) (\<lambda>found.
       case found of
         None \<Rightarrow> ret ()
       | Some session \<Rightarrow>
           await (case se_refreshTimeout session of
                    Some t \<Rightarrow> ext (sx_clearTimeout E t) | None \<Rightarrow> ret ()) (\<lambda>_.
           await (ext (cm_stopSyncing E (cl_id (se_client session)))) (\<lambda>_.
           await (store (sm_use M handleId None)) (\<lambda>handleStorage.
           await (case handleStorage of
                    Some st \<Rightarrow> store (sm_deleteToken M st) | None \<Rightarrow> ret ()) (\<lambda>_.
           await (if deleteStorage
                  then await (ext (cm_clearRustCrypto E (cl_id (se_client session))
                                (crypto_prefix handleId))) (\<lambda>_.
                         store (sm_delete M handleId))
                  else store (sm_close M handleId)) (\<lambda>_.
             put_session handleId None))))))"

text \<open>
  \<open>reset\<close> deletes, after a delay, the session of every handle that has one; the handles are
  given in the order of the record's keys.
\<close>

fun reset_sessions ::
    "'x session_env \<Rightarrow> ('s, 'st) storage_module \<Rightarrow> handle_id list \<Rightarrow>
     (('x, 's) session_state, unit) io" where
  "reset_sessions E M [] = ret ()"
| "reset_sessions E M (h # hs) = await (deleteSession E M h False) (\<lambda>_. reset_sessions E M hs)"

section \<open>Tokens from the service and from storage\<close>

definition getAccessTokenFromService ::
    "'x session_env \<Rightarrow> handle_id \<Rightarrow> string option \<Rightarrow>
     (('x, 's) session_state, string \<times> string) io" where
  "getAccessTokenFromService E handleId deviceId =
     await (case deviceId of Some d \<Rightarrow> ret d | None \<Rightarrow> ext (sx_uuid E)) (\<lambda>d.
     await (ext (session_get (sx_graphql E) handleId d)) (\<lambda>newSession.
     await (lift_result (decodeToken E (sn_token newSession))) (\<lambda>(_, tokenDeviceId).
       ret (sn_token newSession, nullish deviceId tokenDeviceId))))"

text \<open>The stored token, its device id, and whether it is still usable.\<close>

definition getAccessTokenFromStorage ::
    "'x session_env \<Rightarrow> ('s, 'st) storage_module \<Rightarrow> 'st option \<Rightarrow>
     (('x, 's) session_state, (string \<times> string \<times> bool) option) io" where
  "getAccessTokenFromStorage E M handleStorage =
     await (case handleStorage of Some st \<Rightarrow> store (sm_getToken M st) | None \<Rightarrow> ret None)
       (\<lambda>storedAccessToken.
         if \<not> truthy_str storedAccessToken then ret None
         else await (lift_result (decodeToken E (the storedAccessToken))) (\<lambda>(expiry, deviceId).
              await (isTokenExpiredOrExpiringSoon E expiry) (\<lambda>bad.
                ret (Some (the storedAccessToken, deviceId, \<not> bad)))))"

definition getAccessTokenFromStorageOrService ::
    "'x session_env \<Rightarrow> ('s, 'st) storage_module \<Rightarrow> handle_id \<Rightarrow> 'st option \<Rightarrow> string option \<Rightarrow>
     (('x, 's) session_state, string) io" where
  "getAccessTokenFromStorageOrService E M handleId handleStorage deviceIdIfNoStoredSession =
     await (getAccessTokenFromStorage E M handleStorage) (\<lambda>stored.
       case stored of
         Some (token, deviceId, True) \<Rightarrow> ret token
       | _ \<Rightarrow>
           await (getAccessTokenFromService E handleId
                    (nullish_opt (map_option (\<lambda>(_, d, _). d) stored) deviceIdIfNoStoredSession))
             (\<lambda>(token, _). ret token))"

section \<open>Creating and refreshing\<close>

text \<open>\<open>signIn\<close> logs a failed login and does not throw.\<close>

definition cm_signIn :: "'x session_env \<Rightarrow> nat \<Rightarrow> string \<Rightarrow> ('x, unit) io" where
  "cm_signIn E c token = try_catch (sx_loginRequest E c token) (\<lambda>_. ret ())"

definition createMatrixClient ::
    "'x session_env \<Rightarrow> handle_id \<Rightarrow> string \<Rightarrow> string option \<Rightarrow> bool \<Rightarrow> ('x, client_manager) io" where
  "createMatrixClient E handleId token storePassphrase hasStorage =
     await (sx_createClient E handleId token) (\<lambda>c.
     await (if \<not> sx_enableCrypto E then ret ()
            else if sx_indexedDB E
            then await (try_catch (sx_initRustCrypto E c (Some (crypto_prefix handleId)) storePassphrase)
                          (\<lambda>_. await (sx_deleteDatabase E
                                  (crypto_prefix handleId @ ''::matrix-sdk-crypto'')) (\<lambda>_.
                                sx_initRustCrypto E c (Some (crypto_prefix handleId)) storePassphrase)))
                   (\<lambda>_. if hasStorage then sx_matrixStoreStartup E handleId else ret ())
            else sx_initRustCrypto E c None None) (\<lambda>_.
     await (cm_signIn E c token) (\<lambda>_.
       ret \<lparr>cl_id = c, cl_token = token\<rparr>)))"

definition createNewSession ::
    "'x session_env \<Rightarrow> ('s, 'st) storage_module \<Rightarrow> handle_id \<Rightarrow> string option \<Rightarrow> string option \<Rightarrow>
     (('x, 's) session_state, string) io" where
  "createNewSession E M handleId storePassphrase deviceIdIfNoStoredSession =
     await (store (sm_use M handleId storePassphrase)) (\<lambda>handleStorage.
     await (getAccessTokenFromStorageOrService E M handleId handleStorage deviceIdIfNoStoredSession)
       (\<lambda>accessToken.
     await (lift_result (decodeToken E accessToken)) (\<lambda>(expiry, _).
     await (ext (createMatrixClient E handleId accessToken storePassphrase (handleStorage \<noteq> None)))
       (\<lambda>matrixClient.
     await (scheduleTokenRefresh E handleId expiry storePassphrase) (\<lambda>refreshTimeout.
     await (put_session handleId (Some
         \<lparr>se_accessToken = accessToken, se_storePassphrase = storePassphrase,
          se_client = matrixClient, se_refreshTimeout = refreshTimeout\<rparr>)) (\<lambda>_.
     await (case handleStorage of
              Some st \<Rightarrow> store (sm_saveToken M st accessToken) | None \<Rightarrow> ret ()) (\<lambda>_.
       ret accessToken)))))))"

definition refreshCachedSessionToken ::
    "'x session_env \<Rightarrow> ('s, 'st) storage_module \<Rightarrow> handle_id \<Rightarrow> session \<Rightarrow> string \<Rightarrow>
     string option \<Rightarrow> (('x, 's) session_state, string option) io" where
  "refreshCachedSessionToken E M handleId cachedSession deviceId storePassphrase =
     try_catch
       (await (getAccessTokenFromService E handleId (Some deviceId)) (\<lambda>(newToken, _).
        await (lift_result (decodeToken E newToken)) (\<lambda>(newExpiry, _).
        await (case se_refreshTimeout cachedSession of
                 Some t \<Rightarrow> ext (sx_clearTimeout E t) | None \<Rightarrow> ret ()) (\<lambda>_.
        await (scheduleTokenRefresh E handleId newExpiry storePassphrase) (\<lambda>refreshTimeout.
        await (ext (sx_setAccessToken E (cl_id (se_client cachedSession)) newToken)) (\<lambda>_.
        await (put_session handleId (Some
            \<lparr>se_accessToken = newToken, se_storePassphrase = storePassphrase,
             se_client = (se_client cachedSession)\<lparr>cl_token := newToken\<rparr>,
             se_refreshTimeout = refreshTimeout\<rparr>)) (\<lambda>_.
        await (store (sm_use M handleId storePassphrase)) (\<lambda>handleStorage.
        await (case handleStorage of
                 Some st \<Rightarrow> store (sm_saveToken M st newToken) | None \<Rightarrow> ret ()) (\<lambda>_.
          ret (Some newToken))))))))))
       (\<lambda>_. await (deleteSession E M handleId False) (\<lambda>_. ret None))"

definition handleExpiredToken ::
    "'x session_env \<Rightarrow> ('s, 'st) storage_module \<Rightarrow> handle_id \<Rightarrow>
     (('x, 's) session_state, string option) io" where
  "handleExpiredToken E M handleId = await (deleteSession E M handleId False) (\<lambda>_. ret None)"

definition isUsingToken :: "client_manager \<Rightarrow> string \<Rightarrow> bool" where
  "isUsingToken c token \<longleftrightarrow> token = cl_token c"

definition tryUseCachedSession ::
    "'x session_env \<Rightarrow> ('s, 'st) storage_module \<Rightarrow> handle_id \<Rightarrow> session \<Rightarrow> string option \<Rightarrow>
     (('x, 's) session_state, string option) io" where
  "tryUseCachedSession E M handleId cachedSession storePassphrase =
     await (lift_result (decodeToken E (se_accessToken cachedSession))) (\<lambda>(expiry, deviceId).
     await (isTokenExpiredOrExpiringSoon E expiry) (\<lambda>bad.
       if \<not> bad \<and> isUsingToken (se_client cachedSession) (se_accessToken cachedSession)
       then ret (Some (se_accessToken cachedSession))
       else await (isTokenExpired E expiry) (\<lambda>expired.
         if expired then handleExpiredToken E M handleId
         else refreshCachedSessionToken E M handleId cachedSession deviceId storePassphrase)))"

definition ensureValidSessionBody ::
    "'x session_env \<Rightarrow> ('s, 'st) storage_module \<Rightarrow> handle_id \<Rightarrow> string option \<Rightarrow> string option \<Rightarrow>
     (('x, 's) session_state, string) io" where
  "ensureValidSessionBody E M handleId storePassphrase deviceIdIfNoStoredSession =
     await (get_session handleId) (\<lambda>cachedSession.
       let newStorePassphrase =
             nullish_opt (Option.bind cachedSession se_storePassphrase) storePassphrase
       in await (case cachedSession of
                   None \<Rightarrow> ret None
                 | Some c \<Rightarrow> tryUseCachedSession E M handleId c newStorePassphrase) (\<lambda>validAccessToken.
            if truthy_str validAccessToken then ret (the validAccessToken)
            else createNewSession E M handleId newStorePassphrase deviceIdIfNoStoredSession))"

text \<open>The client of the session, read after the session was made valid.\<close>

definition getMatrixClient ::
    "'x session_env \<Rightarrow> ('s, 'st) storage_module \<Rightarrow> handle_id \<Rightarrow> string option \<Rightarrow>
     (('x, 's) session_state, client_manager) io" where
  "getMatrixClient E M handleId deviceIdIfNoStoredSession =
     await (ensureValidSessionBody E M handleId None deviceIdIfNoStoredSession) (\<lambda>_.
     await (get_session handleId) (\<lambda>session.
       case session of Some s \<Rightarrow> ret (se_client s) | None \<Rightarrow> throw TypeError))"

section \<open>The queue of a handle\<close>

text \<open>
  \<open>runSessionWorkSerialized\<close>: each piece of work is chained after the settlement, success or
  failure, of the one before it for the same handle. A handle's pieces are numbered in
  the order of the calls; a step calls another one, starts one whose predecessor has
  settled, or settles a running one.
\<close>

datatype work_status = Waiting | Running | Settled

inductive chain_step :: "work_status list \<Rightarrow> work_status list \<Rightarrow> bool" where
  call: "chain_step ws (ws @ [Waiting])"
| start: "\<lbrakk>i < length ws; ws ! i = Waiting; i = 0 \<or> ws ! (i - 1) = Settled\<rbrakk> \<Longrightarrow>
    chain_step ws (ws[i := Running])"
| settle: "\<lbrakk>i < length ws; ws ! i = Running\<rbrakk> \<Longrightarrow> chain_step ws (ws[i := Settled])"

inductive_cases chain_stepE: "chain_step ws ws'"


section \<open>Reasoning about the record of sessions\<close>

text \<open>
  \<open>on_sessions P m Q R\<close>: from a record of sessions that satisfies \<open>P\<close>, the method \<open>m\<close>
  ends with a value \<open>x\<close> and \<open>Q x\<close>, or with an error and \<open>R\<close>. Calls to the outside and to
  the storage cannot touch the record.
\<close>

type_synonym sessions = "handle_id \<rightharpoonup> session"

definition on_sessions ::
    "(sessions \<Rightarrow> bool) \<Rightarrow> (('x, 's) session_state, 'a) io \<Rightarrow> ('a \<Rightarrow> sessions \<Rightarrow> bool) \<Rightarrow>
     (sessions \<Rightarrow> bool) \<Rightarrow> bool" where
  "on_sessions P m Q R \<longleftrightarrow> (\<forall>s. P (st_sessions s) \<longrightarrow>
     (case m s of (Inl e, s') \<Rightarrow> R (st_sessions s') | (Inr x, s') \<Rightarrow> Q x (st_sessions s')))"



lemma on_sessions_ret: "(\<And>S. P S \<Longrightarrow> Q x S) \<Longrightarrow> on_sessions P (ret x) Q R"
  by (simp add: on_sessions_def ret_def)

lemma on_sessions_throw: "(\<And>S. P S \<Longrightarrow> R S) \<Longrightarrow> on_sessions P (throw e) Q R"
  by (simp add: on_sessions_def throw_def)

lemma on_sessions_await:
  "on_sessions P m Q' R \<Longrightarrow> (\<And>x. on_sessions (Q' x) (k x) Q R) \<Longrightarrow> on_sessions P (await m k) Q R"
  by (fastforce simp: on_sessions_def await_def split: prod.splits sum.splits)

lemma on_sessions_try:
  "on_sessions P m Q R' \<Longrightarrow> (\<And>e. on_sessions R' (h e) Q R) \<Longrightarrow> on_sessions P (try_catch m h) Q R"
  by (fastforce simp: on_sessions_def try_catch_def split: prod.splits sum.splits)

lemma on_sessions_weaken:
  "on_sessions P' m Q' R' \<Longrightarrow> (\<And>S. P S \<Longrightarrow> P' S) \<Longrightarrow> (\<And>x S. Q' x S \<Longrightarrow> Q x S) \<Longrightarrow>
   (\<And>S. R' S \<Longrightarrow> R S) \<Longrightarrow> on_sessions P m Q R"
  by (fastforce simp: on_sessions_def split: prod.splits sum.splits)

lemma on_sessions_ext: "on_sessions P (ext m) (\<lambda>_. P) P"
  by (auto simp: on_sessions_def ext_def split: prod.splits sum.splits)

lemma on_sessions_store: "on_sessions P (store m) (\<lambda>_. P) P"
  by (auto simp: on_sessions_def store_def split: prod.splits sum.splits)

lemma on_sessions_now: "on_sessions P (now_seconds E) (\<lambda>_. P) P"
  by (simp add: on_sessions_def now_seconds_def)

lemma on_sessions_lift: "on_sessions P (lift_result r) (\<lambda>x S. P S \<and> r = Inr x) P"
  by (auto simp: on_sessions_def lift_result_def split: sum.splits)

lemma on_sessions_get:
  "on_sessions P (get_session h) (\<lambda>v S. P S \<and> v = S h) R"
  by (simp add: on_sessions_def get_session_def)

lemma on_sessions_put:
  "(\<And>S. P S \<Longrightarrow> Q () (S(h := v))) \<Longrightarrow> on_sessions P (put_session h v) Q R"
  by (simp add: on_sessions_def put_session_def)

lemmas keep_rules = on_sessions_ret on_sessions_ext on_sessions_store on_sessions_now

text \<open>Methods that leave the record alone.\<close>

lemma on_sessions_if:
  "(b \<Longrightarrow> on_sessions P m Q R) \<Longrightarrow> (\<not> b \<Longrightarrow> on_sessions P n Q R) \<Longrightarrow>
   on_sessions P (if b then m else n) Q R"
  by simp

lemma on_sessions_option:
  "on_sessions P n Q R \<Longrightarrow> (\<And>x. on_sessions P (f x) Q R) \<Longrightarrow>
   on_sessions P (case v of None \<Rightarrow> n | Some x \<Rightarrow> f x) Q R"
  by (cases v) simp_all

lemma on_sessions_schedule: "on_sessions P (scheduleTokenRefresh E h ex p) (\<lambda>_. P) P"
  unfolding scheduleTokenRefresh_def Let_def
  by (intro on_sessions_await [OF on_sessions_now] on_sessions_if
      on_sessions_await [OF on_sessions_ext] on_sessions_ret)

lemma on_sessions_expired:
  "on_sessions P (isTokenExpired E ex) (\<lambda>_. P) P"
  "on_sessions P (isTokenExpiringSoon E ex) (\<lambda>_. P) P"
  "on_sessions P (isTokenExpiredOrExpiringSoon E ex) (\<lambda>_. P) P"
  by (simp_all add: on_sessions_def isTokenExpired_def isTokenExpiringSoon_def
      isTokenExpiredOrExpiringSoon_def now_seconds_def io_simps Let_def)


section \<open>The invariant of the manager\<close>

definition valid_token :: "'x session_env \<Rightarrow> string \<Rightarrow> bool" where
  "valid_token E t \<longleftrightarrow> t \<noteq> '''' \<and> (\<exists>r. decodeToken E t = Inr r)"

text \<open>Every session holds a token that decodes, and its client uses that token.\<close>

definition session_ok :: "'x session_env \<Rightarrow> session \<Rightarrow> bool" where
  "session_ok E c \<longleftrightarrow> valid_token E (se_accessToken c) \<and> isUsingToken (se_client c) (se_accessToken c)"

definition sessions_ok :: "'x session_env \<Rightarrow> sessions \<Rightarrow> bool" where
  "sessions_ok E S \<longleftrightarrow> (\<forall>h c. S h = Some c \<longrightarrow> session_ok E c)"

definition session_of :: "handle_id \<Rightarrow> string \<Rightarrow> sessions \<Rightarrow> bool" where
  "session_of h t S \<longleftrightarrow> (\<exists>c. S h = Some c \<and> se_accessToken c = t)"

lemma on_sessions_ext_value:
  assumes "\<And>w x w'. m w = (Inr x, w') \<Longrightarrow> V x"
  shows "on_sessions P (ext m) (\<lambda>x S. P S \<and> V x) P"
  using assms by (auto simp: on_sessions_def ext_def split: prod.splits sum.splits)

lemma valid_tokenI: "sx_decode E '''' = None \<Longrightarrow> decodeToken E t = Inr r \<Longrightarrow> valid_token E t"
  by (auto simp: valid_token_def decodeToken_def)

lemma on_sessions_pure:
  "(b \<Longrightarrow> on_sessions P m Q R) \<Longrightarrow> on_sessions (\<lambda>S. P S \<and> b) m Q R"
  by (auto simp: on_sessions_def)

lemma on_sessions_pre:
  "on_sessions P' m Q R \<Longrightarrow> (\<And>S. P S \<Longrightarrow> P' S) \<Longrightarrow> on_sessions P m Q R"
  by (auto simp: on_sessions_def)

lemma sessions_ok_upd: "sessions_ok E S \<Longrightarrow> session_ok E c \<Longrightarrow> sessions_ok E (S(h \<mapsto> c))"
  by (simp add: sessions_ok_def)

lemma sessions_ok_remove: "sessions_ok E S \<Longrightarrow> sessions_ok E (S(h := None))"
  by (simp add: sessions_ok_def)

lemma removal_sessions:
  assumes "\<And>S. P S \<Longrightarrow> P (S(h := None))"
  shows "on_sessions P (deleteSession E M h d) (\<lambda>_ S. P S \<and> S h = None) P"
proof -
  have body: "on_sessions P
      (await (case se_refreshTimeout c of Some t \<Rightarrow> ext (sx_clearTimeout E t) | None \<Rightarrow> ret ()) (\<lambda>_.
       await (ext (cm_stopSyncing E (cl_id (se_client c)))) (\<lambda>_.
       await (store (sm_use M h None)) (\<lambda>handleStorage.
       await (case handleStorage of
                Some st \<Rightarrow> store (sm_deleteToken M st) | None \<Rightarrow> ret ()) (\<lambda>_.
       await (if d then await (ext (cm_clearRustCrypto E (cl_id (se_client c)) (crypto_prefix h)))
                          (\<lambda>_. store (sm_delete M h))
              else store (sm_close M h)) (\<lambda>_.
         put_session h None))))))
      (\<lambda>_ S. P S \<and> S h = None) P" for c
    apply (rule on_sessions_await [where Q' = "\<lambda>_. P"], rule on_sessions_option,
        rule on_sessions_ret, simp, rule on_sessions_ext)
    apply (rule on_sessions_await [OF on_sessions_ext])
    apply (rule on_sessions_await [OF on_sessions_store])
    apply (rule on_sessions_await [where Q' = "\<lambda>_. P"],
        rule on_sessions_option, rule on_sessions_ret, simp, rule on_sessions_store)
    apply (rule on_sessions_await [where Q' = "\<lambda>_. P"], rule on_sessions_if,
        rule on_sessions_await [OF on_sessions_ext], rule on_sessions_store, rule on_sessions_store)
    apply (rule on_sessions_put)
    apply (simp add: assms)
    done
  show ?thesis
    unfolding deleteSession_def
    apply (rule on_sessions_await [OF on_sessions_get])
    subgoal for v
      apply (cases v)
       apply (simp, rule on_sessions_ret, simp)
      apply (simp only: option.case, rule on_sessions_pre [OF body], simp)
      done
    done
qed

lemma deleteSession_ok:
  "on_sessions (sessions_ok E) (deleteSession E M h d) (\<lambda>_ S. sessions_ok E S \<and> S h = None)
     (sessions_ok E)"
  by (rule removal_sessions, rule sessions_ok_remove)

lemma fromService_sessions:
  assumes "sx_decode E '''' = None"
  shows "on_sessions P (getAccessTokenFromService E h d) (\<lambda>x S. P S \<and> valid_token E (fst x)) P"
  unfolding getAccessTokenFromService_def
  apply (rule on_sessions_await [where Q' = "\<lambda>_. P"], rule on_sessions_option, rule on_sessions_ext,
      rule on_sessions_ret, simp)
  apply (rule on_sessions_await [OF on_sessions_ext])
  apply (rule on_sessions_await [OF on_sessions_lift])
  apply (simp add: case_prod_unfold)
  apply (rule on_sessions_ret)
  apply (auto intro: valid_tokenI [OF assms])
  done

lemma fromStorage_sessions:
  assumes "sx_decode E '''' = None"
  shows "on_sessions P (getAccessTokenFromStorage E M hs)
    (\<lambda>x S. P S \<and> (\<forall>t d b. x = Some (t, d, b) \<longrightarrow> valid_token E t)) P"
  unfolding getAccessTokenFromStorage_def
  apply (rule on_sessions_await [where Q' = "\<lambda>_. P"], rule on_sessions_option, rule on_sessions_ret, simp,
      rule on_sessions_store)
  apply (rule on_sessions_if, rule on_sessions_ret, simp)
  apply (rule on_sessions_await [OF on_sessions_lift])
  apply (rule on_sessions_pure)
  apply (simp add: case_prod_unfold)
  apply (rule on_sessions_await [OF on_sessions_expired(3)])
  apply (rule on_sessions_ret)
  apply (auto intro: valid_tokenI [OF assms])
  done

lemma storageOrService_sessions:
  assumes "sx_decode E '''' = None"
  shows "on_sessions P (getAccessTokenFromStorageOrService E M h hs d)
    (\<lambda>t S. P S \<and> valid_token E t) P"
proof -
  have service: "on_sessions P (await (getAccessTokenFromService E h d') (\<lambda>(token, _). ret token))
      (\<lambda>t S. P S \<and> valid_token E t) P" for d'
    by (rule on_sessions_await [OF fromService_sessions [OF assms]])
      (simp add: case_prod_unfold, rule on_sessions_ret, simp)
  have body: "on_sessions P
      (case stored of Some (token, deviceId, True) \<Rightarrow> ret token
       | _ \<Rightarrow> await (getAccessTokenFromService E h
                (nullish_opt (map_option (\<lambda>(_, d, _). d) stored) d)) (\<lambda>(token, _). ret token))
      (\<lambda>t S. P S \<and> valid_token E t) P"
    if "\<forall>t d b. stored = Some (t, d, b) \<longrightarrow> valid_token E t" for stored
    using that service by (auto split: option.split bool.split intro: on_sessions_ret)
  show ?thesis
    unfolding getAccessTokenFromStorageOrService_def
    by (rule on_sessions_await [OF fromStorage_sessions [OF assms]], rule on_sessions_pure, rule body)
qed

lemma createMatrixClient_token:
  "createMatrixClient E h t p b x = (Inr c, x') \<Longrightarrow> cl_token c = t"
  by (auto simp: createMatrixClient_def await_Inr_iff ret_apply)

text \<open>Saving the token of a session and returning it, after the session has been recorded.\<close>

lemma save_and_return:
  "on_sessions (\<lambda>S. A S \<and> B t S)
     (await (case hs of Some st \<Rightarrow> store (sm_saveToken M st t) | None \<Rightarrow> ret ()) (\<lambda>_. ret (f t)))
     (\<lambda>x S. A S \<and> B t S \<and> x = f t) A"
  apply (rule on_sessions_await [where Q' = "\<lambda>_ S. A S \<and> B t S"])
   apply (rule on_sessions_option, rule on_sessions_ret, simp,
      rule on_sessions_weaken [OF on_sessions_store], assumption, assumption, simp)
  apply (rule on_sessions_ret, simp)
  done

lemma createNewSession_sessions:
  assumes "sx_decode E '''' = None"
  shows "on_sessions (sessions_ok E) (createNewSession E M h p d)
    (\<lambda>t S. sessions_ok E S \<and> session_of h t S) (sessions_ok E)"
  unfolding createNewSession_def
  apply (rule on_sessions_await [OF on_sessions_store])
  apply (rule on_sessions_await [OF storageOrService_sessions [OF assms]])
  apply (rule on_sessions_pure)
  apply (rule on_sessions_await [OF on_sessions_lift])
  apply (simp add: case_prod_unfold)
  apply (rule on_sessions_pure)
  apply (rule on_sessions_await [OF on_sessions_ext_value])
   apply (erule createMatrixClient_token)
  apply (rule on_sessions_pure)
  apply (rule on_sessions_await [OF on_sessions_schedule])
  subgoal for hs t r c timer
    apply (rule on_sessions_await [where Q' = "\<lambda>_ S. sessions_ok E S \<and> session_of h t S"])
     apply (rule on_sessions_put)
     apply (simp add: sessions_ok_upd session_ok_def isUsingToken_def session_of_def)
    apply (rule on_sessions_weaken [OF save_and_return])
      apply assumption
     apply simp
    apply simp
    done
  done

lemma refresh_sessions:
  assumes "sx_decode E '''' = None"
  shows "on_sessions (sessions_ok E) (refreshCachedSessionToken E M h c d p)
    (\<lambda>t S. sessions_ok E S \<and> (\<forall>t'. t = Some t' \<longrightarrow> session_of h t' S)) (sessions_ok E)"
  unfolding refreshCachedSessionToken_def
  apply (rule on_sessions_try [where R' = "sessions_ok E"])
   apply (rule on_sessions_await [OF fromService_sessions [OF assms]])
   apply (rule on_sessions_pure)
   apply (simp add: case_prod_unfold)
   apply (rule on_sessions_await [OF on_sessions_lift])
   apply (rule on_sessions_pure)
   apply (rule on_sessions_await [where Q' = "\<lambda>_. sessions_ok E"], rule on_sessions_option,
      rule on_sessions_ret, simp, rule on_sessions_ext)
   apply (rule on_sessions_await [OF on_sessions_schedule])
   apply (rule on_sessions_await [OF on_sessions_ext])
  subgoal for n r u timer v
    apply (rule on_sessions_await [where Q' = "\<lambda>_ S. sessions_ok E S \<and> session_of h (fst n) S"])
     apply (rule on_sessions_put)
     apply (simp add: sessions_ok_upd session_ok_def isUsingToken_def session_of_def)
    apply (rule on_sessions_await [where Q' = "\<lambda>_ S. sessions_ok E S \<and> session_of h (fst n) S"])
     apply (rule on_sessions_weaken [OF on_sessions_store], assumption, assumption, simp)
    apply (rule on_sessions_weaken [OF save_and_return], assumption, simp, simp)
    done
  apply (rule on_sessions_await [OF deleteSession_ok])
  apply (rule on_sessions_ret)
  apply simp
  done


lemma tryUse_sessions:
  assumes "sx_decode E '''' = None"
  shows "on_sessions (\<lambda>S. sessions_ok E S \<and> S h = Some c) (tryUseCachedSession E M h c p)
    (\<lambda>t S. sessions_ok E S \<and> (\<forall>t'. t = Some t' \<longrightarrow> session_of h t' S)) (sessions_ok E)"
    (is "on_sessions ?P _ ?Q ?R")
proof -
  have refresh: "on_sessions ?P (refreshCachedSessionToken E M h c d p) ?Q ?R" for d
    by (rule on_sessions_pre [OF refresh_sessions [OF assms]]) simp
  have expired: "on_sessions ?P (handleExpiredToken E M h) ?Q ?R"
    unfolding handleExpiredToken_def
    by (rule on_sessions_await [OF on_sessions_pre [OF deleteSession_ok]], simp, rule on_sessions_ret, simp)
  have error: "on_sessions ?P m (\<lambda>_. ?P) ?R" if "on_sessions ?P m (\<lambda>_. ?P) ?P" for m
    by (rule on_sessions_weaken [OF that]) simp_all
  have lift: "on_sessions ?P (lift_result r) (\<lambda>_. ?P) ?R" for r
    by (auto simp: on_sessions_def lift_result_def split: sum.splits)
  show ?thesis
    unfolding tryUseCachedSession_def
    apply (rule on_sessions_await [OF lift])
    apply (simp only: case_prod_unfold)
    apply (rule on_sessions_await [OF error [OF on_sessions_expired(3)]])
    apply (rule on_sessions_if)
     apply (rule on_sessions_ret, simp add: session_of_def)
    apply (rule on_sessions_await [OF error [OF on_sessions_expired(1)]])
    apply (rule on_sessions_if)
     apply (rule expired)
    apply (rule refresh)
    done
qed

lemma ensureValid_sessions:
  assumes "sx_decode E '''' = None"
  shows "on_sessions (sessions_ok E) (ensureValidSessionBody E M h p d)
    (\<lambda>t S. sessions_ok E S \<and> session_of h t S) (sessions_ok E)"
  unfolding ensureValidSessionBody_def
  apply (rule on_sessions_await [OF on_sessions_get])
  subgoal for cached
    unfolding Let_def
    apply (rule on_sessions_await
        [where Q' = "\<lambda>t S. sessions_ok E S \<and> (\<forall>t'. t = Some t' \<longrightarrow> session_of h t' S)"])
     apply (cases cached)
      apply (simp, rule on_sessions_ret, simp)
     apply (simp only: option.case)
     apply (rule on_sessions_pre [OF tryUse_sessions [OF assms]], simp)
    apply (rule on_sessions_if)
     apply (rule on_sessions_ret, auto simp: truthy_str_def) [1]
    subgoal for t
      apply (rule on_sessions_pre [OF createNewSession_sessions [OF assms]], simp)
      done
    done
  done

lemma on_sessionsD:
  assumes "on_sessions P m Q R" and "P (st_sessions s)"
  shows "m s = (Inr x, s') \<Longrightarrow> Q x (st_sessions s')"
    and "m s = (Inl e, s') \<Longrightarrow> R (st_sessions s')"
  using assms by (auto simp: on_sessions_def)


section \<open>Token times\<close>

definition token_fresh :: "'x session_env \<Rightarrow> 'x \<Rightarrow> int \<Rightarrow> bool" where
  "token_fresh E x expiry \<longleftrightarrow>
     0 < expiry - sx_now E x div 1000 \<and> sx_refreshMinutes E * 60 < expiry - sx_now E x div 1000"

lemma await_get: "await (get_session h) k s = k (st_sessions s h) s"
  by (simp add: await_def get_session_def)

lemma ext_store: "ext m s = (r, s') \<Longrightarrow> st_store s' = st_store s"
  by (auto simp: ext_def split: prod.splits)

lemma fresh_not_bad:
  "isTokenExpiredOrExpiringSoon E ex s =
     (Inr (\<not> token_fresh E (st_ext s) ex), s)"
  by (auto simp: isTokenExpiredOrExpiringSoon_def isTokenExpired_def isTokenExpiringSoon_def
      now_seconds_def io_simps Let_def token_fresh_def)

lemma expired_apply:
  "isTokenExpired E ex s = (Inr (ex \<le> sx_now E (st_ext s) div 1000), s)"
  by (simp add: isTokenExpired_def now_seconds_def io_simps)

lemma cached_session_used:
  assumes "st_sessions s h = Some c" and "session_ok E c"
    and "decodeToken E (se_accessToken c) = Inr (ex, dev)" and "token_fresh E (st_ext s) ex"
  shows "ensureValidSessionBody E M h p d s = (Inr (se_accessToken c), s)"
  using assms
  by (simp add: ensureValidSessionBody_def tryUseCachedSession_def get_session_def io_simps
      fresh_not_bad session_ok_def valid_token_def truthy_str_def Let_def)

section \<open>Sessions over a token store\<close>

context token_store
begin

text \<open>Whatever \<open>deleteSession\<close> removes from the record, it also removes from the storage.\<close>

lemma deletion_forgets:
  assumes "ok (st_store s)" and "st_sessions s h \<noteq> None"
    and "deleteSession E M h d s = (Inr (), s')"
  shows "ok (st_store s') \<and> tok (st_store s') = (tok (st_store s))(h := None)"
proof -
  from assms(2) obtain c where c: "st_sessions s h = Some c" by auto
  obtain st s1 where use: "sm_use M h None (st_store s) = (Inr (Some st), s1)" "ok s1" "holds s1 h st"
    "tok s1 = tok (st_store s)" using use_law [OF assms(1)] by blast
  obtain s2 where del: "sm_deleteToken M st s1 = (Inr (), s2)" "ok s2" "holds s2 h st"
    "tok s2 = (tok s1)(h := None)" using del_law [OF use(2,3)] by blast
  obtain s3 where close: "sm_close M h s2 = (Inr (), s3)" "ok s3" "tok s3 = tok s2"
    using close_law [OF del(2)] by blast
  obtain s4 where delete: "sm_delete M h s2 = (Inr (), s4)" "ok s4" "tok s4 = (tok s2)(h := None)"
    using delete_law [OF del(2)] by blast
  from assms(3) have
     "await (case se_refreshTimeout c of Some t \<Rightarrow> ext (sx_clearTimeout E t) | None \<Rightarrow> ret ())
        (\<lambda>_. await (ext (cm_stopSyncing E (cl_id (se_client c))))
        (\<lambda>_. await (store (sm_use M h None))
        (\<lambda>hs. await (case hs of Some st \<Rightarrow> store (sm_deleteToken M st) | None \<Rightarrow> ret ())
        (\<lambda>_. await (if d then await (ext (cm_clearRustCrypto E (cl_id (se_client c)) (crypto_prefix h)))
                             (\<lambda>_. store (sm_delete M h))
                  else store (sm_close M h)) (\<lambda>_. put_session h None))))) s = (Inr (), s')"
    using c by (simp only: deleteSession_def await_get option.case)
  then obtain sa sb sc sd se hs where sa: "(case se_refreshTimeout c of Some t \<Rightarrow> ext (sx_clearTimeout E t)
        | None \<Rightarrow> ret ()) s = (Inr (), sa)"
    and sb: "ext (cm_stopSyncing E (cl_id (se_client c))) sa = (Inr (), sb)"
    and sc: "store (sm_use M h None) sb = (Inr hs, sc)"
    and sd: "(case hs of Some st \<Rightarrow> store (sm_deleteToken M st) | None \<Rightarrow> ret ()) sc = (Inr (), sd)"
    and se: "(if d then await (ext (cm_clearRustCrypto E (cl_id (se_client c)) (crypto_prefix h)))
               (\<lambda>_. store (sm_delete M h)) else store (sm_close M h)) sd = (Inr (), se)"
    and "put_session h None se = (Inr (), s')"
    by (auto dest!: await_InrD split del: if_split)
  then have s': "st_store s' = st_store se" by (auto simp: put_session_def)
  have "st_store sb = st_store s"
    using sa sb by (auto simp: ret_apply split: option.splits dest!: ext_store)
  then have "hs = Some st" "st_store sc = s1" using sc use by (auto simp: store_def)
  then have sd2: "st_store sd = s2" using sd del by (auto simp: store_def)
  show ?thesis
  proof (cases d)
    case True
    with se obtain sf where "ext (cm_clearRustCrypto E (cl_id (se_client c)) (crypto_prefix h)) sd = (Inr (), sf)"
      and "store (sm_delete M h) sf = (Inr (), se)" by (auto dest!: await_InrD)
    then have "st_store se = s4" using sd2 delete by (auto simp: store_def dest!: ext_store)
    then show ?thesis using s' delete del use by simp
  next
    case False
    then have "st_store se = s3" using se sd2 close by (auto simp: store_def)
    then show ?thesis using s' close del use by simp
  qed
qed

lemma nothing_stored:
  assumes "ok (st_store s)" and "holds (st_store s) h st" and "tok (st_store s) h = None"
  shows "getAccessTokenFromStorageOrService E M h (Some st) d s =
    await (getAccessTokenFromService E h d) (\<lambda>(t, _). ret t) s"
  using get_law [OF assms(1,2)] assms(3)
  by (simp add: getAccessTokenFromStorageOrService_def getAccessTokenFromStorage_def store_def
      io_simps truthy_str_def)

lemma stored_stale:
  assumes "ok (st_store s)" and "holds (st_store s) h st" and "tok (st_store s) h = Some t"
    and "t \<noteq> ''''" and "decodeToken E t = Inr (ex, dev)" and "\<not> token_fresh E (st_ext s) ex"
  shows "getAccessTokenFromStorageOrService E M h (Some st) d s =
    await (getAccessTokenFromService E h (Some dev)) (\<lambda>(t, _). ret t) s"
  using get_law [OF assms(1,2)] assms(3-6)
  by (simp add: getAccessTokenFromStorageOrService_def getAccessTokenFromStorage_def store_def
      io_simps truthy_str_def fresh_not_bad)

lemma stored_fresh:
  assumes "ok (st_store s)" and "holds (st_store s) h st" and "tok (st_store s) h = Some t"
    and "t \<noteq> ''''" and "decodeToken E t = Inr (ex, dev)" and "token_fresh E (st_ext s) ex"
  shows "getAccessTokenFromStorageOrService E M h (Some st) d s = (Inr t, s)"
  using get_law [OF assms(1,2)] assms(3-6)
  by (simp add: getAccessTokenFromStorageOrService_def getAccessTokenFromStorage_def store_def
      io_simps truthy_str_def fresh_not_bad)

text \<open>An expired session is deleted: afterwards the storage no longer knows its device.\<close>

lemma expired_forgets:
  assumes "ok (st_store s)" and "st_sessions s h = Some c"
    and "decodeToken E (se_accessToken c) = Inr (ex, dev)"
    and "ex \<le> sx_now E (st_ext s) div 1000"
    and "tryUseCachedSession E M h c p s = (Inr r, s1)"
  shows "r = None \<and> ok (st_store s1) \<and> tok (st_store s1) h = None"
proof -
  have "\<not> token_fresh E (st_ext s) ex" using assms(4) by (simp add: token_fresh_def)
  then have "handleExpiredToken E M h s = (Inr r, s1)"
    using assms(3-5) by (simp add: tryUseCachedSession_def io_simps fresh_not_bad expired_apply)
  then have "r = None" "deleteSession E M h False s = (Inr (), s1)"
    by (auto simp: handleExpiredToken_def await_Inr_iff ret_apply)
  with deletion_forgets [OF assms(1), of h E False s1] assms(2) show ?thesis by simp
qed

text \<open>
  So the session created next asks the service for a token of the caller's default device,
  or of a new random one, and not of the device the handle had.
\<close>

lemma expired_then_service:
  assumes "ok (st_store s)" and "st_sessions s h = Some c"
    and "decodeToken E (se_accessToken c) = Inr (ex, dev)"
    and "ex \<le> sx_now E (st_ext s) div 1000"
    and "tryUseCachedSession E M h c p s = (Inr r, s1)"
  shows "r = None \<and> (\<exists>st s2. store (sm_use M h p) s1 = (Inr (Some st), s2)
    \<and> (\<forall>d. getAccessTokenFromStorageOrService E M h (Some st) d s2 =
           await (getAccessTokenFromService E h d) (\<lambda>(t, _). ret t) s2))"
proof -
  from expired_forgets [OF assms] have r: "r = None" "ok (st_store s1)" "tok (st_store s1) h = None"
    by simp_all
  from use_law [OF r(2), of h p] obtain st s2 where use: "sm_use M h p (st_store s1) = (Inr (Some st), s2)"
    "ok s2" "holds s2 h st" "tok s2 = tok (st_store s1)" by blast
  then have "store (sm_use M h p) s1 = (Inr (Some st), s1\<lparr>st_store := s2\<rparr>)"
    by (simp add: store_def)
  then show ?thesis
    using r use nothing_stored [of "s1\<lparr>st_store := s2\<rparr>" h st] by fastforce
qed

text \<open>After a restart (no session in the record) an expired stored token keeps its device.\<close>

lemma restart_same_device:
  assumes "ok (st_store s)" and "tok (st_store s) h = Some t" and "t \<noteq> ''''"
    and "decodeToken E t = Inr (ex, dev)" and "\<not> token_fresh E (st_ext s) ex"
  shows "\<exists>st s2. store (sm_use M h p) s = (Inr (Some st), s2)
    \<and> (\<forall>d. getAccessTokenFromStorageOrService E M h (Some st) d s2 =
           await (getAccessTokenFromService E h (Some dev)) (\<lambda>(t, _). ret t) s2)"
proof -
  from use_law [OF assms(1), of h p] obtain st s2 where use: "sm_use M h p (st_store s) = (Inr (Some st), s2)"
    "ok s2" "holds s2 h st" "tok s2 = tok (st_store s)" by blast
  then have "store (sm_use M h p) s = (Inr (Some st), s\<lparr>st_store := s2\<rparr>)"
    by (simp add: store_def)
  then show ?thesis
    using assms use stored_stale [of "s\<lparr>st_store := s2\<rparr>" h st t E ex dev] by fastforce
qed

lemma restart_reuses_token:
  assumes "ok (st_store s)" and "tok (st_store s) h = Some t" and "t \<noteq> ''''"
    and "decodeToken E t = Inr (ex, dev)" and "token_fresh E (st_ext s) ex"
  shows "\<exists>st s2. store (sm_use M h p) s = (Inr (Some st), s2) \<and> st_ext s2 = st_ext s
    \<and> (\<forall>d. getAccessTokenFromStorageOrService E M h (Some st) d s2 = (Inr t, s2))"
proof -
  from use_law [OF assms(1), of h p] obtain st s2 where use: "sm_use M h p (st_store s) = (Inr (Some st), s2)"
    "ok s2" "holds s2 h st" "tok s2 = tok (st_store s)" by blast
  then have "store (sm_use M h p) s = (Inr (Some st), s\<lparr>st_store := s2\<rparr>)"
    by (simp add: store_def)
  then show ?thesis
    using assms use stored_fresh [of "s\<lparr>st_store := s2\<rparr>" h st t E ex dev] by fastforce
qed

end

section \<open>The queue\<close>

lemma queue_shape:
  assumes "chain_step\<^sup>*\<^sup>* [] ws"
  shows "\<exists>a r c. ws = replicate a Settled @ r @ replicate c Waiting \<and> (r = [] \<or> r = [Running])"
  using assms
proof (induction rule: rtranclp_induct)
  case base
  have "[] = replicate 0 Settled @ [] @ replicate 0 Waiting" by simp
  then show ?case by blast
next
  case (step ws ws')
  then obtain a r c where ws: "ws = replicate a Settled @ r @ replicate c Waiting"
    and r: "r = [] \<or> r = [Running]" by blast
  from step(2) show ?case
  proof (cases rule: chain_step.cases)
    case call
    then have "ws' = replicate a Settled @ r @ replicate (Suc c) Waiting"
      using ws by (simp add: replicate_append_same)
    then show ?thesis using r by blast
  next
    case (start i)
    then have i: "a + length r \<le> i" and w: "ws ! i = Waiting"
      using ws r by (auto simp: nth_append nth_Cons' split: if_splits)
    have "r = [] \<and> i = a"
    proof (cases i)
      case 0
      then show ?thesis using i by simp
    next
      case (Suc j)
      with start have "ws ! j = Settled" by simp
      moreover have "j < length ws" using Suc start by simp
      ultimately have "j < a"
        using ws r by (auto simp: nth_append nth_Cons' split: if_splits)
      with Suc i have "length r = 0 \<and> i = a" by arith
      then show ?thesis by simp
    qed
    moreover obtain c' where "c = Suc c'"
      using start ws calculation by (cases c) auto
    ultimately have "ws' = replicate a Settled @ [Running] @ replicate c' Waiting"
      using start ws by (simp add: list_update_append)
    then show ?thesis by blast
  next
    case (settle i)
    then have "r = [Running] \<and> i = a"
      using ws r by (auto simp: nth_append nth_Cons' split: if_splits)
    then have "ws' = replicate (Suc a) Settled @ [] @ replicate c Waiting"
      using settle ws by (simp add: list_update_append replicate_append_same)
    then show ?thesis by blast
  qed
qed


lemma expired_not_fresh: "ex \<le> sx_now E x div 1000 \<Longrightarrow> \<not> token_fresh E x ex"
  by (simp add: token_fresh_def)

lemma schedule_apply:
  "scheduleTokenRefresh E h ex p s =
     (let D = (ex - sx_now E (st_ext s) div 1000 - sx_refreshMinutes E * 60) * 1000
      in if sx_refreshMinutes E > 0 \<and> D > 0
         then await (ext (sx_setTimeout E h p D)) (\<lambda>t. ret (Some t)) s else (Inr None, s))"
  by (simp add: scheduleTokenRefresh_def now_seconds_def await_def ret_apply Let_def)

text \<open>
  An instance: a token decodes to the time it is named by (its length, in seconds) and to
  the device ''dev''; the outside state is the clock, in milliseconds.
\<close>

definition demo_session_env :: "int session_env" where
  "demo_session_env =
     \<lparr>sx_decode = (\<lambda>t. if t = '''' then None
        else Some \<lparr>jw_exp = Some (int (length t)), jw_device_id = Some ''dev''\<rparr>),
      sx_now = (\<lambda>x. x), sx_refreshMinutes = 1, sx_enableCrypto = False, sx_indexedDB = False,
      sx_graphql = offline_client, sx_uuid = ret ''uuid'',
      sx_createClient = (\<lambda>_ _. ret 0), sx_initRustCrypto = (\<lambda>_ _ _. ret ()),
      sx_deleteDatabase = (\<lambda>_. ret ()), sx_matrixStoreStartup = (\<lambda>_. ret ()),
      sx_loginRequest = (\<lambda>_ _. ret ()), sx_dropSyncListener = (\<lambda>_. ret ()),
      sx_stopClient = (\<lambda>_. ret ()),
      sx_clearStores = (\<lambda>_ _. ret ()), sx_setAccessToken = (\<lambda>_ _. ret ()),
      sx_setTimeout = (\<lambda>_ _ _. ret 7), sx_clearTimeout = (\<lambda>_. ret ())\<rparr>"

lemma demo_session_env_sel [simp]:
  "sx_decode demo_session_env t = (if t = '''' then None
     else Some \<lparr>jw_exp = Some (int (length t)), jw_device_id = Some ''dev''\<rparr>)"
  "sx_now demo_session_env x = x" "sx_refreshMinutes demo_session_env = 1"
  "sx_enableCrypto demo_session_env = False" "sx_createClient demo_session_env h t = ret 0"
  "sx_loginRequest demo_session_env c t = ret ()" "sx_setTimeout demo_session_env h p d = ret 7"
  "sx_dropSyncListener demo_session_env c = ret ()" "sx_stopClient demo_session_env c = ret ()"
  "sx_clearTimeout demo_session_env i = ret ()"
  by (simp_all add: demo_session_env_def)

text \<open>The handle ''ann'' with a stored token that expires after 90 seconds.\<close>

definition demo_token :: string where
  "demo_token = replicate 90 CHR ''t''"

definition demo_session_state :: "int \<Rightarrow> sessions \<Rightarrow> (int, storage_world) session_state" where
  "demo_session_state now S =
     \<lparr>st_ext = now,
      st_store = demo_storage\<lparr>sw_dbs := [db_name ''ann'' \<mapsto>
        (1, [''session'' \<mapsto> [''accessToken'' \<mapsto> IdbScalar demo_token]])]\<rparr>,
      st_sessions = S\<rparr>"

definition demo_session :: session where
  "demo_session = \<lparr>se_accessToken = demo_token, se_storePassphrase = None,
     se_client = \<lparr>cl_id = 0, cl_token = demo_token\<rparr>, se_refreshTimeout = Some 7\<rparr>"

lemma demo_session_sel: "se_accessToken demo_session = demo_token"
  by (simp add: demo_session_def)

lemma demo_state_sel:
  "st_ext (demo_session_state now S) = now" "st_sessions (demo_session_state now S) = S"
  by (simp_all add: demo_session_state_def)

lemma demo_token_decodes [simp]:
  "demo_token \<noteq> ''''" "decodeToken demo_session_env demo_token = Inr (90, ''dev'')"
  by (simp_all add: demo_token_def decodeToken_def truthy_num_def truthy_str_def)

lemma demo_stored_ok:
  "storage_ok (st_store (demo_session_state now S))"
  "open_storage (st_store (demo_session_state now S)) ''ann'' 0"
  "stored_token (st_store (demo_session_state now S)) ''ann'' = Some demo_token"
  "sw_cache (st_store (demo_session_state now S)) ''ann'' = Some 0"
  by (auto simp: demo_session_state_def storage_ok_def open_storage_def demo_storage_def db_ok_def
      migrations_def stored_token_def split: if_splits)

lemma demo_fresh [simp]:
  "token_fresh demo_session_env 0 90"
  "\<not> token_fresh demo_session_env 60000 90"
  "\<not> token_fresh demo_session_env 90000 90"
  unfolding token_fresh_def by simp_all

lemma demo_use:
  "useHandleStorage working_env ''ann'' (st_store (demo_session_state now S))
     = (Inr (Some 0), st_store (demo_session_state now S))"
  using demo_stored_ok(4) [of now S]
  by (simp add: useHandleStorage_def map_upd_triv demo_session_state_def demo_storage_def)

lemma demo_expired:
  "\<exists>s1. tryUseCachedSession demo_session_env (indexeddb_module working_env) ''ann'' demo_session None
      (demo_session_state 90000 [''ann'' \<mapsto> demo_session]) = (Inr None, s1)"
proof -
  let ?M = "indexeddb_module working_env"
    and ?s = "demo_session_state 90000 [''ann'' \<mapsto> demo_session]"
  have use: "sm_use ?M ''ann'' None (st_store ?s) = (Inr (Some 0), st_store ?s)"
    by (simp add: indexeddb_module_def demo_use)
  obtain w where del: "sm_deleteToken ?M 0 (st_store ?s) = (Inr (), w)" "storage_ok w"
    using idb.del_law [OF demo_stored_ok(1,2)] by blast
  obtain w' where close: "sm_close ?M ''ann'' w = (Inr (), w')"
    using idb.close_law [OF del(2)] by blast
  have "handleExpiredToken demo_session_env ?M ''ann'' ?s
      = (Inr None, \<lparr>st_ext = 90000, st_store = w', st_sessions = Map.empty\<rparr>)"
    using use del(1) close
    by (simp add: handleExpiredToken_def deleteSession_def get_session_def await_def ret_apply
        store_def ext_def put_session_def cm_stopSyncing_def try_catch_def demo_session_state_def
        demo_session_def)
  then show ?thesis
    by (simp add: tryUseCachedSession_def io_simps fresh_not_bad expired_apply demo_state_sel
        demo_session_sel)
qed

lemma demo_restart:
  "\<exists>s1. ensureValidSessionBody demo_session_env (indexeddb_module working_env) ''ann'' None None
      (demo_session_state 0 Map.empty) = (Inr demo_token, s1) \<and> st_ext s1 = 0"
proof -
  let ?M = "indexeddb_module working_env" and ?s = "demo_session_state 0 Map.empty"
  have use: "sm_use ?M ''ann'' None (st_store ?s) = (Inr (Some 0), st_store ?s)"
    by (simp add: indexeddb_module_def demo_use)
  have tok: "getAccessTokenFromStorageOrService demo_session_env ?M ''ann'' (Some 0) None ?s
      = (Inr demo_token, ?s)"
    by (rule idb.stored_fresh [OF demo_stored_ok(1-3), where ex = 90 and dev = "''dev''"])
      (simp_all add: demo_session_state_def)
  obtain w where save: "sm_saveToken ?M 0 demo_token (st_store ?s) = (Inr (), w)"
    using idb.save_law [OF demo_stored_ok(1,2)] by blast
  show ?thesis
    using use tok save
    by (simp add: ensureValidSessionBody_def createNewSession_def get_session_def await_def
        ret_apply store_def ext_def put_session_def createMatrixClient_def cm_signIn_def
        lift_result_apply schedule_apply demo_session_state_def truthy_str_def)
qed


section \<open>Properties\<close>

text \<open>
  C24: The sessions of the manager stay consistent. When every recorded session holds a
  token that decodes and its client uses that token, then making a session valid, whatever
  the service, the storage and the Matrix client do, leaves them so whether it fails or
  succeeds; on success the handle's session holds the returned token, and
  \<open>getMatrixClient\<close> then answers a client that uses it (its read of the session never finds
  it missing).
\<close>

theorem session_invariant:
  assumes "sx_decode E '''' = None" and "sessions_ok E (st_sessions s)"
  shows "case ensureValidSessionBody E M h None d s of
      (Inl e, s') \<Rightarrow> sessions_ok E (st_sessions s') \<and> getMatrixClient E M h d s = (Inl e, s')
    | (Inr t, s') \<Rightarrow> sessions_ok E (st_sessions s') \<and> session_of h t (st_sessions s')
        \<and> (\<exists>c. getMatrixClient E M h d s = (Inr c, s') \<and> isUsingToken c t)"
proof (cases "ensureValidSessionBody E M h None d s")
  case (Pair r s')
  note after = on_sessionsD [OF ensureValid_sessions [OF assms(1), of M h None d], of s, OF assms(2)]
  show ?thesis
  proof (cases r)
    case (Inl e)
    then show ?thesis using after(2) Pair by (simp add: getMatrixClient_def await_def)
  next
    case (Inr t)
    with after(1) Pair have ok: "sessions_ok E (st_sessions s')" and of: "session_of h t (st_sessions s')"
      by simp_all
    from of obtain c where c: "st_sessions s' h = Some c" "se_accessToken c = t"
      by (auto simp: session_of_def)
    with ok have "isUsingToken (se_client c) t" by (auto simp: sessions_ok_def session_ok_def)
    then show ?thesis using Pair Inr ok of c
      by (simp add: getMatrixClient_def await_def get_session_def ret_apply)
  qed
qed

theorem session_invariant_witness:
  "\<exists>t s'. ensureValidSessionBody demo_session_env (indexeddb_module working_env) ''ann'' None None
      (demo_session_state 0 Map.empty) = (Inr t, s') \<and> session_of ''ann'' t (st_sessions s')"
  using session_invariant [of demo_session_env "demo_session_state 0 Map.empty"
      "indexeddb_module working_env" "''ann''" None] demo_restart
  by (auto simp: demo_session_state_def sessions_ok_def)

text \<open>
  C30: Concurrent callers share one session. Once a call has made the session of a handle
  valid, the next call of the queue, with any passphrase and any default device, answers the
  same token and changes nothing: no call to the service, the storage or the Matrix client is
  made, as long as the token is neither expired nor inside the refresh threshold.
\<close>

theorem sessions_shared:
  assumes "sx_decode E '''' = None" and "sessions_ok E (st_sessions s)"
    and "ensureValidSessionBody E M h p d s = (Inr t, s1)"
    and "decodeToken E t = Inr (ex, dev)" and "token_fresh E (st_ext s1) ex"
  shows "ensureValidSessionBody E M h p' d' s1 = (Inr t, s1)"
proof -
  from on_sessionsD(1) [OF ensureValid_sessions [OF assms(1)] assms(2,3)]
  obtain c where "st_sessions s1 h = Some c" "se_accessToken c = t" "session_ok E c"
    by (auto simp: session_of_def sessions_ok_def)
  with cached_session_used [of s1 h c E ex dev M p' d'] assms(4,5) show ?thesis by simp
qed

theorem sessions_shared_witness:
  "\<exists>s1. ensureValidSessionBody demo_session_env (indexeddb_module working_env) ''ann'' None None
      (demo_session_state 0 Map.empty) = (Inr demo_token, s1)
    \<and> ensureValidSessionBody demo_session_env (indexeddb_module working_env) ''ann''
        (Some ''pass'') (Some ''other'') s1 = (Inr demo_token, s1)"
proof -
  obtain s1 where s1: "ensureValidSessionBody demo_session_env (indexeddb_module working_env) ''ann''
      None None (demo_session_state 0 Map.empty) = (Inr demo_token, s1)" "st_ext s1 = 0"
    using demo_restart by blast
  have "ensureValidSessionBody demo_session_env (indexeddb_module working_env) ''ann''
      (Some ''pass'') (Some ''other'') s1 = (Inr demo_token, s1)"
    by (rule sessions_shared [OF _ _ s1(1), where ex = 90 and dev = "''dev''"])
      (simp_all add: s1(2), simp add: demo_session_state_def sessions_ok_def)
  with s1(1) show ?thesis by blast
qed


lemma demo_queue: "chain_step\<^sup>*\<^sup>* [] [Settled, Running, Waiting]"
proof -
  note more = rtranclp.rtrancl_into_rtrancl
  have "chain_step\<^sup>*\<^sup>* [] [Waiting]" using chain_step.call [of "[]"] by (auto intro: more)
  from more [OF this chain_step.start [of 0]] have "chain_step\<^sup>*\<^sup>* [] [Running]" by simp
  from more [OF this chain_step.call] have "chain_step\<^sup>*\<^sup>* [] [Running, Waiting]" by simp
  from more [OF this chain_step.settle [of 0]] have "chain_step\<^sup>*\<^sup>* [] [Settled, Waiting]" by simp
  from more [OF this chain_step.start [of 1]] have "chain_step\<^sup>*\<^sup>* [] [Settled, Running]" by simp
  from more [OF this chain_step.call] show ?thesis by simp
qed


text \<open>
  C32: The refresh timer fires in time. When a refresh is scheduled for a token, it is set for
  a positive number of milliseconds, and whenever it fires no earlier than set and before
  the token's expiry, the session's token is found expiring and is exchanged at the service for
  the same device.
\<close>

theorem refresh_timer_in_window:
  assumes "scheduleTokenRefresh E h ex p s = (Inr (Some i), s1)"
    and "D = (ex - sx_now E (st_ext s) div 1000 - sx_refreshMinutes E * 60) * 1000"
    and "sx_now E (st_ext s) + D \<le> sx_now E (st_ext s2)"
    and "sx_now E (st_ext s2) div 1000 < ex"
    and "st_sessions s2 h = Some c" and "decodeToken E (se_accessToken c) = Inr (ex, dev)"
  shows "0 < D \<and> ext (sx_setTimeout E h p D) s = (Inr i, s1)
    \<and> tryUseCachedSession E M h c p' s2 = refreshCachedSessionToken E M h c dev p' s2"
proof -
  have set: "0 < D" "ext (sx_setTimeout E h p D) s = (Inr i, s1)"
    using assms(1,2) by (auto simp: schedule_apply Let_def await_Inr_iff ret_apply split: if_splits)
  have "sx_now E (st_ext s) div 1000 + (ex - sx_now E (st_ext s) div 1000 - sx_refreshMinutes E * 60)
      \<le> sx_now E (st_ext s2) div 1000"
    using assms(2,3) by simp
  then have "\<not> token_fresh E (st_ext s2) ex" by (simp add: token_fresh_def)
  with assms(4,6) show ?thesis
    using set by (simp add: tryUseCachedSession_def io_simps fresh_not_bad expired_apply)
qed

theorem refresh_timer_in_window_witness:
  "tryUseCachedSession demo_session_env (indexeddb_module working_env) ''ann'' demo_session None
      (demo_session_state 31000 [''ann'' \<mapsto> demo_session])
   = refreshCachedSessionToken demo_session_env (indexeddb_module working_env) ''ann'' demo_session
      ''dev'' None (demo_session_state 31000 [''ann'' \<mapsto> demo_session])"
proof -
  have "scheduleTokenRefresh demo_session_env ''ann'' 90 None (demo_session_state 0 Map.empty)
      = (Inr (Some 7), demo_session_state 0 Map.empty)"
    by (simp add: schedule_apply await_def ext_def ret_apply demo_session_state_def)
  from refresh_timer_in_window [OF this refl, of "demo_session_state 31000 [''ann'' \<mapsto> demo_session]"
      demo_session "''dev''" "indexeddb_module working_env" None]
  show ?thesis by (simp add: demo_state_sel demo_session_sel)
qed

text \<open>
  C31: An expired session forgets its device. When the cached session of a handle has expired,
  it is removed with its stored token; so the new session made next, over a working
  storage, asks the service for the default device of the caller or a new random one,
  and not for the device the handle was signed in with.
\<close>

theorem expired_session_forgets_device:
  assumes "storage_ok (st_store s)" and "st_sessions s h = Some c"
    and "decodeToken E (se_accessToken c) = Inr (ex, dev)"
    and "ex \<le> sx_now E (st_ext s) div 1000"
    and "tryUseCachedSession E (indexeddb_module working_env) h c p s = (Inr r, s1)"
  shows "r = None \<and> (\<exists>st s2. store (useHandleStorage working_env h) s1 = (Inr (Some st), s2)
    \<and> (\<forall>d. getAccessTokenFromStorageOrService E (indexeddb_module working_env) h (Some st) d s2 =
           await (getAccessTokenFromService E h d) (\<lambda>(t, _). ret t) s2))"
  using idb.expired_then_service [OF assms] by (simp add: indexeddb_module_def)

theorem expired_session_forgets_device_witness:
  "\<exists>s1 st s2. tryUseCachedSession demo_session_env (indexeddb_module working_env) ''ann''
      demo_session None (demo_session_state 90000 [''ann'' \<mapsto> demo_session]) = (Inr None, s1)
    \<and> store (useHandleStorage working_env ''ann'') s1 = (Inr (Some st), s2)
    \<and> getAccessTokenFromStorageOrService demo_session_env (indexeddb_module working_env) ''ann''
        (Some st) None s2
      = await (getAccessTokenFromService demo_session_env ''ann'' None) (\<lambda>(t, _). ret t) s2"
proof -
  obtain s1 where s1: "tryUseCachedSession demo_session_env (indexeddb_module working_env) ''ann''
      demo_session None (demo_session_state 90000 [''ann'' \<mapsto> demo_session]) = (Inr None, s1)"
    using demo_expired by blast
  from expired_session_forgets_device [OF demo_stored_ok(1) _ _ _ s1, of 90 "''dev''"]
  show ?thesis using s1 by (auto simp: demo_state_sel demo_session_sel)
qed

text \<open>
  A restart keeps the device. With no session recorded, a stored token that is expired or
  expiring is exchanged at the service for one of the same device, whatever default the
  caller gives; one that is neither is used as it is, with no call to the service.
\<close>

theorem restart_keeps_device:
  assumes "storage_ok (st_store s)" and "stored_token (st_store s) h = Some t" and "t \<noteq> ''''"
    and "decodeToken E t = Inr (ex, dev)"
  shows "\<exists>st s2. store (useHandleStorage working_env h) s = (Inr (Some st), s2)
    \<and> (\<forall>d. getAccessTokenFromStorageOrService E (indexeddb_module working_env) h (Some st) d s2 =
        (if token_fresh E (st_ext s) ex then (Inr t, s2)
         else await (getAccessTokenFromService E h (Some dev)) (\<lambda>(t, _). ret t) s2))"
  using idb.restart_same_device [OF assms, where p = None] idb.restart_reuses_token [OF assms, where p = None]
  by (cases "token_fresh E (st_ext s) ex") (auto simp: indexeddb_module_def)

theorem restart_keeps_device_witness:
  "\<exists>st s2. store (useHandleStorage working_env ''ann'') (demo_session_state 60000 Map.empty)
      = (Inr (Some st), s2)
    \<and> getAccessTokenFromStorageOrService demo_session_env (indexeddb_module working_env) ''ann''
        (Some st) None s2
      = await (getAccessTokenFromService demo_session_env ''ann'' (Some ''dev''))
          (\<lambda>(t, _). ret t) s2"
  using restart_keeps_device [OF demo_stored_ok(1,3) demo_token_decodes]
  by (fastforce simp: demo_session_state_def)

end
