(* ===== verification/Handles.thy ===== *)
theory Handles
  imports Sessions Channels
begin

text \<open>
  Handles: \<open>DefaultHandleService\<close> (\<open>src/private/data/handle\<close>), the use cases of
  \<open>src/private/domain/use-cases/handles\<close> and \<open>GetSessionUseCase\<close>, over the session manager
  of theory Sessions. A use case works on the manager's state: the outside, the storage and
  the recorded sessions.
\<close>

section \<open>The handle service\<close>

record OwnedHandleEntity = HandleEntity +
  oh_owner :: string
  oh_owners :: "Owner list"

definition handle_fromGraphQLToEntity :: "PublicSecureCommsHandleInfo \<Rightarrow> HandleEntity" where
  "handle_fromGraphQLToEntity d = \<lparr>he_handleId = ph_id d, he_name = ph_name d\<rparr>"

definition copy_owners :: "Owner list \<Rightarrow> Owner list" where
  "copy_owners os = map (\<lambda>o'. \<lparr>ow_id = ow_id o', ow_issuer = ow_issuer o'\<rparr>) os"

definition handle_fromGraphQLToOwnedEntity :: "SecureCommsHandle \<Rightarrow> OwnedHandleEntity" where
  "handle_fromGraphQLToOwnedEntity d =
     \<lparr>he_handleId = sh_id d, he_name = sh_name d, oh_owner = sh_owner d,
      oh_owners = copy_owners (sh_owners d)\<rparr>"

definition hs_get :: "'w graphql_client \<Rightarrow> string \<Rightarrow> ('w, HandleEntity option) io" where
  "hs_get G name =
     await (api_getSecureCommsHandleByName G name) (\<lambda>result.
       ret (map_option handle_fromGraphQLToEntity result))"

definition hs_update :: "'w graphql_client \<Rightarrow> handle_id \<Rightarrow> string \<Rightarrow> ('w, OwnedHandleEntity) io" where
  "hs_update G handleId name =
     await (api_updateSecureCommsHandle G \<lparr>uh_id = handleId, uh_name = name\<rparr>) (\<lambda>result.
       ret (handle_fromGraphQLToOwnedEntity result))"

definition hs_delete :: "'w graphql_client \<Rightarrow> handle_id \<Rightarrow> ('w, OwnedHandleEntity) io" where
  "hs_delete G i =
     await (api_deleteSecureCommsHandle G i) (\<lambda>result. ret (handle_fromGraphQLToOwnedEntity result))"

definition hs_list ::
    "'w graphql_client \<Rightarrow> int option \<Rightarrow> string option \<Rightarrow>
     ('w, OwnedHandleEntity list \<times> string option) io" where
  "hs_list G limit nextToken =
     await (api_listSecureCommsHandles G limit nextToken) (\<lambda>result.
       ret (map handle_fromGraphQLToOwnedEntity (shc_items result), shc_nextToken result))"

section \<open>Use cases\<close>

definition check_name :: "'w graphql_client \<Rightarrow> string \<Rightarrow> ('w, unit) io" where
  "check_name G name =
     await (checkWordValidity G [name]) (\<lambda>validWords.
       if 1 \<noteq> length validWords then throw (UnacceptableWordsError None) else ret ())"

record ProvisionHandleUseCaseInput =
  pr_id :: "string option"
  pr_name :: string
  pr_storePassphrase :: "string option"
  pr_deviceId :: "string option"

definition ucs_provisionHandle ::
    "'x session_env \<Rightarrow> ('s, 'st) storage_module \<Rightarrow> ProvisionHandleUseCaseInput \<Rightarrow>
     (('x, 's) session_state, OwnedHandleEntity) io" where
  "ucs_provisionHandle E M inp =
     await (ext (check_name (sx_graphql E) (pr_name inp))) (\<lambda>_.
     await (case pr_deviceId inp of Some d \<Rightarrow> ret d | None \<Rightarrow> ext (sx_uuid E)) (\<lambda>deviceId.
     await (ext (session_create (sx_graphql E) (pr_id inp) (pr_name inp) deviceId)) (\<lambda>session.
     await (ensureValidSessionBody E M (sn_handleId session) (pr_storePassphrase inp) (Some deviceId))
       (\<lambda>_.
       ret \<lparr>he_handleId = sn_handleId session, he_name = sn_handleName session,
            oh_owner = sn_owner session, oh_owners = sn_owners session\<rparr>))))"

definition ucs_deprovisionHandle ::
    "'x session_env \<Rightarrow> ('s, 'st) storage_module \<Rightarrow> handle_id \<Rightarrow>
     (('x, 's) session_state, OwnedHandleEntity) io" where
  "ucs_deprovisionHandle E M i =
     await (ext (hs_delete (sx_graphql E) i)) (\<lambda>handle.
     await (deleteSession E M i True) (\<lambda>_. ret handle))"

definition ucs_updateHandle ::
    "'w graphql_client \<Rightarrow> handle_id \<Rightarrow> string \<Rightarrow> ('w, OwnedHandleEntity) io" where
  "ucs_updateHandle G handleId name =
     await (check_name G name) (\<lambda>_. hs_update G handleId name)"

definition ucs_listHandles ::
    "'w graphql_client \<Rightarrow> int option \<Rightarrow> string option \<Rightarrow>
     ('w, OwnedHandleEntity list \<times> string option) io" where
  "ucs_listHandles G limit nextToken = hs_list G limit nextToken"

definition ucs_getSession ::
    "'w graphql_client \<Rightarrow> handle_id \<Rightarrow> string \<Rightarrow> ('w, SecureCommsSessionEntity) io" where
  "ucs_getSession G handleId deviceId = session_get G handleId deviceId"


section \<open>Properties\<close>

lemma deprovision_Inr:
  assumes "ucs_deprovisionHandle E M h s = (Inr v, s')"
  obtains s1 where "ext (hs_delete (sx_graphql E) h) s = (Inr v, s1)"
    and "deleteSession E M h True s1 = (Inr (), s')"
  using assms by (auto simp: ucs_deprovisionHandle_def await_Inr_iff ret_apply)

lemma ext_keeps: "ext m s = (r, s') \<Longrightarrow> st_store s' = st_store s \<and> st_sessions s' = st_sessions s"
  by (auto simp: ext_def split: prod.splits)

context token_store
begin

lemma deprovision_store:
  assumes "ok (st_store s)" and "ucs_deprovisionHandle E M h s = (Inr v, s')"
  shows "if st_sessions s h = None then st_store s' = st_store s
    else tok (st_store s') = (tok (st_store s))(h := None)"
proof -
  from assms(2) obtain s1 where s1: "ext (hs_delete (sx_graphql E) h) s = (Inr v, s1)"
    "deleteSession E M h True s1 = (Inr (), s')" by (rule deprovision_Inr)
  from ext_keeps [OF s1(1)] have same: "st_store s1 = st_store s" "st_sessions s1 = st_sessions s"
    by simp_all
  show ?thesis
  proof (cases "st_sessions s h")
    case None
    then have "s' = s1" using s1(2) same by (simp add: deleteSession_def await_get ret_apply)
    then show ?thesis using None same by simp
  next
    case (Some c)
    then show ?thesis using deletion_forgets [OF _ _ s1(2)] assms(1) same by simp
  qed
qed

end

text \<open>An account service that deletes the handle it is asked to delete.\<close>

definition demo_account_env :: "int session_env" where
  "demo_account_env = demo_session_env
     \<lparr>sx_graphql := offline_client
        \<lparr>gc_deleteHandle := (\<lambda>i w. (Inr \<lparr>gr_errors = None, gr_data = Some
           \<lparr>sh_createdAtEpochMs = 0, sh_id = i, sh_name = ''Ann'', sh_owner = ''o'', sh_owners = [],
            sh_updatedAtEpochMs = 0, sh_version = 1\<rparr>\<rparr>, w))\<rparr>\<rparr>"

lemma demo_deprovision:
  "\<exists>v. ucs_deprovisionHandle demo_account_env (indexeddb_module working_env) ''ann''
      (demo_session_state 0 Map.empty) = (Inr v, demo_session_state 0 Map.empty)"
  by (simp add: ucs_deprovisionHandle_def demo_account_env_def ext_def hs_delete_def
      api_deleteSecureCommsHandle_def performQuery_def await_def ret_apply deleteSession_def
      get_session_def demo_session_state_def)

text \<open>
  Deprovisioning clears the handle's storage only when a session of it is loaded. Over a
  working storage, deprovisioning a handle with a recorded session removes its stored token
  and touches no other handle's; but when no session is recorded, as after a restart, the
  call succeeds and the storage, with the handle's token, stays as it was.
\<close>

theorem deprovision_storage:
  assumes "storage_ok (st_store s)"
    and "ucs_deprovisionHandle E (indexeddb_module working_env) h s = (Inr v, s')"
  shows "if st_sessions s h = None then st_store s' = st_store s
    else stored_token (st_store s') = (stored_token (st_store s))(h := None)"
  by (rule idb.deprovision_store [OF assms])

theorem deprovision_storage_witness:
  "\<exists>v s'. ucs_deprovisionHandle demo_account_env (indexeddb_module working_env) ''ann''
      (demo_session_state 0 Map.empty) = (Inr v, s')
    \<and> stored_token (st_store s') ''ann'' = Some demo_token"
proof -
  obtain v s' where r: "ucs_deprovisionHandle demo_account_env (indexeddb_module working_env) ''ann''
      (demo_session_state 0 Map.empty) = (Inr v, s')"
    using demo_deprovision by blast
  with deprovision_storage [OF demo_stored_ok(1) r] demo_stored_ok(3) show ?thesis
    by (simp add: demo_state_sel)
qed

end
