(* ===== verification/Messages.thy ===== *)
theory Messages
  imports Json Domain
begin

text \<open>
  Messages: the entities of \<open>src/private/domain/entities/messaging\<close> and the transformers of
  \<open>src/private/data/messaging/transformer\<close>, the main one reading a Matrix event into a
  message. The content of a message is the object the code builds, with its properties in
  the order they are set.
\<close>

section \<open>Entities\<close>

record MessageReactionEntity =
  rx_content :: string
  rx_count :: int
  rx_senderHandleIds :: "handle_id list"
  rx_eventIds :: "event_id list"

record MessageReceiptEntity =
  rt_timestamp :: int
  rt_handleId :: handle_id

record MessageEntity =
  mg_messageId :: event_id
  mg_state :: MessageStateEntity
  mg_timestamp :: int
  mg_senderHandle :: HandleEntity
  mg_isOwn :: bool
  mg_content :: json_object
  mg_reactions :: "MessageReactionEntity list"
  mg_receipts :: "MessageReceiptEntity list"
  mg_isVerified :: "bool option"

record SearchMessagesItemEntity =
  si_messageId :: event_id
  si_recipient :: string
  si_senderHandleId :: handle_id
  si_repliedToMessageId :: json
  si_body :: json
  si_filename :: json
  si_mimeType :: json
  si_timestamp :: int

datatype MessageMention = HandleMention handle_id string | ChatMention | OtherMention string

datatype MessageMentionEntity = HandleMentionEntity handle_id string | ChatMentionEntity

datatype RedactReasonEntity =
    DeleteOwn "string option"
  | EditReaction
  | Moderation string bool "string option"
  | UnknownReason

section \<open>Matrix events\<close>

text \<open>What the Matrix client's event object answers to the accessors used here.\<close>

datatype event_status = ENCRYPTING | QUEUED | SENDING | SENT | NOT_SENT | CANCELLED

record matrix_event =
  ev_id :: "event_id option"
  ev_rawId :: "event_id option"
  ev_type :: string
  ev_content :: json
  ev_sender :: "user_id option"
  ev_stateKey :: "string option"
  ev_ts :: int
  ev_status :: "event_status option"
  ev_isRedacted :: bool
  ev_redaction :: json
  ev_isEncrypted :: bool

definition MSG_MESSAGE :: string where "MSG_MESSAGE = ''m.room.message''"
definition MSG_ENCRYPTED :: string where "MSG_ENCRYPTED = ''m.room.encrypted''"
definition MSG_MEMBER :: string where "MSG_MEMBER = ''m.room.member''"
definition MSG_REACTION :: string where "MSG_REACTION = ''m.reaction''"
definition POLL_START :: string where "POLL_START = ''org.matrix.msc3381.poll.start''"
definition POLL_RESPONSE :: string where "POLL_RESPONSE = ''org.matrix.msc3381.poll.response''"
definition POLL_END :: string where "POLL_END = ''org.matrix.msc3381.poll.end''"

lemmas event_types = MSG_MESSAGE_def MSG_ENCRYPTED_def MSG_MEMBER_def MSG_REACTION_def
  POLL_START_def POLL_RESPONSE_def POLL_END_def

section \<open>Content of room messages\<close>

definition encrypted_file :: "json \<Rightarrow> json" where
  "encrypted_file content =
     (let file = js_opt ''file'' content in
      if js_truthy file
      then JObj
        [(''url'', js_opt ''url'' file), (''key'', js_opt ''key'' file), (''iv'', js_opt ''iv'' file),
         (''hashes'', js_opt ''hashes'' file), (''v'', js_opt ''v'' file)]
      else JUndef)"

definition file_name :: "json \<Rightarrow> string \<Rightarrow> json" where
  "file_name content fallback =
     js_nullish (js_nullish (js_opt ''filename'' content) (js_opt ''fileName'' content)) (JStr fallback)"

text \<open>The four readers of media contents are only reached with an object as content.\<close>

definition getImageContent :: "json \<Rightarrow> json_object" where
  "getImageContent content =
     (let info = js_opt ''info'' content; thumb = js_opt ''thumbnail_info'' info in
         [(''caption'', js_opt ''body'' content),
         (''uri'', js_opt ''url'' content),
         (''info'', JObj
            [(''mimeType'', js_opt ''mimetype'' info), (''size'', js_opt ''size'' info),
             (''width'', js_opt ''w'' info), (''height'', js_opt ''h'' info),
             (''filename'', file_name content ''image'')]),
         (''thumbnailUri'', js_opt ''thumbnail_url'' info),
         (''thumbnailInfo'', JObj
            [(''width'', js_or (js_opt ''w'' thumb) (JNum 0)),
             (''height'', js_or (js_opt ''h'' thumb) (JNum 0)),
             (''blurHash'', js_or (js_opt ''blurhash'' thumb) (JStr '''')),
             (''mimeType'', js_or (js_opt ''mimetype'' thumb) (JStr ''image/jpeg'')),
             (''size'', js_or (js_opt ''size'' thumb) (JNum 0))]),
         (''encryptedFile'', encrypted_file content)])"

definition getFileContent :: "json \<Rightarrow> json_object" where
  "getFileContent content =
     (let info = js_opt ''info'' content in
         [(''caption'', js_opt ''body'' content),
         (''uri'', js_opt ''url'' content),
         (''info'', JObj
            [(''mimeType'', js_opt ''mimetype'' info), (''size'', js_opt ''size'' info),
             (''filename'', file_name content ''file'')]),
         (''encryptedFile'', encrypted_file content)])"

definition getAudioContent :: "json \<Rightarrow> json_object" where
  "getAudioContent content =
     (let info = js_opt ''info'' content in
         [(''caption'', js_opt ''caption'' content),
         (''uri'', js_opt ''url'' content),
         (''info'', JObj
            [(''mimeType'', js_opt ''mimetype'' info), (''size'', js_opt ''size'' info),
             (''duration'', js_opt ''duration'' info),
             (''filename'', file_name content ''audio'')]),
         (''encryptedFile'', encrypted_file content)])"

definition getVideoContent :: "json \<Rightarrow> json_object" where
  "getVideoContent content =
     (let info = js_opt ''info'' content; thumb = js_opt ''thumbnail_info'' info in
         [(''caption'', js_opt ''body'' content),
         (''uri'', js_opt ''url'' content),
         (''info'', JObj
            [(''mimeType'', js_opt ''mimetype'' info), (''size'', js_opt ''size'' info),
             (''width'', js_opt ''w'' info), (''height'', js_opt ''h'' info),
             (''duration'', js_opt ''duration'' info),
             (''filename'', file_name content ''video'')]),
         (''thumbnailUri'', js_opt ''thumbnail_url'' info),
         (''thumbnailInfo'', JObj
            [(''width'', js_opt ''w'' thumb), (''height'', js_opt ''h'' thumb),
             (''blurHash'', js_opt ''blurhash'' thumb), (''mimeType'', js_opt ''mimetype'' thumb),
             (''size'', js_opt ''size'' thumb)]),
         (''encryptedFile'', encrypted_file content)])"

text \<open>Thread and reply of a \<open>m.relates_to\<close> value, undefined when it has none.\<close>

definition thread_of :: "json \<Rightarrow> json" where
  "thread_of relatesTo =
     (if js_opt ''rel_type'' relatesTo = JStr ''m.thread'' then js_opt ''event_id'' relatesTo else JUndef)"

definition reply_of :: "json \<Rightarrow> json" where
  "reply_of relatesTo =
     (if js_truthy (js_opt ''m.in_reply_to'' relatesTo)
      then js_opt ''event_id'' (js_opt ''m.in_reply_to'' relatesTo) else JUndef)"

definition is_edit :: "json \<Rightarrow> bool" where
  "is_edit eventContent \<longleftrightarrow>
     js_opt ''rel_type'' (js_opt ''m.relates_to'' eventContent) = JStr ''m.replace''"

text \<open>The content that is shown: the new content of an edit, else the event's own.\<close>

definition shown_content :: "json \<Rightarrow> json" where
  "shown_content eventContent =
     (if is_edit eventContent then js_opt ''m.new_content'' eventContent else eventContent)"

definition base_content :: "json \<Rightarrow> bool \<Rightarrow> json \<Rightarrow> json \<Rightarrow> json_object" where
  "base_content contentType isEdited threadId repliedTo =
     [(''type'', js_nullish contentType (JStr ''unknown'')), (''isEdited'', JBool isEdited)]
     @ spread_if ''threadId'' threadId @ spread_if ''repliedToMessageId'' repliedTo"

definition messageContentFromMessageEvent :: "json \<Rightarrow> json_object result" where
  "messageContentFromMessageEvent eventContent =
     (let content = shown_content eventContent;
          relatesTo = js_opt ''m.relates_to'' content;
          contentType = js_opt ''msgtype'' content;
          mapped = base_content contentType (is_edit eventContent) (thread_of relatesTo) (reply_of relatesTo);
          add = (\<lambda>fields. Inr (js_spread mapped fields))
      in if contentType = JStr ''m.text'' then add [(''text'', js_opt ''body'' content)]
         else if contentType = JStr ''m.emote'' then add [(''emote'', js_opt ''body'' content)]
         else if contentType = JStr ''m.notice'' then add [(''notice'', js_opt ''body'' content)]
         else if contentType = JStr ''m.image'' then add (getImageContent content)
         else if contentType = JStr ''m.file'' then add (getFileContent content)
         else if contentType = JStr ''m.audio'' then add (getAudioContent content)
         else if contentType = JStr ''m.video'' then add (getVideoContent content)
         else if contentType = JStr ''m.location''
           then add [(''description'', js_opt ''body'' content), (''geoUri'', js_opt ''geo_uri'' content)]
         else if contentType = JStr ''m.key.verification.request''
           then add [(''body'', js_opt ''body'' content), (''fromDevice'', js_opt ''from_device'' content),
                     (''methods'', js_opt ''methods'' content),
                     (''timestamp'', js_opt ''timestamp'' content)]
         else Inr mapped)"

section \<open>Content of member and poll events\<close>

fun membership_name :: "MembershipState \<Rightarrow> string" where
  "membership_name API_INVITED = ''INVITED''"
| "membership_name API_REQUESTED = ''REQUESTED''"
| "membership_name API_JOINED = ''JOINED''"
| "membership_name API_LEFT = ''LEFT''"
| "membership_name API_BANNED = ''BANNED''"

definition handle_object :: "string \<Rightarrow> string \<Rightarrow> json" where
  "handle_object i name = JObj [(''handleId'', JStr i), (''name'', JStr name)]"

text \<open>A membership that is not a string of the specification counts as joined.\<close>

definition messageContentFromMemberEvent :: "json \<Rightarrow> string option \<Rightarrow> json_object result" where
  "messageContentFromMemberEvent eventContent stateKey =
     sum_bind (js_get ''membership'' eventContent) (\<lambda>membership.
       if \<not> js_truthy membership
       then Inl (SecureCommsError (Some ''Membership state is missing''))
       else Inr
         [(''state'', JStr (membership_name (membership_fromEntityToAPI
             (case membership of JStr m \<Rightarrow> membership_fromMatrixToEntity m | _ \<Rightarrow> MS_JOINED)))),
          (''handle'', handle_object (nullish stateKey '''') '''')])"

text \<open>\<open>v['org.matrix.msc1767.text'] || v.body || v || ''\<close>\<close>

definition poll_text :: "json \<Rightarrow> json result" where
  "poll_text v =
     sum_bind (js_get ''org.matrix.msc1767.text'' v) (\<lambda>text.
       if js_truthy text then Inr text
       else sum_bind (js_get ''body'' v) (\<lambda>body.
              Inr (js_or (js_or body v) (JStr ''''))))"

definition messageContentFromPollEvent :: "matrix_event \<Rightarrow> json_object result" where
  "messageContentFromPollEvent event =
     (let mapped = [(''type'', JStr (ev_type event)), (''isEdited'', JBool False)] in
      if ev_type event = POLL_START
      then sum_bind (js_get POLL_START (ev_content event)) (\<lambda>poll.
           sum_bind (js_get ''kind'' poll) (\<lambda>kind.
           sum_bind (js_get ''question'' poll) (\<lambda>question.
           sum_bind (poll_text question) (\<lambda>questionText.
           sum_bind (js_get ''answers'' poll) (\<lambda>answers.
           sum_bind (js_map poll_text answers) (\<lambda>answerTexts.
             Inr (js_spread mapped
               [(''kind'', kind), (''question'', questionText), (''answers'', JArr answerTexts),
                (''maxSelections'', js_or (js_opt ''max_selections'' poll) (JNum 1))])))))))
      else if ev_type event = POLL_RESPONSE
      then sum_bind (js_get POLL_RESPONSE (ev_content event)) (\<lambda>response.
           sum_bind (js_get ''m.relates_to'' (ev_content event)) (\<lambda>relatesTo.
           sum_bind (js_get ''answers'' response) (\<lambda>answers.
           sum_bind (js_map poll_text answers) (\<lambda>answerTexts.
             Inr (js_spread mapped
               [(''pollId'', js_opt ''event_id'' relatesTo), (''answers'', JArr answerTexts)])))))
      else Inr mapped)"

section \<open>From an event to a message\<close>

definition content_missing :: "json \<Rightarrow> bool" where
  "content_missing c \<longleftrightarrow> \<not> js_truthy c \<or> c = JObj []"

definition mapped_content :: "matrix_event \<Rightarrow> json_object result" where
  "mapped_content event =
     (let eventType = ev_type event; eventContent = ev_content event in
      if content_missing eventContent
      then if ev_isRedacted event then Inr [(''redactedBecause'', ev_redaction event)]
           else Inl (SecureCommsError (Some ''Event is not redacted but content is missing''))
      else if eventType = MSG_MESSAGE
        then sum_bind (messageContentFromMessageEvent eventContent) (\<lambda>c. Inr (js_spread [] c))
      else if eventType = MSG_MEMBER
        then sum_bind (messageContentFromMemberEvent eventContent (ev_stateKey event))
               (\<lambda>c. Inr (js_spread [] c))
      else if eventType = POLL_START \<or> eventType = POLL_RESPONSE
        then sum_bind (messageContentFromPollEvent event) (\<lambda>c. Inr (js_spread [] c))
      else Inr [])"

text \<open>For events that are not room messages, the thread and reply are read from the event.\<close>

definition relations_of :: "matrix_event \<Rightarrow> json_object \<Rightarrow> json_object result" where
  "relations_of event mapped =
     (if ev_type event = MSG_MESSAGE then Inr mapped
      else sum_bind (js_get ''m.relates_to'' (ev_content event)) (\<lambda>relatesTo.
        let m1 = (if js_opt ''rel_type'' relatesTo = JStr ''m.thread''
                  then map_set ''threadId'' (js_opt ''event_id'' relatesTo) mapped else mapped);
            reply = js_opt ''m.in_reply_to'' relatesTo
        in Inr (if js_truthy reply
                then map_set ''repliedToMessageId'' (js_opt ''event_id'' reply) m1 else m1)))"

definition state_of_event :: "matrix_event \<Rightarrow> MessageStateEntity" where
  "state_of_event event =
     (if ev_status event \<in> {Some ENCRYPTING, Some QUEUED, Some SENDING} then STE_PENDING
      else if ev_status event = Some SENT \<or> truthy_str (ev_rawId event) then STE_COMMITTED
      else STE_FAILED)"

definition message_fromMatrixToEntity ::
    "user_id \<Rightarrow> matrix_event \<Rightarrow> MessageEntity option result" where
  "message_fromMatrixToEntity userId event =
     (if \<not> truthy_str (ev_id event) then Inr None
      else sum_bind (mapped_content event) (\<lambda>mapped.
           sum_bind (relations_of event mapped) (\<lambda>content.
             Inr (Some
               \<lparr>mg_messageId = the (ev_id event),
                mg_state = state_of_event event,
                mg_timestamp = ev_ts event,
                mg_senderHandle = \<lparr>he_handleId = nullish (ev_sender event) '''', he_name = ''''\<rparr>,
                mg_isOwn = (Some userId = ev_sender event),
                mg_content = content,
                mg_reactions = [], mg_receipts = [], mg_isVerified = None\<rparr>))))"

section \<open>Other transformers\<close>

definition mention_fromAPIToEntity :: "MessageMention \<Rightarrow> MessageMentionEntity result" where
  "mention_fromAPIToEntity m =
     (case m of
        HandleMention h name \<Rightarrow> Inr (HandleMentionEntity h name)
      | ChatMention \<Rightarrow> Inr ChatMentionEntity
      | OtherMention t \<Rightarrow> Inl (InvalidArgumentError (Some (''Unsupported mention type: '' @ t))))"

record cached_receipt =
  cr_type :: string
  cr_userId :: user_id
  cr_ts :: int

definition receipt_fromMatrixToEntity :: "cached_receipt \<Rightarrow> MessageReceiptEntity" where
  "receipt_fromMatrixToEntity r = \<lparr>rt_timestamp = cr_ts r, rt_handleId = cr_userId r\<rparr>"

record search_event =
  se_event_id :: event_id
  se_room_id :: room_id
  se_sender :: user_id
  se_type :: string
  se_content :: json
  se_ts :: int

definition search_item_fromMatrixToEntity :: "search_event \<Rightarrow> SearchMessagesItemEntity result" where
  "search_item_fromMatrixToEntity event =
     (let content = se_content event in
      sum_bind (js_get ''msgtype'' content) (\<lambda>contentType.
        let name = (\<lambda>fallback. js_nullish (js_opt ''filename'' content) (JStr fallback));
            relatesTo = js_opt ''m.relates_to'' content
        in Inr
          \<lparr>si_messageId = se_event_id event,
           si_recipient = se_room_id event,
           si_senderHandleId = se_sender event,
           si_repliedToMessageId = js_opt ''event_id'' (js_opt ''m.in_reply_to'' relatesTo),
           si_body =
             (if js_opt ''rel_type'' relatesTo = JStr ''m.replace''
              then js_nullish (js_opt ''body'' (js_opt ''m.new_content'' content)) (js_opt ''body'' content)
              else js_opt ''body'' content),
           si_filename =
             (if contentType = JStr ''m.image'' then name ''image''
              else if contentType = JStr ''m.file'' then name ''file''
              else if contentType = JStr ''m.audio'' then name ''audio''
              else if contentType = JStr ''m.video'' then name ''video''
              else JUndef),
           si_mimeType = js_opt ''mimetype'' (js_opt ''info'' content),
           si_timestamp = se_ts event\<rparr>))"

end
