(* ===== verification/Timeline.thy ===== *)
theory Timeline
  imports Messages ChannelUseCases
begin

text \<open>
  The message operations of \<open>MatrixClientManager\<close>: sending, reading and listing messages,
  edits, redactions, reactions, receipts, pinned messages, summaries and search.

  The client's room objects are live; what they answer is read from the state by the
  functions of \<open>message_client\<close>. The listing of messages pages through the server, so it
  runs on fuel (theory Prelude); that enough fuel exists is proved below.
\<close>

section \<open>The Matrix client, as far as messages use it\<close>

record 'w message_client =
  mc_rooms :: "'w rooms_client"
  mc_findEvent :: "room_id \<Rightarrow> event_id \<Rightarrow> 'w \<Rightarrow> matrix_event option"
  mc_memberName :: "room_id \<Rightarrow> user_id \<Rightarrow> 'w \<Rightarrow> string option"
  mc_liveEvents :: "room_id \<Rightarrow> 'w \<Rightarrow> matrix_event list option"
  mc_markedUnread :: "room_id \<Rightarrow> 'w \<Rightarrow> bool"
  mc_lastRead :: "room_id \<Rightarrow> user_id \<Rightarrow> 'w \<Rightarrow> event_id option"
  mc_annotations :: "room_id \<Rightarrow> event_id \<Rightarrow> 'w \<Rightarrow> (string \<times> matrix_event list) list option"
  mc_replacements :: "room_id \<Rightarrow> event_id \<Rightarrow> 'w \<Rightarrow> matrix_event list option"
  mc_receipts :: "room_id \<Rightarrow> event_id option \<Rightarrow> 'w \<Rightarrow> cached_receipt list option"
  mc_sendMessage :: "room_id \<Rightarrow> json_object \<Rightarrow> ('w, unit) io"
  mc_sendEvent :: "room_id \<Rightarrow> string \<Rightarrow> json_object \<Rightarrow> ('w, unit) io"
  mc_redact :: "room_id \<Rightarrow> event_id \<Rightarrow> string option \<Rightarrow> ('w, unit) io"
  mc_messagesRequest ::
    "room_id \<Rightarrow> string option \<Rightarrow> int \<Rightarrow> ('w, matrix_event list \<times> string option) io"
  mc_decrypt :: "matrix_event \<Rightarrow> ('w, matrix_event) io"
  mc_fetchRoomEvent :: "room_id \<Rightarrow> event_id \<Rightarrow> ('w, matrix_event) io"
  mc_search :: "string \<Rightarrow> int \<Rightarrow> string option \<Rightarrow> ('w, search_event list \<times> string option) io"
  mc_setMarkedUnread :: "room_id \<Rightarrow> bool \<Rightarrow> ('w, unit) io"
  mc_setReadMarkers :: "room_id \<Rightarrow> event_id \<Rightarrow> ('w, unit) io"
  mc_sendReadReceipt :: "matrix_event \<Rightarrow> ('w, unit) io"
  mc_statePinned :: "room_id \<Rightarrow> ('w, event_id list option) io"
  mc_sendPinned :: "room_id \<Rightarrow> event_id list \<Rightarrow> ('w, unit) io"
  mc_sendTyping :: "room_id \<Rightarrow> bool \<Rightarrow> int \<Rightarrow> ('w, unit) io"

definition peek :: "('w \<Rightarrow> 'a) \<Rightarrow> ('w, 'a) io" where
  "peek f w = (Inr (f w), w)"

text \<open>The room of the id, which must exist.\<close>

definition need_room :: "'w message_client \<Rightarrow> room_id \<Rightarrow> ('w, room) io" where
  "need_room C roomId =
     await (cm_getRoom (mc_rooms C) roomId) (\<lambda>room.
       case room of None \<Rightarrow> throw (RoomNotFoundError None) | Some rm \<Rightarrow> ret rm)"

text \<open>\<open>Promise.all([getUserId(), getRoom(roomId)])\<close>, then the check that the room exists.\<close>

definition user_and_room :: "'w message_client \<Rightarrow> room_id \<Rightarrow> ('w, user_id) io" where
  "user_and_room C roomId =
     await (promise_both (cm_getUserId (mc_rooms C)) (cm_getRoom (mc_rooms C) roomId)) (\<lambda>(userId, room).
       case room of None \<Rightarrow> throw (RoomNotFoundError None) | Some _ \<Rightarrow> ret userId)"

section \<open>Sending\<close>

definition cm_fetchRoomEvent ::
    "'w message_client \<Rightarrow> room_id \<Rightarrow> event_id \<Rightarrow> ('w, matrix_event) io" where
  "cm_fetchRoomEvent C roomId eventId =
     or_fail ''Failed to fetch room event'' (mc_fetchRoomEvent C roomId eventId)"

definition cm_sendMessage :: "'w message_client \<Rightarrow> room_id \<Rightarrow> json_object \<Rightarrow> ('w, unit) io" where
  "cm_sendMessage C roomId content =
     or_fail ''Failed to send a message'' (mc_sendMessage C roomId content)"

definition sender_of :: "'w message_client \<Rightarrow> room_id \<Rightarrow> event_id \<Rightarrow> ('w, string option) io" where
  "sender_of C roomId eventId =
     peek (\<lambda>w. Option.bind (mc_findEvent C roomId eventId w) ev_sender)"

text \<open>The content of an event that is in a thread, or replies to a message.\<close>

definition thread_content :: "event_id \<Rightarrow> string option \<Rightarrow> json_object \<Rightarrow> json_object" where
  "thread_content threadId sender content = js_spread content
     [(''m.relates_to'', JObj [(''rel_type'', JStr ''m.thread''), (''event_id'', JStr threadId)]),
      (''com.sudoplatform.relates_to_sender'', js_of_str sender)]"

definition reply_content :: "event_id \<Rightarrow> string option \<Rightarrow> json_object \<Rightarrow> json_object" where
  "reply_content replyToMessageId sender content = js_spread content
     [(''m.relates_to'', JObj [(''m.in_reply_to'', JObj [(''event_id'', JStr replyToMessageId)])]),
      (''com.sudoplatform.relates_to_sender'', js_of_str sender)]"

text \<open>The event that replaces the content of another one.\<close>

definition edit_content :: "event_id \<Rightarrow> json_object \<Rightarrow> json_object" where
  "edit_content originalEventId content =
     [(''msgtype'', JStr ''m.text''), (''body'', obj_get content ''body''),
      (''m.new_content'', JObj content),
      (''m.relates_to'',
        JObj [(''rel_type'', JStr ''m.replace''), (''event_id'', JStr originalEventId)])]"

definition cm_sendThreadMessage ::
    "'w message_client \<Rightarrow> room_id \<Rightarrow> event_id \<Rightarrow> json_object \<Rightarrow> ('w, unit) io" where
  "cm_sendThreadMessage C roomId threadId content =
     await (need_room C roomId) (\<lambda>_.
     await (sender_of C roomId threadId) (\<lambda>originalEventSenderId.
       or_fail ''Failed to send a thread message''
         (mc_sendMessage C roomId (thread_content threadId originalEventSenderId content))))"

definition cm_sendReplyMessage ::
    "'w message_client \<Rightarrow> room_id \<Rightarrow> event_id \<Rightarrow> json_object \<Rightarrow> ('w, unit) io" where
  "cm_sendReplyMessage C roomId replyToMessageId content =
     await (need_room C roomId) (\<lambda>_.
     await (sender_of C roomId replyToMessageId) (\<lambda>originalEventSenderId.
       or_fail ''Failed to send a reply message''
         (mc_sendEvent C roomId MSG_MESSAGE (reply_content replyToMessageId originalEventSenderId content))))"

definition cm_editMessage ::
    "'w message_client \<Rightarrow> room_id \<Rightarrow> event_id \<Rightarrow> json_object \<Rightarrow> ('w, unit) io" where
  "cm_editMessage C roomId originalEventId content =
     or_fail ''Failed to edit message''
       (mc_sendEvent C roomId MSG_MESSAGE (edit_content originalEventId content))"

definition cm_deleteMessage ::
    "'w message_client \<Rightarrow> room_id \<Rightarrow> event_id \<Rightarrow> string option \<Rightarrow> ('w, unit) io" where
  "cm_deleteMessage C roomId eventId reason =
     or_fail ''Failed to delete message''
       (mc_redact C roomId eventId (if truthy_str reason then reason else None))"

definition cm_sendTypingNotification :: "'w message_client \<Rightarrow> room_id \<Rightarrow> bool \<Rightarrow> ('w, unit) io" where
  "cm_sendTypingNotification C roomId isTyping =
     or_fail ''Failed to send typing notification'' (mc_sendTyping C roomId isTyping 30000)"

section \<open>Reading one message\<close>

text \<open>The sender's name is not in the event: it is the name of the room's member.\<close>

definition with_sender_name ::
    "'w message_client \<Rightarrow> room_id \<Rightarrow> 'w \<Rightarrow> MessageEntity \<Rightarrow> MessageEntity" where
  "with_sender_name C roomId w m =
     m\<lparr>mg_senderHandle := (mg_senderHandle m)
         \<lparr>he_name := nullish (mc_memberName C roomId (he_handleId (mg_senderHandle m)) w) ''''\<rparr>\<rparr>"

definition cm_getMessage ::
    "'w message_client \<Rightarrow> event_id \<Rightarrow> room_id \<Rightarrow> ('w, MessageEntity option) io" where
  "cm_getMessage C eventId roomId =
     await (user_and_room C roomId) (\<lambda>userId.
       or_fail ''Failed to get message''
         (await (peek (mc_findEvent C roomId eventId)) (\<lambda>event.
            case event of
              None \<Rightarrow> ret None
            | Some e \<Rightarrow>
                await (lift_result (message_fromMatrixToEntity userId e)) (\<lambda>message.
                  peek (\<lambda>w. map_option (with_sender_name C roomId w) message)))))"

section \<open>Listing messages\<close>

definition listed_event :: "matrix_event \<Rightarrow> bool" where
  "listed_event e \<longleftrightarrow>
     \<not> is_edit (ev_content e)
     \<and> ev_type e \<in> {MSG_MESSAGE, MSG_ENCRYPTED, MSG_MEMBER, POLL_START}"

text \<open>One round of the loop: a page, filtered, and the decryption of all the events so far.\<close>

definition page_round ::
    "'w message_client \<Rightarrow> room_id \<Rightarrow> int \<Rightarrow> matrix_event list \<times> string option \<Rightarrow>
     ('w, matrix_event list \<times> string option) io" where
  "page_round C roomId limit s =
     (case s of (messageEvents, nextToken) \<Rightarrow>
        await (mc_messagesRequest C roomId nextToken (max 1 (limit - int (length messageEvents))))
          (\<lambda>(chunk, end').
        await (promise_all (map (\<lambda>e. if ev_isEncrypted e then mc_decrypt C e else ret e)
                 (messageEvents @ filter listed_event chunk))) (\<lambda>messageEvents'.
          ret (messageEvents', end'))))"

definition more_pages :: "int \<Rightarrow> matrix_event list \<times> string option \<Rightarrow> bool" where
  "more_pages limit s \<longleftrightarrow> truthy_str (snd s) \<and> int (length (fst s)) < limit"

record timeline =
  tl_main :: "MessageEntity list"
  tl_threads :: "(json \<times> MessageEntity list) list"

text \<open>A message that is there already is replaced in its place, otherwise it comes last.\<close>

fun upsert_message :: "MessageEntity \<Rightarrow> MessageEntity list \<Rightarrow> MessageEntity list" where
  "upsert_message m [] = [m]"
| "upsert_message m (x # xs) =
     (if mg_messageId x = mg_messageId m then m # xs else x # upsert_message m xs)"

definition skip_message :: "MessageEntity \<Rightarrow> bool" where
  "skip_message m \<longleftrightarrow>
     obj_get (mg_content m) ''type'' = JStr ''unknown'' \<and> \<not> js_truthy (obj_get (mg_content m) ''isEdited'')"

definition with_member_handle ::
    "'w message_client \<Rightarrow> room_id \<Rightarrow> 'w \<Rightarrow> MessageEntity \<Rightarrow> MessageEntity result" where
  "with_member_handle C roomId w m =
     sum_bind (js_get ''handleId'' (obj_get (mg_content m) ''handle'')) (\<lambda>handleId.
       let name = (case handleId of JStr i \<Rightarrow> nullish (mc_memberName C roomId i w) '''' | _ \<Rightarrow> '''');
           handle = (case obj_get (mg_content m) ''handle'' of
                       JObj kvs \<Rightarrow> JObj (map_set ''name'' (JStr name) kvs) | v \<Rightarrow> v)
       in Inr (m\<lparr>mg_content := map_set ''handle'' handle (mg_content m)\<rparr>))"

definition place_message :: "MessageEntity \<Rightarrow> timeline \<Rightarrow> timeline" where
  "place_message m tm =
     (let threadId = obj_get (mg_content m) ''threadId'' in
      if js_truthy threadId
      then tm\<lparr>tl_threads := map_set threadId
             (upsert_message m (nullish (map_of (tl_threads tm) threadId) [])) (tl_threads tm)\<rparr>
      else tm\<lparr>tl_main := upsert_message m (tl_main tm)\<rparr>)"

definition route_event ::
    "'w message_client \<Rightarrow> room_id \<Rightarrow> user_id \<Rightarrow> 'w \<Rightarrow> matrix_event \<Rightarrow> timeline \<Rightarrow> timeline result" where
  "route_event C roomId userId w event tm =
     sum_bind (message_fromMatrixToEntity userId event) (\<lambda>message.
       case message of
         None \<Rightarrow> Inr tm
       | Some m \<Rightarrow>
           if skip_message m then Inr tm
           else (let m1 = with_sender_name C roomId w m in
                 sum_bind (if ev_type event = MSG_MEMBER then with_member_handle C roomId w m1 else Inr m1)
                   (\<lambda>m2. Inr (place_message m2 tm))))"

fun route_events ::
    "'w message_client \<Rightarrow> room_id \<Rightarrow> user_id \<Rightarrow> 'w \<Rightarrow> matrix_event list \<Rightarrow> timeline \<Rightarrow> timeline result" where
  "route_events C roomId userId w [] tm = Inr tm"
| "route_events C roomId userId w (e # es) tm =
     sum_bind (route_event C roomId userId w e tm) (route_events C roomId userId w es)"

record ListMessagesOutput =
  lm_messages :: "MessageEntity list"
  lm_threads :: "(json \<times> MessageEntity list) list"
  lm_nextToken :: "string option"

definition cm_listMessages ::
    "nat \<Rightarrow> 'w message_client \<Rightarrow> room_id \<Rightarrow> int option \<Rightarrow> string option \<Rightarrow>
     ('w, ListMessagesOutput) loop_io" where
  "cm_listMessages fuel C roomId limit nextToken =
     loop_await (once (user_and_room C roomId)) (\<lambda>userId.
       loop_or_fail ''Failed to list messages''
         (loop_await (do_while fuel (page_round C roomId (nullish limit 10))
                        (more_pages (nullish limit 10)) ([], nextToken))
            (\<lambda>(messageEvents, token).
               once (await (\<lambda>w. (route_events C roomId userId w messageEvents \<lparr>tl_main = [], tl_threads = []\<rparr>, w))
                 (\<lambda>tm. ret \<lparr>lm_messages = tl_main tm, lm_threads = tl_threads tm, lm_nextToken = token\<rparr>)))))"


section \<open>Summaries and search\<close>

record unread_counts =
  uc_all :: nat
  uc_mentions :: nat

record ChatSummaryEntity =
  cse_recipient :: Recipient
  cse_hasUnreadMessages :: bool
  cse_unreadCount :: unread_counts
  cse_threadUnreadCount :: "(json \<times> unread_counts) list"
  cse_latestMessage :: "MessageEntity option"

fun drop_while_not_read :: "event_id \<Rightarrow> matrix_event list \<Rightarrow> matrix_event list option" where
  "drop_while_not_read i [] = None"
| "drop_while_not_read i (e # es) = (if ev_id e = Some i then Some es else drop_while_not_read i es)"

text \<open>The events after the last read one, all of them when it is not in the timeline.\<close>

definition unread_events :: "event_id option \<Rightarrow> matrix_event list \<Rightarrow> matrix_event list" where
  "unread_events lastRead events =
     (if truthy_str lastRead then nullish (drop_while_not_read (the lastRead) events) events else events)"

definition counted_event :: "matrix_event \<Rightarrow> bool" where
  "counted_event e \<longleftrightarrow> ev_type e \<in> {MSG_MESSAGE, MSG_ENCRYPTED, MSG_MEMBER, POLL_START, MSG_REACTION}"

definition contains_str :: "string \<Rightarrow> string \<Rightarrow> bool" where
  "contains_str s p \<longleftrightarrow> list_ex (\<lambda>i. take (length p) (drop i s) = p) [0..<Suc (length s)]"

text \<open>\<open>v?.includes(x) ?? false\<close>: arrays and strings have the method.\<close>

fun json_includes :: "json \<Rightarrow> string \<Rightarrow> bool result" where
  "json_includes JUndef x = Inr False"
| "json_includes JNull x = Inr False"
| "json_includes (JArr xs) x = Inr (JStr x \<in> set xs)"
| "json_includes (JStr s) x = Inr (contains_str s x)"
| "json_includes v x = Inl TypeError"

definition mentions_user :: "user_id \<Rightarrow> json \<Rightarrow> bool result" where
  "mentions_user userId content =
     (let mentions = js_opt ''m.mentions'' content in
      sum_bind (json_includes (js_opt ''user_ids'' mentions) userId) (\<lambda>listed.
        Inr (listed \<or> js_opt ''room'' mentions = JBool True)))"

definition bump :: "bool \<Rightarrow> unread_counts \<Rightarrow> unread_counts" where
  "bump mentioned c = c\<lparr>uc_all := uc_all c + 1, uc_mentions := uc_mentions c + (if mentioned then 1 else 0)\<rparr>"

definition no_unread :: unread_counts where
  "no_unread = \<lparr>uc_all = 0, uc_mentions = 0\<rparr>"

fun count_unread ::
    "user_id \<Rightarrow> matrix_event list \<Rightarrow> unread_counts \<times> (json \<times> unread_counts) list \<Rightarrow>
     (unread_counts \<times> (json \<times> unread_counts) list) result" where
  "count_unread userId [] cs = Inr cs"
| "count_unread userId (e # es) (c, threads) =
     (let threadId = thread_of (js_opt ''m.relates_to'' (ev_content e)) in
      sum_bind (mentions_user userId (ev_content e)) (\<lambda>mentioned.
        count_unread userId es (bump mentioned c,
          if js_truthy threadId
          then map_set threadId (bump mentioned (nullish (map_of threads threadId) no_unread)) threads
          else threads)))"

definition chat_summary ::
    "'w message_client \<Rightarrow> user_id \<Rightarrow> Recipient \<Rightarrow> ('w, ChatSummaryEntity) io" where
  "chat_summary C userId recipient =
     (let roomId = recipient_value recipient in
      await (need_room C roomId) (\<lambda>_.
      await (peek (mc_markedUnread C roomId)) (\<lambda>markedUnread.
      await (peek (\<lambda>w. nullish (mc_liveEvents C roomId w) [])) (\<lambda>events.
        if events = []
        then ret \<lparr>cse_recipient = recipient, cse_hasUnreadMessages = markedUnread,
               cse_unreadCount = \<lparr>uc_all = (if markedUnread then 1 else 0), uc_mentions = 0\<rparr>,
               cse_threadUnreadCount = [], cse_latestMessage = None\<rparr>
        else
          await (peek (mc_lastRead C roomId userId)) (\<lambda>lastRead.
          await (promise_all (map (\<lambda>e. if ev_isEncrypted e then mc_decrypt C e else ret e)
                   (unread_events lastRead events))) (\<lambda>unread.
            await (lift_result (count_unread userId (filter counted_event unread) (no_unread, [])))
             (\<lambda>(c, threads).
              await (lift_result (message_fromMatrixToEntity userId
                       (if unread_events lastRead events = [] then last events else last unread)))
                (\<lambda>latestMessage.
                  ret \<lparr>cse_recipient = recipient,
                       cse_hasUnreadMessages = (uc_all c > 0 \<or> markedUnread),
                       cse_unreadCount =
                         c\<lparr>uc_all := (if uc_all c > 0 then uc_all c else if markedUnread then 1 else 0)\<rparr>,
                       cse_threadUnreadCount = threads,
                       cse_latestMessage = latestMessage\<rparr>))))))))"

definition cm_getChatSummaries ::
    "'w message_client \<Rightarrow> Recipient list \<Rightarrow> ('w, ChatSummaryEntity list) io" where
  "cm_getChatSummaries C recipients =
     await (cm_getUserId (mc_rooms C)) (\<lambda>userId.
       promise_all (map (chat_summary C userId) recipients))"

definition cm_searchMessages ::
    "'w message_client \<Rightarrow> string \<Rightarrow> int option \<Rightarrow> string option \<Rightarrow>
     ('w, SearchMessagesItemEntity list \<times> string option) io" where
  "cm_searchMessages C searchText limit nextToken =
     or_fail ''Failed to search for messages''
       (await (mc_search C searchText (nullish limit 10) nextToken) (\<lambda>(results, nextBatch).
        await (lift_result (map_result search_item_fromMatrixToEntity
                 (filter (\<lambda>e. se_type e = MSG_MESSAGE \<and> js_opt ''msgtype'' (se_content e) = JStr ''m.text'')
                   results))) (\<lambda>messages.
          ret (messages, nextBatch))))"

section \<open>Reactions\<close>

definition is_reaction_of :: "user_id \<Rightarrow> event_id \<Rightarrow> string \<Rightarrow> matrix_event \<Rightarrow> bool" where
  "is_reaction_of userId eventId reaction e \<longleftrightarrow>
     ev_type e = MSG_REACTION
     \<and> js_opt ''event_id'' (js_opt ''m.relates_to'' (ev_content e)) = JStr eventId
     \<and> js_opt ''key'' (js_opt ''m.relates_to'' (ev_content e)) = JStr reaction
     \<and> ev_sender e = Some userId"

definition reaction_content :: "event_id \<Rightarrow> string \<Rightarrow> string option \<Rightarrow> json_object" where
  "reaction_content eventId reaction sender =
     [(''m.relates_to'', JObj [(''rel_type'', JStr ''m.annotation''), (''event_id'', JStr eventId),
                               (''key'', JStr reaction)]),
      (''com.sudoplatform.relates_to_sender'', js_of_str sender)]"

definition cm_toggleReaction ::
    "'w message_client \<Rightarrow> room_id \<Rightarrow> event_id \<Rightarrow> string \<Rightarrow> ('w, unit) io" where
  "cm_toggleReaction C roomId eventId reaction =
     or_fail ''Failed to toggle reaction''
       (await (need_room C roomId) (\<lambda>_.
        await (cm_getUserId (mc_rooms C)) (\<lambda>userId.
        await (peek (\<lambda>w. nullish (mc_liveEvents C roomId w) [])) (\<lambda>events.
        await (sender_of C roomId eventId) (\<lambda>originalEventSenderId.
          let existingReactionId =
                Option.bind (find (is_reaction_of userId eventId reaction) events) ev_id
          in if truthy_str existingReactionId
             then mc_redact C roomId (the existingReactionId) None
             else mc_sendEvent C roomId MSG_REACTION
                    (reaction_content eventId reaction originalEventSenderId))))))"

definition truthy_strings :: "string option list \<Rightarrow> string list" where
  "truthy_strings xs = map the (filter truthy_str xs)"

definition cm_getReactions ::
    "'w message_client \<Rightarrow> room_id \<Rightarrow> event_id \<Rightarrow> ('w, MessageReactionEntity list) io" where
  "cm_getReactions C roomId messageId =
     or_fail (''Failed to get reactions for message '' @ messageId)
       (await (need_room C roomId) (\<lambda>_.
        await (peek (mc_annotations C roomId messageId)) (\<lambda>reactions.
          ret (map (\<lambda>(key, events).
             let nonRedacted = filter (\<lambda>e. \<not> ev_isRedacted e) events;
                 senders = set_of_array (truthy_strings (map ev_sender nonRedacted))
             in \<lparr>rx_content = key, rx_count = int (length senders), rx_senderHandleIds = senders,
                 rx_eventIds = truthy_strings (map ev_id nonRedacted)\<rparr>) (nullish reactions [])))))"

section \<open>Receipts\<close>

definition cm_markAsUnread :: "'w message_client \<Rightarrow> room_id \<Rightarrow> ('w, unit) io" where
  "cm_markAsUnread C roomId =
     or_fail ''Failed to mark as unread''
       (await (need_room C roomId) (\<lambda>_.
        await (peek (mc_markedUnread C roomId)) (\<lambda>unread.
          if unread then ret () else mc_setMarkedUnread C roomId True)))"

text \<open>
  A room without a timeline, without events, or whose latest event has no id, ends in the
  error of the surrounding \<open>try\<close>.
\<close>

definition cm_sendReadReceipt :: "'w message_client \<Rightarrow> room_id \<Rightarrow> ('w, unit) io" where
  "cm_sendReadReceipt C roomId =
     or_fail ''Failed to send read receipt''
       (await (need_room C roomId) (\<lambda>_.
        await (peek (mc_liveEvents C roomId)) (\<lambda>events.
        await (case events of
                 None \<Rightarrow> throw TypeError
               | Some es \<Rightarrow> if es = [] then throw (PlainError ''Latest event could not be found'')
                            else ret (last es)) (\<lambda>latestEvent.
        await (if truthy_str (ev_id latestEvent) then ret (the (ev_id latestEvent))
               else throw (PlainError ''Latest event id could not be fetched'')) (\<lambda>latestEventId.
        await (mc_setReadMarkers C roomId latestEventId) (\<lambda>_.
        await (mc_sendReadReceipt C latestEvent) (\<lambda>_.
        await (peek (mc_markedUnread C roomId)) (\<lambda>unread.
          if unread then mc_setMarkedUnread C roomId False else ret ()))))))))"

text \<open>The receipts of an event: the one given (by its id), else the one fetched for the id.\<close>

definition cm_getReadReceipts ::
    "'w message_client \<Rightarrow> room_id \<Rightarrow> matrix_event option \<Rightarrow> event_id option \<Rightarrow>
     ('w, MessageReceiptEntity list) io" where
  "cm_getReadReceipts C roomId event eventId =
     or_fail ''Failed to get read receipts''
       (await (need_room C roomId) (\<lambda>_.
        await (case event of
                 Some e \<Rightarrow> ret e
               | None \<Rightarrow> if truthy_str eventId then cm_fetchRoomEvent C roomId (the eventId)
                         else throw (PlainError ''Valid event could not be found'')) (\<lambda>targetEvent.
        await (peek (mc_receipts C roomId (ev_id targetEvent))) (\<lambda>receipts.
          ret (map receipt_fromMatrixToEntity
                (filter (\<lambda>r. cr_type r = ''m.read'') (nullish receipts [])))))))"

section \<open>Edits\<close>

fun dedup_messages :: "event_id list \<Rightarrow> MessageEntity list \<Rightarrow> MessageEntity list" where
  "dedup_messages seen [] = []"
| "dedup_messages seen (m # ms) =
     (if mg_messageId m \<in> set seen then dedup_messages seen ms
      else m # dedup_messages (mg_messageId m # seen) ms)"

definition cm_getReplacements ::
    "'w message_client \<Rightarrow> room_id \<Rightarrow> event_id \<Rightarrow> ('w, MessageEntity list) io" where
  "cm_getReplacements C roomId messageId =
     await (user_and_room C roomId) (\<lambda>userId.
       or_fail (''Failed to get replacements for message '' @ messageId)
         (await (peek (mc_replacements C roomId messageId)) (\<lambda>relations.
          await (lift_result (map_result (message_fromMatrixToEntity userId)
                   (filter (\<lambda>e. \<not> ev_isRedacted e) (nullish relations [])))) (\<lambda>messages.
            ret (dedup_messages [] (map the (filter (\<lambda>m. m \<noteq> None) messages)))))))"

section \<open>Pinned messages\<close>

text \<open>The list after the toggle, and whether the state event is sent.\<close>

definition toggle_pin :: "event_id \<Rightarrow> event_id list \<Rightarrow> event_id list \<times> bool" where
  "toggle_pin eventId pinned =
     (let pinnedSet = set_of_array pinned;
          updated = (if eventId \<in> set pinnedSet then filter (\<lambda>x. x \<noteq> eventId) pinnedSet
                     else pinnedSet @ [eventId])
      in (updated, length pinned \<noteq> length updated))"

definition pinned_ids :: "'w message_client \<Rightarrow> room_id \<Rightarrow> ('w, event_id list) io" where
  "pinned_ids C roomId =
     await (missing_or_fail ''Failed to retrieve state event'' (mc_statePinned C roomId)) (\<lambda>pinned.
       ret (nullish pinned []))"

definition cm_pinUnpinMessage :: "'w message_client \<Rightarrow> room_id \<Rightarrow> event_id \<Rightarrow> ('w, unit) io" where
  "cm_pinUnpinMessage C roomId eventId =
     or_fail ''Failed to toggle pinned message''
       (await (pinned_ids C roomId) (\<lambda>pinned.
          case toggle_pin eventId pinned of (updated, changed) \<Rightarrow>
            if changed then mc_sendPinned C roomId updated else ret ()))"

definition cm_getPinnedMessages :: "'w message_client \<Rightarrow> room_id \<Rightarrow> ('w, MessageEntity list) io" where
  "cm_getPinnedMessages C roomId =
     or_fail ''Failed to get pinned messages''
       (await (pinned_ids C roomId) (\<lambda>pinned.
        await (promise_all (map (\<lambda>i. cm_getMessage C i roomId) pinned)) (\<lambda>messages.
          ret (map the (filter (\<lambda>m. m \<noteq> None) messages)))))"


section \<open>Lemmas\<close>

lemma upsert_ids:
  "map mg_messageId (upsert_message m xs) =
     (if mg_messageId m \<in> set (map mg_messageId xs) then map mg_messageId xs
      else map mg_messageId xs @ [mg_messageId m])"
  by (induction xs) auto

lemma distinct_upsert: "distinct (map mg_messageId xs) \<Longrightarrow> distinct (map mg_messageId (upsert_message m xs))"
  by (simp add: upsert_ids)

lemma keys_map_set: "map fst (map_set k v m) = (if k \<in> set (map fst m) then map fst m else map fst m @ [k])"
proof (induction m)
  case (Cons p m)
  then show ?case by (cases p) simp
qed simp

text \<open>A timeline without repetition: in the main list, in each thread, and of threads.\<close>

definition timeline_ok :: "timeline \<Rightarrow> bool" where
  "timeline_ok t \<longleftrightarrow> distinct (map mg_messageId (tl_main t)) \<and> distinct (map fst (tl_threads t))
     \<and> (\<forall>(k, ms) \<in> set (tl_threads t). distinct (map mg_messageId ms))"

lemma set_map_set: "p \<in> set (map_set k v m) \<Longrightarrow> p = (k, v) \<or> p \<in> set m"
  by (induction k v m rule: map_set.induct) (auto split: if_splits)

lemma place_message_ok:
  assumes "timeline_ok t"
  shows "timeline_ok (place_message m t)"
proof -
  have "distinct (map mg_messageId (nullish (map_of (tl_threads t) k) []))" for k
    using assms by (cases "map_of (tl_threads t) k") (auto simp: timeline_ok_def dest: map_of_SomeD)
  with assms show ?thesis
    by (fastforce simp: place_message_def timeline_ok_def Let_def keys_map_set distinct_upsert
        simp del: map_map dest!: set_map_set)
qed

lemma route_event_ok: "route_event C r u w e t = Inr t' \<Longrightarrow> timeline_ok t \<Longrightarrow> timeline_ok t'"
  by (auto simp: route_event_def sum_bind_Inr_iff Let_def place_message_ok
      split: option.splits if_splits)

lemma route_events_ok: "route_events C r u w es t = Inr t' \<Longrightarrow> timeline_ok t \<Longrightarrow> timeline_ok t'"
  by (induction es arbitrary: t) (auto simp: sum_bind_Inr_iff dest: route_event_ok)

lemma listMessages_Inr:
  assumes "cm_listMessages n C r limit tok w = Some (Inr out, w')"
  obtains u es t w1 where "do_while n (page_round C r (nullish limit 10)) (more_pages (nullish limit 10))
      ([], tok) w1 = Some (Inr (es, lm_nextToken out), w')"
    and "route_events C r u w' es \<lparr>tl_main = [], tl_threads = []\<rparr> = Inr t"
    and "lm_messages out = tl_main t" and "lm_threads out = tl_threads t"
  using assms
  by (fastforce simp: cm_listMessages_def loop_await_def loop_or_fail_def once_def await_def ret_apply
      split: option.splits prod.splits sum.splits)

lemma page_round_Inr:
  assumes "page_round C r L (es, tok) w = (Inr (es', tok'), w')"
  obtains chunk w1 where
    "mc_messagesRequest C r tok (max 1 (L - int (length es))) w = (Inr (chunk, tok'), w1)"
    and "length es' = length es + length (filter listed_event chunk)"
  using assms
  by (auto simp: page_round_def await_Inr_iff ret_apply dest!: promise_all_length)

lemma toggle_pin_set:
  "set (fst (toggle_pin i pinned)) = (if i \<in> set pinned then set pinned - {i} else insert i (set pinned))"
  by (auto simp: toggle_pin_def Let_def)

lemma toggle_pin_distinct: "distinct (fst (toggle_pin i pinned))"
  by (simp add: toggle_pin_def Let_def)

text \<open>A server that serves every room from one list of events, three to a page.\<close>

definition demo_event :: "nat \<Rightarrow> string \<Rightarrow> matrix_event" where
  "demo_event ts i =
     \<lparr>ev_id = Some i, ev_rawId = Some i, ev_type = MSG_MESSAGE,
      ev_content = JObj [(''msgtype'', JStr ''m.text''), (''body'', JStr ''hi'')],
      ev_sender = Some ''@bob:hs'', ev_stateKey = None, ev_ts = int ts, ev_status = None,
      ev_isRedacted = False, ev_redaction = JUndef, ev_isEncrypted = False\<rparr>"

definition demo_messages :: "matrix_event list \<Rightarrow> 'w message_client" where
  "demo_messages events =
     \<lparr>mc_rooms = quiet_client [demo_room],
      mc_findEvent = (\<lambda>_ i _. find (\<lambda>e. ev_id e = Some i) events),
      mc_memberName = (\<lambda>_ _ _. None), mc_liveEvents = (\<lambda>_ _. Some events),
      mc_markedUnread = (\<lambda>_ _. False), mc_lastRead = (\<lambda>_ _ _. None),
      mc_annotations = (\<lambda>_ _ _. None), mc_replacements = (\<lambda>_ _ _. None), mc_receipts = (\<lambda>_ _ _. None),
      mc_sendMessage = (\<lambda>_ _. ret ()), mc_sendEvent = (\<lambda>_ _ _. ret ()), mc_redact = (\<lambda>_ _ _. ret ()),
      mc_messagesRequest = (\<lambda>_ tok _. ret (if tok = None then (take 3 events, Some ''next'')
                                            else (drop 3 events, None))),
      mc_decrypt = ret,
      mc_fetchRoomEvent = (\<lambda>_ i. ret (demo_event 0 i)), mc_search = (\<lambda>_ _ _. ret ([], None)),
      mc_setMarkedUnread = (\<lambda>_ _. ret ()), mc_setReadMarkers = (\<lambda>_ _. ret ()),
      mc_sendReadReceipt = (\<lambda>_. ret ()), mc_statePinned = (\<lambda>_. ret None),
      mc_sendPinned = (\<lambda>_ _. ret ()), mc_sendTyping = (\<lambda>_ _ _. ret ())\<rparr>"

definition demo_events :: "matrix_event list" where
  "demo_events = [demo_event 1 ''a'', demo_event 2 ''b'', demo_event 3 ''c'', demo_event 4 ''a'']"

lemma demo_listed: "listed_event (demo_event ts i)"
  by (simp add: listed_event_def demo_event_def is_edit_def event_types obj_get_def)

lemma demo_page:
  "mc_messagesRequest (demo_messages events) r tok n w =
     (if tok = None then (Inr (take 3 events, Some ''next''), w) else (Inr (drop 3 events, None), w))"
  by (simp add: demo_messages_def ret_apply)

definition demo_message :: "nat \<Rightarrow> string \<Rightarrow> MessageEntity" where
  "demo_message ts i =
     \<lparr>mg_messageId = i, mg_state = STE_COMMITTED, mg_timestamp = int ts,
      mg_senderHandle = \<lparr>he_handleId = ''@bob:hs'', he_name = ''''\<rparr>, mg_isOwn = False,
      mg_content = [(''type'', JStr ''m.text''), (''isEdited'', JBool False), (''text'', JStr ''hi'')],
      mg_reactions = [], mg_receipts = [], mg_isVerified = None\<rparr>"

lemma demo_user_and_room: "user_and_room (demo_messages events) ''!r:hs'' w = (Inr ''@ann:hs'', w)"
  by (simp add: user_and_room_def demo_messages_def io_simps promise_both_def cm_getUserId_def cm_getRoom_def
      or_fail_def demo_room_def)

lemma demo_fromMatrix:
  "i \<noteq> '''' \<Longrightarrow> message_fromMatrixToEntity ''@ann:hs'' (demo_event ts i) = Inr (Some (demo_message ts i))"
  by (simp add: message_fromMatrixToEntity_def truthy_str_def demo_event_def mapped_content_def relations_of_def
      event_types state_of_event_def demo_message_def content_missing_def messageContentFromMessageEvent_def
      Let_def shown_content_def is_edit_def obj_get_def js_spread_def base_content_def thread_of_def reply_of_def
      spread_if_def js_nullish_def)

lemma demo_listing:
  "cm_listMessages 2 (demo_messages demo_events) ''!r:hs'' (Some 4) None w =
     Some (Inr \<lparr>lm_messages = [demo_message 4 ''a'', demo_message 2 ''b'', demo_message 3 ''c''],
                lm_threads = [], lm_nextToken = None\<rparr>, w)"
proof -
  have decrypt: "promise_all (map (\<lambda>e. if ev_isEncrypted e then mc_decrypt C e else ret e) es) w = (Inr es, w)"
    if "\<forall>e \<in> set es. \<not> ev_isEncrypted e" for C :: "'a message_client" and es w
    using that by (induction es) (simp_all add: ret_apply)
  have plain: "\<forall>e \<in> set demo_events. \<not> ev_isEncrypted e"
    by (simp add: demo_events_def demo_event_def)
  have loop: "do_while 2 (page_round (demo_messages demo_events) ''!r:hs'' 4) (more_pages 4) ([], None) w =
      Some (Inr (demo_events, None), w)"
    using plain
    by (simp add: numeral_2_eq_2 page_round_def await_def demo_page decrypt ret_apply more_pages_def
        truthy_str_def demo_events_def demo_listed)
  have name: "with_sender_name (demo_messages es) r w (demo_message ts i) = demo_message ts i" for es r w ts i
    by (simp add: with_sender_name_def demo_messages_def demo_message_def)
  have route: "route_event (demo_messages es) r ''@ann:hs'' w (demo_event ts i) t =
      Inr (t\<lparr>tl_main := upsert_message (demo_message ts i) (tl_main t)\<rparr>)" if "i \<noteq> ''''" for es r w ts i t
    using that
    by (simp add: route_event_def demo_fromMatrix name)
       (simp add: demo_message_def skip_message_def place_message_def obj_get_def demo_event_def event_types)
  show ?thesis
    by (simp add: cm_listMessages_def loop_await_def once_def demo_user_and_room loop_or_fail_def loop)
       (simp add: demo_events_def route await_def ret_apply, simp add: demo_message_def)
qed

section \<open>Properties\<close>



text \<open>
  C12: A listing shows no message twice. In every listing that returns, the ids of the main
  messages are distinct, the threads are distinct, and so are the ids within each thread.
\<close>

theorem list_messages_distinct:
  assumes "cm_listMessages n C r limit tok w = Some (Inr out, w')"
  shows "distinct (map mg_messageId (lm_messages out)) \<and> distinct (map fst (lm_threads out))
    \<and> (\<forall>(k, ms) \<in> set (lm_threads out). distinct (map mg_messageId ms))"
proof -
  obtain u es t where run: "route_events C r u w' es \<lparr>tl_main = [], tl_threads = []\<rparr> = Inr t"
    and t: "lm_messages out = tl_main t" "lm_threads out = tl_threads t"
    using assms by (rule listMessages_Inr)
  from route_events_ok [OF run] have "timeline_ok t" by (simp add: timeline_ok_def)
  then show ?thesis using t by (simp add: timeline_ok_def)
qed

theorem list_messages_distinct_witness:
  "distinct (map mg_messageId [demo_message 4 ''a'', demo_message 2 ''b'', demo_message 3 ''c''])"
  using list_messages_distinct [OF demo_listing [where w = "()"]] by simp

text \<open>
  Pinning toggles membership, and one duplicate hides it. The toggled list holds the
  pinned ids with the given one removed if it was there and added if not, without repetition;
  it is sent unless the id is new and the stored list had exactly one entry more than it
  had distinct ids, in which case the new pin is silently dropped.
\<close>

theorem pin_toggle:
  "set (fst (toggle_pin i pinned)) = (if i \<in> set pinned then set pinned - {i} else insert i (set pinned))
    \<and> distinct (fst (toggle_pin i pinned))
    \<and> (snd (toggle_pin i pinned) \<longleftrightarrow> i \<in> set pinned \<or> length pinned \<noteq> Suc (card (set pinned)))"
proof -
  have "snd (toggle_pin i pinned) \<longleftrightarrow> length pinned \<noteq> card (set (fst (toggle_pin i pinned)))"
    using distinct_card [OF toggle_pin_distinct, of i pinned] by (simp add: toggle_pin_def Let_def)
  moreover have "card (set pinned - {i}) < length pinned" if "i \<in> set pinned"
    using that card_length [of pinned] by (metis List.finite_set card_Diff1_less order_less_le_trans)
  ultimately show ?thesis
    using toggle_pin_set [of i pinned] toggle_pin_distinct [of i pinned] by auto
qed

theorem pin_toggle_witness:
  "\<not> snd (toggle_pin ''c'' [''a'', ''b'', ''a'']) \<and> snd (toggle_pin ''c'' [''a'', ''b''])"
  using pin_toggle [of "''c''" "[''a'', ''b'', ''a'']"] pin_toggle [of "''c''" "[''a'', ''b'']"] by (simp add: card_insert_if)

end
