(* ===== verification/JsText.thy ===== *)
theory JsText
  imports Json
begin

text \<open>
  Strings as JavaScript's standard library treats them: decimal numbers, conversion of a
  value to a property key, \<open>encodeURIComponent\<close>, and \<open>replace\<close> of every occurrence of a fixed
  text by a replacement template. A string is the list of bytes of its UTF-8 form; every
  function here treats characters beyond ASCII byte by byte, as the encodings do.
\<close>

section \<open>Numbers\<close>

definition digit_char :: "nat \<Rightarrow> char" where
  "digit_char n = char_of (48 + n)"

fun show_nat :: "nat \<Rightarrow> string" where
  "show_nat n = (if n < 10 then [digit_char n] else show_nat (n div 10) @ [digit_char (n mod 10)])"

declare show_nat.simps [simp del]

definition show_int :: "int \<Rightarrow> string" where
  "show_int n = (if n < 0 then CHR ''-'' # show_nat (nat (- n)) else show_nat (nat n))"

definition read_digits :: "string \<Rightarrow> nat" where
  "read_digits s = foldl (\<lambda>n c. 10 * n + (of_char c - 48)) 0 s"

lemma read_show_nat: "read_digits (show_nat n) = n"
proof (induction n rule: show_nat.induct)
  case (1 n)
  have digit: "of_char (digit_char k) - 48 = k" if "k < 10" for k :: nat
    using that by (simp add: digit_char_def)
  show ?case
  proof (cases "n < 10")
    case True
    then show ?thesis by (simp add: show_nat.simps read_digits_def digit)
  next
    case False
    then have "read_digits (show_nat n) = 10 * read_digits (show_nat (n div 10)) + n mod 10"
      by (subst show_nat.simps) (simp add: read_digits_def digit)
    then show ?thesis using 1 False by simp
  qed
qed

lemma show_nat_inj: "show_nat m = show_nat n \<longleftrightarrow> m = n"
  by (metis read_show_nat)

text \<open>\<open>String(v)\<close>, the conversion of a value that is used as a property key.\<close>

fun js_key :: "json \<Rightarrow> string" where
  "js_key JUndef = ''undefined''"
| "js_key JNull = ''null''"
| "js_key (JBool b) = (if b then ''true'' else ''false'')"
| "js_key (JNum n) = show_int n"
| "js_key (JStr s) = s"
| "js_key (JArr []) = ''''"
| "js_key (JArr (x # xs)) =
     (if x = JUndef \<or> x = JNull then '''' else js_key x)
     @ (if xs = [] then '''' else '','' @ js_key (JArr xs))"
| "js_key (JObj kvs) = ''[object Object]''"

section \<open>Encoding of URI components\<close>

definition unreserved :: "char \<Rightarrow> bool" where
  "unreserved c \<longleftrightarrow>
     (let n = (of_char c :: nat) in
      48 \<le> n \<and> n \<le> 57 \<or> 65 \<le> n \<and> n \<le> 90 \<or> 97 \<le> n \<and> n \<le> 122)
     \<or> c \<in> set ''-_.!~*()'' \<or> c = CHR 0x27"

definition hex_char :: "nat \<Rightarrow> char" where
  "hex_char n = char_of (if n < 10 then 48 + n else 55 + n)"

definition encodeURIComponent :: "string \<Rightarrow> string" where
  "encodeURIComponent s = concat (map (\<lambda>c.
     if unreserved c then [c]
     else [CHR ''%'', hex_char (of_char c div 16), hex_char (of_char c mod 16)]) s)"

definition hex_value :: "char \<Rightarrow> nat" where
  "hex_value c = (let n = of_char c in if n < 58 then n - 48 else n - 55)"

fun decode_component :: "string \<Rightarrow> string" where
  "decode_component (c # a # b # s) =
     (if c = CHR ''%'' then char_of (16 * hex_value a + hex_value b) # decode_component s
      else c # decode_component (a # b # s))"
| "decode_component s = s"

lemma hex_value_char: "n < 16 \<Longrightarrow> hex_value (hex_char n) = n"
  by (auto simp: hex_value_def hex_char_def)

lemma high_digit: "of_char (c :: char) div 16 < (16 :: nat)"
proof -
  have "(of_char c :: nat) < 256" by simp
  then show ?thesis by linarith
qed

lemma percent_reserved [simp]: "\<not> unreserved CHR ''%''"
  by (simp add: unreserved_def)

lemma decode_plain: "c \<noteq> CHR ''%'' \<Longrightarrow> decode_component (c # s) = c # decode_component s"
proof (cases s)
  case (Cons a t)
  then show "c \<noteq> CHR ''%'' \<Longrightarrow> ?thesis" by (cases t) simp_all
qed simp

lemma decode_encode: "decode_component (encodeURIComponent s) = s"
proof (induction s)
  case (Cons c s)
  have "of_char c div 16 < (16 :: nat)" using high_digit by simp
  then have "char_of (16 * hex_value (hex_char (of_char c div 16)) + hex_value (hex_char (of_char c mod 16))) = c"
    by (simp add: hex_value_char)
  then show ?case
    using Cons by (cases "c = CHR ''%''") (auto simp: encodeURIComponent_def decode_plain)
qed (simp add: encodeURIComponent_def)

lemma encode_safe: "c \<in> set (encodeURIComponent s) \<Longrightarrow> unreserved c \<or> c = CHR ''%''"
proof -
  have "unreserved (hex_char n)" if "n < 16" for n
    using that by (auto simp: unreserved_def hex_char_def)
  then show "c \<in> set (encodeURIComponent s) \<Longrightarrow> ?thesis"
    by (auto simp: encodeURIComponent_def high_digit split: if_splits)
qed

section \<open>Replacement of a fixed text\<close>

definition starts_with :: "string \<Rightarrow> string \<Rightarrow> bool" where
  "starts_with p s \<longleftrightarrow> take (length p) s = p"

text \<open>
  The replacement template: \<open>$$\<close>, \<open>$&\<close>, \<open>$`\<close> and \<open>$'\<close> stand for a dollar sign, the match, the
  text before and the text after it. The pattern has no groups, so any other dollar sign
  stands for itself.
\<close>

fun expand_template :: "string \<Rightarrow> string \<Rightarrow> string \<Rightarrow> string \<Rightarrow> string" where
  "expand_template before match after (c # d # t) =
     (if c = CHR ''$'' \<and> d = CHR ''$'' then CHR ''$'' # expand_template before match after t
      else if c = CHR ''$'' \<and> d = CHR ''&'' then match @ expand_template before match after t
      else if c = CHR ''$'' \<and> d = CHR 0x60 then before @ expand_template before match after t
      else if c = CHR ''$'' \<and> d = CHR 0x27 then after @ expand_template before match after t
      else c # expand_template before match after (d # t))"
| "expand_template before match after t = t"

text \<open>
  \<open>s.replace(new RegExp(p, 'g'), template)\<close> for an escaped, non-empty text \<open>p\<close>; \<open>before\<close> is
  the text in front, the number counts the characters of the present match still to skip.
\<close>

fun replace_from :: "string \<Rightarrow> string \<Rightarrow> string \<Rightarrow> nat \<Rightarrow> string \<Rightarrow> string" where
  "replace_from p template before n [] = []"
| "replace_from p template before (Suc n) (c # s) = replace_from p template (before @ [c]) n s"
| "replace_from p template before 0 (c # s) =
     (if starts_with p (c # s)
      then expand_template before p (drop (length p) (c # s)) template
           @ replace_from p template (before @ [c]) (length p - 1) s
      else c # replace_from p template (before @ [c]) 0 s)"

definition replace_every :: "string \<Rightarrow> string \<Rightarrow> string \<Rightarrow> string" where
  "replace_every p template s = replace_from p template '''' 0 s"

text \<open>The text cut at the occurrences of a separator, from the left.\<close>

fun split_from :: "string \<Rightarrow> nat \<Rightarrow> string \<Rightarrow> string list" where
  "split_from p n [] = ['''']"
| "split_from p (Suc n) (c # s) = split_from p n s"
| "split_from p 0 (c # s) =
     (if starts_with p (c # s) then '''' # split_from p (length p - 1) s
      else (c # hd (split_from p 0 s)) # tl (split_from p 0 s))"

fun join_with :: "string \<Rightarrow> string list \<Rightarrow> string" where
  "join_with d [] = ''''"
| "join_with d [x] = x"
| "join_with d (x # y # xs) = x @ d @ join_with d (y # xs)"

lemma split_from_not_Nil [simp]: "split_from p n s \<noteq> []"
  by (induction p n s rule: split_from.induct) auto

lemma expand_template_plain: "CHR ''$'' \<notin> set t \<Longrightarrow> expand_template before m after t = t"
  by (induction before m after t rule: expand_template.induct) auto

lemma join_with_Cons: "xs \<noteq> [] \<Longrightarrow> join_with d (x # xs) = x @ d @ join_with d xs"
  by (cases xs) simp_all

lemma join_with_head: "xs \<noteq> [] \<Longrightarrow> join_with d ((c # hd xs) # tl xs) = c # join_with d xs"
proof (cases xs)
  case (Cons y ys)
  then show ?thesis by (cases ys) simp_all
qed simp

text \<open>Without a dollar sign in the template, replacing is cutting and joining.\<close>

lemma replace_from_split:
  "CHR ''$'' \<notin> set t \<Longrightarrow> replace_from p t before n s = join_with t (split_from p n s)"
  by (induction p t before n s rule: replace_from.induct)
     (simp_all add: expand_template_plain join_with_Cons join_with_head)

lemma replace_every_split:
  "CHR ''$'' \<notin> set t \<Longrightarrow> replace_every p t s = join_with t (split_from p 0 s)"
  by (simp add: replace_every_def replace_from_split)

text \<open>Cutting loses nothing: joined with the separator, the parts are the text.\<close>

lemma split_from_join: "p \<noteq> [] \<Longrightarrow> n \<le> length s \<Longrightarrow> join_with p (split_from p n s) = drop n s"
proof (induction p n s rule: split_from.induct)
  case (3 p c s)
  show ?case
  proof (cases "starts_with p (c # s)")
    case True
    then have p: "take (length p) (c # s) = p" by (simp add: starts_with_def)
    then have "length p \<le> Suc (length s)"
      using length_take [of "length p" "c # s"] by simp
    then have "join_with p (split_from p (length p - 1) s) = drop (length p - 1) s"
      using 3 True by simp
    moreover have "p @ drop (length p - 1) s = c # s"
      using p \<open>p \<noteq> []\<close> append_take_drop_id [of "length p" "c # s"] by (cases p) auto
    ultimately show ?thesis using True by (simp add: join_with_Cons)
  next
    case False
    then show ?thesis using 3 by (simp add: join_with_head)
  qed
qed simp_all

end
