(* ===== verification/Polls.thy ===== *)
theory Polls
  imports Timeline JsText
begin

text \<open>
  Polls of \<open>MatrixClientManager\<close>: creating, answering, ending, and counting the answers of a
  poll, which are read page by page from the server. The counting loop runs on fuel (theory
  Prelude); the number of pages is enough.
\<close>

section \<open>The Matrix client, as far as polls use it\<close>

record 'w poll_client =
  pc_put :: "string \<Rightarrow> json_object \<Rightarrow> ('w, unit) io"
  pc_now :: "'w \<Rightarrow> int"
  pc_relations ::
    "room_id \<Rightarrow> event_id \<Rightarrow> string \<Rightarrow> string option \<Rightarrow> ('w, matrix_event list \<times> string option) io"

record PollResponsesEntity =
  pr_talliedAnswers :: "(string \<times> nat) list"
  pr_totalVotes :: nat
  pr_endedAt :: "int option"

definition POLL_DISCLOSED :: string where "POLL_DISCLOSED = ''org.matrix.msc3381.poll.disclosed''"
definition POLL_UNDISCLOSED :: string where "POLL_UNDISCLOSED = ''org.matrix.msc3381.poll.undisclosed''"

fun poll_type_fromEntityToMatrix :: "PollTypeEntity \<Rightarrow> string" where
  "poll_type_fromEntityToMatrix PTE_DISCLOSED = POLL_DISCLOSED"
| "poll_type_fromEntityToMatrix PTE_UNDISCLOSED = POLL_UNDISCLOSED"

section \<open>Creating, answering and ending\<close>

text \<open>The path of the event: the time serves as its transaction id.\<close>

definition send_path :: "room_id \<Rightarrow> string \<Rightarrow> int \<Rightarrow> string" where
  "send_path roomId eventType now =
     ''/rooms/'' @ encodeURIComponent roomId @ ''/send/'' @ eventType @ ''/'' @ show_int now"

definition put_event ::
    "'w poll_client \<Rightarrow> string \<Rightarrow> room_id \<Rightarrow> string \<Rightarrow> json_object \<Rightarrow> ('w, unit) io" where
  "put_event P msg roomId eventType content =
     await (peek (pc_now P)) (\<lambda>now. or_fail msg (pc_put P (send_path roomId eventType now) content))"

definition poll_reference :: "event_id \<Rightarrow> string \<times> json" where
  "poll_reference pollId =
     (''m.relates_to'', JObj [(''rel_type'', JStr ''m.reference''), (''event_id'', JStr pollId)])"

definition poll_content :: "string \<Rightarrow> string \<Rightarrow> string list \<Rightarrow> int \<Rightarrow> json_object" where
  "poll_content kind question answers maxSelections =
     [(POLL_START, JObj
        [(''question'', JObj [(''body'', JStr question), (''msgtype'', JStr ''m.text'')]),
         (''kind'', JStr kind),
         (''max_selections'', JNum maxSelections),
         (''answers'', JArr (map (\<lambda>answer.
            JObj [(''id'', JStr answer), (''org.matrix.msc1767.text'', JStr answer)]) answers))]),
      (''m.text'', JStr question)]"

definition cm_createPoll ::
    "'w poll_client \<Rightarrow> room_id \<Rightarrow> string \<Rightarrow> string \<Rightarrow> string list \<Rightarrow> int \<Rightarrow> ('w, unit) io" where
  "cm_createPoll P roomId kind question answers maxSelections =
     put_event P ''Failed to create poll'' roomId POLL_START
       (poll_content kind question answers maxSelections)"

definition cm_sendPollResponse ::
    "'w poll_client \<Rightarrow> room_id \<Rightarrow> event_id \<Rightarrow> string list \<Rightarrow> ('w, unit) io" where
  "cm_sendPollResponse P roomId pollId answers =
     put_event P (''Failed to send poll response '' @ pollId) roomId POLL_RESPONSE
       [(POLL_RESPONSE, JObj [(''answers'', JArr (map JStr answers))]), poll_reference pollId]"

definition cm_endPoll :: "'w poll_client \<Rightarrow> room_id \<Rightarrow> event_id \<Rightarrow> ('w, unit) io" where
  "cm_endPoll P roomId pollId =
     put_event P (''Failed to end poll '' @ pollId) roomId POLL_END
       [(POLL_END, JObj []), poll_reference pollId]"

section \<open>Counting\<close>

text \<open>The latest response of each user so far: its time and its answers.\<close>

type_synonym ballots = "(user_id \<times> int \<times> json list) list"

definition after_end :: "int option \<Rightarrow> matrix_event \<Rightarrow> bool" where
  "after_end pollEnd e \<longleftrightarrow> truthy_num pollEnd \<and> ev_ts e > the pollEnd"

definition take_response :: "int option \<Rightarrow> matrix_event \<Rightarrow> ballots \<Rightarrow> ballots result" where
  "take_response pollEnd event latest =
     (if after_end pollEnd event \<or> \<not> truthy_str (ev_sender event) then Inr latest
      else sum_bind (js_get POLL_RESPONSE (ev_content event)) (\<lambda>response.
           sum_bind (js_get ''answers'' response) (\<lambda>answers.
             case answers of
               JArr xs \<Rightarrow>
                 (let userId = the (ev_sender event) in
                  if xs = [] then Inr latest
                  else case map_of latest userId of
                      None \<Rightarrow> Inr (map_set userId (ev_ts event, xs) latest)
                    | Some (prevTimestamp, _) \<Rightarrow>
                        if prevTimestamp < ev_ts event
                        then Inr (map_set userId (ev_ts event, xs) latest) else Inr latest)
             | _ \<Rightarrow> Inr latest)))"

fun take_responses :: "int option \<Rightarrow> matrix_event list \<Rightarrow> ballots \<Rightarrow> ballots result" where
  "take_responses pollEnd [] latest = Inr latest"
| "take_responses pollEnd (e # es) latest =
     sum_bind (take_response pollEnd e latest) (take_responses pollEnd es)"

text \<open>\<open>tally[answer] = (tally[answer] ?? 0) + 1\<close>, for answers that are not the name of a
  property every object inherits.\<close>

definition count_answer :: "json \<Rightarrow> (string \<times> nat) list \<Rightarrow> (string \<times> nat) list" where
  "count_answer answer tally = map_set (js_key answer) (nullish (map_of tally (js_key answer)) 0 + 1) tally"

definition tally_answers :: "ballots \<Rightarrow> (string \<times> nat) list" where
  "tally_answers latest = fold (\<lambda>(_, _, answers). fold count_answer answers) latest []"

definition poll_result :: "int option \<Rightarrow> ballots \<Rightarrow> PollResponsesEntity" where
  "poll_result pollEnd latest =
     (let tally = tally_answers latest in
      \<lparr>pr_talliedAnswers = tally, pr_totalVotes = sum_list (map snd tally), pr_endedAt = pollEnd\<rparr>)"

definition response_round ::
    "'w poll_client \<Rightarrow> room_id \<Rightarrow> event_id \<Rightarrow> int option \<Rightarrow> ballots \<times> string option \<Rightarrow>
     ('w, ballots \<times> string option) io" where
  "response_round P roomId pollId pollEnd s =
     await (pc_relations P roomId pollId POLL_RESPONSE (snd s)) (\<lambda>(events, nextBatch).
     await (lift_result (take_responses pollEnd events (fst s))) (\<lambda>latest.
       ret (latest, nextBatch)))"

definition cm_getPollResponses ::
    "nat \<Rightarrow> 'w poll_client \<Rightarrow> room_id \<Rightarrow> event_id \<Rightarrow> ('w, PollResponsesEntity) loop_io" where
  "cm_getPollResponses fuel P roomId pollId =
     loop_or_fail (''Failed to get responses for poll '' @ pollId)
       (loop_await (once (pc_relations P roomId pollId POLL_END None)) (\<lambda>(ends, _).
          let pollEnd = (case ends of [] \<Rightarrow> None | e # _ \<Rightarrow> Some (ev_ts e)) in
          loop_await (do_while fuel (response_round P roomId pollId pollEnd)
                        (\<lambda>s. truthy_str (snd s)) ([], None))
            (\<lambda>(latest, _). once (ret (poll_result pollEnd latest)))))"

section \<open>What a count should be\<close>

text \<open>The answers of a response that counts.\<close>

definition vote :: "int option \<Rightarrow> matrix_event \<Rightarrow> json list option" where
  "vote pollEnd e =
     (if after_end pollEnd e \<or> \<not> truthy_str (ev_sender e) then None
      else case js_opt ''answers'' (js_opt POLL_RESPONSE (ev_content e)) of
          JArr xs \<Rightarrow> if xs = [] then None else Some xs
        | _ \<Rightarrow> None)"

text \<open>A response that can be read: late or anonymous, or with a value under the event's key.\<close>

definition readable :: "int option \<Rightarrow> matrix_event \<Rightarrow> bool" where
  "readable pollEnd e \<longleftrightarrow> after_end pollEnd e \<or> \<not> truthy_str (ev_sender e)
     \<or> js_opt POLL_RESPONSE (ev_content e) \<notin> {JUndef, JNull}"

text \<open>One ballot per user who voted, holding a vote of that user that no other one is later than.\<close>

definition latest_votes :: "int option \<Rightarrow> matrix_event list \<Rightarrow> ballots \<Rightarrow> bool" where
  "latest_votes pollEnd es bs \<longleftrightarrow>
     distinct (map fst bs)
     \<and> (\<forall>(u, t, xs) \<in> set bs.
          (\<exists>e \<in> set es. ev_sender e = Some u \<and> ev_ts e = t \<and> vote pollEnd e = Some xs)
          \<and> (\<forall>e \<in> set es. ev_sender e = Some u \<longrightarrow> vote pollEnd e \<noteq> None \<longrightarrow> ev_ts e \<le> t))
     \<and> (\<forall>e \<in> set es. vote pollEnd e \<noteq> None \<longrightarrow> the (ev_sender e) \<in> fst ` set bs)"

text \<open>The server answers these pages of responses, one after the other.\<close>

inductive response_pages ::
    "'w poll_client \<Rightarrow> room_id \<Rightarrow> event_id \<Rightarrow> string option \<Rightarrow> matrix_event list list \<Rightarrow> bool"
  for P roomId pollId where
  last_page: "(\<And>w. pc_relations P roomId pollId POLL_RESPONSE from w = (Inr (es, next'), w)) \<Longrightarrow>
     \<not> truthy_str next' \<Longrightarrow> response_pages P roomId pollId from [es]"
| more_page: "(\<And>w. pc_relations P roomId pollId POLL_RESPONSE from w = (Inr (es, next'), w)) \<Longrightarrow>
     truthy_str next' \<Longrightarrow> response_pages P roomId pollId next' pages \<Longrightarrow>
     response_pages P roomId pollId from (es # pages)"

section \<open>Lemmas\<close>

lemma js_get_value: "js_opt k v \<notin> {JUndef, JNull} \<Longrightarrow> js_get k v = Inr (js_opt k v)"
  by (cases v) simp_all

lemma js_get_none: "js_opt k v \<in> {JUndef, JNull} \<Longrightarrow> js_get k v = Inl TypeError \<or> js_get k v = Inr (js_opt k v)"
  by (cases v) simp_all

lemma take_response_readable:
  assumes "readable pollEnd e"
  shows "take_response pollEnd e bs = Inr (case vote pollEnd e of
      None \<Rightarrow> bs
    | Some xs \<Rightarrow> (let u = the (ev_sender e) in
        case map_of bs u of
          None \<Rightarrow> map_set u (ev_ts e, xs) bs
        | Some (t, _) \<Rightarrow> if t < ev_ts e then map_set u (ev_ts e, xs) bs else bs))"
proof (cases "after_end pollEnd e \<or> \<not> truthy_str (ev_sender e)")
  case False
  with assms have v: "js_opt POLL_RESPONSE (ev_content e) \<notin> {JUndef, JNull}"
    by (simp add: readable_def)
  let ?r = "js_opt POLL_RESPONSE (ev_content e)"
  have "js_get ''answers'' ?r = Inr (js_opt ''answers'' ?r)"
    using v by (cases ?r) simp_all
  then show ?thesis
    using False js_get_value [OF v]
    by (auto simp: take_response_def vote_def Let_def split: json.split option.split prod.split)
qed (simp add: take_response_def vote_def)

lemma take_response_unreadable: "\<not> readable pollEnd e \<Longrightarrow> take_response pollEnd e bs = Inl TypeError"
  using js_get_none [of POLL_RESPONSE "ev_content e"]
  by (auto simp: readable_def take_response_def)

lemma take_responses_unreadable:
  "e \<in> set es \<Longrightarrow> \<not> readable pollEnd e \<Longrightarrow> take_responses pollEnd es bs = Inl TypeError"
proof (induction es arbitrary: bs)
  case (Cons a es)
  show ?case
  proof (cases "readable pollEnd a")
    case True
    with Cons have "e \<in> set es" by auto
    with Cons True show ?thesis by (simp add: take_response_readable)
  qed (simp add: take_response_unreadable)
qed simp

lemma take_responses_append:
  "take_responses pollEnd (es @ fs) bs = sum_bind (take_responses pollEnd es bs) (take_responses pollEnd fs)"
proof (induction es arbitrary: bs)
  case (Cons e es)
  then show ?case by (cases "take_response pollEnd e bs") simp_all
qed simp

lemma vote_sender: "vote pollEnd e = Some xs \<Longrightarrow> ev_sender e = Some (the (ev_sender e))"
  by (auto simp: vote_def truthy_str_def split: if_splits)

lemma set_map_set_distinct:
  "distinct (map fst m) \<Longrightarrow> set (map_set k v m) = insert (k, v) {p \<in> set m. fst p \<noteq> k}"
  by (induction k v m rule: map_set.induct) (force simp: image_iff)+

lemma latest_votes_step:
  assumes ok: "latest_votes pollEnd es bs" and e: "vote pollEnd e = Some xs"
    and later: "\<And>t ys. (the (ev_sender e), t, ys) \<in> set bs \<Longrightarrow> t < ev_ts e"
  shows "latest_votes pollEnd (es @ [e]) (map_set (the (ev_sender e)) (ev_ts e, xs) bs)"
proof -
  let ?u = "the (ev_sender e)"
  have d: "distinct (map fst bs)" using ok by (simp add: latest_votes_def)
  have keys: "fst ` set (map_set ?u (ev_ts e, xs) bs) = insert ?u (fst ` set bs)"
    using set_map_set_distinct [OF d] by force
  have "ev_ts e' \<le> ev_ts e" if "e' \<in> set es" "ev_sender e' = Some ?u" "vote pollEnd e' \<noteq> None" for e'
  proof -
    from ok that have "?u \<in> fst ` set bs" unfolding latest_votes_def by (metis option.sel)
    then obtain t ys where "(?u, t, ys) \<in> set bs" by auto
    with ok that later [of t ys] show ?thesis unfolding latest_votes_def by fastforce
  qed
  moreover have "ev_sender e = Some ?u" by (rule vote_sender [OF e])
  ultimately show ?thesis
    using ok e keys unfolding latest_votes_def
    by (auto simp: keys_map_set set_map_set_distinct d)
qed

lemma latest_votes_keep:
  assumes ok: "latest_votes pollEnd es bs"
    and e: "vote pollEnd e \<noteq> None \<Longrightarrow> \<exists>t ys. (the (ev_sender e), t, ys) \<in> set bs \<and> ev_ts e \<le> t"
  shows "latest_votes pollEnd (es @ [e]) bs"
proof -
  have "ev_ts e \<le> t" if "(u, t, ys) \<in> set bs" "ev_sender e = Some u" "vote pollEnd e \<noteq> None" for u t ys
  proof -
    from e that obtain t' ys' where "(u, t', ys') \<in> set bs" "ev_ts e \<le> t'" by auto
    moreover have "distinct (map fst bs)" using ok by (simp add: latest_votes_def)
    ultimately show ?thesis using that(1) by (metis eq_key_imp_eq_value prod.inject)
  qed
  moreover have "the (ev_sender e) \<in> fst ` set bs" if "vote pollEnd e \<noteq> None"
    using e [OF that] by force
  ultimately show ?thesis
    using ok unfolding latest_votes_def by auto
qed

lemma take_response_latest:
  assumes "readable pollEnd e" and ok: "latest_votes pollEnd es bs"
  shows "\<exists>bs'. take_response pollEnd e bs = Inr bs' \<and> latest_votes pollEnd (es @ [e]) bs'"
proof (cases "vote pollEnd e")
  case None
  then show ?thesis using take_response_readable [OF assms(1), of bs] latest_votes_keep [OF ok, of e] by simp
next
  case (Some xs)
  let ?u = "the (ev_sender e)"
  have d: "distinct (map fst bs)" using ok by (simp add: latest_votes_def)
  show ?thesis
  proof (cases "map_of bs ?u")
    case None
    then have "?u \<notin> fst ` set bs" by (simp add: map_of_eq_None_iff)
    then have "(?u, t, ys) \<notin> set bs" for t ys by force
    then have "latest_votes pollEnd (es @ [e]) (map_set ?u (ev_ts e, xs) bs)"
      using latest_votes_step [OF ok Some] by blast
    then show ?thesis using take_response_readable [OF assms(1)] Some None by simp
  next
    case (Some p)
    then obtain t ys where p: "p = (t, ys)" "(?u, t, ys) \<in> set bs"
      by (metis map_of_SomeD prod.collapse)
    have unique: "t' = t" if "(?u, t', ys') \<in> set bs" for t' ys'
      using d p(2) that by (metis eq_key_imp_eq_value prod.inject)
    show ?thesis
    proof (cases "t < ev_ts e")
      case True
      then have "latest_votes pollEnd (es @ [e]) (map_set ?u (ev_ts e, xs) bs)"
        using latest_votes_step [OF ok \<open>vote pollEnd e = Some xs\<close>] unique by blast
      then show ?thesis
        using take_response_readable [OF assms(1)] \<open>vote pollEnd e = Some xs\<close> Some p True by simp
    next
      case False
      then have "latest_votes pollEnd (es @ [e]) bs"
        using latest_votes_keep [OF ok] p(2) by (metis linorder_not_less)
      then show ?thesis
        using take_response_readable [OF assms(1)] \<open>vote pollEnd e = Some xs\<close> Some p False by simp
    qed
  qed
qed

lemma take_responses_latest:
  "\<forall>e \<in> set es. readable pollEnd e \<Longrightarrow> latest_votes pollEnd fs bs \<Longrightarrow>
     \<exists>bs'. take_responses pollEnd es bs = Inr bs' \<and> latest_votes pollEnd (fs @ es) bs'"
proof (induction es arbitrary: fs bs)
  case (Cons e es)
  then obtain bs1 where "take_response pollEnd e bs = Inr bs1" "latest_votes pollEnd (fs @ [e]) bs1"
    using take_response_latest by (metis list.set_intros(1))
  then show ?case using Cons.IH [of "fs @ [e]" bs1] Cons.prems(1) by simp
qed simp

text \<open>Each round takes a page in: the loop is the fold over all the pages.\<close>

lemma response_loop:
  assumes "response_pages P roomId pollId from pages"
  shows "\<exists>next'. do_while (length pages) (response_round P roomId pollId pollEnd) (\<lambda>s. truthy_str (snd s)) (bs, from) w =
     Some (sum_bind (take_responses pollEnd (concat pages) bs) (\<lambda>bs'. Inr (bs', next')), w)"
  using assms
proof (induction arbitrary: bs rule: response_pages.induct)
  case (last_page tok es next')
  then show ?case
    by (cases "take_responses pollEnd es bs")
       (auto simp: response_round_def await_def lift_result_def ret_def)
next
  case (more_page tok es next' pages)
  then show ?case
    by (cases "take_responses pollEnd es bs")
       (auto simp: response_round_def await_def lift_result_def ret_def take_responses_append)
qed

lemma getPollResponses_eq:
  assumes "response_pages P roomId pollId None pages"
    and "pc_relations P roomId pollId POLL_END None w = (Inr (ends, x), w')"
  shows "cm_getPollResponses (length pages) P roomId pollId w =
     (let pollEnd = (case ends of [] \<Rightarrow> None | e # _ \<Rightarrow> Some (ev_ts e)) in
      Some (case take_responses pollEnd (concat pages) [] of
          Inl _ \<Rightarrow> Inl (PlainError (''Failed to get responses for poll '' @ pollId))
        | Inr bs \<Rightarrow> Inr (poll_result pollEnd bs), w'))"
proof -
  let ?stop = "case ends of [] \<Rightarrow> None | e # _ \<Rightarrow> Some (ev_ts e)"
  obtain next' where "do_while (length pages) (response_round P roomId pollId ?stop) (\<lambda>s. truthy_str (snd s)) ([], None) w' =
     Some (sum_bind (take_responses ?stop (concat pages) []) (\<lambda>bs'. Inr (bs', next')), w')"
    using response_loop [OF assms(1)] by blast
  then show ?thesis
    using assms(2)
    by (cases "take_responses ?stop (concat pages) []")
       (simp_all add: cm_getPollResponses_def loop_or_fail_def loop_await_def once_def ret_def Let_def)
qed

lemma count_answer_sum: "sum_list (map snd (count_answer a t)) = Suc (sum_list (map snd t))"
proof -
  have "sum_list (map snd (map_set k (nullish (map_of t k) 0 + 1) t)) = Suc (sum_list (map snd t))" for k
    by (induction t) auto
  then show ?thesis by (simp add: count_answer_def)
qed

lemma count_answer_get:
  "nullish (map_of (count_answer a t) k) 0 = nullish (map_of t k) 0 + (if js_key a = k then 1 else 0)"
  by (simp add: count_answer_def map_of_map_set)

lemma fold_count_answer:
  "nullish (map_of (fold count_answer xs t) k) 0 = nullish (map_of t k) 0 + count_list (map js_key xs) k
   \<and> sum_list (map snd (fold count_answer xs t)) = sum_list (map snd t) + length xs"
  by (induction xs arbitrary: t) (simp_all add: count_answer_get count_answer_sum)

definition all_answers :: "ballots \<Rightarrow> json list" where
  "all_answers bs = concat (map (\<lambda>(_, _, answers). answers) bs)"

lemma tally_fold: "tally_answers bs = fold count_answer (all_answers bs) []"
proof -
  have "fold (\<lambda>(_, _, answers). fold count_answer answers) bs t = fold count_answer (all_answers bs) t" for t
    by (induction bs arbitrary: t) (auto simp: all_answers_def)
  then show ?thesis by (simp add: tally_answers_def)
qed

lemma poll_text_answer: "poll_text (JObj [(''id'', JStr a), (''org.matrix.msc1767.text'', JStr a)]) =
    Inr (if a = '''' then JObj [(''id'', JStr a), (''org.matrix.msc1767.text'', JStr a)] else JStr a)"
  by (simp add: poll_text_def obj_get_def js_or_def)

text \<open>A server with one poll, whose responses come in two pages.\<close>

definition demo_response :: "nat \<Rightarrow> user_id \<Rightarrow> string list \<Rightarrow> matrix_event" where
  "demo_response ts u answers = (demo_event ts ''$r'')
     \<lparr>ev_type := POLL_RESPONSE, ev_sender := Some u,
      ev_content := JObj [(POLL_RESPONSE, JObj [(''answers'', JArr (map JStr answers))])]\<rparr>"

definition demo_pages :: "matrix_event list list" where
  "demo_pages = [[demo_response 5 ''@ann:hs'' [''tea''], demo_response 9 ''@bob:hs'' [''tea'', ''milk'']],
                 [demo_response 2 ''@ann:hs'' [''milk''], demo_response 30 ''@cat:hs'' [''milk'']]]"

definition demo_poll :: "matrix_event list list \<Rightarrow> matrix_event list \<Rightarrow> 'w poll_client" where
  "demo_poll pages ends =
     \<lparr>pc_put = (\<lambda>_ _. ret ()), pc_now = (\<lambda>_. 0),
      pc_relations = (\<lambda>_ _ t tok.
        if t = POLL_END then ret (ends, None)
        else if tok = None then ret (pages ! 0, Some ''p2'') else ret (pages ! 1, None))\<rparr>"

lemma demo_response_pages: "response_pages (demo_poll [p, q] ends) ''!r:hs'' ''$p'' None [p, q]"
  by (rule more_page [where next' = "Some ''p2''"])
     (auto intro!: last_page [where next' = None] simp: demo_poll_def ret_def truthy_str_def event_types)

lemma demo_readable: "readable pollEnd (demo_response ts u answers)"
  by (simp add: readable_def demo_response_def obj_get_def)

section \<open>Properties\<close>



text \<open>
  One unreadable response hides the result of a poll. If any response of any page,
  not later than the end, has no value under the event's key, reading the result of the poll
  ends in the error, whatever the other responses are.
\<close>

theorem poll_count_blocked:
  assumes "response_pages P roomId pollId None pages"
    and "pc_relations P roomId pollId POLL_END None w = (Inr (ends, x), w')"
    and "e \<in> set (concat pages)"
    and "\<not> readable (case ends of [] \<Rightarrow> None | e # _ \<Rightarrow> Some (ev_ts e)) e"
  shows "cm_getPollResponses (length pages) P roomId pollId w =
     Some (Inl (PlainError (''Failed to get responses for poll '' @ pollId)), w')"
  using getPollResponses_eq [OF assms(1,2)] take_responses_unreadable [OF assms(3,4)]
  by (simp add: Let_def)

theorem poll_count_blocked_witness:
  "cm_getPollResponses 2 (demo_poll [[(demo_response 5 ''@eve:hs'' [])\<lparr>ev_content := JObj []\<rparr>],
      [demo_response 2 ''@ann:hs'' [''milk'']]] []) ''!r:hs'' ''$p'' () =
     Some (Inl (PlainError ''Failed to get responses for poll $p''), ())"
proof -
  let ?bad = "(demo_response 5 ''@eve:hs'' [])\<lparr>ev_content := JObj []\<rparr>"
  let ?pages = "[[?bad], [demo_response 2 ''@ann:hs'' [''milk'']]]"
  have "pc_relations (demo_poll ?pages []) ''!r:hs'' ''$p'' POLL_END None () = (Inr ([], None), ())"
    by (simp add: demo_poll_def ret_def)
  moreover have "\<not> readable (case ([] :: matrix_event list) of [] \<Rightarrow> None | e # _ \<Rightarrow> Some (ev_ts e)) ?bad"
    by (simp add: readable_def after_end_def truthy_num_def truthy_str_def demo_response_def obj_get_def)
  ultimately have "cm_getPollResponses (length ?pages) (demo_poll ?pages []) ''!r:hs'' ''$p'' () =
      Some (Inl (PlainError (''Failed to get responses for poll '' @ ''$p'')), ())"
    by (intro poll_count_blocked [OF demo_response_pages, where e = ?bad]) auto
  then show ?thesis by (simp add: numeral_2_eq_2)
qed

text \<open>
  A poll is read back as it was created, except for empty texts and the number zero. The
  message read from the event of a created poll has its kind; it has its question, its
  answers and its number of selections exactly when the question is not empty, no answer is
  empty, and the number is not zero.
\<close>

theorem poll_read_back:
  assumes "ev_type e = POLL_START" and "ev_content e = JObj (poll_content kind question answers n)"
  shows "\<exists>c. messageContentFromPollEvent e = Inr c
    \<and> obj_get c ''kind'' = JStr kind
    \<and> (obj_get c ''question'' = JStr question \<longleftrightarrow> question \<noteq> '''')
    \<and> (obj_get c ''answers'' = JArr (map JStr answers) \<longleftrightarrow> '''' \<notin> set answers)
    \<and> (obj_get c ''maxSelections'' = JNum n \<longleftrightarrow> n \<noteq> 0)"
proof -
  let ?answer = "\<lambda>a. JObj [(''id'', JStr a), (''org.matrix.msc1767.text'', JStr a)]"
  let ?read = "\<lambda>a. if a = '''' then ?answer a else JStr a"
  have "map_result poll_text (map ?answer answers) = Inr (map ?read answers)"
    by (induction answers) (simp_all add: poll_text_answer)
  moreover have "map ?read answers = map JStr answers \<longleftrightarrow> '''' \<notin> set answers"
    by (induction answers) auto
  ultimately show ?thesis
    using assms
    by (simp add: messageContentFromPollEvent_def poll_content_def obj_get_def Let_def)
       (simp add: poll_text_def obj_get_def js_or_def js_spread_def)
qed

theorem poll_read_back_witness:
  "\<exists>c. messageContentFromPollEvent ((demo_event 1 ''$p'')\<lparr>ev_type := POLL_START,
        ev_content := JObj (poll_content POLL_DISCLOSED ''Tea?'' [''yes'', ''no''] 1)\<rparr>) = Inr c
    \<and> obj_get c ''question'' = JStr ''Tea?''"
proof -
  let ?e = "(demo_event 1 ''$p'')\<lparr>ev_type := POLL_START,
        ev_content := JObj (poll_content POLL_DISCLOSED ''Tea?'' [''yes'', ''no''] 1)\<rparr>"
  have "ev_type ?e = POLL_START" "ev_content ?e = JObj (poll_content POLL_DISCLOSED ''Tea?'' [''yes'', ''no''] 1)"
    by simp_all
  from poll_read_back [OF this] show ?thesis by auto
qed

end
