(* ===== verification/Messaging.thy ===== *)
theory Messaging
  imports Polls Media "HOL-Library.Multiset"
begin

text \<open>
  \<open>MatrixMessagingService\<close> and the use cases of \<open>src/private/domain/use-cases/messaging\<close>:
  building the content of messages with their mentions and media, and reading messages with
  their edits, reactions and receipts. The Matrix client is the one of the theories Timeline
  and Polls; the encryption of attachments and the browser's thumbnails are parameters.
\<close>

section \<open>Inputs\<close>

record ThumbnailInfoEntity =
  ti_width :: int
  ti_height :: int
  ti_blurHash :: string
  ti_mimeType :: string
  ti_size :: int

record SendMediaInput =
  sm_recipient :: Recipient
  sm_file :: bytes
  sm_fileName :: string
  sm_fileType :: string
  sm_fileSize :: int
  sm_mediaCredential :: MediaCredentialEntity
  sm_caption :: "string option"
  sm_mentions :: "MessageMentionEntity list option"
  sm_thumbnail :: "bytes option"
  sm_thumbnailInfo :: "ThumbnailInfoEntity option"
  sm_threadId :: "event_id option"
  sm_replyToMessageId :: "event_id option"

record ThumbnailAndBlurhashOutput =
  tb_thumbnail :: "bytes option"
  tb_mimeType :: string
  tb_width :: int
  tb_height :: int
  tb_size :: int
  tb_blurHash :: string

text \<open>
  The media service over S3, when the messaging service was made with one: its environment,
  and the thumbnail generator of the browser. \<open>mt_encryptAttachment\<close> is the function of the
  package \<open>matrix-encrypt-attachment\<close>.
\<close>

record 'w media_tools =
  mt_env :: "'w media_env"
  mt_thumbnail :: "bytes \<Rightarrow> string \<Rightarrow> ('w, ThumbnailAndBlurhashOutput option) io"

record 'w messaging_service =
  ms_client :: "'w message_client"
  ms_polls :: "'w poll_client"
  ms_media :: "'w media_tools option"
  ms_encryptAttachment :: "bytes \<Rightarrow> ('w, bytes \<times> json_object) io"

section \<open>Mentions\<close>

definition link_to :: "string \<Rightarrow> string \<Rightarrow> string" where
  "link_to target shown =
     ''<a href='' @ [CHR 0x22] @ ''https://matrix.to/#/'' @ target @ [CHR 0x22] @ ''>'' @ shown @ ''</a>''"

text \<open>The text with links so far, the users mentioned, and whether the chat is mentioned.\<close>

definition handle_mention ::
    "string \<Rightarrow> room_id \<Rightarrow> MessageMentionEntity \<Rightarrow> string \<times> user_id list \<times> bool \<Rightarrow>
     string \<times> user_id list \<times> bool" where
  "handle_mention homeServer roomId mention s =
     (case s of (formattedBody, userMentions, hasChatMention) \<Rightarrow>
        (case mention of
           HandleMentionEntity handleId name \<Rightarrow>
             (let matrixUserId = ''@'' @ handleId @ '':'' @ homeServer; displayName = ''@'' @ name in
              (replace_every displayName (link_to matrixUserId displayName) formattedBody,
               userMentions @ [matrixUserId], hasChatMention))
         | ChatMentionEntity \<Rightarrow>
             (replace_every ''@chat'' (link_to roomId ''@chat'') formattedBody, userMentions, True)))"

definition handleMentions ::
    "string \<Rightarrow> string \<Rightarrow> MessageMentionEntity list \<Rightarrow> room_id \<Rightarrow> string \<times> user_id list \<times> bool" where
  "handleMentions homeServer message mentions roomId =
     fold (handle_mention homeServer roomId) mentions (message, [], False)"

definition mention_fields :: "string \<times> user_id list \<times> bool \<Rightarrow> json_object" where
  "mention_fields s =
     (case s of (formattedBody, userMentions, hasChatMention) \<Rightarrow>
        [(''format'', JStr ''org.matrix.custom.html''),
         (''formatted_body'', JStr formattedBody),
         (''m.mentions'', JObj ((''user_ids'', JArr (map JStr userMentions))
            # (if hasChatMention then [(''room'', JBool True)] else [])))])"

definition homeServer_of :: "'w messaging_service \<Rightarrow> string" where
  "homeServer_of M = rc_homeServer (mc_rooms (ms_client M))"

definition buildMessageContent ::
    "string \<Rightarrow> Recipient \<Rightarrow> string \<Rightarrow> MessageMentionEntity list \<Rightarrow> json_object" where
  "buildMessageContent homeServer recipient message mentions =
     [(''body'', JStr message), (''msgtype'', JStr ''m.text'')]
     @ (if mentions = [] then []
        else mention_fields (handleMentions homeServer message mentions (recipient_value recipient)))"

section \<open>Sending text\<close>

definition ms_sendMessage ::
    "'w messaging_service \<Rightarrow> Recipient \<Rightarrow> string \<Rightarrow> MessageMentionEntity list \<Rightarrow> ('w, unit) io" where
  "ms_sendMessage M recipient message mentions =
     cm_sendMessage (ms_client M) (recipient_value recipient)
       (buildMessageContent (homeServer_of M) recipient message mentions)"

definition ms_sendThread ::
    "'w messaging_service \<Rightarrow> Recipient \<Rightarrow> event_id \<Rightarrow> string \<Rightarrow> MessageMentionEntity list \<Rightarrow>
     ('w, unit) io" where
  "ms_sendThread M recipient threadId message mentions =
     cm_sendThreadMessage (ms_client M) (recipient_value recipient) threadId
       (buildMessageContent (homeServer_of M) recipient message mentions)"

definition ms_sendReply ::
    "'w messaging_service \<Rightarrow> Recipient \<Rightarrow> event_id \<Rightarrow> string \<Rightarrow> MessageMentionEntity list \<Rightarrow>
     ('w, unit) io" where
  "ms_sendReply M recipient replyToMessageId message mentions =
     cm_sendReplyMessage (ms_client M) (recipient_value recipient) replyToMessageId
       (buildMessageContent (homeServer_of M) recipient message mentions)"

definition ms_edit :: "'w messaging_service \<Rightarrow> Recipient \<Rightarrow> event_id \<Rightarrow> string \<Rightarrow> ('w, unit) io" where
  "ms_edit M recipient messageId message =
     cm_editMessage (ms_client M) (recipient_value recipient) messageId
       [(''body'', JStr message), (''msgtype'', JStr ''m.text'')]"

definition ms_editMediaCaption ::
    "'w messaging_service \<Rightarrow> Recipient \<Rightarrow> event_id \<Rightarrow> string \<Rightarrow> MessageMentionEntity list \<Rightarrow>
     ('w, unit) io" where
  "ms_editMediaCaption M recipient messageId message mentions =
     cm_editMessage (ms_client M) (recipient_value recipient) messageId
       (buildMessageContent (homeServer_of M) recipient message mentions)"

section \<open>Sending media\<close>

fun msgtype_value :: "MsgType \<Rightarrow> string" where
  "msgtype_value MT_File = ''m.file''"
| "msgtype_value MT_Image = ''m.image''"
| "msgtype_value MT_Video = ''m.video''"
| "msgtype_value MT_Audio = ''m.audio''"

text \<open>A thumbnail that the input lacks, or has without a blur hash, is generated.\<close>

definition generateThumbnail ::
    "'w media_tools \<Rightarrow> SendMediaInput \<Rightarrow> ('w, SendMediaInput) io" where
  "generateThumbnail T inp =
     (if sm_thumbnail inp \<noteq> None \<and> truthy_str (map_option ti_blurHash (sm_thumbnailInfo inp)) then ret inp
      else await (mt_thumbnail T (sm_file inp) (sm_fileType inp)) (\<lambda>generated.
        case generated of
          None \<Rightarrow> throw (SecureCommsError (Some ''Failed to generate thumbnail and blurhash.''))
        | Some t \<Rightarrow>
            if tb_thumbnail t = None \<or> tb_width t = 0 \<or> tb_height t = 0 \<or> tb_mimeType t = '''' \<or> tb_blurHash t = ''''
            then throw (SecureCommsError (Some ''Thumbnail info is missing or incomplete.''))
            else ret (inp
              \<lparr>sm_thumbnail := tb_thumbnail t,
               sm_thumbnailInfo := Some \<lparr>ti_width = tb_width t, ti_height = tb_height t,
                 ti_blurHash = tb_blurHash t, ti_mimeType = tb_mimeType t, ti_size = tb_size t\<rparr>\<rparr>)))"

definition caption_fields :: "string \<Rightarrow> SendMediaInput \<Rightarrow> json_object" where
  "caption_fields homeServer inp =
     (case handleMentions homeServer (nullish (sm_caption inp) '''') (nullish (sm_mentions inp) [])
             (recipient_value (sm_recipient inp)) of
        (formattedBody, userMentions, hasChatMention) \<Rightarrow>
          if userMentions \<noteq> [] \<or> hasChatMention
          then mention_fields (formattedBody, userMentions, hasChatMention) else [])"

definition thumbnail_info :: "ThumbnailInfoEntity \<Rightarrow> string \<times> json" where
  "thumbnail_info t =
     (''thumbnail_info'', JObj
        [(''mimetype'', JStr (ti_mimeType t)), (''size'', JNum (ti_size t)), (''w'', JNum (ti_width t)),
         (''h'', JNum (ti_height t)), (''blurhash'', JStr (ti_blurHash t))])"

text \<open>The content with the thumbnail's entries in its \<open>info\<close> and the file's entry at its end.\<close>

definition media_content ::
    "string \<Rightarrow> SendMediaInput \<Rightarrow> MsgType \<Rightarrow> json_object \<Rightarrow> string \<times> json \<Rightarrow> json_object" where
  "media_content homeServer inp msgType thumb fileEntry =
     [(''msgtype'', JStr (msgtype_value msgType)),
      (''body'', JStr (nullish (sm_caption inp) '''')),
      (''filename'', JStr (sm_fileName inp)),
      (''info'', JObj (thumb @ [(''mimetype'', JStr (sm_fileType inp)), (''size'', JNum (sm_fileSize inp))]))]
     @ caption_fields homeServer inp @ [fileEntry]"

definition need_info :: "SendMediaInput \<Rightarrow> ('w, ThumbnailInfoEntity) io" where
  "need_info inp = (case sm_thumbnailInfo inp of None \<Rightarrow> throw TypeError | Some t \<Rightarrow> ret t)"

definition handleEncryptedFile ::
    "'w messaging_service \<Rightarrow> 'w media_tools \<Rightarrow> SendMediaInput \<Rightarrow> MsgType \<Rightarrow> ('w, json_object) io" where
  "handleEncryptedFile M T inp msgType =
     await (case sm_thumbnail inp of
              None \<Rightarrow> ret []
            | Some thumbnail \<Rightarrow>
                await (ms_encryptAttachment M thumbnail) (\<lambda>(thumbData, thumbEnc).
                await (need_info inp) (\<lambda>t.
                await (uploadMediaFile (mt_env T) (sm_mediaCredential inp) thumbData
                         (sm_fileName inp @ ''.thumbnail.jpg'') (ti_mimeType t)) (\<lambda>thumbnailUrl.
                  ret [thumbnail_info t,
                       (''thumbnail_file'', JObj (js_spread thumbEnc [(''url'', JStr thumbnailUrl)]))]))))
       (\<lambda>thumb.
     await (ms_encryptAttachment M (sm_file inp)) (\<lambda>(fileData, fileEnc).
     await (uploadMediaFile (mt_env T) (sm_mediaCredential inp) fileData (sm_fileName inp) (sm_fileType inp))
       (\<lambda>fileUrl.
         ret (media_content (homeServer_of M) inp msgType thumb
                (''file'', JObj (js_spread fileEnc [(''url'', JStr fileUrl)]))))))"

definition handleUnencryptedFile ::
    "'w messaging_service \<Rightarrow> 'w media_tools \<Rightarrow> SendMediaInput \<Rightarrow> MsgType \<Rightarrow> ('w, json_object) io" where
  "handleUnencryptedFile M T inp msgType =
     await (case sm_thumbnail inp of
              None \<Rightarrow> ret []
            | Some thumbnail \<Rightarrow>
                await (need_info inp) (\<lambda>t.
                await (uploadMediaFile (mt_env T) (sm_mediaCredential inp) thumbnail
                         (sm_fileName inp @ ''.thumbnail.jpg'') (ti_mimeType t)) (\<lambda>thumbnailUrl.
                  ret [thumbnail_info t, (''thumbnail_url'', JStr thumbnailUrl)])))
       (\<lambda>thumb.
     await (uploadMediaFile (mt_env T) (sm_mediaCredential inp) (sm_file inp) (sm_fileName inp) (sm_fileType inp))
       (\<lambda>fileUrl. ret (media_content (homeServer_of M) inp msgType thumb (''url'', JStr fileUrl))))"

definition ms_sendMedia :: "'w messaging_service \<Rightarrow> SendMediaInput \<Rightarrow> ('w, unit) io" where
  "ms_sendMedia M inp =
     (case ms_media M of
        None \<Rightarrow> throw (SecureCommsError (Some ''Media service is not available''))
      | Some T \<Rightarrow>
          let roomId = recipient_value (sm_recipient inp); msgType = getMsgType (sm_fileType inp) in
          await (if msgType = MT_Image \<or> msgType = MT_Video then generateThumbnail T inp
                 else ret (inp\<lparr>sm_thumbnail := None, sm_thumbnailInfo := None\<rparr>)) (\<lambda>processedInput.
          await (case sm_recipient inp of
                   ChannelId _ \<Rightarrow> handleUnencryptedFile M T processedInput msgType
                 | _ \<Rightarrow> handleEncryptedFile M T processedInput msgType) (\<lambda>content.
            if truthy_str (sm_threadId inp)
            then cm_sendThreadMessage (ms_client M) roomId (the (sm_threadId inp)) content
            else if truthy_str (sm_replyToMessageId inp)
            then cm_sendReplyMessage (ms_client M) roomId (the (sm_replyToMessageId inp)) content
            else cm_sendMessage (ms_client M) roomId content)))"

section \<open>Reading\<close>

definition latest_edit :: "MessageEntity list \<Rightarrow> MessageEntity" where
  "latest_edit edits = last (sort_key mg_timestamp edits)"

definition is_media :: "json_object \<Rightarrow> bool" where
  "is_media content \<longleftrightarrow>
     obj_get content ''type'' \<in> {JStr ''m.audio'', JStr ''m.file'', JStr ''m.image'', JStr ''m.video''}"

text \<open>The content after the latest edit: of media only the caption changes.\<close>

definition edited_content :: "MessageEntity list \<Rightarrow> json_object \<Rightarrow> json_object" where
  "edited_content edits content =
     (let latest = mg_content (latest_edit edits) in
      map_set ''isEdited'' (JBool True)
        (if is_media content then map_set ''caption'' (obj_get latest ''text'') content else latest))"

definition get_edited :: "MessageEntity list \<Rightarrow> json_object \<Rightarrow> json_object" where
  "get_edited edits content = (if edits = [] then content else edited_content edits content)"

definition list_edited :: "MessageEntity list \<Rightarrow> json_object \<Rightarrow> json_object" where
  "list_edited edits content =
     (if edits = [] then content
      else let threadId = obj_get content ''threadId''; edited = edited_content edits content in
           if js_truthy threadId then map_set ''threadId'' threadId edited else edited)"

definition pinned_edited :: "MessageEntity list \<Rightarrow> json_object \<Rightarrow> json_object" where
  "pinned_edited edits content =
     (if edits = [] then content
      else map_set ''isEdited'' (JBool True) (mg_content (latest_edit edits)))"

text \<open>\<open>new MatrixEvent({ event_id: i })\<close>: an event of which only the id is read.\<close>

definition id_event :: "event_id \<Rightarrow> matrix_event" where
  "id_event i =
     \<lparr>ev_id = Some i, ev_rawId = Some i, ev_type = '''', ev_content = JObj [], ev_sender = None,
      ev_stateKey = None, ev_ts = 0, ev_status = None, ev_isRedacted = False, ev_redaction = JUndef,
      ev_isEncrypted = False\<rparr>"

text \<open>
  A message with what the room holds about it; the content is changed by the edits as the
  caller does, and the receipts are looked up by an event when the caller gives one.
\<close>

definition complete_message ::
    "'w messaging_service \<Rightarrow> room_id \<Rightarrow> (event_id \<Rightarrow> matrix_event option) \<Rightarrow>
     (MessageEntity list \<Rightarrow> json_object \<Rightarrow> json_object) \<Rightarrow> MessageEntity \<Rightarrow> ('w, MessageEntity) io" where
  "complete_message M roomId event edited message =
     (let C = ms_client M; i = mg_messageId message in
      await (promise_both (cm_getReplacements C roomId i)
               (promise_both (cm_getReactions C roomId i)
                  (cm_getReadReceipts C roomId (event i) (Some i)))) (\<lambda>(edits, reactions, receipts).
        ret (message\<lparr>mg_content := edited edits (mg_content message),
                     mg_reactions := reactions, mg_receipts := receipts\<rparr>)))"

definition ms_get :: "'w messaging_service \<Rightarrow> Recipient \<Rightarrow> event_id \<Rightarrow> ('w, MessageEntity option) io" where
  "ms_get M recipient messageId =
     (let roomId = recipient_value recipient in
      await (cm_getMessage (ms_client M) messageId roomId) (\<lambda>message.
        case message of
          None \<Rightarrow> ret None
        | Some m \<Rightarrow> await (complete_message M roomId (\<lambda>_. None) get_edited m) (\<lambda>m'. ret (Some m'))))"

definition processMessage ::
    "'w messaging_service \<Rightarrow> room_id \<Rightarrow> MessageEntity \<Rightarrow> ('w, MessageEntity) io" where
  "processMessage M roomId = complete_message M roomId (\<lambda>i. Some (id_event i)) list_edited"

fun process_threads ::
    "(MessageEntity \<Rightarrow> ('w, MessageEntity) io) \<Rightarrow> (json \<times> MessageEntity list) list \<Rightarrow>
     ('w, MessageEntity list list) io" where
  "process_threads p [] = ret []"
| "process_threads p ((_, threadMessages) # ts) =
     await (promise_all (map p threadMessages)) (\<lambda>ms.
     await (process_threads p ts) (\<lambda>mss. ret (ms # mss)))"

definition ms_list ::
    "nat \<Rightarrow> 'w messaging_service \<Rightarrow> Recipient \<Rightarrow> int option \<Rightarrow> string option \<Rightarrow>
     ('w, MessageEntity list \<times> string option) loop_io" where
  "ms_list fuel M recipient limit nextToken =
     (let roomId = recipient_value recipient in
      loop_await (cm_listMessages fuel (ms_client M) roomId limit nextToken) (\<lambda>listOutput.
        once (await (promise_all (map (processMessage M roomId) (lm_messages listOutput))) (\<lambda>main.
              await (process_threads (processMessage M roomId) (lm_threads listOutput)) (\<lambda>threads.
                ret (sort_key mg_timestamp (main @ concat threads), lm_nextToken listOutput))))))"

definition ms_getPinnedMessages :: "'w messaging_service \<Rightarrow> Recipient \<Rightarrow> ('w, MessageEntity list) io" where
  "ms_getPinnedMessages M recipient =
     (let roomId = recipient_value recipient in
      await (cm_getPinnedMessages (ms_client M) roomId) (\<lambda>pinnedMessages.
        if pinnedMessages = [] then ret []
        else promise_all (map (complete_message M roomId (\<lambda>_. None) pinned_edited) pinnedMessages)))"

section \<open>The other operations\<close>

definition thread_suffix :: "string option \<Rightarrow> string" where
  "thread_suffix threadId =
     (if truthy_str threadId then '': (in thread with Id: '' @ the threadId @ '')'' else '''')"

fun handleRedactReason :: "RedactReasonEntity option \<Rightarrow> string option" where
  "handleRedactReason None = None"
| "handleRedactReason (Some (DeleteOwn threadId)) = Some (''deleteOwn'' @ thread_suffix threadId)"
| "handleRedactReason (Some EditReaction) = Some ''editReaction''"
| "handleRedactReason (Some (Moderation reason hide threadId)) =
     Some (if hide then ''moderation: (hidden)'' @ thread_suffix threadId
           else if reason \<noteq> '''' then ''moderation: '' @ reason @ thread_suffix threadId
           else ''moderation'' @ thread_suffix threadId)"
| "handleRedactReason (Some UnknownReason) = Some ''Redacted for unknown reason''"

definition ms_delete ::
    "'w messaging_service \<Rightarrow> Recipient \<Rightarrow> event_id \<Rightarrow> RedactReasonEntity option \<Rightarrow> ('w, unit) io" where
  "ms_delete M recipient messageId reason =
     cm_deleteMessage (ms_client M) (recipient_value recipient) messageId (handleRedactReason reason)"

definition ms_searchMessages ::
    "'w messaging_service \<Rightarrow> string \<Rightarrow> int option \<Rightarrow> string option \<Rightarrow>
     ('w, SearchMessagesItemEntity list \<times> string option) io" where
  "ms_searchMessages M = cm_searchMessages (ms_client M)"

definition ms_getChatSummaries ::
    "'w messaging_service \<Rightarrow> Recipient list \<Rightarrow> ('w, ChatSummaryEntity list) io" where
  "ms_getChatSummaries M recipients = cm_getChatSummaries (ms_client M) recipients"

definition ms_markAsRead :: "'w messaging_service \<Rightarrow> Recipient \<Rightarrow> ('w, unit) io" where
  "ms_markAsRead M recipient = cm_sendReadReceipt (ms_client M) (recipient_value recipient)"

definition ms_markAsUnread :: "'w messaging_service \<Rightarrow> Recipient \<Rightarrow> ('w, unit) io" where
  "ms_markAsUnread M recipient = cm_markAsUnread (ms_client M) (recipient_value recipient)"

definition ms_sendTypingNotification :: "'w messaging_service \<Rightarrow> Recipient \<Rightarrow> bool \<Rightarrow> ('w, unit) io" where
  "ms_sendTypingNotification M recipient isTyping =
     cm_sendTypingNotification (ms_client M) (recipient_value recipient) isTyping"

definition ms_toggleReaction ::
    "'w messaging_service \<Rightarrow> Recipient \<Rightarrow> event_id \<Rightarrow> string \<Rightarrow> ('w, unit) io" where
  "ms_toggleReaction M recipient messageId content =
     cm_toggleReaction (ms_client M) (recipient_value recipient) messageId content"

definition ms_pinUnpinMessage :: "'w messaging_service \<Rightarrow> Recipient \<Rightarrow> event_id \<Rightarrow> ('w, unit) io" where
  "ms_pinUnpinMessage M recipient messageId =
     cm_pinUnpinMessage (ms_client M) (recipient_value recipient) messageId"

definition ms_createPoll ::
    "'w messaging_service \<Rightarrow> Recipient \<Rightarrow> PollTypeEntity \<Rightarrow> string \<Rightarrow> string list \<Rightarrow> int \<Rightarrow> ('w, unit) io" where
  "ms_createPoll M recipient type question answers maxSelections =
     cm_createPoll (ms_polls M) (recipient_value recipient) (poll_type_fromEntityToMatrix type)
       question answers maxSelections"

definition ms_sendPollResponse ::
    "'w messaging_service \<Rightarrow> Recipient \<Rightarrow> event_id \<Rightarrow> string list \<Rightarrow> ('w, unit) io" where
  "ms_sendPollResponse M recipient pollId answers =
     cm_sendPollResponse (ms_polls M) (recipient_value recipient) pollId answers"

definition ms_editPoll ::
    "'w messaging_service \<Rightarrow> Recipient \<Rightarrow> event_id \<Rightarrow> PollTypeEntity \<Rightarrow> string \<Rightarrow> string list \<Rightarrow> int \<Rightarrow>
     ('w, unit) io" where
  "ms_editPoll M recipient pollId type question answers maxSelections =
     await (cm_endPoll (ms_polls M) (recipient_value recipient) pollId) (\<lambda>_.
       cm_createPoll (ms_polls M) (recipient_value recipient) (poll_type_fromEntityToMatrix type)
         question answers maxSelections)"

definition ms_endPoll :: "'w messaging_service \<Rightarrow> Recipient \<Rightarrow> event_id \<Rightarrow> ('w, unit) io" where
  "ms_endPoll M recipient pollId = cm_endPoll (ms_polls M) (recipient_value recipient) pollId"

definition ms_getPollResponses ::
    "nat \<Rightarrow> 'w messaging_service \<Rightarrow> Recipient \<Rightarrow> event_id \<Rightarrow> ('w, PollResponsesEntity) loop_io" where
  "ms_getPollResponses fuel M recipient pollId =
     cm_getPollResponses fuel (ms_polls M) (recipient_value recipient) pollId"

section \<open>Lemmas\<close>

lemma obj_get_Cons: "obj_get ((k, v) # kvs) k' = (if k' = k then v else obj_get kvs k')"
  by (simp add: obj_get_def)

lemma obj_get_Nil [simp]: "obj_get [] k = JUndef"
  by (simp add: obj_get_def)

lemma obj_get_map_set: "obj_get (map_set k v kvs) k' = (if k' = k then v else obj_get kvs k')"
  by (simp add: obj_get_def map_of_map_set)

lemma obj_get_none: "k \<notin> fst ` set kvs \<Longrightarrow> obj_get kvs k = JUndef"
  by (simp add: obj_get_def map_of_eq_None_iff [THEN iffD2])

lemma obj_get_append: "obj_get (a @ b) k = (if k \<in> fst ` set a then obj_get a k else obj_get b k)"
proof (cases "map_of a k")
  case None
  then have "k \<notin> fst ` set a" by (simp add: map_of_eq_None_iff)
  with None show ?thesis by (simp add: obj_get_def map_add_def)
next
  case (Some v)
  then have "k \<in> fst ` set a" using map_of_SomeD by force
  with Some show ?thesis by (simp add: obj_get_def map_add_def)
qed

lemma obj_get_spread:
  "obj_get (js_spread a b) k = (if k \<in> fst ` set b then obj_get (rev b) k else obj_get a k)"
proof (cases "map_of (rev b) k")
  case None
  then have "k \<notin> fst ` set b" by (simp add: map_of_eq_None_iff)
  with None show ?thesis by (simp add: obj_get_def map_of_js_spread)
next
  case (Some v)
  then have "k \<in> fst ` set b" using map_of_SomeD by force
  with Some show ?thesis by (simp add: obj_get_def map_of_js_spread)
qed

lemmas obj_get_simps = obj_get_Cons obj_get_map_set obj_get_spread

text \<open>The keys of the fields for mentions.\<close>

lemma mention_fields_keys: "fst ` set (mention_fields s) = {''format'', ''formatted_body'', ''m.mentions''}"
  by (cases s) (simp add: mention_fields_def)

lemma obj_get_caption_fields:
  "k \<notin> {''format'', ''formatted_body'', ''m.mentions''} \<Longrightarrow>
     obj_get (caption_fields hs inp @ kvs) k = obj_get kvs k"
  by (auto simp: obj_get_append caption_fields_def mention_fields_keys split: prod.splits if_splits)

lemma obj_get_text_content:
  "k \<notin> {''format'', ''formatted_body'', ''m.mentions''} \<Longrightarrow>
     obj_get (buildMessageContent hs r message mentions) k =
       obj_get [(''body'', JStr message), (''msgtype'', JStr ''m.text'')] k"
  by (auto simp: buildMessageContent_def obj_get_append obj_get_Cons obj_get_none mention_fields_keys)

lemma obj_get_media_content:
  "k \<notin> {''format'', ''formatted_body'', ''m.mentions''} \<Longrightarrow>
     obj_get (media_content hs inp mt thumb fileEntry) k =
       obj_get [(''msgtype'', JStr (msgtype_value mt)), (''body'', JStr (nullish (sm_caption inp) '''')),
         (''filename'', JStr (sm_fileName inp)),
         (''info'', JObj (thumb @ [(''mimetype'', JStr (sm_fileType inp)), (''size'', JNum (sm_fileSize inp))])),
         fileEntry] k"
  by (auto simp: media_content_def obj_get_Cons obj_get_caption_fields)

lemma promise_all_same:
  assumes "promise_all (map p xs) w = (Inr ys, w')"
    and "\<And>x y w w'. p x w = (Inr y, w') \<Longrightarrow> f y = f x"
  shows "map f ys = map f xs"
  using assms(1)
proof (induction xs arbitrary: w ys)
  case (Cons x xs)
  then show ?case
    using assms(2) by (auto split: prod.splits sum.splits)
qed simp

lemma process_threads_same:
  assumes "process_threads p ts w = (Inr mss, w')"
    and "\<And>x y w w'. p x w = (Inr y, w') \<Longrightarrow> f y = f x"
  shows "map f (concat mss) = map f (concat (map snd ts))"
  using assms(1)
proof (induction ts arbitrary: w mss)
  case (Cons t ts)
  then show ?case
    using promise_all_same [OF _ assms(2)] by (cases t) (fastforce simp: await_Inr_iff ret_apply)
qed (simp add: ret_apply)

lemma complete_message_keeps:
  assumes "complete_message M r event edited m w = (Inr m', w')"
  shows "mg_messageId m' = mg_messageId m" and "mg_timestamp m' = mg_timestamp m"
  using assms by (auto simp: complete_message_def Let_def await_Inr_iff ret_apply)

lemma ms_list_Inr:
  assumes "ms_list n M rcpt limit tok w = Some (Inr (ms, tok'), w')"
  obtains out w1 main threads w2 where
    "cm_listMessages n (ms_client M) (recipient_value rcpt) limit tok w = Some (Inr out, w1)"
    and "promise_all (map (processMessage M (recipient_value rcpt)) (lm_messages out)) w1 = (Inr main, w2)"
    and "process_threads (processMessage M (recipient_value rcpt)) (lm_threads out) w2 = (Inr threads, w')"
    and "ms = sort_key mg_timestamp (main @ concat threads)" and "tok' = lm_nextToken out"
  using assms
  by (auto simp: ms_list_def Let_def loop_await_def once_def await_Inr_iff ret_apply
      split: option.splits prod.splits sum.splits)

text \<open>What a content with a file is read as, type by type.\<close>

lemma media_content_read:
  assumes "fst fileEntry \<in> {''url'', ''file''}" and "fst ` set thumb \<subseteq> {''thumbnail_info'', ''thumbnail_url'', ''thumbnail_file''}"
  shows "\<exists>c info. messageContentFromMessageEvent (JObj (media_content hs inp mt thumb fileEntry)) = Inr c
    \<and> obj_get c ''type'' = JStr (msgtype_value mt) \<and> obj_get c ''isEdited'' = JBool False
    \<and> obj_get c ''info'' = JObj info
    \<and> obj_get info ''filename'' = JStr (sm_fileName inp)
    \<and> obj_get info ''mimeType'' = JStr (sm_fileType inp) \<and> obj_get info ''size'' = JNum (sm_fileSize inp)
    \<and> obj_get c ''uri'' = (if fst fileEntry = ''url'' then snd fileEntry else JUndef)
    \<and> obj_get c ''caption'' = (if mt = MT_Audio then JUndef else JStr (nullish (sm_caption inp) ''''))
    \<and> obj_get c ''encryptedFile'' = encrypted_file (JObj [fileEntry])"
proof -
  let ?c = "media_content hs inp mt thumb fileEntry"
  have info: "obj_get (thumb @ kvs) k = obj_get kvs k" if "k \<in> {''mimetype'', ''size'', ''w'', ''h'', ''duration''}" for k kvs
    using that assms(2) by (auto simp: obj_get_append)
  obtain k v where kv: "fileEntry = (k, v)" "k = ''url'' \<or> k = ''file''" using assms(1) by (cases fileEntry) auto
  have reads: "obj_get (media_content hs inp t thumb fileEntry) ''msgtype'' = JStr (msgtype_value t)"
    "obj_get (media_content hs inp t thumb fileEntry) ''m.relates_to'' = JUndef"
    "obj_get (media_content hs inp t thumb fileEntry) ''body'' = JStr (nullish (sm_caption inp) '''')"
    "obj_get (media_content hs inp t thumb fileEntry) ''filename'' = JStr (sm_fileName inp)"
    "obj_get (media_content hs inp t thumb fileEntry) ''url'' = (if k = ''url'' then v else JUndef)"
    "obj_get (media_content hs inp t thumb fileEntry) ''caption'' = JUndef"
    "obj_get (media_content hs inp t thumb fileEntry) ''info'' =
       JObj (thumb @ [(''mimetype'', JStr (sm_fileType inp)), (''size'', JNum (sm_fileSize inp))])" for t
    using kv by (auto simp: obj_get_media_content obj_get_Cons)
  have enc: "encrypted_file (JObj (media_content hs inp t thumb fileEntry)) = encrypted_file (JObj [fileEntry])" for t
    using kv by (auto simp: encrypted_file_def obj_get_media_content obj_get_Cons)
  have base: "shown_content (JObj (media_content hs inp t thumb fileEntry)) = JObj (media_content hs inp t thumb fileEntry)"
    "\<not> is_edit (JObj (media_content hs inp t thumb fileEntry))" for t
    by (simp_all add: shown_content_def is_edit_def reads)
  let ?fields = "case mt of MT_Image \<Rightarrow> getImageContent (JObj ?c) | MT_File \<Rightarrow> getFileContent (JObj ?c)
      | MT_Audio \<Rightarrow> getAudioContent (JObj ?c) | MT_Video \<Rightarrow> getVideoContent (JObj ?c)"
  let ?m = "js_spread [(''type'', JStr (msgtype_value mt)), (''isEdited'', JBool False)] ?fields"
  have "messageContentFromMessageEvent (JObj ?c) = Inr ?m"
    by (cases mt)
       (simp_all add: messageContentFromMessageEvent_def base Let_def reads base_content_def js_nullish_def
         thread_of_def reply_of_def spread_if_def)
  moreover have "obj_get ?m ''type'' = JStr (msgtype_value mt)" "obj_get ?m ''isEdited'' = JBool False"
    "obj_get ?m ''uri'' = obj_get ?c ''url''"
    "obj_get ?m ''caption'' = (if mt = MT_Audio then JUndef else obj_get ?c ''body'')"
    "obj_get ?m ''encryptedFile'' = encrypted_file (JObj [fileEntry])"
    by (cases mt; simp add: getImageContent_def getFileContent_def getAudioContent_def getVideoContent_def Let_def
        obj_get_spread obj_get_Cons reads enc)+
  moreover have "\<exists>info. obj_get ?m ''info'' = JObj info \<and> obj_get info ''filename'' = JStr (sm_fileName inp)
    \<and> obj_get info ''mimeType'' = JStr (sm_fileType inp) \<and> obj_get info ''size'' = JNum (sm_fileSize inp)"
    by (cases mt; simp add: getImageContent_def getFileContent_def getAudioContent_def getVideoContent_def Let_def
        obj_get_spread obj_get_Cons reads info file_name_def js_nullish_def)
  ultimately show ?thesis using kv reads by auto
qed

text \<open>What sending a file did when it succeeded: the last upload, and the content made from it.\<close>

lemma generateThumbnail_keeps:
  assumes "generateThumbnail T inp w = (Inr inp', w')"
  shows "\<exists>t i. inp' = inp\<lparr>sm_thumbnail := t, sm_thumbnailInfo := i\<rparr>"
proof (cases "sm_thumbnail inp \<noteq> None \<and> truthy_str (map_option ti_blurHash (sm_thumbnailInfo inp))")
  case True
  with assms have "inp' = inp" by (simp add: generateThumbnail_def ret_apply)
  then show ?thesis by (intro exI [of _ "sm_thumbnail inp"] exI [of _ "sm_thumbnailInfo inp"]) simp
next
  case False
  with assms show ?thesis
    by (simp only: generateThumbnail_def if_False await_Inr_iff, elim exE conjE)
      (auto simp: ret_apply throw_apply split: option.split_asm if_split_asm)
qed

lemma handleUnencryptedFile_Inr:
  assumes "handleUnencryptedFile M T inp mt w = (Inr content, w')"
  obtains thumb uri w1 where
    "uploadMediaFile (mt_env T) (sm_mediaCredential inp) (sm_file inp) (sm_fileName inp) (sm_fileType inp) w1 = (Inr uri, w')"
    and "content = media_content (homeServer_of M) inp mt thumb (''url'', JStr uri)"
    and "fst ` set thumb \<subseteq> {''thumbnail_info'', ''thumbnail_url'', ''thumbnail_file''}"
  using assms
  by (auto simp: handleUnencryptedFile_def await_Inr_iff ret_apply thumbnail_info_def split: option.splits)

lemma handleEncryptedFile_Inr:
  assumes "handleEncryptedFile M T inp mt w = (Inr content, w')"
  obtains thumb d info uri w1 w2 where
    "ms_encryptAttachment M (sm_file inp) w1 = (Inr (d, info), w2)"
    and "uploadMediaFile (mt_env T) (sm_mediaCredential inp) d (sm_fileName inp) (sm_fileType inp) w2 = (Inr uri, w')"
    and "content = media_content (homeServer_of M) inp mt thumb
           (''file'', JObj (js_spread info [(''url'', JStr uri)]))"
    and "fst ` set thumb \<subseteq> {''thumbnail_info'', ''thumbnail_url'', ''thumbnail_file''}"
  using assms
  by (auto simp: handleEncryptedFile_def await_Inr_iff ret_apply thumbnail_info_def split: option.splits)

lemma ms_sendMedia_Inr:
  assumes "ms_sendMedia M inp w = (Inr (), w')" and "ms_media M = Some T"
    and "sm_threadId inp = None" and "sm_replyToMessageId inp = None"
  obtains inp' t i content w1 w2 where "inp' = inp\<lparr>sm_thumbnail := t, sm_thumbnailInfo := i\<rparr>"
    and "(case sm_recipient inp of
            ChannelId _ \<Rightarrow> handleUnencryptedFile M T inp' (getMsgType (sm_fileType inp))
          | _ \<Rightarrow> handleEncryptedFile M T inp' (getMsgType (sm_fileType inp))) w1 = (Inr content, w2)"
    and "cm_sendMessage (ms_client M) (recipient_value (sm_recipient inp)) content w2 = (Inr (), w')"
proof -
  let ?pre = "if getMsgType (sm_fileType inp) = MT_Image \<or> getMsgType (sm_fileType inp) = MT_Video
      then generateThumbnail T inp else ret (inp\<lparr>sm_thumbnail := None, sm_thumbnailInfo := None\<rparr>)"
  from assms obtain inp' content w1 w2 where pre: "?pre w = (Inr inp', w1)"
    and file': "(case sm_recipient inp of
            ChannelId _ \<Rightarrow> handleUnencryptedFile M T inp' (getMsgType (sm_fileType inp))
          | _ \<Rightarrow> handleEncryptedFile M T inp' (getMsgType (sm_fileType inp))) w1 = (Inr content, w2)"
    and sent: "cm_sendMessage (ms_client M) (recipient_value (sm_recipient inp)) content w2 = (Inr (), w')"
    by (auto simp: ms_sendMedia_def Let_def await_Inr_iff truthy_str_def)
  have "\<exists>t i. inp' = inp\<lparr>sm_thumbnail := t, sm_thumbnailInfo := i\<rparr>"
    using pre generateThumbnail_keeps [of T inp w inp' w1] by (auto simp: ret_apply split: if_splits)
  then show ?thesis using that file' sent by blast
qed

text \<open>A service over a store of objects, whose encryption marks a content with a first byte.\<close>

definition demo_tools :: "(string \<times> string \<rightharpoonup> bytes) media_tools" where
  "demo_tools = \<lparr>mt_env = store_env, mt_thumbnail = (\<lambda>_ _. ret None)\<rparr>"

definition demo_service :: "(string \<times> string \<rightharpoonup> bytes) messaging_service" where
  "demo_service =
     \<lparr>ms_client = demo_messages demo_events, ms_polls = demo_poll demo_pages [], ms_media = Some demo_tools,
      ms_encryptAttachment = (\<lambda>f. ret (1 # f, []))\<rparr>"

definition demo_file :: SendMediaInput where
  "demo_file =
     \<lparr>sm_recipient = ChatId ''!r:hs'', sm_file = [7], sm_fileName = ''a.txt'', sm_fileType = ''text/plain'',
      sm_fileSize = 1, sm_mediaCredential = store_credential, sm_caption = Some ''look'', sm_mentions = None,
      sm_thumbnail = None, sm_thumbnailInfo = None, sm_threadId = None, sm_replyToMessageId = None\<rparr>"

lemma demo_messages_sel:
  "mc_replacements (demo_messages es) r i w = None" "mc_annotations (demo_messages es) r i w = None"
  "mc_receipts (demo_messages es) r e w = None"
  "cm_getRoom (mc_rooms (demo_messages es)) ''!r:hs'' w = (Inr (Some demo_room), w)"
  by (simp_all add: demo_messages_def cm_getRoom_def or_fail_def io_simps demo_room_def)

lemma demo_about:
  "cm_getReplacements (demo_messages es) ''!r:hs'' i w = (Inr [], w)"
  "cm_getReactions (demo_messages es) ''!r:hs'' i w = (Inr [], w)"
  "cm_getReadReceipts (demo_messages es) ''!r:hs'' (Some e) j w = (Inr [], w)"
  by (simp_all add: cm_getReplacements_def cm_getReactions_def cm_getReadReceipts_def need_room_def or_fail_def
      io_simps demo_user_and_room peek_def demo_messages_sel)

lemma demo_process:
  "processMessage demo_service ''!r:hs'' (demo_message ts i) w = (Inr (demo_message ts i), w)"
  by (simp add: processMessage_def complete_message_def demo_service_def promise_both_def demo_about io_simps
      Let_def list_edited_def demo_message_def)

lemma demo_page_list:
  "ms_list 2 demo_service (ChatId ''!r:hs'') (Some 4) None w =
     Some (Inr ([demo_message 2 ''b'', demo_message 3 ''c'', demo_message 4 ''a''], None), w)"
proof -
  have client: "ms_client demo_service = demo_messages demo_events" by (simp add: demo_service_def)
  have "sort_key mg_timestamp [demo_message 4 ''a'', demo_message 2 ''b'', demo_message 3 ''c''] =
      [demo_message 2 ''b'', demo_message 3 ''c'', demo_message 4 ''a'']"
    by (simp add: demo_message_def)
  then show ?thesis
    by (simp add: ms_list_def client demo_listing loop_await_def once_def await_def demo_process ret_apply)
qed

section \<open>Properties\<close>

text \<open>
  C8: A page of messages is complete and in order. The list a handle reads is sorted from the
  oldest to the newest message, and holds exactly the messages of the page, those of the main
  timeline and those of every thread, with its token.
\<close>

theorem list_complete_sorted:
  assumes "ms_list n M rcpt limit tok w = Some (Inr (ms, tok'), w')"
  shows "sorted (map mg_timestamp ms)
    \<and> (\<exists>out w1. cm_listMessages n (ms_client M) (recipient_value rcpt) limit tok w = Some (Inr out, w1)
        \<and> tok' = lm_nextToken out
        \<and> mset (map mg_messageId ms) = mset (map mg_messageId (lm_messages out @ concat (map snd (lm_threads out)))))"
proof -
  obtain out w1 main threads w2 where
    out: "cm_listMessages n (ms_client M) (recipient_value rcpt) limit tok w = Some (Inr out, w1)"
    and main: "promise_all (map (processMessage M (recipient_value rcpt)) (lm_messages out)) w1 = (Inr main, w2)"
    and threads: "process_threads (processMessage M (recipient_value rcpt)) (lm_threads out) w2 = (Inr threads, w')"
    and ms: "ms = sort_key mg_timestamp (main @ concat threads)" "tok' = lm_nextToken out"
    using assms by (rule ms_list_Inr)
  have "map mg_messageId main = map mg_messageId (lm_messages out)"
    using promise_all_same [OF main] complete_message_keeps by (metis processMessage_def)
  moreover have "map mg_messageId (concat threads) = map mg_messageId (concat (map snd (lm_threads out)))"
    using process_threads_same [OF threads] complete_message_keeps by (metis processMessage_def)
  ultimately have "mset (map mg_messageId (main @ concat threads)) =
      mset (map mg_messageId (lm_messages out @ concat (map snd (lm_threads out))))"
    by simp
  then show ?thesis using out ms by (metis mset_map mset_sort sorted_sort_key)
qed

theorem list_complete_sorted_witness:
  "sorted (map mg_timestamp [demo_message 2 ''b'', demo_message 3 ''c'', demo_message 4 ''a''])"
  using list_complete_sorted [OF demo_page_list] by blast



text \<open>
  C38: A mention turns every occurrence of the name into a link, and nothing else. For one
  mentioned handle whose id, name and server have no dollar sign, the formatted text is the
  message cut at the occurrences of the displayed name and joined with the link; joined with
  the name itself the parts are the message. The mentioned user is the handle's.
\<close>

theorem mention_links:
  assumes "CHR ''$'' \<notin> set (handleId @ name @ hs)"
  shows "let user = ''@'' @ handleId @ '':'' @ hs; shown = ''@'' @ name; parts = split_from shown 0 message
    in handleMentions hs message [HandleMentionEntity handleId name] r =
         (join_with (link_to user shown) parts, [user], False)
       \<and> join_with shown parts = message"
proof -
  have "CHR ''$'' \<notin> set (link_to (''@'' @ handleId @ '':'' @ hs) (''@'' @ name))"
    using assms by (simp add: link_to_def)
  then show ?thesis
    using split_from_join [of "''@'' @ name" 0 message]
    by (simp add: handleMentions_def handle_mention_def Let_def replace_every_split)
qed

theorem mention_links_witness:
  "handleMentions ''hs'' ''hi @bob'' [HandleMentionEntity ''b1'' ''bob''] ''!r'' =
     (''hi '' @ link_to ''@b1:hs'' ''@bob'', [''@b1:hs''], False)"
  using mention_links [of "''b1''" "''bob''" "''hs''" "''hi @bob''" "''!r''"]
  by (simp add: Let_def starts_with_def)

text \<open>
  The sender of a message cannot be mentioned by the id the message shows. The handle id
  that a message read from an event gives its sender is the Matrix user id; a mention of it
  prefixes and suffixes it again, and names a user that is not the sender.
\<close>

theorem sender_mention_wrong:
  assumes "message_fromMatrixToEntity me event = Inr (Some m)" and "ev_sender event = Some u"
  shows "fst (snd (handleMentions hs text [HandleMentionEntity (he_handleId (mg_senderHandle m)) name] r)) =
      [''@'' @ u @ '':'' @ hs] \<and> ''@'' @ u @ '':'' @ hs \<noteq> u"
proof -
  have "he_handleId (mg_senderHandle m) = u"
    using assms by (auto simp: message_fromMatrixToEntity_def sum_bind_Inr_iff split: if_splits)
  moreover have "length (''@'' @ u @ '':'' @ hs) \<noteq> length u" by simp
  then have "''@'' @ u @ '':'' @ hs \<noteq> u" by metis
  ultimately show ?thesis by (simp add: handleMentions_def handle_mention_def Let_def)
qed

theorem sender_mention_wrong_witness:
  "fst (snd (handleMentions ''hs'' ''@bob hi''
      [HandleMentionEntity (he_handleId (mg_senderHandle (demo_message 1 ''a''))) ''bob''] ''!r'')) =
     [''@@bob:hs:hs''] \<and> ''@@bob:hs:hs'' \<noteq> ''@bob:hs''"
proof -
  have "ev_sender (demo_event 1 ''a'') = Some ''@bob:hs''" by (simp add: demo_event_def)
  from sender_mention_wrong [OF demo_fromMatrix this, where hs = "''hs''"] show ?thesis by simp
qed

text \<open>
  C6: A file for anyone but a channel leaves the device encrypted only. If two media services
  differ only in what the object store does with contents that are not a cipher text of the
  attachment encryption, sending media to a group or direct chat gives the same outcome with
  both: no other content is uploaded, neither the file nor its thumbnail.
\<close>

theorem private_media_encrypted:
  assumes "\<And>c. sm_recipient inp \<noteq> ChannelId c"
    and "\<And>region cred po w. (\<exists>f w1 info w2. ms_encryptAttachment M f w1 = (Inr (po_body po, info), w2)) \<Longrightarrow>
          env_s3_put E region cred po w = put' region cred po w"
    and "ms_media M = Some T" and "mt_env T = E"
  shows "ms_sendMedia (M\<lparr>ms_media := Some (T\<lparr>mt_env := E\<lparr>env_s3_put := put'\<rparr>\<rparr>)\<rparr>) inp w = ms_sendMedia M inp w"
proof -
  let ?T' = "T\<lparr>mt_env := E\<lparr>env_s3_put := put'\<rparr>\<rparr>"
  let ?M' = "M\<lparr>ms_media := Some ?T'\<rparr>"
  have upload: "uploadMediaFile (E\<lparr>env_s3_put := put'\<rparr>) cred d fname ftype w = uploadMediaFile E cred d fname ftype w"
    if "ms_encryptAttachment M f w1 = (Inr (d, info), w2)" for cred d fname ftype w f w1 info w2
  proof -
    have "env_s3_put E region c po w = put' region c po w" if "po_body po = d" for region c po w
      using assms(2) [of po] that \<open>ms_encryptAttachment M f w1 = _\<close> by blast
    then show ?thesis
      by (simp add: uploadMediaFile_def await_def s3_upload_def getBase64EncodedMd5Hash_def cong: sum.case_cong)
  qed
  have same_file: "handleEncryptedFile ?M' ?T' i mt w = handleEncryptedFile M T i mt w" for i mt w
    using upload assms(4)
    by (auto simp: handleEncryptedFile_def await_def homeServer_of_def ret_def split: prod.splits sum.splits option.splits)
  have thumb: "generateThumbnail ?T' i = generateThumbnail T i" for i
    by (simp add: generateThumbnail_def)
  show ?thesis
    using assms(1,3) same_file thumb
    by (auto simp: ms_sendMedia_def Let_def await_def split: Recipient.splits prod.splits sum.splits)
qed

theorem private_media_encrypted_witness:
  "\<exists>put'. (\<forall>region cred po w. po_body po = [7] \<longrightarrow> put' region cred po w = (Inl (''E'', ''refused''), w))
    \<and> ms_sendMedia (demo_service\<lparr>ms_media := Some (demo_tools\<lparr>mt_env := store_env\<lparr>env_s3_put := put'\<rparr>\<rparr>)\<rparr>) demo_file Map.empty =
        ms_sendMedia demo_service demo_file Map.empty"
proof -
  let ?put = "\<lambda>region cred po w. if take 1 (po_body po) = [1] then env_s3_put store_env region cred po w
      else (Inl (''E'', ''refused''), w)"
  have "ms_sendMedia (demo_service\<lparr>ms_media := Some (demo_tools\<lparr>mt_env := store_env\<lparr>env_s3_put := ?put\<rparr>\<rparr>)\<rparr>)
      demo_file Map.empty = ms_sendMedia demo_service demo_file Map.empty"
    by (rule private_media_encrypted)
       (auto simp: demo_file_def demo_service_def demo_tools_def ret_def dest!: sym [of "_ # _" "po_body _"])
  moreover have "po_body po = [7] \<longrightarrow> ?put region cred po w = (Inl (''E'', ''refused''), w)" for region cred po w
    by simp
  ultimately show ?thesis by (intro exI [of _ ?put]) blast
qed

text \<open>
  What is sent is what is read, except for the caption of audio. The content of a file
  sent to a channel or, encrypted, to anyone else is read back with its type, its name, its
  media type and size, and the place it was uploaded to; the caption is read back for every
  type but audio, whose caption is lost.
\<close>

theorem media_read_back:
  assumes "fst fileEntry \<in> {''url'', ''file''}" and "fst ` set thumb \<subseteq> {''thumbnail_info'', ''thumbnail_url'', ''thumbnail_file''}"
  shows "\<exists>c info. messageContentFromMessageEvent (JObj (media_content hs inp mt thumb fileEntry)) = Inr c
    \<and> obj_get c ''type'' = JStr (msgtype_value mt) \<and> obj_get c ''isEdited'' = JBool False
    \<and> obj_get c ''info'' = JObj info
    \<and> obj_get info ''filename'' = JStr (sm_fileName inp)
    \<and> obj_get info ''mimeType'' = JStr (sm_fileType inp) \<and> obj_get info ''size'' = JNum (sm_fileSize inp)
    \<and> obj_get c ''uri'' = (if fst fileEntry = ''url'' then snd fileEntry else JUndef)
    \<and> obj_get c ''caption'' = (if mt = MT_Audio then JUndef else JStr (nullish (sm_caption inp) ''''))"
  using media_content_read [OF assms, of hs inp mt] by blast

theorem media_read_back_witness:
  "\<exists>c. messageContentFromMessageEvent
        (JObj (media_content ''hs'' demo_file MT_Audio [] (''url'', JStr ''mxc://x/1''))) = Inr c
    \<and> obj_get c ''uri'' = JStr ''mxc://x/1'' \<and> obj_get c ''caption'' = JUndef"
  using media_read_back [of "(''url'', JStr ''mxc://x/1'')" "[]" "''hs''" demo_file MT_Audio] by auto

text \<open>
  C37: Threads and replies are read back. The event of a thread message or of a reply, whatever
  its text, its mentions and the sender it answers, is read as a text message with that
  text, in that thread or in reply to that message.
\<close>

theorem thread_and_reply_read_back:
  assumes "i \<noteq> ''''"
  shows "(\<exists>c. messageContentFromMessageEvent (JObj (thread_content i sender (buildMessageContent hs r text mentions))) = Inr c
      \<and> obj_get c ''text'' = JStr text \<and> obj_get c ''threadId'' = JStr i \<and> obj_get c ''repliedToMessageId'' = JUndef)
    \<and> (\<exists>c. messageContentFromMessageEvent (JObj (reply_content i sender (buildMessageContent hs r text mentions))) = Inr c
      \<and> obj_get c ''text'' = JStr text \<and> obj_get c ''threadId'' = JUndef \<and> obj_get c ''repliedToMessageId'' = JStr i)"
proof -
  let ?b = "buildMessageContent hs r text mentions"
  have b: "obj_get ?b ''msgtype'' = JStr ''m.text''" "obj_get ?b ''body'' = JStr text"
    by (simp_all add: obj_get_text_content obj_get_Cons)
  have "messageContentFromMessageEvent (JObj (thread_content i sender ?b)) =
      Inr [(''type'', JStr ''m.text''), (''isEdited'', JBool False), (''threadId'', JStr i), (''text'', JStr text)]"
    using assms
    by (simp add: messageContentFromMessageEvent_def thread_content_def shown_content_def is_edit_def Let_def
        obj_get_simps b base_content_def js_nullish_def thread_of_def reply_of_def spread_if_def)
       (simp add: js_spread_def)
  moreover have "messageContentFromMessageEvent (JObj (reply_content i sender ?b)) =
      Inr [(''type'', JStr ''m.text''), (''isEdited'', JBool False), (''repliedToMessageId'', JStr i),
           (''text'', JStr text)]"
    using assms
    by (simp add: messageContentFromMessageEvent_def reply_content_def shown_content_def is_edit_def Let_def
        obj_get_simps b base_content_def js_nullish_def thread_of_def reply_of_def spread_if_def)
       (simp add: js_spread_def)
  ultimately show ?thesis by (simp add: obj_get_Cons)
qed

theorem thread_and_reply_read_back_witness:
  "\<exists>c. messageContentFromMessageEvent (JObj (thread_content ''$t'' None
        (buildMessageContent ''hs'' (ChatId ''!r'') ''hi'' [ChatMentionEntity]))) = Inr c
     \<and> obj_get c ''threadId'' = JStr ''$t''"
  using thread_and_reply_read_back [of "''$t''" None "''hs''" "ChatId ''!r''" "''hi''" "[ChatMentionEntity]"] by auto

end
