(* ===== verification/MessageUseCases.thy ===== *)
theory MessageUseCases
  imports Messaging
begin

text \<open>
  The use cases of \<open>src/private/domain/use-cases/messaging\<close>: each takes the Matrix client of
  the handle from the session manager, makes a messaging service over it (with a media
  service for media only), and calls one operation.
\<close>

text \<open>
  \<open>me_client\<close> is \<open>SessionManager.getMatrixClient\<close>, seen as the two halves of the client that
  messages and polls use.
\<close>

record 'w messaging_env =
  me_client :: "handle_id \<Rightarrow> ('w, 'w message_client \<times> 'w poll_client) io"
  me_tools :: "'w media_tools"
  me_encryptAttachment :: "bytes \<Rightarrow> ('w, bytes \<times> json_object) io"

definition service_over ::
    "'w messaging_env \<Rightarrow> 'w media_tools option \<Rightarrow> 'w message_client \<times> 'w poll_client \<Rightarrow>
     'w messaging_service" where
  "service_over E media c =
     \<lparr>ms_client = fst c, ms_polls = snd c, ms_media = media,
      ms_encryptAttachment = me_encryptAttachment E\<rparr>"

definition with_messaging ::
    "'w messaging_env \<Rightarrow> handle_id \<Rightarrow> ('w messaging_service \<Rightarrow> ('w, 'a) io) \<Rightarrow> ('w, 'a) io" where
  "with_messaging E handleId f = await (me_client E handleId) (\<lambda>c. f (service_over E None c))"

definition with_messaging_loop ::
    "'w messaging_env \<Rightarrow> handle_id \<Rightarrow> ('w messaging_service \<Rightarrow> ('w, 'a) loop_io) \<Rightarrow> ('w, 'a) loop_io" where
  "with_messaging_loop E handleId f =
     loop_await (once (me_client E handleId)) (\<lambda>c. f (service_over E None c))"

section \<open>Messages\<close>

definition ucm_sendMessage ::
    "'w messaging_env \<Rightarrow> handle_id \<Rightarrow> Recipient \<Rightarrow> string \<Rightarrow> MessageMentionEntity list \<Rightarrow> ('w, unit) io" where
  "ucm_sendMessage E handleId recipient message mentions =
     with_messaging E handleId (\<lambda>M. ms_sendMessage M recipient message mentions)"

definition ucm_sendThreadMessage ::
    "'w messaging_env \<Rightarrow> handle_id \<Rightarrow> Recipient \<Rightarrow> event_id \<Rightarrow> string \<Rightarrow> MessageMentionEntity list \<Rightarrow>
     ('w, unit) io" where
  "ucm_sendThreadMessage E handleId recipient threadId message mentions =
     with_messaging E handleId (\<lambda>M. ms_sendThread M recipient threadId message mentions)"

definition ucm_sendReplyMessage ::
    "'w messaging_env \<Rightarrow> handle_id \<Rightarrow> Recipient \<Rightarrow> event_id \<Rightarrow> string \<Rightarrow> MessageMentionEntity list \<Rightarrow>
     ('w, unit) io" where
  "ucm_sendReplyMessage E handleId recipient replyToMessageId message mentions =
     with_messaging E handleId (\<lambda>M. ms_sendReply M recipient replyToMessageId message mentions)"

definition ucm_editMessage ::
    "'w messaging_env \<Rightarrow> handle_id \<Rightarrow> Recipient \<Rightarrow> event_id \<Rightarrow> string \<Rightarrow> ('w, unit) io" where
  "ucm_editMessage E handleId recipient messageId message =
     with_messaging E handleId (\<lambda>M. ms_edit M recipient messageId message)"

definition ucm_deleteMessage ::
    "'w messaging_env \<Rightarrow> handle_id \<Rightarrow> Recipient \<Rightarrow> event_id \<Rightarrow> RedactReasonEntity option \<Rightarrow> ('w, unit) io" where
  "ucm_deleteMessage E handleId recipient messageId reason =
     with_messaging E handleId (\<lambda>M. ms_delete M recipient messageId reason)"

definition ucm_getMessage ::
    "'w messaging_env \<Rightarrow> handle_id \<Rightarrow> Recipient \<Rightarrow> event_id \<Rightarrow> ('w, MessageEntity option) io" where
  "ucm_getMessage E handleId recipient messageId =
     with_messaging E handleId (\<lambda>M. ms_get M recipient messageId)"

definition ucm_getMessages ::
    "nat \<Rightarrow> 'w messaging_env \<Rightarrow> handle_id \<Rightarrow> Recipient \<Rightarrow> int option \<Rightarrow> string option \<Rightarrow>
     ('w, MessageEntity list \<times> string option) loop_io" where
  "ucm_getMessages fuel E handleId recipient limit nextToken =
     with_messaging_loop E handleId (\<lambda>M. ms_list fuel M recipient limit nextToken)"

definition ucm_getPinnedMessages ::
    "'w messaging_env \<Rightarrow> handle_id \<Rightarrow> Recipient \<Rightarrow> ('w, MessageEntity list) io" where
  "ucm_getPinnedMessages E handleId recipient =
     with_messaging E handleId (\<lambda>M. ms_getPinnedMessages M recipient)"

definition ucm_searchMessages ::
    "'w messaging_env \<Rightarrow> handle_id \<Rightarrow> string \<Rightarrow> int option \<Rightarrow> string option \<Rightarrow>
     ('w, SearchMessagesItemEntity list \<times> string option) io" where
  "ucm_searchMessages E handleId searchText limit nextToken =
     with_messaging E handleId (\<lambda>M. ms_searchMessages M searchText limit nextToken)"

definition ucm_getChatSummaries ::
    "'w messaging_env \<Rightarrow> handle_id \<Rightarrow> Recipient list \<Rightarrow> ('w, ChatSummaryEntity list) io" where
  "ucm_getChatSummaries E handleId recipients =
     with_messaging E handleId (\<lambda>M. ms_getChatSummaries M recipients)"

definition ucm_markAsRead :: "'w messaging_env \<Rightarrow> handle_id \<Rightarrow> Recipient \<Rightarrow> ('w, unit) io" where
  "ucm_markAsRead E handleId recipient = with_messaging E handleId (\<lambda>M. ms_markAsRead M recipient)"

definition ucm_markAsUnread :: "'w messaging_env \<Rightarrow> handle_id \<Rightarrow> Recipient \<Rightarrow> ('w, unit) io" where
  "ucm_markAsUnread E handleId recipient = with_messaging E handleId (\<lambda>M. ms_markAsUnread M recipient)"

definition ucm_sendTypingNotification ::
    "'w messaging_env \<Rightarrow> handle_id \<Rightarrow> Recipient \<Rightarrow> bool \<Rightarrow> ('w, unit) io" where
  "ucm_sendTypingNotification E handleId recipient isTyping =
     with_messaging E handleId (\<lambda>M. ms_sendTypingNotification M recipient isTyping)"

definition ucm_toggleReaction ::
    "'w messaging_env \<Rightarrow> handle_id \<Rightarrow> Recipient \<Rightarrow> event_id \<Rightarrow> string \<Rightarrow> ('w, unit) io" where
  "ucm_toggleReaction E handleId recipient messageId content =
     with_messaging E handleId (\<lambda>M. ms_toggleReaction M recipient messageId content)"

definition ucm_pinUnpinMessage ::
    "'w messaging_env \<Rightarrow> handle_id \<Rightarrow> Recipient \<Rightarrow> event_id \<Rightarrow> ('w, unit) io" where
  "ucm_pinUnpinMessage E handleId recipient messageId =
     with_messaging E handleId (\<lambda>M. ms_pinUnpinMessage M recipient messageId)"

section \<open>Media\<close>

text \<open>The input's credential is the one fetched here, whatever it holds.\<close>

definition ucm_sendMedia ::
    "'w messaging_env \<Rightarrow> media_cache \<Rightarrow> handle_id \<Rightarrow> SendMediaInput \<Rightarrow> ('w, media_cache) io" where
  "ucm_sendMedia E cache handleId inp =
     await (me_client E handleId) (\<lambda>c.
     await (getRoomMediaCredential (mt_env (me_tools E)) cache handleId True
              (recipient_value (sm_recipient inp))) (\<lambda>(mediaCredential, cache').
     await (ms_sendMedia (service_over E (Some (me_tools E)) c)
              (inp\<lparr>sm_mediaCredential := mediaCredential\<rparr>)) (\<lambda>_.
       ret cache')))"

definition ucm_editMediaCaption ::
    "'w messaging_env \<Rightarrow> media_cache \<Rightarrow> handle_id \<Rightarrow> Recipient \<Rightarrow> event_id \<Rightarrow> string \<Rightarrow>
     MessageMentionEntity list option \<Rightarrow> ('w, media_cache) io" where
  "ucm_editMediaCaption E cache handleId recipient messageId caption mentions =
     await (me_client E handleId) (\<lambda>c.
     await (getRoomMediaCredential (mt_env (me_tools E)) cache handleId True (recipient_value recipient))
       (\<lambda>(_, cache').
     await (ms_editMediaCaption (service_over E (Some (me_tools E)) c) recipient messageId caption
              (nullish mentions [])) (\<lambda>_.
       ret cache')))"

section \<open>Polls\<close>

definition ucm_createPoll ::
    "'w messaging_env \<Rightarrow> handle_id \<Rightarrow> Recipient \<Rightarrow> PollTypeEntity \<Rightarrow> string \<Rightarrow> string list \<Rightarrow> int \<Rightarrow>
     ('w, unit) io" where
  "ucm_createPoll E handleId recipient type question answers maxSelections =
     with_messaging E handleId (\<lambda>M. ms_createPoll M recipient type question answers maxSelections)"

definition ucm_sendPollResponse ::
    "'w messaging_env \<Rightarrow> handle_id \<Rightarrow> Recipient \<Rightarrow> event_id \<Rightarrow> string list \<Rightarrow> ('w, unit) io" where
  "ucm_sendPollResponse E handleId recipient pollId answers =
     with_messaging E handleId (\<lambda>M. ms_sendPollResponse M recipient pollId answers)"

definition ucm_editPoll ::
    "'w messaging_env \<Rightarrow> handle_id \<Rightarrow> Recipient \<Rightarrow> event_id \<Rightarrow> PollTypeEntity \<Rightarrow> string \<Rightarrow> string list \<Rightarrow>
     int \<Rightarrow> ('w, unit) io" where
  "ucm_editPoll E handleId recipient pollId type question answers maxSelections =
     with_messaging E handleId (\<lambda>M. ms_editPoll M recipient pollId type question answers maxSelections)"

definition ucm_endPoll :: "'w messaging_env \<Rightarrow> handle_id \<Rightarrow> Recipient \<Rightarrow> event_id \<Rightarrow> ('w, unit) io" where
  "ucm_endPoll E handleId recipient pollId = with_messaging E handleId (\<lambda>M. ms_endPoll M recipient pollId)"

definition ucm_getPollResponses ::
    "nat \<Rightarrow> 'w messaging_env \<Rightarrow> handle_id \<Rightarrow> Recipient \<Rightarrow> event_id \<Rightarrow>
     ('w, PollResponsesEntity) loop_io" where
  "ucm_getPollResponses fuel E handleId recipient pollId =
     with_messaging_loop E handleId (\<lambda>M. ms_getPollResponses fuel M recipient pollId)"

end
