(* ===== verification/PublicMessages.thy ===== *)
theory PublicMessages
  imports Timeline
begin

text \<open>
  The copies of messages, chat summaries and search results in the public API, and the
  transformers between them and the entities. A handle of the API has the shape of its
  entity, which stands for both.
\<close>

section \<open>Types of the API\<close>

record MessageReaction =
  mr_content :: string
  mr_count :: int
  mr_senderHandleIds :: "handle_id list"
  mr_eventIds :: "event_id list"

record MessageReceipt =
  mp_timestamp :: int
  mp_handleId :: handle_id

record Message =
  am_messageId :: event_id
  am_state :: MessageState
  am_timestamp :: int
  am_senderHandle :: HandleEntity
  am_isOwn :: bool
  am_content :: json_object
  am_reactions :: "MessageReaction list"
  am_receipts :: "MessageReceipt list"
  am_isVerified :: "bool option"

record ChatSummary =
  cs_recipient :: Recipient
  cs_hasUnreadMessages :: bool
  cs_unreadCount :: unread_counts
  cs_threadUnreadCount :: "(json \<times> unread_counts) list"
  cs_latestMessage :: "Message option"

record SearchMessagesItem =
  sa_messageId :: event_id
  sa_recipient :: string
  sa_senderHandleId :: handle_id
  sa_repliedToMessageId :: json
  sa_body :: json
  sa_filename :: json
  sa_mimeType :: json
  sa_timestamp :: int

section \<open>Transformers\<close>

definition reaction_fromAPIToEntity :: "MessageReaction \<Rightarrow> MessageReactionEntity" where
  "reaction_fromAPIToEntity d =
     \<lparr>rx_content = mr_content d, rx_count = mr_count d, rx_senderHandleIds = mr_senderHandleIds d,
      rx_eventIds = mr_eventIds d\<rparr>"

definition reaction_fromEntityToAPI :: "MessageReactionEntity \<Rightarrow> MessageReaction" where
  "reaction_fromEntityToAPI e =
     \<lparr>mr_content = rx_content e, mr_count = rx_count e, mr_senderHandleIds = rx_senderHandleIds e,
      mr_eventIds = rx_eventIds e\<rparr>"

definition receipt_fromAPIToEntity :: "MessageReceipt \<Rightarrow> MessageReceiptEntity" where
  "receipt_fromAPIToEntity d = \<lparr>rt_timestamp = mp_timestamp d, rt_handleId = mp_handleId d\<rparr>"

definition receipt_fromEntityToAPI :: "MessageReceiptEntity \<Rightarrow> MessageReceipt" where
  "receipt_fromEntityToAPI e = \<lparr>mp_timestamp = rt_timestamp e, mp_handleId = rt_handleId e\<rparr>"

definition message_fromAPIToEntity :: "Message \<Rightarrow> MessageEntity" where
  "message_fromAPIToEntity d =
     \<lparr>mg_messageId = am_messageId d, mg_state = message_state_fromAPIToEntity (am_state d),
      mg_timestamp = am_timestamp d, mg_senderHandle = am_senderHandle d, mg_isOwn = am_isOwn d,
      mg_content = am_content d, mg_reactions = map reaction_fromAPIToEntity (am_reactions d),
      mg_receipts = map receipt_fromAPIToEntity (am_receipts d), mg_isVerified = am_isVerified d\<rparr>"

definition message_fromEntityToAPI :: "MessageEntity \<Rightarrow> Message" where
  "message_fromEntityToAPI e =
     \<lparr>am_messageId = mg_messageId e, am_state = message_state_fromEntityToAPI (mg_state e),
      am_timestamp = mg_timestamp e, am_senderHandle = mg_senderHandle e, am_isOwn = mg_isOwn e,
      am_content = mg_content e, am_reactions = map reaction_fromEntityToAPI (mg_reactions e),
      am_receipts = map receipt_fromEntityToAPI (mg_receipts e), am_isVerified = mg_isVerified e\<rparr>"

definition summary_fromAPIToEntity :: "ChatSummary \<Rightarrow> ChatSummaryEntity" where
  "summary_fromAPIToEntity d =
     \<lparr>cse_recipient = cs_recipient d, cse_hasUnreadMessages = cs_hasUnreadMessages d,
      cse_unreadCount = cs_unreadCount d, cse_threadUnreadCount = cs_threadUnreadCount d,
      cse_latestMessage = map_option message_fromAPIToEntity (cs_latestMessage d)\<rparr>"

definition summary_fromEntityToAPI :: "ChatSummaryEntity \<Rightarrow> ChatSummary" where
  "summary_fromEntityToAPI e =
     \<lparr>cs_recipient = cse_recipient e, cs_hasUnreadMessages = cse_hasUnreadMessages e,
      cs_unreadCount = cse_unreadCount e, cs_threadUnreadCount = cse_threadUnreadCount e,
      cs_latestMessage = map_option message_fromEntityToAPI (cse_latestMessage e)\<rparr>"

definition search_item_fromEntityToAPI :: "SearchMessagesItemEntity \<Rightarrow> SearchMessagesItem" where
  "search_item_fromEntityToAPI e =
     \<lparr>sa_messageId = si_messageId e, sa_recipient = si_recipient e, sa_senderHandleId = si_senderHandleId e,
      sa_repliedToMessageId = si_repliedToMessageId e, sa_body = si_body e, sa_filename = si_filename e,
      sa_mimeType = si_mimeType e, sa_timestamp = si_timestamp e\<rparr>"

section \<open>Nothing is lost between the layers\<close>

interpretation reaction: enum_codec reaction_fromEntityToAPI reaction_fromAPIToEntity
  by unfold_locales (simp_all add: reaction_fromAPIToEntity_def reaction_fromEntityToAPI_def)

interpretation receipt: enum_codec receipt_fromEntityToAPI receipt_fromAPIToEntity
  by unfold_locales (simp_all add: receipt_fromAPIToEntity_def receipt_fromEntityToAPI_def)

interpretation api_message: enum_codec message_fromEntityToAPI message_fromAPIToEntity
  by unfold_locales
     (simp_all add: message_fromAPIToEntity_def message_fromEntityToAPI_def comp_def reaction.dec_enc
       reaction.enc_dec receipt.dec_enc receipt.enc_dec message_state.dec_enc message_state.enc_dec)

interpretation summary: enum_codec summary_fromEntityToAPI summary_fromAPIToEntity
  by unfold_locales
     (simp_all add: summary_fromAPIToEntity_def summary_fromEntityToAPI_def option.map_comp option.map_ident comp_def
       api_message.dec_enc api_message.enc_dec)

end
