(* ===== verification/Notifications.thy ===== *)
theory Notifications
  imports PublicMessages RoomsService JsText
begin

text \<open>
  Notifications: the push rules operations of \<open>MatrixClientManager\<close>, the service
  \<open>DefaultNotificationService\<close> over them, and its use cases. The rules are kept by the
  server; what it documents about setting and reading them is the locale \<open>push_store\<close>.
\<close>

section \<open>Push rules\<close>

text \<open>Of an action only whether it is \<open>notify\<close> is read; of a condition nothing.\<close>

datatype push_action = Notify | OtherAction json

datatype rule_kind = Override | Underride

record push_rule =
  ru_id :: string
  ru_enabled :: bool
  ru_actions :: "push_action list option"

record push_rules =
  pg_override :: "push_rule list option"
  pg_underride :: "push_rule list option"

text \<open>What is read is the global part of the server's rules, which may be absent.\<close>

record 'w push_client =
  pu_getPushRules :: "('w, push_rules option) io"
  pu_addPushRule :: "rule_kind \<Rightarrow> string \<Rightarrow> json list \<Rightarrow> push_action list \<Rightarrow> ('w, unit) io"
  pu_deletePushRule :: "rule_kind \<Rightarrow> string \<Rightarrow> ('w, unit) io"
  pu_setPushRuleEnabled :: "rule_kind \<Rightarrow> string \<Rightarrow> bool \<Rightarrow> ('w, unit) io"
  pu_setPushRuleActions :: "rule_kind \<Rightarrow> string \<Rightarrow> push_action list \<Rightarrow> ('w, unit) io"

definition or_fail_comms :: "string \<Rightarrow> ('w, 'a) io \<Rightarrow> ('w, 'a) io" where
  "or_fail_comms msg m = try_catch m (\<lambda>_. throw (SecureCommsError (Some msg)))"

text \<open>The promise is returned without being awaited, so its rejection is not caught.\<close>

definition cm_getPushRules :: "'w push_client \<Rightarrow> ('w, push_rules option) io" where
  "cm_getPushRules P = pu_getPushRules P"

definition cm_addPushRule ::
    "'w push_client \<Rightarrow> rule_kind \<Rightarrow> string \<Rightarrow> json list \<Rightarrow> push_action list \<Rightarrow> ('w, unit) io" where
  "cm_addPushRule P kind ruleId conditions actions =
     or_fail_comms ''Failed to add push rule'' (pu_addPushRule P kind ruleId conditions actions)"

definition cm_deletePushRule :: "'w push_client \<Rightarrow> rule_kind \<Rightarrow> string \<Rightarrow> ('w, unit) io" where
  "cm_deletePushRule P kind ruleId =
     or_fail_comms ''Failed to delete push rule'' (pu_deletePushRule P kind ruleId)"

definition cm_setPushRuleEnabled :: "'w push_client \<Rightarrow> rule_kind \<Rightarrow> string \<Rightarrow> bool \<Rightarrow> ('w, unit) io" where
  "cm_setPushRuleEnabled P kind ruleId enabled =
     or_fail_comms ''Failed to enable push rule'' (pu_setPushRuleEnabled P kind ruleId enabled)"

definition cm_setPushRuleActions ::
    "'w push_client \<Rightarrow> rule_kind \<Rightarrow> string \<Rightarrow> push_action list \<Rightarrow> ('w, unit) io" where
  "cm_setPushRuleActions P kind ruleId actions =
     or_fail_comms ''Failed to set push rule actions'' (pu_setPushRuleActions P kind ruleId actions)"

section \<open>Settings\<close>

datatype MessageNotificationLevel = AllMessages | Mentions | Mute

record NotificationSettings =
  ns_default :: MessageNotificationLevel
  ns_invitations :: bool
  ns_recipients :: "(room_id \<times> MessageNotificationLevel) list"

definition INVITE_FOR_ME_RULE_ID :: string where
  "INVITE_FOR_ME_RULE_ID = ''.m.rule.invite_for_me''"

definition notifies :: "push_rule \<Rightarrow> bool" where
  "notifies r \<longleftrightarrow> (case ru_actions r of None \<Rightarrow> False | Some xs \<Rightarrow> Notify \<in> set xs)"

definition overrides_of :: "push_rules option \<Rightarrow> push_rule list" where
  "overrides_of rules = nullish (Option.bind rules pg_override) []"

definition underrides_of :: "push_rules option \<Rightarrow> push_rule list" where
  "underrides_of rules = nullish (Option.bind rules pg_underride) []"

definition room_rule_prefix :: string where
  "room_rule_prefix = ''custom.rule.room.''"

text \<open>The room of \<open>/^custom\.(rule)\.room\.(.+)$/\<close>; the dot matches no line terminator.\<close>

definition rule_room :: "string \<Rightarrow> room_id option" where
  "rule_room ruleId =
     (let rest = drop (length room_rule_prefix) ruleId in
      if starts_with room_rule_prefix ruleId \<and> rest \<noteq> [] \<and> CHR 0x0A \<notin> set rest \<and> CHR 0x0D \<notin> set rest
      then Some rest else None)"

definition recipient_rule ::
    "push_rule \<Rightarrow> (room_id \<times> MessageNotificationLevel) list \<Rightarrow> (room_id \<times> MessageNotificationLevel) list" where
  "recipient_rule rule levels =
     (if \<not> ru_enabled rule then levels
      else case rule_room (ru_id rule) of
          None \<Rightarrow> levels
        | Some roomId \<Rightarrow>
            let l1 = (if ru_actions rule = Some [] then map_set roomId Mute levels else levels)
            in if notifies rule then map_set roomId AllMessages l1 else l1)"

definition isInviteForMeEnabled :: "push_rules option \<Rightarrow> bool" where
  "isInviteForMeEnabled rules =
     (case find (\<lambda>r. ru_id r = INVITE_FOR_ME_RULE_ID) (overrides_of rules) of
        None \<Rightarrow> False
      | Some rule \<Rightarrow> ru_enabled rule \<and> notifies rule)"

definition default_level :: "push_rules option \<Rightarrow> MessageNotificationLevel" where
  "default_level rules =
     (if \<exists>r \<in> set (underrides_of rules). ru_id r = ''.m.rule.message'' \<and> notifies r then AllMessages
      else if \<exists>r \<in> set (overrides_of rules). ru_id r = ''.m.rule.is_user_mention'' \<and> notifies r then Mentions
      else Mute)"

definition ns_getSettings :: "'w push_client \<Rightarrow> ('w, NotificationSettings) io" where
  "ns_getSettings P =
     await (cm_getPushRules P) (\<lambda>rules.
       ret \<lparr>ns_default = default_level rules,
            ns_invitations = isInviteForMeEnabled rules,
            ns_recipients = fold recipient_rule (overrides_of rules) []\<rparr>)"

section \<open>Changing the settings\<close>

definition event_match :: "string \<Rightarrow> string \<Rightarrow> json" where
  "event_match key pattern =
     JObj [(''kind'', JStr ''event_match''), (''key'', JStr key), (''pattern'', JStr pattern)]"

definition setInviteForMeEnabled :: "'w push_client \<Rightarrow> bool \<Rightarrow> ('w, unit) io" where
  "setInviteForMeEnabled P enabled =
     await (cm_getPushRules P) (\<lambda>rules.
       case find (\<lambda>r. ru_id r = INVITE_FOR_ME_RULE_ID) (overrides_of rules) of
         None \<Rightarrow>
           if enabled
           then cm_addPushRule P Override INVITE_FOR_ME_RULE_ID
                  [event_match ''type'' ''m.room.member'', event_match ''content.membership'' ''invite'',
                   event_match ''state_key'' ''@*''] [Notify]
           else ret ()
       | Some existing \<Rightarrow>
           let shouldNotify = notifies existing in
           await (if enabled \<and> \<not> shouldNotify
                  then cm_setPushRuleActions P Override INVITE_FOR_ME_RULE_ID [Notify]
                  else if \<not> enabled \<and> shouldNotify
                  then cm_setPushRuleActions P Override INVITE_FOR_ME_RULE_ID []
                  else ret ()) (\<lambda>_.
             cm_setPushRuleEnabled P Override INVITE_FOR_ME_RULE_ID enabled))"

definition set_rule ::
    "'w push_client \<Rightarrow> rule_kind \<Rightarrow> string \<Rightarrow> push_action list \<Rightarrow> bool \<Rightarrow> ('w, unit) io" where
  "set_rule P kind ruleId actions enabled =
     await (cm_setPushRuleActions P kind ruleId actions) (\<lambda>_.
       cm_setPushRuleEnabled P kind ruleId enabled)"

text \<open>The six rules a default level sets, in order, with their actions and whether enabled.\<close>

definition level_rules :: "MessageNotificationLevel \<Rightarrow> (rule_kind \<times> string \<times> push_action list \<times> bool) list" where
  "level_rules level =
     (let all = (level = AllMessages); mentions = (level = Mentions);
          actions = (if all then [Notify] else []);
          actions' = (if mentions then actions @ [Notify] else actions)
      in [(Underride, ''.m.rule.message'', actions, all),
          (Underride, ''.m.rule.encrypted'', actions, all),
          (Override, ''.m.rule.contains_display_name'', actions, all),
          (Override, ''.m.rule.is_user_mention'', actions', mentions),
          (Override, ''.m.rule.roomnotif'', actions', mentions),
          (Override, ''.m.rule.is_room_mention'', actions', mentions)])"

definition ns_setDefaultChatRules :: "'w push_client \<Rightarrow> MessageNotificationLevel \<Rightarrow> ('w, unit) io" where
  "ns_setDefaultChatRules P level =
     for_each (\<lambda>(kind, ruleId, actions, enabled). set_rule P kind ruleId actions enabled) (level_rules level)"

definition ns_setDefaultEventRules :: "'w push_client \<Rightarrow> bool \<Rightarrow> ('w, unit) io" where
  "ns_setDefaultEventRules P invitations = setInviteForMeEnabled P invitations"

definition ns_clearRecipientChatRules :: "'w push_client \<Rightarrow> Recipient \<Rightarrow> ('w, unit) io" where
  "ns_clearRecipientChatRules P recipient =
     cm_deletePushRule P Override (room_rule_prefix @ recipient_value recipient)"

definition ns_setRecipientChatRules ::
    "'w push_client \<Rightarrow> Recipient \<Rightarrow> MessageNotificationLevel \<Rightarrow> ('w, unit) io" where
  "ns_setRecipientChatRules P recipient level =
     await (try_catch (ns_clearRecipientChatRules P recipient) (\<lambda>_. ret ())) (\<lambda>_.
       cm_addPushRule P Override (room_rule_prefix @ recipient_value recipient)
         [event_match ''room_id'' (recipient_value recipient)]
         (if level = AllMessages then [Notify] else []))"

section \<open>What a notification is about\<close>

datatype NotificationInfo =
    ChannelInvite handle_id string
  | GroupInvite handle_id string
  | DirectChatInvite handle_id string
  | MessageNotification handle_id Recipient Message

definition is_channel_type :: "string option \<Rightarrow> bool" where
  "is_channel_type t \<longleftrightarrow> t \<in> Some ` room_type_value ` {PRIVATE_CHANNEL, PUBLIC_CHANNEL, PUBLIC_INVITE_ONLY_CHANNEL}"

definition getInviteInfo :: "'w message_client \<Rightarrow> room_id \<Rightarrow> matrix_event \<Rightarrow> ('w, NotificationInfo) io" where
  "getInviteInfo C roomId event =
     await (lift_result (js_get ''membership'' (ev_content event))) (\<lambda>membership.
       if membership \<noteq> JStr ''invite'' then throw (SecureCommsError (Some ''Event is not an invite''))
       else
         await (cm_getUserId (mc_rooms C)) (\<lambda>handleId.
         await (rs_get (mc_rooms C) roomId) (\<lambda>room.
           case room of
             None \<Rightarrow> throw (SecureCommsError (Some ''Failed to get room''))
           | Some rm \<Rightarrow>
               if is_channel_type (re_type rm) then ret (ChannelInvite handleId (re_roomId rm))
               else if re_type rm = Some (room_type_value GROUP) then ret (GroupInvite handleId (re_roomId rm))
               else ret (DirectChatInvite handleId (re_roomId rm)))))"

definition getMessageInfo :: "'w message_client \<Rightarrow> room_id \<Rightarrow> matrix_event \<Rightarrow> ('w, NotificationInfo) io" where
  "getMessageInfo C roomId event =
     await (cm_getUserId (mc_rooms C)) (\<lambda>handleId.
     await (cm_getMessage C (nullish (ev_id event) '''') roomId) (\<lambda>message.
       case message of
         None \<Rightarrow> throw (SecureCommsError (Some ''Failed to get message''))
       | Some m \<Rightarrow>
           await (rs_get (mc_rooms C) roomId) (\<lambda>room.
             case room of
               None \<Rightarrow> throw (SecureCommsError (Some ''Failed to get room''))
             | Some rm \<Rightarrow>
                 let recipient =
                   (if is_channel_type (re_type rm) then ChannelId roomId
                    else if re_type rm = Some (room_type_value GROUP) then GroupId roomId
                    else ChatId roomId)
                 in ret (MessageNotification handleId recipient (message_fromEntityToAPI m)))))"

text \<open>A state event is an invitation, any other a message.\<close>

definition ns_getDecodedInfo :: "'w message_client \<Rightarrow> room_id \<Rightarrow> event_id \<Rightarrow> ('w, NotificationInfo) io" where
  "ns_getDecodedInfo C roomId eventId =
     await (cm_fetchRoomEvent C roomId eventId) (\<lambda>event.
       if ev_stateKey event \<noteq> None then getInviteInfo C roomId event else getMessageInfo C roomId event)"

section \<open>The contract of the server's rules\<close>

definition update_rules :: "string \<Rightarrow> (push_rule \<Rightarrow> push_rule) \<Rightarrow> push_rule list \<Rightarrow> push_rule list" where
  "update_rules ruleId f = map (\<lambda>r. if ru_id r = ruleId then f r else r)"

definition other_rules :: "string \<Rightarrow> push_rule list \<Rightarrow> push_rule list" where
  "other_rules ruleId = filter (\<lambda>r. ru_id r \<noteq> ruleId)"

lemma update_rules_ids: "(\<And>r. ru_id (f r) = ru_id r) \<Longrightarrow> ru_id ` set (update_rules i f rs) = ru_id ` set rs"
proof -
  assume f: "\<And>r. ru_id (f r) = ru_id r"
  have "ru_id (if ru_id r = i then f r else r) = ru_id r" for r using f by simp
  then show "ru_id ` set (update_rules i f rs) = ru_id ` set rs"
    by (simp only: update_rules_def set_map image_image)
qed

definition notifying :: "string \<Rightarrow> push_rule list \<Rightarrow> bool" where
  "notifying i rs \<longleftrightarrow> (\<exists>r \<in> set rs. ru_id r = i \<and> notifies r)"

lemma notifying_update:
  "notifying i (update_rules j (\<lambda>r. r\<lparr>ru_actions := Some xs, ru_enabled := b\<rparr>) rs) =
     (if i = j then i \<in> ru_id ` set rs \<and> Notify \<in> set xs else notifying i rs)"
  by (induction rs) (auto simp: notifying_def update_rules_def notifies_def)

lemma default_level_notifying:
  "default_level (Some \<lparr>pg_override = Some os, pg_underride = Some us\<rparr>) =
     (if notifying ''.m.rule.message'' us then AllMessages
      else if notifying ''.m.rule.is_user_mention'' os then Mentions else Mute)"
  by (simp add: default_level_def notifying_def overrides_of_def underrides_of_def)

text \<open>The level a rule of a room gives, and the rules that are of a room.\<close>

definition rule_level :: "push_rule \<Rightarrow> MessageNotificationLevel option" where
  "rule_level r = (if \<not> ru_enabled r then None else if notifies r then Some AllMessages
     else if ru_actions r = Some [] then Some Mute else None)"

lemma recipient_rule_get:
  "map_of (recipient_rule r ls) room =
     (if rule_room (ru_id r) = Some room \<and> rule_level r \<noteq> None then rule_level r else map_of ls room)"
  by (auto simp: recipient_rule_def rule_level_def map_of_map_set Let_def split: option.splits)

lemma recipient_rules_get:
  "map_of (fold recipient_rule rs ls) room =
     map_of (fold recipient_rule (filter (\<lambda>r. rule_room (ru_id r) = Some room) rs) ls) room"
proof (induction rs arbitrary: ls)
  case (Cons r rs)
  have same: "map_of (fold recipient_rule rs ls) room = map_of (fold recipient_rule rs ls') room"
    if "map_of ls room = map_of ls' room" for ls ls' rs
    using that
  proof (induction rs arbitrary: ls ls')
    case (Cons r rs)
    then have "map_of (recipient_rule r ls) room = map_of (recipient_rule r ls') room"
      by (auto simp: recipient_rule_get)
    from Cons.IH [OF this] show ?case by simp
  qed simp
  show ?case
  proof (cases "rule_room (ru_id r) = Some room")
    case True
    then show ?thesis using Cons.IH [of "recipient_rule r ls"] by simp
  next
    case False
    then have "map_of (recipient_rule r ls) room = map_of ls room" by (simp add: recipient_rule_get)
    from same [OF this] False Cons.IH [of ls] show ?thesis by simp
  qed
qed simp

lemma rule_room_prefix:
  "rule_room i = Some room \<longleftrightarrow> i = room_rule_prefix @ room \<and> room \<noteq> []
     \<and> CHR 0x0A \<notin> set room \<and> CHR 0x0D \<notin> set room"
proof -
  have "starts_with p s \<longleftrightarrow> s = p @ drop (length p) s" for p s
    by (metis append_eq_conv_conj append_take_drop_id starts_with_def)
  then show ?thesis by (auto simp: rule_room_def Let_def)
qed

text \<open>
  What the Matrix specification says of the push rule endpoints: reading answers the rules,
  the actions and the enabled flag of an existing rule can be set, a rule that does not
  start with a dot can be added or replaced and is then enabled, somewhere among the others,
  and deleting removes the rule or fails without a change.
\<close>

locale push_store =
  fixes P :: "'w push_client" and rules :: "'w \<Rightarrow> rule_kind \<Rightarrow> push_rule list"
  assumes get: "cm_getPushRules P w =
      (Inr (Some \<lparr>pg_override = Some (rules w Override), pg_underride = Some (rules w Underride)\<rparr>), w)"
    and actions: "ruleId \<in> ru_id ` set (rules w k) \<Longrightarrow>
      \<exists>w'. cm_setPushRuleActions P k ruleId xs w = (Inr (), w')
         \<and> rules w' = (rules w)(k := update_rules ruleId (\<lambda>r. r\<lparr>ru_actions := Some xs\<rparr>) (rules w k))"
    and enabled: "ruleId \<in> ru_id ` set (rules w k) \<Longrightarrow>
      \<exists>w'. cm_setPushRuleEnabled P k ruleId b w = (Inr (), w')
         \<and> rules w' = (rules w)(k := update_rules ruleId (\<lambda>r. r\<lparr>ru_enabled := b\<rparr>) (rules w k))"
    and add: "\<not> starts_with ''.'' ruleId \<Longrightarrow>
      \<exists>w' before after. cm_addPushRule P k ruleId cs xs w = (Inr (), w')
         \<and> other_rules ruleId (rules w k) = before @ after
         \<and> rules w' = (rules w)(k := before @ [\<lparr>ru_id = ruleId, ru_enabled = True, ru_actions = Some xs\<rparr>] @ after)"
    and delete: "\<exists>r w'. cm_deletePushRule P k ruleId w = (r, w')
         \<and> (rules w' = rules w \<or> rules w' = (rules w)(k := other_rules ruleId (rules w k)))"
begin

lemma set_rule_done:
  assumes "ruleId \<in> ru_id ` set (rules w k)"
  shows "\<exists>w'. set_rule P k ruleId xs b w = (Inr (), w')
    \<and> rules w' = (rules w)(k := update_rules ruleId (\<lambda>r. r\<lparr>ru_actions := Some xs, ru_enabled := b\<rparr>) (rules w k))"
proof -
  obtain w1 where w1: "cm_setPushRuleActions P k ruleId xs w = (Inr (), w1)"
    "rules w1 = (rules w)(k := update_rules ruleId (\<lambda>r. r\<lparr>ru_actions := Some xs\<rparr>) (rules w k))"
    using actions [OF assms] by blast
  then have "ruleId \<in> ru_id ` set (rules w1 k)"
    using assms by (simp add: update_rules_ids)
  from enabled [OF this] obtain w2 where w2: "cm_setPushRuleEnabled P k ruleId b w1 = (Inr (), w2)"
    "rules w2 = (rules w1)(k := update_rules ruleId (\<lambda>r. r\<lparr>ru_enabled := b\<rparr>) (rules w1 k))" by blast
  have "update_rules ruleId (\<lambda>r. r\<lparr>ru_enabled := b\<rparr>) (update_rules ruleId (\<lambda>r. r\<lparr>ru_actions := Some xs\<rparr>) rs) =
      update_rules ruleId (\<lambda>r. r\<lparr>ru_actions := Some xs, ru_enabled := b\<rparr>) rs" for rs
    by (simp add: update_rules_def)
  then show ?thesis using w1 w2 by (intro exI [of _ w2]) (simp add: set_rule_def await_def)
qed

lemma settings: "ns_getSettings P w = (Inr
    \<lparr>ns_default = default_level (Some \<lparr>pg_override = Some (rules w Override), pg_underride = Some (rules w Underride)\<rparr>),
     ns_invitations = isInviteForMeEnabled (Some \<lparr>pg_override = Some (rules w Override), pg_underride = Some (rules w Underride)\<rparr>),
     ns_recipients = fold recipient_rule (rules w Override) []\<rparr>, w)"
  by (simp add: ns_getSettings_def await_def get overrides_of_def ret_def)

lemma set_rules_done:
  "\<forall>(k, i, _) \<in> set L. i \<in> ru_id ` set (rules w k) \<Longrightarrow>
     \<exists>w'. for_each (\<lambda>(k, i, xs, b). set_rule P k i xs b) L w = (Inr (), w')
       \<and> rules w' = fold (\<lambda>(k, i, xs, b) R. R(k := update_rules i (\<lambda>r. r\<lparr>ru_actions := Some xs, ru_enabled := b\<rparr>) (R k)))
           L (rules w)"
proof (induction L arbitrary: w)
  case (Cons e L)
  obtain k i xs b where e: "e = (k, i, xs, b)" by (cases e) auto
  have "i \<in> ru_id ` set (rules w k)" using Cons.prems e by simp
  from set_rule_done [OF this, of xs b] obtain w1 where w1: "set_rule P k i xs b w = (Inr (), w1)"
    "rules w1 = (rules w)(k := update_rules i (\<lambda>r. r\<lparr>ru_actions := Some xs, ru_enabled := b\<rparr>) (rules w k))"
    by blast
  then have "ru_id ` set (rules w1 k') = ru_id ` set (rules w k')" for k'
    by (simp add: update_rules_ids)
  with Cons.prems have "\<forall>(k, i, _) \<in> set L. i \<in> ru_id ` set (rules w1 k)" by auto
  from Cons.IH [OF this] show ?case using e w1 by auto
qed simp

text \<open>The default level is read back as it was set, whatever it was before.\<close>

lemma default_level_set:
  assumes "\<forall>(k, i, _) \<in> set (level_rules level). i \<in> ru_id ` set (rules w k)"
  shows "\<exists>w' s. ns_setDefaultChatRules P level w = (Inr (), w') \<and> ns_getSettings P w' = (Inr s, w')
    \<and> ns_default s = level"
proof -
  obtain w' where w': "ns_setDefaultChatRules P level w = (Inr (), w')"
    "rules w' = fold (\<lambda>(k, i, xs, b) R. R(k := update_rules i (\<lambda>r. r\<lparr>ru_actions := Some xs, ru_enabled := b\<rparr>) (R k)))
       (level_rules level) (rules w)"
    using set_rules_done [OF assms] by (auto simp: ns_setDefaultChatRules_def)
  have "notifying ''.m.rule.message'' (rules w' Underride) \<longleftrightarrow> level = AllMessages"
    "notifying ''.m.rule.is_user_mention'' (rules w' Override) \<longleftrightarrow> level = Mentions \<or> level = AllMessages"
    using assms by (cases level; simp add: w'(2) level_rules_def Let_def notifying_update update_rules_ids)+
  then have "default_level (Some \<lparr>pg_override = Some (rules w' Override), pg_underride = Some (rules w' Underride)\<rparr>) = level"
    by (cases level) (simp_all add: default_level_notifying)
  then show ?thesis using w'(1) settings [of w'] by auto
qed

text \<open>The level of one chat is all or nothing, and the other chats keep theirs.\<close>

lemma recipient_level_set:
  assumes "rule_room (room_rule_prefix @ recipient_value recipient) = Some (recipient_value recipient)"
    and "ns_getSettings P w = (Inr s0, w0)"
  shows "\<exists>w' s. ns_setRecipientChatRules P recipient level w = (Inr (), w') \<and> ns_getSettings P w' = (Inr s, w')
    \<and> map_of (ns_recipients s) (recipient_value recipient) = Some (if level = AllMessages then AllMessages else Mute)
    \<and> (\<forall>r. r \<noteq> recipient_value recipient \<longrightarrow> map_of (ns_recipients s) r = map_of (ns_recipients s0) r)"
proof -
  let ?room = "recipient_value recipient" and ?id = "room_rule_prefix @ recipient_value recipient"
  let ?xs = "if level = AllMessages then [Notify] else []"
  let ?new = "\<lparr>ru_id = ?id, ru_enabled = True, ru_actions = Some ?xs\<rparr>"
  obtain x w1 where w1: "cm_deletePushRule P Override ?id w = (x, w1)"
    "rules w1 = rules w \<or> rules w1 = (rules w)(Override := other_rules ?id (rules w Override))"
    using delete by blast
  have "\<not> starts_with ''.'' ?id" by (simp add: starts_with_def room_rule_prefix_def)
  from add [OF this, of Override "[event_match ''room_id'' ?room]" ?xs w1] obtain w2 before after where
    w2: "cm_addPushRule P Override ?id [event_match ''room_id'' ?room] ?xs w1 = (Inr (), w2)"
    and split: "other_rules ?id (rules w1 Override) = before @ after"
    and new: "rules w2 Override = before @ [?new] @ after" by auto
  have same: "other_rules ?id (rules w1 Override) = other_rules ?id (rules w Override)"
    using w1(2) by (auto simp: other_rules_def)
  have no_id: "rule_room (ru_id r) = Some room \<Longrightarrow> ru_id r = room_rule_prefix @ room" for r room
    by (simp add: rule_room_prefix)
  have others: "\<forall>r \<in> set (before @ after). ru_id r \<noteq> ?id"
    unfolding split [symmetric] by (simp add: other_rules_def)
  have mine: "filter (\<lambda>r. rule_room (ru_id r) = Some ?room) (rules w2 Override) = [?new]"
  proof -
    have "filter (\<lambda>r. rule_room (ru_id r) = Some ?room) rs = []" if "\<forall>r \<in> set rs. ru_id r \<noteq> ?id" for rs
      using that no_id by (metis (mono_tags, lifting) filter_False)
    from this [of before] this [of after] others show ?thesis
      using assms(1) by (simp add: new)
  qed
  have theirs: "filter (\<lambda>r. rule_room (ru_id r) = Some room) (rules w2 Override) =
      filter (\<lambda>r. rule_room (ru_id r) = Some room) (rules w Override)" if "room \<noteq> ?room" for room
  proof -
    have others_only: "filter (\<lambda>r. rule_room (ru_id r) = Some room) rs =
        filter (\<lambda>r. rule_room (ru_id r) = Some room) (other_rules ?id rs)" for rs
      using that assms(1) by (auto simp: other_rules_def intro!: filter_cong)
    have "other_rules ?id (rules w2 Override) = other_rules ?id (rules w Override)"
      using others unfolding same [symmetric] split by (simp add: new other_rules_def)
    then show ?thesis using others_only by metis
  qed
  have "map_of (fold recipient_rule (rules w2 Override) []) ?room = Some (if level = AllMessages then AllMessages else Mute)"
    using mine assms(1)
    by (subst recipient_rules_get) (simp add: recipient_rule_get rule_level_def notifies_def)
  moreover have "map_of (fold recipient_rule (rules w2 Override) []) room = map_of (fold recipient_rule (rules w Override) []) room"
    if "room \<noteq> ?room" for room
    using theirs [OF that] recipient_rules_get by metis
  moreover have "ns_setRecipientChatRules P recipient level w = (Inr (), w2)"
    using w1(1) w2
    by (cases x) (simp_all add: ns_setRecipientChatRules_def ns_clearRecipientChatRules_def await_def try_catch_def ret_def)
  moreover have "ns_recipients s0 = fold recipient_rule (rules w Override) []"
    using assms(2) settings [of w] by auto
  ultimately show ?thesis using settings [of w2] by auto
qed

text \<open>A rule for invitations that exists is set and read back.\<close>

lemma invitations_set:
  assumes "INVITE_FOR_ME_RULE_ID \<in> ru_id ` set (rules w Override)"
  shows "\<exists>w' s. ns_setDefaultEventRules P b w = (Inr (), w') \<and> ns_getSettings P w' = (Inr s, w') \<and> ns_invitations s = b"
proof -
  let ?i = INVITE_FOR_ME_RULE_ID
  obtain r where r: "find (\<lambda>r. ru_id r = ?i) (rules w Override) = Some r"
    using assms by (metis (mono_tags, lifting) find_None_iff imageE option.exhaust)
  have found: "find (\<lambda>r. ru_id r = ?i) (update_rules ?i f rs) = map_option f (find (\<lambda>r. ru_id r = ?i) rs)"
    if "\<And>r. ru_id (f r) = ru_id r" for f rs
    using that by (induction rs) (simp_all add: update_rules_def)
  let ?w1 = "\<lambda>w1. rules w1 Override = rules w Override \<and> notifies r = b \<or>
      rules w1 Override = update_rules ?i (\<lambda>r. r\<lparr>ru_actions := Some (if b then [Notify] else [])\<rparr>) (rules w Override)"
  obtain w1 where w1: "(if b \<and> \<not> notifies r then cm_setPushRuleActions P Override ?i [Notify]
      else if \<not> b \<and> notifies r then cm_setPushRuleActions P Override ?i [] else ret ()) w = (Inr (), w1)" "?w1 w1"
    using actions [OF assms, of "[Notify]"] actions [OF assms, of "[]"]
    by (cases b; cases "notifies r"; fastforce simp: ret_def)
  then have "?i \<in> ru_id ` set (rules w1 Override)" using assms by (auto simp: update_rules_ids)
  from enabled [OF this, of b] obtain w2 where w2: "cm_setPushRuleEnabled P Override ?i b w1 = (Inr (), w2)"
    "rules w2 Override = update_rules ?i (\<lambda>r. r\<lparr>ru_enabled := b\<rparr>) (rules w1 Override)" by auto
  have "ns_setDefaultEventRules P b w = (Inr (), w2)"
    using w1(1) w2(1) r
    by (simp add: ns_setDefaultEventRules_def setInviteForMeEnabled_def await_def get overrides_of_def Let_def)
  moreover have "isInviteForMeEnabled (Some \<lparr>pg_override = Some (rules w2 Override), pg_underride = Some (rules w2 Underride)\<rparr>) = b"
    using w1(2) r by (auto simp: isInviteForMeEnabled_def overrides_of_def w2(2) found notifies_def)
  ultimately show ?thesis using settings [of w2] by auto
qed

end

section \<open>A server that keeps the contract\<close>

definition change_rule ::
    "(push_rule \<Rightarrow> push_rule) \<Rightarrow> rule_kind \<Rightarrow> string \<Rightarrow> (rule_kind \<Rightarrow> push_rule list, unit) io" where
  "change_rule f k ruleId w =
     (if ruleId \<in> ru_id ` set (w k) then (Inr (), w(k := update_rules ruleId f (w k))) else (Inl M_NOT_FOUND, w))"

definition rules_server :: "(rule_kind \<Rightarrow> push_rule list) push_client" where
  "rules_server =
     \<lparr>pu_getPushRules = (\<lambda>w. (Inr (Some \<lparr>pg_override = Some (w Override), pg_underride = Some (w Underride)\<rparr>), w)),
      pu_addPushRule = (\<lambda>k ruleId cs xs w.
        if starts_with ''.'' ruleId then (Inl (MatrixError ''M_INVALID_PARAM''), w)
        else (Inr (), w(k := \<lparr>ru_id = ruleId, ru_enabled = True, ru_actions = Some xs\<rparr> # other_rules ruleId (w k)))),
      pu_deletePushRule = (\<lambda>k ruleId w.
        if ruleId \<in> ru_id ` set (w k) then (Inr (), w(k := other_rules ruleId (w k))) else (Inl M_NOT_FOUND, w)),
      pu_setPushRuleEnabled = (\<lambda>k ruleId b. change_rule (\<lambda>r. r\<lparr>ru_enabled := b\<rparr>) k ruleId),
      pu_setPushRuleActions = (\<lambda>k ruleId xs. change_rule (\<lambda>r. r\<lparr>ru_actions := Some xs\<rparr>) k ruleId)\<rparr>"

interpretation server_rules: push_store rules_server "\<lambda>w. w"
proof unfold_locales
  note defs = rules_server_def or_fail_comms_def try_catch_def throw_def change_rule_def
  show "cm_getPushRules rules_server w =
      (Inr (Some \<lparr>pg_override = Some (w Override), pg_underride = Some (w Underride)\<rparr>), w)" for w
    by (simp add: cm_getPushRules_def rules_server_def)
  show "ruleId \<in> ru_id ` set (w k) \<Longrightarrow> \<exists>w'. cm_setPushRuleActions rules_server k ruleId xs w = (Inr (), w')
      \<and> w' = w(k := update_rules ruleId (\<lambda>r. r\<lparr>ru_actions := Some xs\<rparr>) (w k))" for ruleId w k xs
    by (simp add: cm_setPushRuleActions_def defs)
  show "ruleId \<in> ru_id ` set (w k) \<Longrightarrow> \<exists>w'. cm_setPushRuleEnabled rules_server k ruleId b w = (Inr (), w')
      \<and> w' = w(k := update_rules ruleId (\<lambda>r. r\<lparr>ru_enabled := b\<rparr>) (w k))" for ruleId w k b
    by (simp add: cm_setPushRuleEnabled_def defs)
  show "\<not> starts_with ''.'' ruleId \<Longrightarrow> \<exists>w' before after. cm_addPushRule rules_server k ruleId cs xs w = (Inr (), w')
      \<and> other_rules ruleId (w k) = before @ after
      \<and> w' = w(k := before @ [\<lparr>ru_id = ruleId, ru_enabled = True, ru_actions = Some xs\<rparr>] @ after)" for ruleId k cs xs w
    by (intro exI [of _ "w(k := \<lparr>ru_id = ruleId, ru_enabled = True, ru_actions = Some xs\<rparr> # other_rules ruleId (w k))"]
          exI [of _ "[]"] exI [of _ "other_rules ruleId (w k)"])
       (simp add: cm_addPushRule_def defs)
  show "\<exists>r w'. cm_deletePushRule rules_server k ruleId w = (r, w')
      \<and> (w' = w \<or> w' = w(k := other_rules ruleId (w k)))" for k ruleId w
    by (simp add: cm_deletePushRule_def defs)
qed

definition demo_rules :: "rule_kind \<Rightarrow> push_rule list" where
  "demo_rules k =
     map (\<lambda>i. \<lparr>ru_id = i, ru_enabled = True, ru_actions = Some [Notify]\<rparr>)
       (if k = Underride then [''.m.rule.message'', ''.m.rule.encrypted'']
        else [''.m.rule.invite_for_me'', ''.m.rule.is_user_mention'', ''.m.rule.is_room_mention'',
              ''.m.rule.contains_display_name'', ''.m.rule.roomnotif''])"

lemma demo_rules_present: "\<forall>(k, i, _) \<in> set (level_rules level). i \<in> ru_id ` set (demo_rules k)"
  by (simp add: level_rules_def demo_rules_def Let_def)

section \<open>Properties\<close>

text \<open>
  C15: The default level is read back as it was set. On every server that keeps the push rule
  contract and has the predefined rules, setting the default level of chats succeeds, and the
  settings read afterwards show that level, whatever the rules were before.
\<close>

theorem default_level_read_back:
  assumes "push_store P rules"
    and "\<forall>(k, i, _) \<in> set (level_rules level). i \<in> ru_id ` set (rules w k)"
  shows "\<exists>w' s. ns_setDefaultChatRules P level w = (Inr (), w') \<and> ns_getSettings P w' = (Inr s, w')
    \<and> ns_default s = level"
  using push_store.default_level_set [OF assms] .

theorem default_level_read_back_witness:
  "\<exists>w' s. ns_setDefaultChatRules rules_server Mentions demo_rules = (Inr (), w')
     \<and> ns_getSettings rules_server w' = (Inr s, w') \<and> ns_default s = Mentions"
  by (rule default_level_read_back [where rules = "\<lambda>w. w", OF server_rules.push_store_axioms demo_rules_present])

text \<open>
  The level of a chat is all messages or mute. On every server that keeps the contract,
  setting a chat's level succeeds and leaves the levels of the other chats as they were; the
  level read back is all messages when it was asked for, and mute for both others: a
  chat set to mentions is muted.
\<close>

theorem recipient_level_all_or_mute:
  assumes "push_store P rules"
    and "rule_room (room_rule_prefix @ recipient_value recipient) = Some (recipient_value recipient)"
    and "ns_getSettings P w = (Inr s0, w0)"
  shows "\<exists>w' s. ns_setRecipientChatRules P recipient level w = (Inr (), w') \<and> ns_getSettings P w' = (Inr s, w')
    \<and> map_of (ns_recipients s) (recipient_value recipient) = Some (if level = AllMessages then AllMessages else Mute)
    \<and> (\<forall>r. r \<noteq> recipient_value recipient \<longrightarrow> map_of (ns_recipients s) r = map_of (ns_recipients s0) r)"
  using push_store.recipient_level_set [OF assms] .

theorem recipient_level_all_or_mute_witness:
  "\<exists>w' s. ns_setRecipientChatRules rules_server (ChatId ''!r:hs'') Mentions demo_rules = (Inr (), w')
     \<and> ns_getSettings rules_server w' = (Inr s, w') \<and> map_of (ns_recipients s) ''!r:hs'' = Some Mute"
proof -
  have "rule_room (room_rule_prefix @ recipient_value (ChatId ''!r:hs'')) = Some (recipient_value (ChatId ''!r:hs''))"
    by (simp add: rule_room_prefix)
  from recipient_level_all_or_mute [OF server_rules.push_store_axioms this server_rules.settings [of demo_rules], of Mentions]
  show ?thesis by auto
qed

section \<open>Use cases\<close>

text \<open>Each use case takes the handle's client, seen as its push rules and its messages.\<close>

record 'w notification_env =
  ne_client :: "handle_id \<Rightarrow> ('w, 'w push_client \<times> 'w message_client) io"

definition ucn_getSettings :: "'w notification_env \<Rightarrow> handle_id \<Rightarrow> ('w, NotificationSettings) io" where
  "ucn_getSettings E handleId = await (ne_client E handleId) (\<lambda>(P, _). ns_getSettings P)"

definition ucn_getDecodedInfo ::
    "'w notification_env \<Rightarrow> handle_id \<Rightarrow> room_id \<Rightarrow> event_id \<Rightarrow> ('w, NotificationInfo) io" where
  "ucn_getDecodedInfo E handleId roomId eventId =
     await (ne_client E handleId) (\<lambda>(_, C). ns_getDecodedInfo C roomId eventId)"

definition ucn_setDefaultChatRules ::
    "'w notification_env \<Rightarrow> handle_id \<Rightarrow> MessageNotificationLevel \<Rightarrow> ('w, unit) io" where
  "ucn_setDefaultChatRules E handleId level =
     await (ne_client E handleId) (\<lambda>(P, _). ns_setDefaultChatRules P level)"

definition ucn_setDefaultEventRules :: "'w notification_env \<Rightarrow> handle_id \<Rightarrow> bool \<Rightarrow> ('w, unit) io" where
  "ucn_setDefaultEventRules E handleId invitations =
     await (ne_client E handleId) (\<lambda>(P, _). ns_setDefaultEventRules P invitations)"

definition ucn_setRecipientChatRules ::
    "'w notification_env \<Rightarrow> handle_id \<Rightarrow> Recipient \<Rightarrow> MessageNotificationLevel \<Rightarrow> ('w, unit) io" where
  "ucn_setRecipientChatRules E handleId recipient level =
     await (ne_client E handleId) (\<lambda>(P, _). ns_setRecipientChatRules P recipient level)"

definition ucn_clearRecipientChatRules ::
    "'w notification_env \<Rightarrow> handle_id \<Rightarrow> Recipient \<Rightarrow> ('w, unit) io" where
  "ucn_clearRecipientChatRules E handleId recipient =
     await (ne_client E handleId) (\<lambda>(P, _). ns_clearRecipientChatRules P recipient)"

end
