(* ===== verification/SyncWindow.thy ===== *)
theory SyncWindow
  imports Prelude
begin

text \<open>
  Syncing of \<open>MatrixClientManager\<close>: starting, stopping, and the window of the room list
  that sliding sync asks for, which grows as the number of known rooms comes near its end.
  What the calls to the Matrix SDK answer is an argument of each operation.
\<close>

section \<open>State and operations\<close>

text \<open>
  \<open>sy_sliding\<close>: there is a sliding sync; \<open>sy_end\<close>: the last index of the window;
  \<open>sy_listener\<close>: the manager remembers a listener; \<open>sy_listeners\<close>: how many of its listeners
  are registered with the client for new rooms.
\<close>

record sync_state =
  sy_sliding :: bool
  sy_end :: int
  sy_listener :: bool
  sy_listeners :: nat

definition INITIAL_ROOM_LIST_SIZE :: int where "INITIAL_ROOM_LIST_SIZE = 100"
definition EXTEND_WITHIN :: int where "EXTEND_WITHIN = 5"
definition EXTEND_BY :: int where "EXTEND_BY = 50"

lemmas sync_constants = INITIAL_ROOM_LIST_SIZE_def EXTEND_WITHIN_def EXTEND_BY_def

definition new_manager :: sync_state where
  "new_manager =
     \<lparr>sy_sliding = False, sy_end = INITIAL_ROOM_LIST_SIZE - 1, sy_listener = False, sy_listeners = 0\<rparr>"

text \<open>
  \<open>supported\<close> is the answer to whether the server supports sliding sync, nothing when the
  question fails. A failure is logged and the method returns; so is a failure of
  \<open>startClient\<close>, which comes last and leaves the state as it is.
\<close>

definition startSyncing :: "bool option \<Rightarrow> sync_state \<Rightarrow> sync_state" where
  "startSyncing supported s =
     (if supported = Some True
      then s\<lparr>sy_end := INITIAL_ROOM_LIST_SIZE - 1, sy_sliding := True, sy_listener := True,
             sy_listeners := sy_listeners s + 1\<rparr>
      else s)"

definition extendSlidingSyncListIfNearLimit :: "int \<Rightarrow> sync_state \<Rightarrow> sync_state" where
  "extendSlidingSyncListIfNearLimit roomCount s =
     (if \<not> sy_sliding s then s
      else let limit = sy_end s + 1 in
           if roomCount \<ge> limit - EXTEND_WITHIN then s\<lparr>sy_end := sy_end s + EXTEND_BY\<rparr> else s)"

text \<open>A new room calls every registered listener.\<close>

definition room_event :: "int \<Rightarrow> sync_state \<Rightarrow> sync_state" where
  "room_event roomCount s = (extendSlidingSyncListIfNearLimit roomCount ^^ sy_listeners s) s"

text \<open>\<open>stopped\<close>: whether \<open>stopClient\<close> returned; its failure leaves the sliding sync in place.\<close>

definition stopSyncing :: "bool \<Rightarrow> sync_state \<Rightarrow> sync_state" where
  "stopSyncing stopped s =
     (let s1 = (if sy_listener s then s\<lparr>sy_listener := False, sy_listeners := sy_listeners s - 1\<rparr> else s)
      in if stopped then s1\<lparr>sy_sliding := False\<rparr> else s1)"

section \<open>The manager as a state machine\<close>

inductive sync_step :: "sync_state \<Rightarrow> sync_state \<Rightarrow> bool" where
  start_step: "sync_step s (startSyncing supported s)"
| room_step: "sync_step s (room_event roomCount s)"
| stop_step: "sync_step s (stopSyncing stopped s)"

inductive_cases sync_stepE: "sync_step s s'"

inductive sync_reachable :: "sync_state \<Rightarrow> bool" where
  initial: "sync_reachable new_manager"
| step: "sync_reachable s \<Longrightarrow> sync_step s s' \<Longrightarrow> sync_reachable s'"

definition window_ok :: "sync_state \<Rightarrow> bool" where
  "window_ok s \<longleftrightarrow> sy_end s \<ge> INITIAL_ROOM_LIST_SIZE - 1
     \<and> (sy_end s + 1 - INITIAL_ROOM_LIST_SIZE) mod EXTEND_BY = 0
     \<and> (sy_listener s \<longrightarrow> sy_listeners s \<ge> 1)"

lemma extend_end:
  "sy_end (extendSlidingSyncListIfNearLimit c s) =
     (if sy_sliding s \<and> c \<ge> sy_end s + 1 - EXTEND_WITHIN then sy_end s + EXTEND_BY else sy_end s)"
  "sy_sliding (extendSlidingSyncListIfNearLimit c s) = sy_sliding s"
  "sy_listener (extendSlidingSyncListIfNearLimit c s) = sy_listener s"
  "sy_listeners (extendSlidingSyncListIfNearLimit c s) = sy_listeners s"
  by (simp_all add: extendSlidingSyncListIfNearLimit_def Let_def)

lemma window_ok_extend: "window_ok s \<Longrightarrow> window_ok (extendSlidingSyncListIfNearLimit c s)"
proof -
  assume ok: "window_ok s"
  have "(sy_end s + EXTEND_BY + 1 - INITIAL_ROOM_LIST_SIZE) mod EXTEND_BY =
      (sy_end s + 1 - INITIAL_ROOM_LIST_SIZE) mod EXTEND_BY"
    by (metis (no_types, opaque_lifting) add.commute add.left_commute diff_add_eq mod_add_self1)
  then show ?thesis using ok by (auto simp: window_ok_def extend_end sync_constants)
qed

lemma window_ok_funpow: "window_ok s \<Longrightarrow> window_ok ((extendSlidingSyncListIfNearLimit c ^^ n) s)"
  by (induction n) (simp_all add: window_ok_extend)

lemma window_ok_start: "window_ok s \<Longrightarrow> window_ok (startSyncing supported s)"
  by (auto simp: window_ok_def startSyncing_def sync_constants)

lemma window_ok_stop: "window_ok s \<Longrightarrow> window_ok (stopSyncing stopped s)"
  by (auto simp: window_ok_def stopSyncing_def Let_def)

lemma window_ok_step: "sync_step s s' \<Longrightarrow> window_ok s \<Longrightarrow> window_ok s'"
  by (erule sync_stepE)
    (simp_all add: window_ok_start window_ok_stop room_event_def window_ok_funpow)

lemma window_ok_reachable: "sync_reachable s \<Longrightarrow> window_ok s"
proof (induction rule: sync_reachable.induct)
  case initial
  then show ?case by (simp add: window_ok_def new_manager_def)
qed (auto intro: window_ok_step)

lemma room_event_single:
  "sy_listeners s = 1 \<Longrightarrow> room_event c s = extendSlidingSyncListIfNearLimit c s"
  by (simp add: room_event_def)

section \<open>Properties\<close>

text \<open>
  The window stays ahead of the rooms. From a manager that syncs with one listener and
  whose window is ahead of the rooms, whenever new rooms come at most fifty between two
  events, the window is ahead of the rooms after every event: the last index stays more than
  the margin above the number of rooms.
\<close>

theorem window_ahead:
  assumes "sy_sliding s" and "sy_listeners s = 1"
    and "before < sy_end s + 1 - EXTEND_WITHIN"
    and "now \<le> before + EXTEND_BY"
  shows "let s' = room_event now s in
    now < sy_end s' + 1 - EXTEND_WITHIN \<and> sy_end s \<le> sy_end s' \<and> sy_end s' \<le> sy_end s + EXTEND_BY
    \<and> sy_sliding s' \<and> sy_listeners s' = 1"
  using assms by (auto simp: Let_def room_event_single extend_end sync_constants)

theorem window_ahead_witness:
  "sy_end (room_event 96 (startSyncing (Some True) new_manager)) = 149
   \<and> (96 :: int) < 149 + 1 - EXTEND_WITHIN"
proof -
  let ?s = "startSyncing (Some True) new_manager"
  have s: "sy_sliding ?s" "sy_listeners ?s = 1" "sy_end ?s = 99"
    by (simp_all add: startSyncing_def new_manager_def sync_constants)
  then have "sy_end (room_event 96 ?s) = 149"
    by (simp add: room_event_single extend_end sync_constants)
  then show ?thesis
    using window_ahead [of ?s 90 96] s by (simp add: Let_def sync_constants)
qed



text \<open>
  In every reachable state of the manager the window has the initial size plus a multiple
  of fifty, never less, and a remembered listener is registered.
\<close>

theorem window_invariant:
  assumes "sync_reachable s"
  shows "sy_end s \<ge> INITIAL_ROOM_LIST_SIZE - 1
    \<and> (sy_end s + 1 - INITIAL_ROOM_LIST_SIZE) mod EXTEND_BY = 0
    \<and> (sy_listener s \<longrightarrow> sy_listeners s \<ge> 1)"
  using window_ok_reachable [OF assms] by (simp add: window_ok_def)

theorem window_invariant_witness:
  "(sy_end (room_event 98 (startSyncing (Some True) new_manager)) + 1 - INITIAL_ROOM_LIST_SIZE) mod EXTEND_BY = 0"
proof -
  have "sync_reachable (room_event 98 (startSyncing (Some True) new_manager))"
    using sync_reachable.step [OF sync_reachable.step [OF sync_reachable.initial start_step] room_step] .
  from window_invariant [OF this] show ?thesis by simp
qed

end
