(* ===== verification/Listeners.thy ===== *)
theory Listeners
  imports PublicMessages
begin

text \<open>
  Message listeners: what \<open>MatrixClientManager.registerEventListener\<close> makes of an event of the
  Matrix client, and the registry of \<open>DefaultMessagingModule\<close> that passes it on to the
  listeners an application registered by handle, recipient and name.

  Run one after the other, the operations of the registry implement a plain map from handle,
  recipient and name to a listener; overlapping ones do not, because each waits for the
  Matrix client between reading and writing its maps.
\<close>

section \<open>From Matrix events to content\<close>

record RedactedMessage =
  rd_eventId :: string
  rd_reason :: json
  rd_redacts :: json
  rd_originServerTs :: int
  rd_roomId :: room_id
  rd_sender :: string
  rd_type :: string

record EventListenerReaction =
  lr_eventId :: string
  lr_content :: json
  lr_messageId :: json
  lr_timestamp :: int
  lr_senderHandle :: HandleEntity

text \<open>Of the three optional fields of \<open>EventListenerContent\<close> exactly one is set.\<close>

datatype EventListenerContent =
    MessageContent Message
  | ReactionContent EventListenerReaction
  | RedactedContent RedactedMessage

definition REDACTION :: string where "REDACTION = ''m.room.redaction''"

definition related_event :: "matrix_event \<Rightarrow> json" where
  "related_event event = js_opt ''event_id'' (js_opt ''m.relates_to'' (ev_content event))"

text \<open>
  A message: the entity with the sender's name, as the API has it, with the id of the event
  it relates to, if any, as \<open>originalEventId\<close>. An error of the transformer is logged.
\<close>

definition listener_message :: "user_id \<Rightarrow> string option \<Rightarrow> matrix_event \<Rightarrow> EventListenerContent option" where
  "listener_message userId senderName event =
     (case message_fromMatrixToEntity userId event of
        Inr (Some entity) \<Rightarrow>
          (let named = entity\<lparr>mg_senderHandle := (mg_senderHandle entity)\<lparr>he_name := nullish senderName ''''\<rparr>\<rparr>;
               message = message_fromEntityToAPI named;
               originalEventId = related_event event
           in Some (MessageContent
                (if js_truthy originalEventId
                 then message\<lparr>am_content := js_spread (am_content message) [(''originalEventId'', originalEventId)]\<rparr>
                 else message)))
      | _ \<Rightarrow> None)"

definition listener_reaction :: "string option \<Rightarrow> matrix_event \<Rightarrow> EventListenerContent option" where
  "listener_reaction senderName event =
     (if \<not> js_truthy (related_event event) then None
      else Some (ReactionContent
        \<lparr>lr_eventId = nullish (ev_id event) '''',
         lr_content = js_nullish (js_opt ''key'' (js_opt ''m.relates_to'' (ev_content event))) (JStr ''''),
         lr_messageId = js_nullish (related_event event) (JStr ''''),
         lr_timestamp = ev_ts event,
         lr_senderHandle = \<lparr>he_handleId = nullish (ev_sender event) '''', he_name = nullish senderName ''''\<rparr>\<rparr>))"

definition listener_redaction :: "room_id \<Rightarrow> matrix_event \<Rightarrow> EventListenerContent option" where
  "listener_redaction roomId event =
     (let redacts = js_opt ''redacts'' (ev_content event) in
      if \<not> js_truthy redacts then None
      else Some (RedactedContent
        \<lparr>rd_eventId = nullish (ev_id event) '''',
         rd_reason = js_nullish (js_opt ''reason'' (ev_content event)) (JStr ''''),
         rd_redacts = redacts, rd_originServerTs = ev_ts event, rd_roomId = roomId,
         rd_sender = nullish (ev_sender event) '''', rd_type = ev_type event\<rparr>))"

definition content_of_event ::
    "user_id \<Rightarrow> room_id \<Rightarrow> (user_id \<Rightarrow> string option) \<Rightarrow> matrix_event \<Rightarrow> EventListenerContent option" where
  "content_of_event userId roomId memberName event =
     (let senderName = memberName (nullish (ev_sender event) '''') in
      if ev_type event = MSG_MESSAGE then listener_message userId senderName event
      else if ev_type event = MSG_REACTION then listener_reaction senderName event
      else if ev_type event = REDACTION then listener_redaction roomId event
      else None)"

text \<open>
  The listener the client gets: \<open>roomId\<close> is what the event answers for its room. An event
  without room, of an unknown room or without content is dropped.
\<close>

definition eventListener ::
    "'w message_client \<Rightarrow> (EventListenerContent \<Rightarrow> room_id \<Rightarrow> ('w, unit) io) \<Rightarrow>
     room_id option \<Rightarrow> matrix_event \<Rightarrow> ('w, unit) io" where
  "eventListener C listener roomId event =
     (if \<not> truthy_str roomId then ret ()
      else await (cm_getUserId (mc_rooms C)) (\<lambda>userId.
           await (cm_getRoom (mc_rooms C) (the roomId)) (\<lambda>room.
           if room = None then ret ()
           else await (peek (\<lambda>w u. mc_memberName C (the roomId) u w)) (\<lambda>memberName.
             case content_of_event userId (the roomId) memberName event of
               None \<Rightarrow> ret ()
             | Some content \<Rightarrow> try_catch (listener content (the roomId)) (\<lambda>_. ret ())))))"

section \<open>The registry\<close>

text \<open>
  The maps of the module are keyed by \<open>HandleId\<close> objects, which JavaScript compares by
  reference: a key is the reference and the id. Maps are lists of entries in order of
  insertion. \<open>li_clients\<close> are the listeners attached to Matrix clients: the client (a number
  for each client the session manager ever made), the listener's own number, and the handle
  it passes events on for.
\<close>

type_synonym handle_object = "nat \<times> handle_id"

type_synonym 'l named_listeners = "(string \<times> 'l) list"

record 'l registry =
  li_messages :: "(handle_object \<times> (room_id \<times> 'l named_listeners) list) list"
  li_matrix :: "(handle_object \<times> nat) list"
  li_clients :: "(nat \<times> nat \<times> handle_object) list"
  li_next :: nat

definition new_registry :: "'l registry" where
  "new_registry = \<lparr>li_messages = [], li_matrix = [], li_clients = [], li_next = 0\<rparr>"

definition map_delete :: "'k \<Rightarrow> ('k \<times> 'v) list \<Rightarrow> ('k \<times> 'v) list" where
  "map_delete k m = filter (\<lambda>(k', _). k' \<noteq> k) m"

definition has_key :: "'k \<Rightarrow> ('k \<times> 'v) list \<Rightarrow> bool" where
  "has_key k m \<longleftrightarrow> map_of m k \<noteq> None"

text \<open>
  \<open>registerMessageListener\<close> up to its await: the entries of the maps are made where missing,
  and a listener of the same name is kept. The flag says whether it goes on to attach a
  listener to the client.
\<close>

definition register_call ::
    "handle_object \<Rightarrow> room_id \<Rightarrow> string \<Rightarrow> 'l \<Rightarrow> 'l registry \<Rightarrow> 'l registry \<times> bool" where
  "register_call handle recipient name listener s =
     (let recipientMap = nullish (map_of (li_messages s) handle) [];
          listenerMap = nullish (map_of recipientMap recipient) [];
          listenerMap' = (if has_key name listenerMap then listenerMap else map_set name listener listenerMap)
      in (s\<lparr>li_messages := map_set handle (map_set recipient listenerMap' recipientMap) (li_messages s)\<rparr>,
          \<not> has_key handle (li_matrix s)))"

text \<open>After the await, which answered the client.\<close>

definition register_resume :: "nat \<Rightarrow> handle_object \<Rightarrow> 'l registry \<Rightarrow> 'l registry" where
  "register_resume client handle s =
     s\<lparr>li_clients := li_clients s @ [(client, li_next s, handle)],
       li_matrix := map_set handle (li_next s) (li_matrix s), li_next := Suc (li_next s)\<rparr>"

definition unregister_call ::
    "handle_object \<Rightarrow> room_id \<Rightarrow> string \<Rightarrow> 'l registry \<Rightarrow> 'l registry \<times> bool" where
  "unregister_call handle recipient name s =
     (case map_of (li_messages s) handle of
        None \<Rightarrow> (s, False)
      | Some recipientMap \<Rightarrow>
          (case map_of recipientMap recipient of
             None \<Rightarrow> (s, False)
           | Some listenerMap \<Rightarrow>
               if \<not> has_key name listenerMap then (s, False)
               else let listenerMap' = map_delete name listenerMap;
                        recipientMap' = (if listenerMap' = [] then map_delete recipient recipientMap
                                         else map_set recipient listenerMap' recipientMap)
                    in (s\<lparr>li_messages := map_set handle recipientMap' (li_messages s)\<rparr>, recipientMap' = [])))"

definition unregister_resume :: "nat \<Rightarrow> handle_object \<Rightarrow> 'l registry \<Rightarrow> 'l registry" where
  "unregister_resume client handle s =
     (let s1 = (case map_of (li_matrix s) handle of
                  None \<Rightarrow> s
                | Some n \<Rightarrow>
                    s\<lparr>li_clients := filter (\<lambda>(c, m, _). \<not> (c = client \<and> m = n)) (li_clients s),
                      li_matrix := map_delete handle (li_matrix s)\<rparr>)
      in s1\<lparr>li_messages := map_delete handle (li_messages s1)\<rparr>)"

text \<open>The listener of a handle: everyone registered for the room, in order.\<close>

definition handle_listener :: "handle_object \<Rightarrow> room_id \<Rightarrow> 'l registry \<Rightarrow> 'l named_listeners" where
  "handle_listener handle roomId s =
     (case map_of (li_messages s) handle of
        None \<Rightarrow> []
      | Some handleListeners \<Rightarrow> nullish (map_of handleListeners roomId) [])"

text \<open>An event of a client goes to every listener attached to it.\<close>

definition deliver :: "nat \<Rightarrow> room_id \<Rightarrow> 'l registry \<Rightarrow> (handle_object \<times> string \<times> 'l) list" where
  "deliver client roomId s =
     concat (map (\<lambda>(c, _, handle).
       if c = client then map (\<lambda>(name, l). (handle, name, l)) (handle_listener handle roomId s) else [])
       (li_clients s))"

section \<open>Operations run to their end\<close>

text \<open>\<open>client\<close> is what the session manager answers, nothing when it fails.\<close>

definition registerMessageListener ::
    "nat option \<Rightarrow> handle_object \<Rightarrow> room_id \<Rightarrow> string \<Rightarrow> 'l \<Rightarrow> 'l registry \<Rightarrow> 'l registry" where
  "registerMessageListener client handle recipient name listener s =
     (let (s1, waits) = register_call handle recipient name listener s
      in case client of Some c \<Rightarrow> if waits then register_resume c handle s1 else s1 | None \<Rightarrow> s1)"

definition unregisterMessageListener ::
    "nat option \<Rightarrow> handle_object \<Rightarrow> room_id \<Rightarrow> string \<Rightarrow> 'l registry \<Rightarrow> 'l registry" where
  "unregisterMessageListener client handle recipient name s =
     (let (s1, waits) = unregister_call handle recipient name s
      in case client of Some c \<Rightarrow> if waits then unregister_resume c handle s1 else s1 | None \<Rightarrow> s1)"


section \<open>Lookups\<close>

lemma map_of_map_delete: "map_of (map_delete k m) = (map_of m)(k := None)"
  by (induction m) (auto simp: map_delete_def)

lemma map_delete_absent: "map_of m k = None \<Longrightarrow> map_delete k m = m"
  by (induction m) (auto simp: map_delete_def split: if_splits)

lemma keys_map_set': "map fst (map_set k v m) = (if k \<in> fst ` set m then map fst m else map fst m @ [k])"
  by (induction m) force+

lemma distinct_map_set: "distinct (map fst m) \<Longrightarrow> distinct (map fst (map_set k v m))"
  by (simp add: keys_map_set')

lemma distinct_map_delete: "distinct (map fst m) \<Longrightarrow> distinct (map fst (map_delete k m))"
  unfolding map_delete_def by (rule distinct_map_filter)

lemma distinct_map_delete_snd: "distinct (map snd m) \<Longrightarrow> distinct (map snd (map_delete k m))"
  unfolding map_delete_def by (rule distinct_map_filter)

lemma set_map_delete: "e \<in> set (map_delete k m) \<Longrightarrow> e \<in> set m"
  by (simp add: map_delete_def)

lemma map_set_new: "map_of m k = None \<Longrightarrow> map_set k v m = m @ [(k, v)]"
  by (induction m) (auto split: if_splits)

lemma map_of_distinct_iff: "distinct (map fst m) \<Longrightarrow> map_of m k = Some v \<longleftrightarrow> (k, v) \<in> set m"
  by (metis map_of_is_SomeI map_of_SomeD)

lemmas registry_map_simps = map_of_map_set map_of_map_delete has_key_def

lemma register_lookup:
  "handle_listener h' r' (fst (register_call h r n l s)) =
     (if h' = h \<and> r' = r
      then (if has_key n (handle_listener h r s) then handle_listener h r s
            else map_set n l (handle_listener h r s))
      else handle_listener h' r' s)"
  by (auto simp: register_call_def handle_listener_def Let_def map_of_map_set nullish_def
        split: option.splits if_splits)

lemma unregister_lookup:
  "handle_listener h' r' (fst (unregister_call h r n s)) =
     (if h' = h \<and> r' = r then map_delete n (handle_listener h r s) else handle_listener h' r' s)"
  by (auto simp: unregister_call_def handle_listener_def Let_def map_of_map_set nullish_def has_key_def
        map_of_map_delete map_delete_absent
        split: option.splits if_splits)

text \<open>The flag of \<open>unregister_call\<close> is set only when nobody is left for the handle.\<close>

lemma unregister_waits:
  "snd (unregister_call h r n s) \<Longrightarrow>
     map_of (li_messages (fst (unregister_call h r n s))) h = Some [] \<and> map_of (li_messages s) h \<noteq> None"
  by (auto simp: unregister_call_def Let_def map_of_map_set split: option.splits if_splits)

lemma resume_lookup:
  "handle_listener h' r' (unregister_resume c h s) = (if h' = h then [] else handle_listener h' r' s)"
  by (auto simp: unregister_resume_def handle_listener_def Let_def map_of_map_delete split: option.splits)

lemma register_resume_lookup: "handle_listener h' r' (register_resume c h s) = handle_listener h' r' s"
  by (simp add: register_resume_def handle_listener_def)

section \<open>The abstract registry\<close>

text \<open>Who listens, by handle, recipient and name.\<close>

type_synonym 'l subscriptions = "handle_object \<times> room_id \<times> string \<rightharpoonup> 'l"

datatype 'l command =
    Register handle_object room_id string 'l
  | Unregister handle_object room_id string

fun spec_exec :: "'l command \<Rightarrow> 'l subscriptions \<Rightarrow> 'l subscriptions" where
  "spec_exec (Register h r n l) a = (if a (h, r, n) = None then a((h, r, n) \<mapsto> l) else a)"
| "spec_exec (Unregister h r n) a = a((h, r, n) := None)"

text \<open>
  The interface: an implementation with its view as subscriptions, whose commands keep an
  invariant and do to the view what the specification does, and which under the invariant
  calls each subscriber of a room once.
\<close>

locale subscription_store =
  fixes start :: 's and step :: "'l command \<Rightarrow> 's \<Rightarrow> 's"
    and ok :: "'s \<Rightarrow> bool" and view :: "'s \<Rightarrow> 'l subscriptions"
    and send :: "nat \<Rightarrow> room_id \<Rightarrow> 's \<Rightarrow> (handle_object \<times> string \<times> 'l) list"
    and client_of :: "handle_object \<Rightarrow> nat"
  assumes start_ok: "ok start" and start_view: "view start = Map.empty"
    and step_ok: "ok s \<Longrightarrow> ok (step cmd s)"
    and step_view: "ok s \<Longrightarrow> view (step cmd s) = spec_exec cmd (view s)"
    and send_once: "ok s \<Longrightarrow> distinct (send c r s)"
    and send_set: "ok s \<Longrightarrow> (h, n, l) \<in> set (send c r s) \<longleftrightarrow> client_of h = c \<and> view s (h, r, n) = Some l"
begin

lemma run_ok: "ok s \<Longrightarrow> ok (foldl (\<lambda>s cmd. step cmd s) s cmds)"
  by (induction cmds arbitrary: s) (simp_all add: step_ok)

lemma run_view: "ok s \<Longrightarrow> view (foldl (\<lambda>s cmd. step cmd s) s cmds) = foldl (\<lambda>a cmd. spec_exec cmd a) (view s) cmds"
  by (induction cmds arbitrary: s) (simp_all add: step_ok step_view)

lemma run_refines:
  "view (foldl (\<lambda>s cmd. step cmd s) start cmds) = foldl (\<lambda>a cmd. spec_exec cmd a) Map.empty cmds"
  using run_view [OF start_ok] start_view by simp

lemma run_sends:
  "distinct (send c r (foldl (\<lambda>s cmd. step cmd s) start cmds))
   \<and> set (send c r (foldl (\<lambda>s cmd. step cmd s) start cmds)) =
      {(h, n, l). client_of h = c \<and> foldl (\<lambda>a cmd. spec_exec cmd a) Map.empty cmds (h, r, n) = Some l}"
  using send_once [OF run_ok [OF start_ok]] send_set [OF run_ok [OF start_ok]] run_refines by auto

end

section \<open>The registry implements it\<close>

definition subscribers :: "'l registry \<Rightarrow> 'l subscriptions" where
  "subscribers s = (\<lambda>(h, r, n). map_of (handle_listener h r s) n)"

text \<open>
  Names are distinct, the clients' listeners are those of the map \<open>matrixEventListeners\<close>, on
  the client of their handle, and exactly the handles with listeners have one.
\<close>

definition registry_ok :: "(handle_object \<Rightarrow> nat) \<Rightarrow> 'l registry \<Rightarrow> bool" where
  "registry_ok client_of s \<longleftrightarrow>
     (\<forall>h r. distinct (map fst (handle_listener h r s)))
     \<and> li_clients s = map (\<lambda>(h, n). (client_of h, n, h)) (li_matrix s)
     \<and> distinct (map fst (li_matrix s)) \<and> distinct (map snd (li_matrix s))
     \<and> (\<forall>n \<in> set (map snd (li_matrix s)). n < li_next s)
     \<and> (\<forall>h. map_of (li_matrix s) h = None \<longleftrightarrow> map_of (li_messages s) h = None)"

fun exec_command :: "(handle_object \<Rightarrow> nat) \<Rightarrow> 'l command \<Rightarrow> 'l registry \<Rightarrow> 'l registry" where
  "exec_command client_of (Register h r n l) s = registerMessageListener (Some (client_of h)) h r n l s"
| "exec_command client_of (Unregister h r n) s = unregisterMessageListener (Some (client_of h)) h r n s"

lemma register_lookup_full:
  "handle_listener h' r' (registerMessageListener c h r n l s) =
     handle_listener h' r' (fst (register_call h r n l s))"
  by (simp add: registerMessageListener_def case_prod_unfold Let_def register_resume_lookup split: option.split)

lemma unregister_lookup_full:
  "handle_listener h' r' (unregisterMessageListener c h r n s) =
     handle_listener h' r' (fst (unregister_call h r n s))"
proof -
  have "handle_listener h r' (fst (unregister_call h r n s)) = []" if "snd (unregister_call h r n s)" for r'
    using unregister_waits [OF that] by (simp add: handle_listener_def nullish_def)
  then show ?thesis
    by (auto simp: unregisterMessageListener_def case_prod_unfold Let_def resume_lookup split: option.split)
qed

lemma exec_view: "subscribers (exec_command client_of cmd s) = spec_exec cmd (subscribers s)"
  by (cases cmd)
    (auto simp: subscribers_def register_lookup_full unregister_lookup_full register_lookup unregister_lookup
      registry_map_simps fun_eq_iff)

lemma exec_names:
  assumes "registry_ok client_of s"
  shows "distinct (map fst (handle_listener h r (exec_command client_of cmd s)))"
proof -
  from assms have "distinct (map fst (handle_listener h' r' s))" for h' r'
    unfolding registry_ok_def by blast
  then show ?thesis
    by (cases cmd)
      (simp_all add: register_lookup_full unregister_lookup_full register_lookup unregister_lookup
        distinct_map_set distinct_map_delete)
qed

lemma detach_filter:
  assumes "distinct (map fst M)" and "distinct (map snd M)" and "map_of M h = Some n"
  shows "filter (\<lambda>(c, m, _). \<not> (c = client_of h \<and> m = n)) (map (\<lambda>(h, n). (client_of h, n, h)) M) =
    map (\<lambda>(h, n). (client_of h, n, h)) (map_delete h M)"
proof -
  have hn: "(h, n) \<in> set M" using assms(3) by (rule map_of_SomeD)
  have key: "h' = h \<longleftrightarrow> n' = n" if "(h', n') \<in> set M" for h' n'
    using that hn assms(1,2) by (metis eq_key_imp_eq_value distinct_map inj_onD prod.inject snd_conv)
  have "(case e of (h', n') \<Rightarrow> \<not> (client_of h' = client_of h \<and> n' = n)) \<longleftrightarrow> (case e of (h', _) \<Rightarrow> h' \<noteq> h)"
    if "e \<in> set M" for e
    using that key by (cases e) auto
  then have "filter (\<lambda>(h', n'). \<not> (client_of h' = client_of h \<and> n' = n)) M = map_delete h M"
    unfolding map_delete_def by (rule filter_cong [OF refl])
  then show ?thesis by (simp add: filter_map comp_def case_prod_unfold)
qed

definition attached :: "(handle_object \<Rightarrow> nat) \<Rightarrow> 'l registry \<Rightarrow> bool" where
  "attached client_of s \<longleftrightarrow>
     li_clients s = map (\<lambda>(h, n). (client_of h, n, h)) (li_matrix s)
     \<and> distinct (map fst (li_matrix s)) \<and> distinct (map snd (li_matrix s))
     \<and> (\<forall>n \<in> set (map snd (li_matrix s)). n < li_next s)
     \<and> (\<forall>h. map_of (li_matrix s) h = None \<longleftrightarrow> map_of (li_messages s) h = None)"

lemma registry_ok_attached:
  "registry_ok client_of s \<longleftrightarrow> (\<forall>h r. distinct (map fst (handle_listener h r s))) \<and> attached client_of s"
  by (simp add: registry_ok_def attached_def)

lemma register_attached:
  assumes "attached client_of s"
  shows "attached client_of (registerMessageListener (Some (client_of h)) h r n l s)"
proof (cases "map_of (li_matrix s) h")
  case None
  then have new: "map_set h (li_next s) (li_matrix s) = li_matrix s @ [(h, li_next s)]"
    and fresh: "h \<notin> fst ` set (li_matrix s)" by (simp_all add: map_set_new map_of_eq_None_iff)
  have "li_next s \<notin> set (map snd (li_matrix s))" using assms by (auto simp: attached_def)
  with None new fresh assms show ?thesis
    by (auto simp: attached_def registerMessageListener_def register_call_def register_resume_def Let_def
        has_key_def map_of_map_set less_Suc_eq)
next
  case (Some m)
  with assms have "map_of (li_messages s) h \<noteq> None" by (metis attached_def option.distinct(1))
  with Some assms show ?thesis
    by (auto simp: attached_def registerMessageListener_def register_call_def Let_def has_key_def map_of_map_set)
qed

lemma unregister_call_matrix [simp]:
  "li_matrix (fst (unregister_call h r n s)) = li_matrix s"
  "li_clients (fst (unregister_call h r n s)) = li_clients s"
  "li_next (fst (unregister_call h r n s)) = li_next s"
  by (simp_all add: unregister_call_def Let_def split: option.split)

lemma unregister_call_handles:
  "map_of (li_messages (fst (unregister_call h r n s))) h' = None \<longleftrightarrow> map_of (li_messages s) h' = None"
  by (auto simp: unregister_call_def Let_def map_of_map_set split: option.split)

lemma unregister_attached:
  assumes "attached client_of s"
  shows "attached client_of (unregisterMessageListener (Some (client_of h)) h r n s)"
proof -
  let ?s = "fst (unregister_call h r n s)"
  have s: "attached client_of ?s" using assms by (simp add: attached_def unregister_call_handles)
  show ?thesis
  proof (cases "snd (unregister_call h r n s)")
    case True
    then have "map_of (li_messages s) h \<noteq> None" using unregister_waits by blast
    then obtain m where m: "map_of (li_matrix s) h = Some m"
      using assms by (metis attached_def not_Some_eq)
    have "attached client_of (unregister_resume (client_of h) h ?s)"
      using s m detach_filter [of "li_matrix s" h m client_of]
      by (auto simp: attached_def unregister_resume_def Let_def map_of_map_delete distinct_map_delete
          distinct_map_delete_snd dest: set_map_delete)
    then show ?thesis using True by (simp add: unregisterMessageListener_def case_prod_unfold Let_def)
  next
    case False
    then show ?thesis using s by (simp add: unregisterMessageListener_def case_prod_unfold Let_def)
  qed
qed

lemma exec_ok: "registry_ok client_of s \<Longrightarrow> registry_ok client_of (exec_command client_of cmd s)"
  unfolding registry_ok_attached
proof (intro conjI allI)
  assume ok: "(\<forall>h r. distinct (map fst (handle_listener h r s))) \<and> attached client_of s"
  show "distinct (map fst (handle_listener h r (exec_command client_of cmd s)))" for h r
    by (rule exec_names) (use ok in \<open>unfold registry_ok_attached\<close>)
  show "attached client_of (exec_command client_of cmd s)"
    using ok by (cases cmd) (simp_all add: register_attached unregister_attached)
qed


lemma deliver_attached:
  assumes "attached client_of s"
  shows "deliver c r s = concat (map (\<lambda>(h, _). if client_of h = c
    then map (\<lambda>(n, l). (h, n, l)) (handle_listener h r s) else []) (li_matrix s))"
proof -
  have "li_clients s = map (\<lambda>(h, n). (client_of h, n, h)) (li_matrix s)"
    using assms by (simp add: attached_def)
  then show ?thesis
    unfolding deliver_def map_map by (intro arg_cong [where f = concat]) (auto intro: map_cong)
qed

lemma deliver_set:
  assumes "registry_ok client_of s"
  shows "(h, n, l) \<in> set (deliver c r s) \<longleftrightarrow> client_of h = c \<and> subscribers s (h, r, n) = Some l"
proof -
  from assms have names: "distinct (map fst (handle_listener h r s))" and att: "attached client_of s"
    unfolding registry_ok_attached by blast+
  have "h \<in> fst ` set (li_matrix s)" if "(n, l) \<in> set (handle_listener h r s)"
  proof -
    from that have "map_of (li_messages s) h \<noteq> None" by (cases "map_of (li_messages s) h") (auto simp: handle_listener_def)
    then show ?thesis using att unfolding attached_def by (metis map_of_eq_None_iff)
  qed
  moreover have "(h, n, l) \<in> set (deliver c r s) \<longleftrightarrow>
      h \<in> fst ` set (li_matrix s) \<and> client_of h = c \<and> (n, l) \<in> set (handle_listener h r s)"
    unfolding deliver_attached [OF att] by force
  ultimately show ?thesis
    using map_of_distinct_iff [OF names] by (auto simp: subscribers_def)
qed

lemma distinct_concat_keys:
  "distinct (map fst M) \<Longrightarrow> (\<And>h. distinct (f h)) \<Longrightarrow> (\<And>h e. e \<in> set (f h) \<Longrightarrow> fst e = h) \<Longrightarrow>
     distinct (concat (map (\<lambda>(h, _). f h) M))"
proof (induction M)
  case (Cons e M)
  obtain h v where e: "e = (h, v)" by (cases e)
  have "fst d \<in> fst ` set M" if "d \<in> set (concat (map (\<lambda>(h, _). f h) M))" for d
  proof -
    from that obtain h' v' where "(h', v') \<in> set M" "d \<in> set (f h')" by auto
    then show ?thesis using Cons.prems(3) [of d h'] by force
  qed
  moreover have "fst d \<notin> fst ` set M" if "d \<in> set (f h)" for d
    using Cons.prems(3) [OF that] Cons.prems(1) e by simp
  ultimately have "set (f h) \<inter> set (concat (map (\<lambda>(h, _). f h) M)) = {}" by blast
  then show ?case using Cons e by simp
qed simp

lemma deliver_distinct:
  assumes "registry_ok client_of s"
  shows "distinct (deliver c r s)"
proof -
  from assms have names: "\<And>h. distinct (map fst (handle_listener h r s))" and att: "attached client_of s"
    unfolding registry_ok_attached by blast+
  have "distinct (map (\<lambda>(n, l). (h, n, l)) (handle_listener h r s))" for h
    using names [of h] by (auto simp: distinct_map inj_on_def)
  then show ?thesis
    unfolding deliver_attached [OF att]
    using att by (intro distinct_concat_keys) (auto simp: attached_def split: if_splits)
qed

lemma new_registry_ok: "registry_ok client_of new_registry"
  by (simp add: registry_ok_def new_registry_def handle_listener_def)

interpretation registry:
  subscription_store new_registry "exec_command client_of" "registry_ok client_of" subscribers deliver client_of
  for client_of :: "handle_object \<Rightarrow> nat"
proof unfold_locales
  show "subscribers new_registry = Map.empty"
    by (simp add: subscribers_def new_registry_def handle_listener_def fun_eq_iff)
qed (simp_all only: new_registry_ok exec_ok exec_view deliver_distinct deliver_set)


section \<open>Overlapping operations\<close>

text \<open>
  Every operation waits for the Matrix client once, if at all. A step is the call of an
  operation up to its await, or the answer of an await, in any order, or its failure.
\<close>

datatype pending = PendingRegister handle_object | PendingUnregister handle_object

inductive registry_step :: "'l registry \<times> pending list \<Rightarrow> 'l registry \<times> pending list \<Rightarrow> bool" where
  register: "register_call h r n l s = (s', waits) \<Longrightarrow>
    registry_step (s, ps) (s', ps @ (if waits then [PendingRegister h] else []))"
| unregister: "unregister_call h r n s = (s', waits) \<Longrightarrow>
    registry_step (s, ps) (s', ps @ (if waits then [PendingUnregister h] else []))"
| registered: "registry_step (s, ps @ PendingRegister h # qs) (register_resume c h s, ps @ qs)"
| unregistered: "registry_step (s, ps @ PendingUnregister h # qs) (unregister_resume c h s, ps @ qs)"
| failed: "registry_step (s, ps @ p # qs) (s, ps @ qs)"

inductive_cases registry_stepE: "registry_step (s, ps) t"

lemma names_kept:
  assumes "registry_step (s, ps) t" and "\<forall>h r. distinct (map fst (handle_listener h r s))"
  shows "\<forall>h r. distinct (map fst (handle_listener h r (fst t)))"
  using assms(1)
proof (rule registry_stepE)
  fix h r n l s' waits
  assume "t = (s', ps @ (if waits then [PendingRegister h] else []))" "register_call h r n l s = (s', waits)"
  then show ?thesis
    using assms(2) register_lookup [of _ _ h r n l s]
    by (simp add: distinct_map_set del: split_paired_All)
next
  fix h r n s' waits
  assume "t = (s', ps @ (if waits then [PendingUnregister h] else []))" "unregister_call h r n s = (s', waits)"
  then show ?thesis
    using assms(2) unregister_lookup [of _ _ h r n s]
    by (simp add: distinct_map_delete del: split_paired_All)
qed (use assms(2) in \<open>simp_all add: register_resume_lookup resume_lookup del: split_paired_All\<close>)

text \<open>Whatever overlaps, two listeners of one room and handle never share a name.\<close>

lemma names_distinct:
  assumes "registry_step\<^sup>*\<^sup>* (new_registry, []) (s, ps)"
  shows "distinct (map fst (handle_listener h r s))"
proof -
  have "\<forall>h r. distinct (map fst (handle_listener h r (fst t)))" if "registry_step\<^sup>*\<^sup>* (new_registry, []) t" for t
    using that
  proof (induction rule: rtranclp_induct)
    case base
    show ?case by (simp add: handle_listener_def new_registry_def)
  next
    case (step t u)
    then show ?case using names_kept [of "fst t" "snd t" u] by (simp del: split_paired_All)
  qed
  from this [OF assms] show ?thesis by (simp del: split_paired_All)
qed

text \<open>The states of the two histories below.\<close>

lemma both_registered:
  "register_call h r a l new_registry =
     (\<lparr>li_messages = [(h, [(r, [(a, l)])])], li_matrix = [], li_clients = [], li_next = 0\<rparr>, True)"
  "register_call h r a l \<lparr>li_messages = [(h, [(r, [(a, l)])])], li_matrix = [], li_clients = [], li_next = 0\<rparr> =
     (\<lparr>li_messages = [(h, [(r, [(a, l)])])], li_matrix = [], li_clients = [], li_next = 0\<rparr>, True)"
  "register_resume c h (register_resume c h
     \<lparr>li_messages = [(h, [(r, [(a, l)])])], li_matrix = [], li_clients = [], li_next = 0\<rparr>) =
     \<lparr>li_messages = [(h, [(r, [(a, l)])])], li_matrix = [(h, 1)], li_clients = [(c, 0, h), (c, 1, h)], li_next = 2\<rparr>"
  "unregister_call h r a \<lparr>li_messages = [(h, [(r, [(a, l)])])], li_matrix = [(h, m)], li_clients = cs, li_next = n\<rparr> =
     (\<lparr>li_messages = [(h, [])], li_matrix = [(h, m)], li_clients = cs, li_next = n\<rparr>, True)"
  "register_call h r b k \<lparr>li_messages = [(h, [])], li_matrix = [(h, m)], li_clients = cs, li_next = n\<rparr> =
     (\<lparr>li_messages = [(h, [(r, [(b, k)])])], li_matrix = [(h, m)], li_clients = cs, li_next = n\<rparr>, False)"
  "unregister_resume c h \<lparr>li_messages = ms, li_matrix = [(h, m)], li_clients = cs, li_next = n\<rparr> =
     \<lparr>li_messages = map_delete h ms, li_matrix = [],
      li_clients = filter (\<lambda>(c', m', _). \<not> (c' = c \<and> m' = m)) cs, li_next = n\<rparr>"
  by (simp_all add: register_call_def new_registry_def register_resume_def unregister_call_def
      unregister_resume_def has_key_def map_delete_def nullish_def Let_def)

lemma one_registered:
  "registerMessageListener (Some c) h r a l new_registry =
     \<lparr>li_messages = [(h, [(r, [(a, l)])])], li_matrix = [(h, 0)], li_clients = [(c, 0, h)], li_next = 1\<rparr>"
  by (simp add: registerMessageListener_def both_registered(1)) (simp add: register_resume_def)

lemma registry_step_simps:
  "register_call h r n l s = (s', True) \<Longrightarrow> registry_step (s, ps) (s', ps @ [PendingRegister h])"
  "register_call h r n l s = (s', False) \<Longrightarrow> registry_step (s, ps) (s', ps)"
  "unregister_call h r n s = (s', True) \<Longrightarrow> registry_step (s, ps) (s', ps @ [PendingUnregister h])"
  "registry_step (s, PendingRegister h # qs) (register_resume c h s, qs)"
  "registry_step (s, PendingUnregister h # qs) (unregister_resume c h s, qs)"
  using registry_step.register [of h r n l s s' True ps] registry_step.register [of h r n l s s' False ps]
    registry_step.unregister [of h r n s s' True ps] registry_step.registered [of s "[]" h qs c]
    registry_step.unregistered [of s "[]" h qs c]
  by simp_all

section \<open>Properties\<close>

text \<open>
  C13: Run one after the other, registering and unregistering implement a map from handle,
  recipient and name to the listener: a name that is taken keeps its listener, and an event
  of a room calls every listener registered for the room by a handle of the event's client
  exactly once, and no other.
\<close>

theorem registry_refines_map:
  "let s = foldl (\<lambda>s cmd. exec_command client_of cmd s) new_registry cmds;
       a = foldl (\<lambda>a cmd. spec_exec cmd a) Map.empty cmds
   in subscribers s = a
      \<and> distinct (deliver c r s)
      \<and> set (deliver c r s) = {(h, n, l). client_of h = c \<and> a (h, r, n) = Some l}"
  using registry.run_refines [of client_of cmds] registry.run_sends [of c r client_of cmds]
  by (simp add: Let_def)

text \<open>
  C39: Overlapping operations break the registry. Two registrations that wait together both
  attach a listener to the client: an event then calls the listener twice, and one attachment
  outlives the unregistering. A registration made while an unregistration waits is dropped
  when the wait is over.
\<close>

theorem overlapping_operations:
  "let s = register_resume c h (register_resume c h
             (fst (register_call h r a l (fst (register_call h r a l new_registry)))));
       s' = unregisterMessageListener (Some c) h r a s;
       t = fst (register_call h r b k (fst (unregister_call h r a
             (registerMessageListener (Some c) h r a l new_registry))));
       t' = unregister_resume c h t
   in registry_step\<^sup>*\<^sup>* (new_registry, []) (s, [])
      \<and> deliver c r s = [(h, a, l), (h, a, l)]
      \<and> subscribers s' = Map.empty \<and> li_clients s' = [(c, 0, h)]
      \<and> registry_step\<^sup>*\<^sup>* (new_registry, []) (t, [PendingUnregister h])
      \<and> subscribers t (h, r, b) = Some k
      \<and> registry_step (t, [PendingUnregister h]) (t', [])
      \<and> subscribers t' = Map.empty \<and> li_clients t' = []"
proof -
  let ?s0 = "\<lparr>li_messages = [(h, [(r, [(a, l)])])], li_matrix = [], li_clients = [], li_next = 0\<rparr>"
  let ?u = "\<lparr>li_messages = [(h, [(r, [(a, l)])])], li_matrix = [(h, 0)], li_clients = [(c, 0, h)], li_next = 1\<rparr>"
  let ?v = "\<lparr>li_messages = [(h, [])], li_matrix = [(h, 0)], li_clients = [(c, 0, h)], li_next = 1\<rparr>"
  let ?P = "PendingRegister h"
  note step = converse_rtranclp_into_rtranclp [where r = registry_step]
  have first: "registry_step (new_registry, []) (?s0, [?P])"
    using registry_step_simps(1) [OF both_registered(1), where ps = "[]"] by simp
  have again: "registry_step (?s0, [?P]) (?s0, [?P, ?P])"
    using registry_step_simps(1) [OF both_registered(2), where ps = "[?P]"] by simp
  have twice: "registry_step\<^sup>*\<^sup>* (new_registry, []) (register_resume c h (register_resume c h ?s0), [])"
    by (rule step [OF first], rule step [OF again], rule step [OF registry_step_simps(4) [where c = c]],
        rule step [OF registry_step_simps(4) [where c = c]], rule rtranclp.rtrancl_refl)
  have "registry_step (?s0, [?P]) (?u, [])"
    using registry_step_simps(4) [where s = ?s0 and h = h and qs = "[]" and c = c] by (simp add: register_resume_def)
  moreover have "registry_step (?u, []) (?v, [PendingUnregister h])"
    using registry_step_simps(3) [OF both_registered(4) [of h r a l 0 "[(c, 0, h)]" 1], where ps = "[]"] by simp
  moreover have "registry_step (?v, [PendingUnregister h]) (fst (register_call h r b k ?v), [PendingUnregister h])"
    using registry_step_simps(2) [OF both_registered(5) [of h r b k 0 "[(c, 0, h)]" 1], where ps = "[PendingUnregister h]"]
    by (simp add: both_registered(5))
  ultimately have "registry_step\<^sup>*\<^sup>* (new_registry, []) (fst (register_call h r b k ?v), [PendingUnregister h])"
    using first by (meson step rtranclp.rtrancl_refl)
  moreover have "registry_step (fst (register_call h r b k ?v), [PendingUnregister h])
      (unregister_resume c h (fst (register_call h r b k ?v)), [])"
    by (rule registry_step_simps(5))
  moreover note twice
  ultimately show ?thesis
    by (simp add: Let_def both_registered one_registered unregisterMessageListener_def deliver_def handle_listener_def
        subscribers_def map_delete_def nullish_def fun_eq_iff)
qed

end
