(* ===== verification/RoomModules.thy ===== *)
theory RoomModules
  imports GroupUseCases
begin

text \<open>
  The public modules for channels and groups (\<open>DefaultChannelsModule\<close>,
  \<open>DefaultGroupsModule\<close>): each method translates its input to the use case's, runs the use
  case, and translates the answer. Creating takes two use cases, since the avatar can only be
  uploaded once the room has an id.
\<close>

section \<open>Channels\<close>

record CreateChannelAPIInput =
  cai_handleId :: handle_id
  cai_name :: "string option"
  cai_description :: "string option"
  cai_avatar :: "(bytes \<times> string \<times> string) option"
  cai_joinRule :: ChannelJoinRule
  cai_tags :: "string list"
  cai_invitedHandleIds :: "handle_id list"
  cai_permissions :: ChannelPermissionsInput
  cai_defaultMemberRole :: ChannelRole

record UpdateChannelAPIInput =
  uai_handleId :: handle_id
  uai_channelId :: string
  uai_name :: "string input"
  uai_description :: "string input"
  uai_avatar :: "(bytes \<times> string \<times> string) input"
  uai_joinRule :: "ChannelJoinRule option"
  uai_tags :: "string list option"
  uai_permissions :: "ChannelPermissionsInput input"
  uai_defaultMemberRole :: "ChannelRole option"

record PublicChannelSearchInput =
  psi_handleId :: handle_id
  psi_order :: "ChannelSortField \<times> ChannelSortDirection"
  psi_searchTerm :: "string option"
  psi_joinRule :: "PublicChannelJoinRule option"
  psi_isJoined :: "bool option"
  psi_tags :: "string list option"
  psi_limit :: "int option"
  psi_nextToken :: "string option"

record ChannelInvitationRequest =
  air_channelId :: string
  air_handleId :: handle_id
  air_reason :: "string option"
  air_createdAt :: "int option"

definition create_channel_input :: "CreateChannelAPIInput \<Rightarrow> CreateChannelUseCaseInput" where
  "create_channel_input inp =
     \<lparr>ccu_handleId = cai_handleId inp, ccu_name = cai_name inp, ccu_description = cai_description inp,
      ccu_joinRule = join_rule_fromAPIToEntity (cai_joinRule inp), ccu_tags = cai_tags inp,
      ccu_invitedHandleIds = cai_invitedHandleIds inp,
      ccu_permissions = channel_permissions_fromInputAPIToEntity (cai_permissions inp),
      ccu_defaultMemberRole = channel_role_fromAPIToEntity (cai_defaultMemberRole inp)\<rparr>"

text \<open>Only the avatar changes.\<close>

definition avatar_update :: "handle_id \<Rightarrow> string \<Rightarrow> bytes \<times> string \<times> string \<Rightarrow> UpdateChannelUseCaseInput" where
  "avatar_update handleId channelId avatar =
     \<lparr>ucu_handleId = handleId, ucu_channelId = channelId, ucu_name = None, ucu_description = None,
      ucu_avatar = Some (Some avatar), ucu_joinRule = None, ucu_tags = None, ucu_permissions = None,
      ucu_defaultMemberRole = None\<rparr>"

definition chm_createChannel :: "'w sdk \<Rightarrow> CreateChannelAPIInput \<Rightarrow> ('w, Channel) io" where
  "chm_createChannel S inp =
     await (ucc_createChannel S (create_channel_input inp)) (\<lambda>createdChannel.
     await (case cai_avatar inp of
              None \<Rightarrow> ret createdChannel
            | Some avatar \<Rightarrow>
                try_catch
                  (await (ucc_updateChannel S (avatar_update (cai_handleId inp) (ce_channelId createdChannel) avatar))
                    (\<lambda>updatedChannel.
                      ret (if truthy_str (ce_avatarUrl updatedChannel)
                           then createdChannel\<lparr>ce_avatarUrl := ce_avatarUrl updatedChannel\<rparr>
                           else createdChannel)))
                  (\<lambda>_. ret createdChannel)) (\<lambda>result.
     ret (channel_fromEntityToAPI result)))"

text \<open>
  Permissions whose value is undefined are passed on as no permissions at all; the enumerations
  are non-empty strings, so a present one is truthy.
\<close>

definition update_channel_input :: "UpdateChannelAPIInput \<Rightarrow> UpdateChannelUseCaseInput" where
  "update_channel_input inp =
     \<lparr>ucu_handleId = uai_handleId inp, ucu_channelId = uai_channelId inp, ucu_name = uai_name inp,
      ucu_description = uai_description inp, ucu_avatar = uai_avatar inp,
      ucu_joinRule = map_option join_rule_fromAPIToEntity (uai_joinRule inp), ucu_tags = uai_tags inp,
      ucu_permissions =
        (case uai_permissions inp of
           Some (Some p) \<Rightarrow> Some (Some (channel_permissions_fromInputAPIToEntity p))
         | _ \<Rightarrow> None),
      ucu_defaultMemberRole = map_option channel_role_fromAPIToEntity (uai_defaultMemberRole inp)\<rparr>"

definition chm_updateChannel :: "'w sdk \<Rightarrow> UpdateChannelAPIInput \<Rightarrow> ('w, Channel) io" where
  "chm_updateChannel S inp =
     await (ucc_updateChannel S (update_channel_input inp)) (\<lambda>c. ret (channel_fromEntityToAPI c))"

definition chm_deleteChannel :: "'w sdk \<Rightarrow> handle_id \<Rightarrow> string \<Rightarrow> ('w, unit) io" where
  "chm_deleteChannel S handleId channelId = ucc_deleteChannel S handleId channelId"

definition chm_getChannel :: "'w sdk \<Rightarrow> handle_id \<Rightarrow> string \<Rightarrow> ('w, Channel option) io" where
  "chm_getChannel S handleId channelId =
     await (ucc_getChannel S handleId channelId) (\<lambda>r. ret (map_option channel_fromEntityToAPI r))"

definition chm_getChannels :: "'w sdk \<Rightarrow> handle_id \<Rightarrow> string list \<Rightarrow> ('w, Channel list) io" where
  "chm_getChannels S handleId channelIds =
     await (ucc_getChannels S handleId channelIds) (\<lambda>rs. ret (map channel_fromEntityToAPI rs))"

definition search_channels_input :: "PublicChannelSearchInput \<Rightarrow> SearchPublicChannelsInput" where
  "search_channels_input inp =
     \<lparr>spi_selfHandleId = psi_handleId inp, spi_order = sort_order_fromAPIToEntity (psi_order inp),
      spi_searchTerm = psi_searchTerm inp,
      spi_joinRule = map_option public_rule_fromAPIToEntity (psi_joinRule inp),
      spi_isJoined = psi_isJoined inp, spi_tags = psi_tags inp, spi_limit = psi_limit inp,
      spi_nextToken = psi_nextToken inp\<rparr>"

definition chm_searchPublicChannels ::
    "'w sdk \<Rightarrow> PublicChannelSearchInput \<Rightarrow> ('w, PublicChannelSearchResult list \<times> string option) io" where
  "chm_searchPublicChannels S inp =
     await (ucc_searchPublicChannels S (search_channels_input inp)) (\<lambda>(channels, nextToken).
       ret (map search_result_fromEntityToAPI channels, nextToken))"

definition chm_joinChannel :: "'w sdk \<Rightarrow> handle_id \<Rightarrow> string \<Rightarrow> ('w, unit) io" where
  "chm_joinChannel S handleId channelId = ucc_joinChannel S handleId channelId"

definition chm_leaveChannel :: "'w sdk \<Rightarrow> handle_id \<Rightarrow> string \<Rightarrow> ('w, unit) io" where
  "chm_leaveChannel S handleId channelId = ucc_leaveChannel S handleId channelId"

definition chm_listJoined :: "'w sdk \<Rightarrow> handle_id \<Rightarrow> ('w, Channel list) io" where
  "chm_listJoined S handleId =
     await (ucc_listJoinedChannels S handleId) (\<lambda>rs. ret (map channel_fromEntityToAPI rs))"

definition chm_sendInvitations :: "'w sdk \<Rightarrow> handle_id \<Rightarrow> string \<Rightarrow> handle_id list \<Rightarrow> ('w, unit) io" where
  "chm_sendInvitations S handleId channelId targetHandleIds =
     ucc_sendInvitations S handleId channelId targetHandleIds"

definition chm_withdrawInvitation :: "'w sdk \<Rightarrow> handle_id \<Rightarrow> string \<Rightarrow> handle_id \<Rightarrow> ('w, unit) io" where
  "chm_withdrawInvitation S handleId channelId targetHandleId =
     ucc_withdrawInvitation S handleId channelId targetHandleId"

definition chm_acceptInvitation :: "'w sdk \<Rightarrow> handle_id \<Rightarrow> string \<Rightarrow> ('w, unit) io" where
  "chm_acceptInvitation S handleId channelId = ucc_acceptInvitation S handleId channelId"

definition chm_declineInvitation :: "'w sdk \<Rightarrow> handle_id \<Rightarrow> string \<Rightarrow> ('w, unit) io" where
  "chm_declineInvitation S handleId channelId = ucc_declineInvitation S handleId channelId"

definition chm_listInvitations :: "'w sdk \<Rightarrow> handle_id \<Rightarrow> ('w, Channel list) io" where
  "chm_listInvitations S handleId =
     await (ucc_listInvitations S handleId) (\<lambda>rs. ret (map channel_fromEntityToAPI rs))"

definition chm_sendInvitationRequest ::
    "'w sdk \<Rightarrow> handle_id \<Rightarrow> string \<Rightarrow> string option \<Rightarrow> ('w, unit) io" where
  "chm_sendInvitationRequest S handleId channelId reason =
     ucc_sendInvitationRequest S handleId channelId reason"

definition chm_kickHandle ::
    "'w sdk \<Rightarrow> handle_id \<Rightarrow> string \<Rightarrow> handle_id \<Rightarrow> string option \<Rightarrow> ('w, unit) io" where
  "chm_kickHandle S handleId channelId targetHandleId reason =
     ucc_kickHandle S handleId channelId targetHandleId reason"

text \<open>Requests to be invited are withdrawn, accepted and declined by the methods above.\<close>

definition chm_withdrawInvitationRequest :: "'w sdk \<Rightarrow> handle_id \<Rightarrow> string \<Rightarrow> ('w, unit) io" where
  "chm_withdrawInvitationRequest S handleId channelId = chm_leaveChannel S handleId channelId"

definition chm_acceptInvitationRequest :: "'w sdk \<Rightarrow> handle_id \<Rightarrow> string \<Rightarrow> handle_id \<Rightarrow> ('w, unit) io" where
  "chm_acceptInvitationRequest S handleId channelId targetHandleId =
     chm_sendInvitations S handleId channelId [targetHandleId]"

definition chm_declineInvitationRequest ::
    "'w sdk \<Rightarrow> handle_id \<Rightarrow> string \<Rightarrow> handle_id \<Rightarrow> string option \<Rightarrow> ('w, unit) io" where
  "chm_declineInvitationRequest S handleId channelId targetHandleId reason =
     chm_kickHandle S handleId channelId targetHandleId reason"

definition chm_listSentInvitationRequests :: "'w sdk \<Rightarrow> handle_id \<Rightarrow> ('w, Channel list) io" where
  "chm_listSentInvitationRequests S handleId =
     await (ucc_listSentInvitationRequests S handleId) (\<lambda>rs. ret (map channel_fromEntityToAPI rs))"

definition invitation_request_fromEntityToAPI ::
    "ChannelInvitationRequestEntity \<Rightarrow> ChannelInvitationRequest" where
  "invitation_request_fromEntityToAPI e =
     \<lparr>air_channelId = cir_channelId e, air_handleId = cir_handleId e, air_reason = cir_reason e,
      air_createdAt = cir_createdAt e\<rparr>"

definition chm_listReceivedInvitationRequests ::
    "'w sdk \<Rightarrow> handle_id \<Rightarrow> string \<Rightarrow> ('w, ChannelInvitationRequest list) io" where
  "chm_listReceivedInvitationRequests S handleId channelId =
     await (ucc_listReceivedInvitationRequests S handleId channelId) (\<lambda>rs.
       ret (map invitation_request_fromEntityToAPI rs))"

definition chm_getChannelMembers :: "'w sdk \<Rightarrow> handle_id \<Rightarrow> string \<Rightarrow> ('w, ChannelMember list) io" where
  "chm_getChannelMembers S handleId channelId =
     await (ucc_getChannelMembers S handleId channelId) (\<lambda>ms. ret (map channel_member_fromEntityToAPI ms))"

definition chm_getChannelMembership ::
    "'w sdk \<Rightarrow> handle_id \<Rightarrow> string \<Rightarrow> ('w, MembershipState option) io" where
  "chm_getChannelMembership S handleId channelId =
     await (ucc_getChannelMembership S handleId channelId) (\<lambda>r. ret (map_option membership_fromEntityToAPI r))"

definition chm_updateChannelMemberRole ::
    "'w sdk \<Rightarrow> handle_id \<Rightarrow> string \<Rightarrow> handle_id \<Rightarrow> ChannelRole \<Rightarrow> ('w, unit) io" where
  "chm_updateChannelMemberRole S handleId channelId targetHandleId role =
     ucc_updateChannelMemberRole S handleId channelId targetHandleId (channel_role_fromAPIToEntity role)"

definition chm_banHandle ::
    "'w sdk \<Rightarrow> handle_id \<Rightarrow> string \<Rightarrow> handle_id \<Rightarrow> string option \<Rightarrow> ('w, unit) io" where
  "chm_banHandle S handleId channelId targetHandleId reason =
     ucc_banHandle S handleId channelId targetHandleId reason"

definition chm_unbanHandle :: "'w sdk \<Rightarrow> handle_id \<Rightarrow> string \<Rightarrow> handle_id \<Rightarrow> ('w, unit) io" where
  "chm_unbanHandle S handleId channelId targetHandleId = ucc_unbanHandle S handleId channelId targetHandleId"


section \<open>Groups\<close>

record CreateGroupAPIInput =
  gai_handleId :: handle_id
  gai_name :: "string option"
  gai_description :: "string option"
  gai_avatar :: "(bytes \<times> string \<times> string) option"
  gai_invitedHandleIds :: "handle_id list"

definition create_group_input :: "CreateGroupAPIInput \<Rightarrow> CreateGroupUseCaseInput" where
  "create_group_input inp =
     \<lparr>cgu_handleId = gai_handleId inp, cgu_name = gai_name inp, cgu_description = gai_description inp,
      cgu_invitedHandleIds = gai_invitedHandleIds inp\<rparr>"

definition group_avatar_update :: "handle_id \<Rightarrow> string \<Rightarrow> bytes \<times> string \<times> string \<Rightarrow> UpdateGroupUseCaseInput" where
  "group_avatar_update handleId groupId avatar =
     \<lparr>ugu_handleId = handleId, ugu_groupId = groupId, ugu_name = None, ugu_description = None,
      ugu_avatar = Some (Some avatar)\<rparr>"

definition grm_createGroup :: "'w sdk \<Rightarrow> CreateGroupAPIInput \<Rightarrow> ('w, Group) io" where
  "grm_createGroup S inp =
     await (ucg_createGroup S (create_group_input inp)) (\<lambda>createdGroup.
     await (case gai_avatar inp of
              None \<Rightarrow> ret createdGroup
            | Some avatar \<Rightarrow>
                try_catch
                  (await (ucg_updateGroup S (group_avatar_update (gai_handleId inp) (ge_groupId createdGroup) avatar))
                    (\<lambda>updatedGroup.
                      ret (if truthy_str (ge_avatarUrl updatedGroup)
                           then createdGroup\<lparr>ge_avatarUrl := ge_avatarUrl updatedGroup\<rparr>
                           else createdGroup)))
                  (\<lambda>_. ret createdGroup)) (\<lambda>result.
     ret (group_fromEntityToAPI result)))"

definition grm_updateGroup :: "'w sdk \<Rightarrow> UpdateGroupUseCaseInput \<Rightarrow> ('w, Group) io" where
  "grm_updateGroup S inp = await (ucg_updateGroup S inp) (\<lambda>g. ret (group_fromEntityToAPI g))"

definition grm_deleteGroup ::
    "'w sdk \<Rightarrow> handle_id \<Rightarrow> room_id \<Rightarrow> 'w \<Rightarrow> unit result \<times> 'w task list \<times> 'w" where
  "grm_deleteGroup S handleId groupId = ucg_deleteGroup S handleId groupId"

definition grm_getGroup :: "'w sdk \<Rightarrow> handle_id \<Rightarrow> string \<Rightarrow> ('w, Group option) io" where
  "grm_getGroup S handleId groupId =
     await (ucg_getGroup S handleId groupId) (\<lambda>r. ret (map_option group_fromEntityToAPI r))"

definition grm_getGroups :: "'w sdk \<Rightarrow> handle_id \<Rightarrow> string list \<Rightarrow> ('w, Group list) io" where
  "grm_getGroups S handleId groupIds =
     await (ucg_getGroups S handleId groupIds) (\<lambda>rs. ret (map group_fromEntityToAPI rs))"

definition grm_sendInvitations :: "'w sdk \<Rightarrow> handle_id \<Rightarrow> string \<Rightarrow> handle_id list \<Rightarrow> ('w, unit) io" where
  "grm_sendInvitations S handleId groupId targetHandleIds =
     ucg_sendInvitations S handleId groupId targetHandleIds"

definition grm_withdrawInvitation :: "'w sdk \<Rightarrow> handle_id \<Rightarrow> string \<Rightarrow> handle_id \<Rightarrow> ('w, unit) io" where
  "grm_withdrawInvitation S handleId groupId targetHandleId =
     ucg_withdrawInvitation S handleId groupId targetHandleId"

definition grm_acceptInvitation :: "'w sdk \<Rightarrow> handle_id \<Rightarrow> string \<Rightarrow> ('w, unit) io" where
  "grm_acceptInvitation S handleId groupId = ucg_acceptInvitation S handleId groupId"

definition grm_declineInvitation :: "'w sdk \<Rightarrow> handle_id \<Rightarrow> string \<Rightarrow> ('w, unit) io" where
  "grm_declineInvitation S handleId groupId = ucg_declineInvitation S handleId groupId"

definition grm_leaveGroup :: "'w sdk \<Rightarrow> handle_id \<Rightarrow> string \<Rightarrow> ('w, unit) io" where
  "grm_leaveGroup S handleId groupId = ucg_leaveGroup S handleId groupId"

definition grm_listInvitations :: "'w sdk \<Rightarrow> handle_id \<Rightarrow> ('w, Group list) io" where
  "grm_listInvitations S handleId =
     await (ucg_listInvitations S handleId) (\<lambda>rs. ret (map group_fromEntityToAPI rs))"

definition grm_listJoined :: "'w sdk \<Rightarrow> handle_id \<Rightarrow> ('w, Group list) io" where
  "grm_listJoined S handleId =
     await (ucg_listJoinedGroups S handleId) (\<lambda>rs. ret (map group_fromEntityToAPI rs))"

definition grm_getGroupMembers :: "'w sdk \<Rightarrow> handle_id \<Rightarrow> string \<Rightarrow> ('w, GroupMember list) io" where
  "grm_getGroupMembers S handleId groupId =
     await (ucg_getGroupMembers S handleId groupId) (\<lambda>ms. ret (map group_member_fromEntityToAPI ms))"

definition grm_updateGroupMemberRole ::
    "'w sdk \<Rightarrow> handle_id \<Rightarrow> string \<Rightarrow> handle_id \<Rightarrow> GroupRole \<Rightarrow> ('w, unit) io" where
  "grm_updateGroupMemberRole S handleId groupId targetHandleId role =
     ucg_updateGroupMemberRole S handleId groupId targetHandleId (group_role_fromAPIToEntity role)"

definition grm_kickHandle ::
    "'w sdk \<Rightarrow> handle_id \<Rightarrow> string \<Rightarrow> handle_id \<Rightarrow> string option \<Rightarrow> ('w, unit) io" where
  "grm_kickHandle S handleId groupId targetHandleId reason =
     ucg_kickHandle S handleId groupId targetHandleId reason"

definition grm_banHandle ::
    "'w sdk \<Rightarrow> handle_id \<Rightarrow> string \<Rightarrow> handle_id \<Rightarrow> string option \<Rightarrow> ('w, unit) io" where
  "grm_banHandle S handleId groupId targetHandleId reason =
     ucg_banHandle S handleId groupId targetHandleId reason"

text \<open>The reason is handed down to the rooms service, which has no use for it.\<close>

definition grm_unbanHandle ::
    "'w sdk \<Rightarrow> handle_id \<Rightarrow> string \<Rightarrow> handle_id \<Rightarrow> string option \<Rightarrow> ('w, unit) io" where
  "grm_unbanHandle S handleId groupId targetHandleId reason = ucg_unbanHandle S handleId groupId targetHandleId"


section \<open>Properties\<close>

text \<open>
  An avatar that cannot be set does not undo the creation of a channel. Once the create
  use case has succeeded, the module answers that channel whatever the upload and the update
  do; the avatar's url is the created channel's, unless there is an avatar and the update
  answered a channel with a url.
\<close>

theorem channel_survives_avatar:
  assumes "ucc_createChannel S (create_channel_input inp) w = (Inr c, w1)"
  shows "\<exists>w2 url. chm_createChannel S inp w = (Inr ((channel_fromEntityToAPI c)\<lparr>cha_avatarUrl := url\<rparr>), w2)
    \<and> (url = ce_avatarUrl c
       \<or> (\<exists>avatar u. cai_avatar inp = Some avatar \<and> url = ce_avatarUrl u \<and> truthy_str url
            \<and> ucc_updateChannel S (avatar_update (cai_handleId inp) (ce_channelId c) avatar) w1 = (Inr u, w2)))"
proof (cases "cai_avatar inp")
  case None
  then have "chm_createChannel S inp w = (Inr ((channel_fromEntityToAPI c)\<lparr>cha_avatarUrl := ce_avatarUrl c\<rparr>), w1)"
    using assms by (simp add: chm_createChannel_def await_apply ret_apply channel_fromEntityToAPI_def)
  then show ?thesis by blast
next
  case (Some avatar)
  obtain r w2 where r: "ucc_updateChannel S (avatar_update (cai_handleId inp) (ce_channelId c) avatar) w1 = (r, w2)"
    by fastforce
  let ?url = "case r of Inr u \<Rightarrow> if truthy_str (ce_avatarUrl u) then ce_avatarUrl u else ce_avatarUrl c
    | Inl _ \<Rightarrow> ce_avatarUrl c"
  have "chm_createChannel S inp w = (Inr ((channel_fromEntityToAPI c)\<lparr>cha_avatarUrl := ?url\<rparr>), w2)"
    using assms Some r
    by (simp add: chm_createChannel_def await_apply try_catch_apply ret_apply channel_fromEntityToAPI_def split: sum.split)
  then show ?thesis using Some r by (cases r) auto
qed

lemma group_survives_avatar:
  assumes "ucg_createGroup S (create_group_input inp) w = (Inr g, w1)"
  shows "\<exists>w2 url. grm_createGroup S inp w = (Inr ((group_fromEntityToAPI g)\<lparr>ga_avatarUrl := url\<rparr>), w2)"
proof (cases "gai_avatar inp")
  case None
  then have "grm_createGroup S inp w = (Inr ((group_fromEntityToAPI g)\<lparr>ga_avatarUrl := ge_avatarUrl g\<rparr>), w1)"
    using assms by (simp add: grm_createGroup_def await_apply ret_apply group_fromEntityToAPI_def)
  then show ?thesis by blast
next
  case (Some avatar)
  then show ?thesis
    using assms
    by (cases "ucg_updateGroup S (group_avatar_update (gai_handleId inp) (ge_groupId g) avatar) w1")
      (auto simp: grm_createGroup_def await_apply try_catch_apply ret_apply group_fromEntityToAPI_def split: sum.split)
qed

text \<open>Permissions whose value is undefined leave the channel's permissions alone.\<close>

lemma undefined_permissions_ignored:
  "chm_updateChannel S (inp\<lparr>uai_permissions := Some None\<rparr>) = chm_updateChannel S (inp\<lparr>uai_permissions := None\<rparr>)"
  by (simp add: chm_updateChannel_def update_channel_input_def)


text \<open>An SDK whose service makes every channel, and whose media store is out of reach.\<close>

definition creating_sdk :: "server sdk" where
  "creating_sdk = demo_sdk
     \<lparr>sdk_media := plain_env (offline_client
        \<lparr>gc_createChannel := (\<lambda>inp w. (Inr \<lparr>gr_errors = None, gr_data = Some
           \<lparr>sc_avatarImageUrl = None, sc_createdAtEpochMs = 0, sc_creatorHandleId = ''ann'',
            sc_description = None, sc_id = ''!c:hs'', sc_joinRule = GJR_Public, sc_members = [], sc_name = ''fun'',
            sc_tags = [], sc_updatedAtEpochMs = 0, sc_version = 1\<rparr>\<rparr>, w)),
         gc_checkWordValidity := (\<lambda>ws w. (Inr \<lparr>gr_errors = None, gr_data = Some ws\<rparr>, w))\<rparr>)\<rparr>"

definition channel_with_avatar :: CreateChannelAPIInput where
  "channel_with_avatar =
     \<lparr>cai_handleId = ''ann'', cai_name = None, cai_description = None,
      cai_avatar = Some ([], ''a.png'', ''image/png''), cai_joinRule = JR_PUBLIC, cai_tags = [],
      cai_invitedHandleIds = [],
      cai_permissions = \<lparr>cia_sendMessages = None, cia_inviteHandles = None, cia_kickHandles = None,
        cia_banHandles = None, cia_changeChannelName = None, cia_changeChannelDescription = None,
        cia_changeChannelAvatar = None, cia_deleteOthersMessages = None\<rparr>,
      cai_defaultMemberRole = CR_PARTICIPANT\<rparr>"

lemma demo_channel_created:
  "\<exists>c. ucc_createChannel creating_sdk (create_channel_input channel_with_avatar) (demo_server ''@ann:hs'') =
     (Inr c, demo_server ''@ann:hs'')"
  by (simp add: ucc_createChannel_def create_channel_input_def channel_with_avatar_def check_words_def
      name_words_def creating_sdk_def demo_sdk_def plain_env_def ch_create_def
      api_createSecureCommsChannel_def performMutation_def await_def ret_def truthy_str_def
      checkWordValidity_def api_checkSecureCommsWordValidity_def performQuery_def)

theorem channel_survives_avatar_witness:
  "\<exists>ch w2. chm_createChannel creating_sdk channel_with_avatar (demo_server ''@ann:hs'') = (Inr ch, w2)"
proof -
  obtain c where "ucc_createChannel creating_sdk (create_channel_input channel_with_avatar) (demo_server ''@ann:hs'') =
     (Inr c, demo_server ''@ann:hs'')" using demo_channel_created by blast
  from channel_survives_avatar [OF this] show ?thesis by blast
qed

end
