(* ===== verification/Security.thy ===== *)
theory Security
  imports Notifications Media
begin

text \<open>
  Security: the crypto operations of \<open>MatrixClientManager\<close> (key backup, verification, cross
  signing), \<open>MatrixSecurityService\<close> over them, and the security use cases. The crypto API of
  the Matrix SDK is the parameter \<open>crypto_client\<close>; what it documents of the key backup is the
  locale \<open>crypto_backup\<close>.
\<close>

section \<open>The crypto API\<close>

record GeneratedSecretStorageKey =
  gk_privateKey :: bytes
  gk_encodedPrivateKey :: "string option"

datatype DeviceVerification = Blocked | Unverified | Verified

text \<open>
  A device's or a user's verification status and a verification request are passed on as they
  are: \<open>json\<close>. The answer to \<open>getUserDeviceInfo\<close> is a map of users to a map of their devices.
\<close>

record 'w crypto_client =
  cy_available :: "'w \<Rightarrow> bool"
  cy_createRecoveryKey :: "('w, GeneratedSecretStorageKey) io"
  cy_bootstrapSecretStorage :: "GeneratedSecretStorageKey \<Rightarrow> bool \<Rightarrow> bool \<Rightarrow> ('w, unit) io"
  cy_getSessionBackupPrivateKey :: "('w, bytes option) io"
  cy_checkKeyBackupAndEnable :: "('w, bool) io"
  cy_getActiveSessionBackupVersion :: "('w, string option) io"
  cy_storeSessionBackupPrivateKey :: "bytes \<Rightarrow> string \<Rightarrow> ('w, unit) io"
  cy_restoreKeyBackup :: "('w, unit) io"
  cy_encodeRecoveryKey :: "bytes \<Rightarrow> string option"
  cy_decodeRecoveryKey :: "string \<Rightarrow> bytes result"
  cy_requestOwnUserVerification :: "('w, unit) io"
  cy_requestVerificationDM :: "user_id \<Rightarrow> room_id \<Rightarrow> ('w, unit) io"
  cy_setDeviceVerified :: "user_id \<Rightarrow> string \<Rightarrow> ('w, unit) io"
  cy_getDeviceVerificationStatus :: "user_id \<Rightarrow> string \<Rightarrow> ('w, json option) io"
  cy_getUserVerificationStatus :: "user_id \<Rightarrow> ('w, json) io"
  cy_bootstrapCrossSigning :: "string \<times> string \<times> string \<Rightarrow> ('w, unit) io"
  cy_isCrossSigningReady :: "('w, bool) io"
  cy_getDeviceId :: "('w, string option) io"
  cy_getUserDeviceInfo ::
    "user_id list \<Rightarrow> ('w, (user_id \<times> (string \<times> DeviceVerification) list) list option) io"
  cy_onUserTrustStatusChanged :: "(user_id \<Rightarrow> bool \<Rightarrow> ('w, unit) io) \<Rightarrow> ('w, unit) io"
  cy_onVerificationRequestReceived :: "(json \<Rightarrow> ('w, unit) io) \<Rightarrow> ('w, unit) io"

text \<open>What of the manager these operations use: its client, its token and its device.\<close>

record 'w security_client =
  sm_rooms :: "'w rooms_client"
  sm_crypto :: "'w crypto_client"
  sm_accessToken :: string
  sm_deviceId :: string

definition getCrypto :: "'w security_client \<Rightarrow> ('w, unit) io" where
  "getCrypto M w =
     (if cy_available (sm_crypto M) w then (Inr (), w)
      else (Inl (SecureCommsError (Some ''Crypto API not initialized'')), w))"

text \<open>\<open>this.getCrypto()\<close> followed by the use of what it returns.\<close>

definition with_crypto :: "'w security_client \<Rightarrow> ('w crypto_client \<Rightarrow> ('w, 'a) io) \<Rightarrow> ('w, 'a) io" where
  "with_crypto M f = await (getCrypto M) (\<lambda>_. f (sm_crypto M))"

section \<open>The key backup\<close>

text \<open>
  The key that is returned: the generated one, unless the client stored another for the
  backup. \<open>every\<close> compares the stored key's bytes with those at the same index.
\<close>

definition differs :: "bytes \<Rightarrow> bytes \<Rightarrow> bool" where
  "differs stored private \<longleftrightarrow>
     length stored \<noteq> length private \<or> \<not> list_all (\<lambda>i. stored ! i = private ! i) [0..<length stored]"

definition used_key ::
    "'w crypto_client \<Rightarrow> bytes option \<Rightarrow> GeneratedSecretStorageKey \<Rightarrow> GeneratedSecretStorageKey" where
  "used_key X storedKey recoveryKey =
     (case storedKey of
        Some k \<Rightarrow>
          if differs k (gk_privateKey recoveryKey)
          then \<lparr>gk_privateKey = k, gk_encodedPrivateKey = cy_encodeRecoveryKey X k\<rparr> else recoveryKey
      | None \<Rightarrow> recoveryKey)"

definition new_backup_key ::
    "'w security_client \<Rightarrow> bool \<Rightarrow> ('w, GeneratedSecretStorageKey) io" where
  "new_backup_key M setupNewSecretStorage =
     with_crypto M (\<lambda>X.
       await (cy_createRecoveryKey X) (\<lambda>recoveryKey.
       await (cy_bootstrapSecretStorage X recoveryKey True setupNewSecretStorage) (\<lambda>_.
       await (cy_getSessionBackupPrivateKey X) (\<lambda>storedKey.
       ret (used_key X storedKey recoveryKey)))))"

definition cm_createKeyBackup :: "'w security_client \<Rightarrow> ('w, GeneratedSecretStorageKey) io" where
  "cm_createKeyBackup M = or_fail_comms ''Failed to create key backup'' (new_backup_key M False)"

definition cm_rotateKeyBackup :: "'w security_client \<Rightarrow> ('w, GeneratedSecretStorageKey) io" where
  "cm_rotateKeyBackup M = or_fail_comms ''Failed to rotate key backup'' (new_backup_key M False)"

definition cm_resetKeyBackup :: "'w security_client \<Rightarrow> ('w, GeneratedSecretStorageKey) io" where
  "cm_resetKeyBackup M = or_fail_comms ''Failed to reset key backup'' (new_backup_key M True)"

definition cm_hasKeyBackup :: "'w security_client \<Rightarrow> ('w, bool) io" where
  "cm_hasKeyBackup M =
     or_fail_comms ''Failed to check key backup''
       (with_crypto M (\<lambda>X. cy_checkKeyBackupAndEnable X))"

definition cm_recoverFromBackup :: "'w security_client \<Rightarrow> string \<Rightarrow> ('w, unit) io" where
  "cm_recoverFromBackup M backupKey =
     or_fail_comms ''Failed to recover from backup''
       (await (cm_hasKeyBackup M) (\<lambda>b.
        if \<not> b then throw (SecureCommsError (Some ''No backup found on server''))
        else with_crypto M (\<lambda>X.
          await (cy_getActiveSessionBackupVersion X) (\<lambda>version.
          if version = None \<or> version = Some '''' then
            throw (SecureCommsError (Some ''Failed to get backup version''))
          else
            await (lift_result (cy_decodeRecoveryKey X backupKey)) (\<lambda>decodedKey.
            await (cy_storeSessionBackupPrivateKey X decodedKey (the version)) (\<lambda>_.
            cy_restoreKeyBackup X))))))"

section \<open>The secret storage key kept in memory\<close>

text \<open>
  The two callbacks the constructor gives the client. \<open>keys\<close> are the ids the client asks for,
  in the order of \<open>Object.keys\<close>; the key of the first one is answered if it is the one kept.
\<close>

definition cacheSecretStorageKey ::
    "string \<Rightarrow> bytes \<Rightarrow> (string \<times> bytes) option \<Rightarrow> (string \<times> bytes) option" where
  "cacheSecretStorageKey keyId key _ = Some (keyId, key)"

definition getSecretStorageKey ::
    "string list \<Rightarrow> (string \<times> bytes) option \<Rightarrow> (string \<times> bytes) option" where
  "getSecretStorageKey keys current =
     (case current of
        None \<Rightarrow> None
      | Some (kept, privateKey) \<Rightarrow>
          (case keys of
             [] \<Rightarrow> None
           | keyId # _ \<Rightarrow> if keyId \<noteq> '''' \<and> kept = keyId then Some (keyId, privateKey) else None))"

section \<open>Verification\<close>

definition cm_isVerified :: "'w security_client \<Rightarrow> ('w, bool) io" where
  "cm_isVerified M =
     with_crypto M (\<lambda>X.
       await (cm_getUserId (sm_rooms M)) (\<lambda>userId.
       await (cy_getDeviceId X) (\<lambda>deviceId.
       if deviceId = None \<or> deviceId = Some '''' then throw (SecureCommsError (Some ''Failed to get device id''))
       else
         await (cy_getUserDeviceInfo X [userId]) (\<lambda>deviceInfo.
         case Option.bind (Option.bind deviceInfo (\<lambda>m. map_of m userId)) (\<lambda>m. map_of m (the deviceId)) of
           None \<Rightarrow> throw (SecureCommsError (Some ''Failed to get device info''))
         | Some verified \<Rightarrow> ret (verified = Verified)))))"

text \<open>The listener of the trust changes tells the handler of those of the own user only.\<close>

definition cm_onSessionVerificationChanged ::
    "'w security_client \<Rightarrow> (bool \<Rightarrow> ('w, unit) io) \<Rightarrow> ('w, unit) io" where
  "cm_onSessionVerificationChanged M handler =
     cy_onUserTrustStatusChanged (sm_crypto M) (\<lambda>userId isVerified.
       await (rc_getUserId (sm_rooms M)) (\<lambda>own.
       if Some userId = own then handler isVerified else ret ()))"

definition cm_onVerificationRequestReceived ::
    "'w security_client \<Rightarrow> (json \<Rightarrow> ('w, unit) io) \<Rightarrow> ('w, unit) io" where
  "cm_onVerificationRequestReceived M handler = cy_onVerificationRequestReceived (sm_crypto M) handler"

definition cm_requestVerification :: "'w security_client \<Rightarrow> user_id \<Rightarrow> ('w, unit) io" where
  "cm_requestVerification M userId =
     or_fail_comms ''Failed to request verification''
       (with_crypto M (\<lambda>X. cy_requestOwnUserVerification X))"

definition cm_acceptVerificationRequest :: "'w security_client \<Rightarrow> user_id \<Rightarrow> string \<Rightarrow> ('w, unit) io" where
  "cm_acceptVerificationRequest M userId verificationRequestId =
     or_fail_comms ''Failed to accept verification request''
       (with_crypto M (\<lambda>X. cy_requestVerificationDM X userId verificationRequestId))"

definition cm_startVerification :: "'w security_client \<Rightarrow> user_id \<Rightarrow> ('w, unit) io" where
  "cm_startVerification M userId =
     or_fail_comms ''Failed to start verification''
       (with_crypto M (\<lambda>X. cy_requestVerificationDM X userId ''m.sas.v1''))"

definition cm_approveVerification :: "'w security_client \<Rightarrow> user_id \<Rightarrow> ('w, unit) io" where
  "cm_approveVerification M userId =
     or_fail_comms ''Failed to approve verification''
       (with_crypto M (\<lambda>X. cy_requestVerificationDM X userId ''m.sas.v1''))"

definition cm_declineVerification :: "'w security_client \<Rightarrow> user_id \<Rightarrow> ('w, unit) io" where
  "cm_declineVerification M userId =
     or_fail_comms ''Failed to decline verification''
       (with_crypto M (\<lambda>X. cy_requestVerificationDM X userId ''decline''))"

definition cm_cancelVerification :: "'w security_client \<Rightarrow> user_id \<Rightarrow> ('w, unit) io" where
  "cm_cancelVerification M userId =
     or_fail_comms ''Failed to cancel verification''
       (with_crypto M (\<lambda>X. cy_requestVerificationDM X userId ''cancel''))"

section \<open>Devices and cross signing\<close>

definition cm_setDeviceVerified :: "'w security_client \<Rightarrow> user_id \<Rightarrow> string \<Rightarrow> ('w, unit) io" where
  "cm_setDeviceVerified M userId deviceId =
     or_fail_comms ''Failed to verify device''
       (with_crypto M (\<lambda>X. cy_setDeviceVerified X userId deviceId))"

text \<open>
  Where a promise is returned without being awaited, only the failure of \<open>getCrypto\<close> is
  caught; that of the call is passed on.
\<close>

definition cm_getDeviceVerificationStatus ::
    "'w security_client \<Rightarrow> user_id \<Rightarrow> string \<Rightarrow> ('w, json option) io" where
  "cm_getDeviceVerificationStatus M userId deviceId =
     await (or_fail_comms ''Failed to check device verification status'' (getCrypto M)) (\<lambda>_.
     cy_getDeviceVerificationStatus (sm_crypto M) userId deviceId)"

definition cm_bootstrapCrossSigning :: "'w security_client \<Rightarrow> ('w, unit) io" where
  "cm_bootstrapCrossSigning M =
     or_fail_comms ''Failed to bootstrap cross signing''
       (with_crypto M (\<lambda>X.
          cy_bootstrapCrossSigning X (''m.login.token'', sm_accessToken M, sm_deviceId M)))"

definition cm_isCrossSigningReady :: "'w security_client \<Rightarrow> ('w, bool) io" where
  "cm_isCrossSigningReady M =
     await (or_fail_comms ''Failed to check cross signing status'' (getCrypto M)) (\<lambda>_.
     cy_isCrossSigningReady (sm_crypto M))"

definition cm_getUserVerificationStatus :: "'w security_client \<Rightarrow> user_id \<Rightarrow> ('w, json) io" where
  "cm_getUserVerificationStatus M userId =
     await (or_fail_comms ''Failed to check user verification status'' (getCrypto M)) (\<lambda>_.
     cy_getUserVerificationStatus (sm_crypto M) userId)"

section \<open>The service\<close>

datatype BackupState = NoBackup | BackupOnServer

definition ss_isVerified :: "'w security_client \<Rightarrow> ('w, bool) io" where
  "ss_isVerified M = cm_isVerified M"

definition ss_onSessionVerificationChanged ::
    "'w security_client \<Rightarrow> (bool \<Rightarrow> ('w, unit) io) \<Rightarrow> ('w, unit) io" where
  "ss_onSessionVerificationChanged M handler = cm_onSessionVerificationChanged M handler"

definition ss_getBackupState :: "'w security_client \<Rightarrow> ('w, BackupState) io" where
  "ss_getBackupState M =
     await (cm_hasKeyBackup M) (\<lambda>hasBackup. ret (if hasBackup then BackupOnServer else NoBackup))"

text \<open>A key without its encoded form, or with an empty one, is refused.\<close>

definition encoded_key :: "GeneratedSecretStorageKey \<Rightarrow> ('w, string) io" where
  "encoded_key backupKey =
     (case gk_encodedPrivateKey backupKey of
        Some s \<Rightarrow> if s \<noteq> '''' then ret s
                  else throw (SecureCommsError (Some ''Failed to get encoded private key''))
      | None \<Rightarrow> throw (SecureCommsError (Some ''Failed to get encoded private key'')))"

definition ss_createBackup :: "'w security_client \<Rightarrow> ('w, string) io" where
  "ss_createBackup M =
     await (ss_getBackupState M) (\<lambda>state.
     if state = BackupOnServer then throw (SecureCommsError (Some ''Backup already exists''))
     else await (cm_createKeyBackup M) encoded_key)"

definition ss_recover :: "'w security_client \<Rightarrow> string \<Rightarrow> ('w, unit) io" where
  "ss_recover M backupKey =
     await (ss_getBackupState M) (\<lambda>state.
     if state = NoBackup then throw (SecureCommsError (Some ''No backup found on server''))
     else cm_recoverFromBackup M backupKey)"

definition ss_rotateBackupKey :: "'w security_client \<Rightarrow> ('w, string) io" where
  "ss_rotateBackupKey M =
     await (ss_getBackupState M) (\<lambda>state.
     if state = NoBackup then throw (SecureCommsError (Some ''No backup found on server''))
     else await (cm_rotateKeyBackup M) encoded_key)"

definition ss_resetBackupKey :: "'w security_client \<Rightarrow> ('w, string) io" where
  "ss_resetBackupKey M = await (cm_resetKeyBackup M) encoded_key"

definition ss_onVerificationRequestReceived ::
    "'w security_client \<Rightarrow> (json \<Rightarrow> ('w, unit) io) \<Rightarrow> ('w, unit) io" where
  "ss_onVerificationRequestReceived M handler = cm_onVerificationRequestReceived M handler"

definition ss_requestVerification :: "'w security_client \<Rightarrow> ('w, unit) io" where
  "ss_requestVerification M = await (cm_getUserId (sm_rooms M)) (cm_requestVerification M)"

definition ss_acceptVerificationRequest :: "'w security_client \<Rightarrow> handle_id \<Rightarrow> string \<Rightarrow> ('w, unit) io" where
  "ss_acceptVerificationRequest M senderId flowId = cm_acceptVerificationRequest M senderId flowId"

definition ss_startVerification :: "'w security_client \<Rightarrow> ('w, unit) io" where
  "ss_startVerification M = await (cm_getUserId (sm_rooms M)) (cm_startVerification M)"

definition ss_approveVerification :: "'w security_client \<Rightarrow> ('w, unit) io" where
  "ss_approveVerification M = await (cm_getUserId (sm_rooms M)) (cm_approveVerification M)"

definition ss_declineVerification :: "'w security_client \<Rightarrow> ('w, unit) io" where
  "ss_declineVerification M = await (cm_getUserId (sm_rooms M)) (cm_declineVerification M)"

definition ss_cancelVerification :: "'w security_client \<Rightarrow> ('w, unit) io" where
  "ss_cancelVerification M = await (cm_getUserId (sm_rooms M)) (cm_cancelVerification M)"

section \<open>The use cases\<close>

text \<open>\<open>xe_client\<close> is \<open>SessionManager.getMatrixClient\<close>.\<close>

record 'w security_env =
  xe_client :: "handle_id \<Rightarrow> ('w, 'w security_client) io"

definition ucx_isVerified :: "'w security_env \<Rightarrow> handle_id \<Rightarrow> ('w, bool) io" where
  "ucx_isVerified E handleId = await (xe_client E handleId) ss_isVerified"

definition ucx_getBackupState :: "'w security_env \<Rightarrow> handle_id \<Rightarrow> ('w, BackupState) io" where
  "ucx_getBackupState E handleId = await (xe_client E handleId) ss_getBackupState"

definition ucx_createBackup :: "'w security_env \<Rightarrow> handle_id \<Rightarrow> ('w, string) io" where
  "ucx_createBackup E handleId = await (xe_client E handleId) ss_createBackup"

definition ucx_recover :: "'w security_env \<Rightarrow> handle_id \<Rightarrow> string \<Rightarrow> ('w, unit) io" where
  "ucx_recover E handleId backupKey = await (xe_client E handleId) (\<lambda>M. ss_recover M backupKey)"

definition ucx_rotateBackupKey :: "'w security_env \<Rightarrow> handle_id \<Rightarrow> ('w, string) io" where
  "ucx_rotateBackupKey E handleId =
     await (xe_client E handleId) (\<lambda>M.
     await (ss_rotateBackupKey M) (\<lambda>recoveryKey.
     if recoveryKey = '''' then throw (SecureCommsError (Some ''Failed to rotate key backup''))
     else ret recoveryKey))"

definition ucx_resetBackupKey :: "'w security_env \<Rightarrow> handle_id \<Rightarrow> ('w, string) io" where
  "ucx_resetBackupKey E handleId =
     await (xe_client E handleId) (\<lambda>M.
     await (ss_resetBackupKey M) (\<lambda>recoveryKey.
     if recoveryKey = '''' then throw (SecureCommsError (Some ''Failed to reset key backup''))
     else ret recoveryKey))"

definition ucx_onSessionVerificationChanged ::
    "'w security_env \<Rightarrow> handle_id \<Rightarrow> (bool \<Rightarrow> ('w, unit) io) \<Rightarrow> ('w, unit) io" where
  "ucx_onSessionVerificationChanged E handleId handler =
     await (xe_client E handleId) (\<lambda>M. ss_onSessionVerificationChanged M handler)"

definition ucx_onVerificationRequestReceived ::
    "'w security_env \<Rightarrow> handle_id \<Rightarrow> (json \<Rightarrow> ('w, unit) io) \<Rightarrow> ('w, unit) io" where
  "ucx_onVerificationRequestReceived E handleId handler =
     await (xe_client E handleId) (\<lambda>M. ss_onVerificationRequestReceived M handler)"

definition ucx_requestVerification :: "'w security_env \<Rightarrow> handle_id \<Rightarrow> ('w, unit) io" where
  "ucx_requestVerification E handleId = await (xe_client E handleId) ss_requestVerification"

definition ucx_acceptVerification ::
    "'w security_env \<Rightarrow> handle_id \<Rightarrow> handle_id \<Rightarrow> string \<Rightarrow> ('w, unit) io" where
  "ucx_acceptVerification E handleId senderId flowId =
     await (xe_client E handleId) (\<lambda>M. ss_acceptVerificationRequest M senderId flowId)"

definition ucx_startVerification :: "'w security_env \<Rightarrow> handle_id \<Rightarrow> ('w, unit) io" where
  "ucx_startVerification E handleId = await (xe_client E handleId) ss_startVerification"

definition ucx_approveVerification :: "'w security_env \<Rightarrow> handle_id \<Rightarrow> ('w, unit) io" where
  "ucx_approveVerification E handleId = await (xe_client E handleId) ss_approveVerification"

definition ucx_declineVerification :: "'w security_env \<Rightarrow> handle_id \<Rightarrow> ('w, unit) io" where
  "ucx_declineVerification E handleId = await (xe_client E handleId) ss_declineVerification"

definition ucx_cancelVerification :: "'w security_env \<Rightarrow> handle_id \<Rightarrow> ('w, unit) io" where
  "ucx_cancelVerification E handleId = await (xe_client E handleId) ss_cancelVerification"


lemma differs_iff: "differs stored private \<longleftrightarrow> stored \<noteq> private"
  by (auto simp: differs_def list_all_iff intro: nth_equalityI)

lemma or_fail_comms_Inr_iff: "or_fail_comms msg m w = (Inr x, w') \<longleftrightarrow> m w = (Inr x, w')"
  by (auto simp: or_fail_comms_def try_catch_def throw_def split: prod.splits sum.splits)

lemma getCrypto_apply: "cy_available (sm_crypto M) w \<Longrightarrow> getCrypto M w = (Inr (), w)"
  by (simp add: getCrypto_def)

section \<open>What the crypto API documents\<close>

text \<open>
  \<open>backup_key w\<close> is the private key of the backup on the server, if there is one, and
  \<open>session_key w\<close> the key the client keeps for it. Making a new backup may use another key
  than the one offered; in any case the client keeps the key of the new backup. Restoring
  works with the key of the backup and with no other.
\<close>

locale crypto_backup =
  fixes X :: "'w crypto_client"
    and backup_key :: "'w \<Rightarrow> bytes option" and session_key :: "'w \<Rightarrow> bytes option"
  assumes codec: "\<exists>s. cy_encodeRecoveryKey X k = Some s \<and> s \<noteq> '''' \<and> cy_decodeRecoveryKey X s = Inr k"
    and created: "cy_createRecoveryKey X w = (Inr g, w') \<Longrightarrow>
      gk_encodedPrivateKey g = cy_encodeRecoveryKey X (gk_privateKey g)"
    and bootstrap: "cy_bootstrapSecretStorage X g True b w = (Inr (), w') \<Longrightarrow>
      backup_key w' \<noteq> None \<and> session_key w' = backup_key w'"
    and kept: "cy_getSessionBackupPrivateKey X w = (Inr v, w') \<Longrightarrow>
      v = session_key w \<and> backup_key w' = backup_key w"
    and check: "cy_available X w \<Longrightarrow>
      \<exists>w'. cy_checkKeyBackupAndEnable X w = (Inr (backup_key w \<noteq> None), w')
         \<and> cy_available X w' \<and> backup_key w' = backup_key w"
    and version: "cy_available X w \<Longrightarrow> backup_key w \<noteq> None \<Longrightarrow>
      \<exists>ver w'. cy_getActiveSessionBackupVersion X w = (Inr (Some ver), w') \<and> ver \<noteq> '''' \<and> backup_key w' = backup_key w"
    and stored: "\<exists>w'. cy_storeSessionBackupPrivateKey X k ver w = (Inr (), w')
         \<and> session_key w' = Some k \<and> backup_key w' = backup_key w"
    and restore: "backup_key w \<noteq> None \<Longrightarrow>
      (\<exists>w'. cy_restoreKeyBackup X w = (Inr (), w')) \<longleftrightarrow> session_key w = backup_key w"
begin

lemma used_key_encodes:
  assumes "gk_encodedPrivateKey g = cy_encodeRecoveryKey X (gk_privateKey g)"
  shows "\<exists>s. gk_encodedPrivateKey (used_key X (Some k) g) = Some s \<and> s \<noteq> '''' \<and> cy_decodeRecoveryKey X s = Inr k"
proof (cases "differs k (gk_privateKey g)")
  case True
  then show ?thesis using codec [of k] by (simp add: used_key_def)
next
  case False
  then have "k = gk_privateKey g" by (simp add: differs_iff)
  then show ?thesis using False assms codec [of k] by (simp add: used_key_def)
qed

lemma new_key_kept:
  assumes "sm_crypto M = X" and "await (or_fail_comms msg (new_backup_key M b)) encoded_key w = (Inr s, w')"
  shows "\<exists>k. backup_key w' = Some k \<and> cy_decodeRecoveryKey X s = Inr k"
proof -
  from assms obtain g w1 w2 w3 v w4 where
    g: "cy_createRecoveryKey X w1 = (Inr g, w2)" and boot: "cy_bootstrapSecretStorage X g True b w2 = (Inr (), w3)"
    and v: "cy_getSessionBackupPrivateKey X w3 = (Inr v, w4)" and s: "encoded_key (used_key X v g) w4 = (Inr s, w')"
    by (auto simp: new_backup_key_def with_crypto_def await_Inr_iff or_fail_comms_Inr_iff ret_apply)
  from bootstrap [OF boot] kept [OF v] obtain k0 where
    "v = Some k0" "backup_key w4 = Some k0" by auto
  with used_key_encodes [OF created [OF g], of k0] s show ?thesis
    by (auto simp: encoded_key_def ret_apply)
qed

lemma recover_works_iff:
  assumes M: "sm_crypto M = X" and "cy_available X w" and "backup_key w = Some k"
  shows "(\<exists>w'. cm_recoverFromBackup M s w = (Inr (), w')) \<longleftrightarrow> cy_decodeRecoveryKey X s = Inr k"
proof -
  note [simp] = M getCrypto_apply with_crypto_def
  obtain w1 where w1: "cy_checkKeyBackupAndEnable X w = (Inr True, w1)" "cy_available X w1" "backup_key w1 = Some k"
    using check [OF assms(2)] assms(3) by auto
  obtain v w2 where w2: "cy_getActiveSessionBackupVersion X w1 = (Inr (Some v), w2)" "v \<noteq> ''''"
    "backup_key w2 = Some k" using version [of w1] w1 by auto
  have has: "cm_hasKeyBackup M w = (Inr True, w1)"
    using assms(2) w1(1) by (simp add: cm_hasKeyBackup_def or_fail_comms_Inr_iff await_Inr_iff)
  show ?thesis
  proof (cases "cy_decodeRecoveryKey X s")
    case (Inl e)
    then show ?thesis
      using has w1(2) w2 by (auto simp: cm_recoverFromBackup_def or_fail_comms_Inr_iff await_Inr_iff lift_result_apply)
  next
    case (Inr d)
    obtain w3 where w3: "cy_storeSessionBackupPrivateKey X d v w2 = (Inr (), w3)" "session_key w3 = Some d"
      "backup_key w3 = Some k" using stored [of d v w2] w2(3) by auto
    have "(\<exists>w'. cm_recoverFromBackup M s w = (Inr (), w')) \<longleftrightarrow> (\<exists>w'. cy_restoreKeyBackup X w3 = (Inr (), w'))"
      using has w1(2) w2(1,2) w3(1) Inr
      by (auto simp: cm_recoverFromBackup_def or_fail_comms_Inr_iff await_Inr_iff lift_result_apply)
    then show ?thesis using restore [of w3] w3(2,3) Inr by auto
  qed
qed

lemma service_recover_iff:
  assumes M: "sm_crypto M = X" and w: "cy_available X w" and k: "backup_key w = Some k"
  shows "(\<exists>w'. ss_recover M s w = (Inr (), w')) \<longleftrightarrow> cy_decodeRecoveryKey X s = Inr k"
proof -
  obtain w1 where w1: "cy_checkKeyBackupAndEnable X w = (Inr True, w1)" "cy_available X w1" "backup_key w1 = Some k"
    using check [OF w] k by auto
  have "cm_hasKeyBackup M w = (Inr True, w1)"
    using M w w1(1) by (simp add: cm_hasKeyBackup_def or_fail_comms_Inr_iff await_Inr_iff with_crypto_def getCrypto_apply)
  then have "ss_recover M s w = cm_recoverFromBackup M s w1"
    by (simp add: ss_recover_def ss_getBackupState_def await_apply ret_apply)
  then show ?thesis using recover_works_iff [OF M w1(2,3)] by simp
qed

lemma service_key_kept:
  assumes "sm_crypto M = X"
    and "ss_createBackup M w = (Inr s, w') \<or> ss_rotateBackupKey M w = (Inr s, w') \<or> ss_resetBackupKey M w = (Inr s, w')"
  shows "\<exists>k. backup_key w' = Some k \<and> cy_decodeRecoveryKey X s = Inr k"
proof -
  from assms(2) have "\<exists>msg b w0 g w1. or_fail_comms msg (new_backup_key M b) w0 = (Inr g, w1)
      \<and> encoded_key g w1 = (Inr s, w')"
    by (auto simp: ss_createBackup_def ss_rotateBackupKey_def ss_resetBackupKey_def cm_createKeyBackup_def
          cm_rotateKeyBackup_def cm_resetKeyBackup_def await_Inr_iff throw_apply split: if_splits) blast+
  then obtain msg b w0 where "await (or_fail_comms msg (new_backup_key M b)) encoded_key w0 = (Inr s, w')"
    unfolding await_Inr_iff by blast
  from new_key_kept [OF assms(1) this] show ?thesis .
qed

end


section \<open>A backup server in memory\<close>

text \<open>
  An instance of the laws: the world is the key of the backup, the key kept by the client and
  a supply of fresh keys. Making a backup draws its own key, another than the one offered.
\<close>

record backup_world =
  bw_backup :: "bytes option"
  bw_session :: "bytes option"
  bw_fresh :: "8 word"

definition encode_key :: "bytes \<Rightarrow> string" where
  "encode_key k = CHR ''E'' # map (\<lambda>b. char_of (unat b)) k"

definition decode_key :: "string \<Rightarrow> bytes result" where
  "decode_key s =
     (case s of
        c # cs \<Rightarrow> if c = CHR ''E'' then Inr (map (\<lambda>d. word_of_nat (of_char d)) cs) else Inl (PlainError ''Incorrect key'')
      | [] \<Rightarrow> Inl (PlainError ''Incorrect key''))"

lemma decode_encode_key: "decode_key (encode_key k) = Inr k"
proof -
  have "word_of_nat (of_char (char_of (unat b))) = b" for b :: "8 word"
    using unsigned_less [of b, where 'a = nat] by simp
  then show ?thesis by (simp add: decode_key_def encode_key_def comp_def)
qed

lemma encode_key_nonempty: "encode_key k \<noteq> ''''"
  by (simp add: encode_key_def)

definition backup_server :: "backup_world crypto_client" where
  "backup_server =
     \<lparr>cy_available = (\<lambda>_. True),
      cy_createRecoveryKey = (\<lambda>w. (Inr \<lparr>gk_privateKey = [bw_fresh w], gk_encodedPrivateKey = Some (encode_key [bw_fresh w])\<rparr>,
        w\<lparr>bw_fresh := bw_fresh w + 1\<rparr>)),
      cy_bootstrapSecretStorage = (\<lambda>_ newBackup _ w.
        (Inr (), if newBackup then \<lparr>bw_backup = Some [bw_fresh w], bw_session = Some [bw_fresh w], bw_fresh = bw_fresh w + 1\<rparr> else w)),
      cy_getSessionBackupPrivateKey = (\<lambda>w. (Inr (bw_session w), w)),
      cy_checkKeyBackupAndEnable = (\<lambda>w. (Inr (bw_backup w \<noteq> None), w)),
      cy_getActiveSessionBackupVersion = (\<lambda>w. (Inr (map_option (\<lambda>_. ''1'') (bw_backup w)), w)),
      cy_storeSessionBackupPrivateKey = (\<lambda>k _ w. (Inr (), w\<lparr>bw_session := Some k\<rparr>)),
      cy_restoreKeyBackup = (\<lambda>w. (if bw_session w = bw_backup w then Inr () else Inl (PlainError ''Key does not match''), w)),
      cy_encodeRecoveryKey = (\<lambda>k. Some (encode_key k)),
      cy_decodeRecoveryKey = decode_key,
      cy_requestOwnUserVerification = ret (),
      cy_requestVerificationDM = (\<lambda>_ _. ret ()),
      cy_setDeviceVerified = (\<lambda>_ _. ret ()),
      cy_getDeviceVerificationStatus = (\<lambda>_ _. ret None),
      cy_getUserVerificationStatus = (\<lambda>_. ret JNull),
      cy_bootstrapCrossSigning = (\<lambda>_. ret ()),
      cy_isCrossSigningReady = ret True,
      cy_getDeviceId = ret (Some ''D''),
      cy_getUserDeviceInfo = (\<lambda>us. ret (Some (map (\<lambda>u. (u, [(''D'', Verified)])) us))),
      cy_onUserTrustStatusChanged = (\<lambda>_. ret ()),
      cy_onVerificationRequestReceived = (\<lambda>_. ret ())\<rparr>"

interpretation backup: crypto_backup backup_server bw_backup bw_session
  by unfold_locales
    (auto simp: backup_server_def decode_encode_key encode_key_nonempty split: if_splits)

definition demo_security :: "backup_world security_client" where
  "demo_security =
     \<lparr>sm_rooms = quiet_client [], sm_crypto = backup_server, sm_accessToken = ''t'', sm_deviceId = ''D''\<rparr>"


lemma demo_security_sel [simp]:
  "sm_crypto demo_security = backup_server" "sm_rooms demo_security = quiet_client []"
  by (simp_all add: demo_security_def)

definition backup_world_0 :: backup_world where
  "backup_world_0 = \<lparr>bw_backup = None, bw_session = None, bw_fresh = 7\<rparr>"

lemma demo_create:
  "ss_createBackup demo_security backup_world_0 =
     (Inr (encode_key [8]), \<lparr>bw_backup = Some [8], bw_session = Some [8], bw_fresh = 9\<rparr>)"
  by (simp add: ss_createBackup_def ss_getBackupState_def cm_hasKeyBackup_def cm_createKeyBackup_def
        new_backup_key_def with_crypto_def getCrypto_def or_fail_comms_def backup_server_def
        await_def try_catch_def ret_def throw_def backup_world_0_def used_key_def differs_iff
        encoded_key_def encode_key_nonempty)

section \<open>Properties\<close>

text \<open>
  C14: The key that making, rotating or resetting the backup returns opens it, and nothing but
  that key does. The code answers the key the client stored, which need not be the one it
  offered; so whenever the backup on the server is still the one made then, recovering
  with a string succeeds exactly when the string decodes to the key that was returned.
\<close>

theorem backup_key_opens_backup:
  assumes "crypto_backup X backup_key session_key" and "sm_crypto M = X"
    and "ss_createBackup M w = (Inr s, w1) \<or> ss_rotateBackupKey M w = (Inr s, w1) \<or> ss_resetBackupKey M w = (Inr s, w1)"
    and "cy_available X w2" and "backup_key w2 = backup_key w1"
  shows "(\<exists>w3. ss_recover M t w2 = (Inr (), w3)) \<longleftrightarrow>
    (\<exists>k. cy_decodeRecoveryKey X s = Inr k \<and> cy_decodeRecoveryKey X t = Inr k)"
proof -
  from crypto_backup.service_key_kept [OF assms(1-3)] obtain k where
    "backup_key w1 = Some k" "cy_decodeRecoveryKey X s = Inr k" by blast
  then show ?thesis
    using crypto_backup.service_recover_iff [OF assms(1,2,4), of k t] assms(5) by simp
qed

theorem backup_key_opens_backup_witness:
  "\<exists>w. ss_recover demo_security (encode_key [8]) \<lparr>bw_backup = Some [8], bw_session = None, bw_fresh = 20\<rparr> = (Inr (), w)"
proof -
  have "crypto_backup backup_server bw_backup bw_session" by (rule backup.crypto_backup_axioms)
  from backup_key_opens_backup [OF this, of demo_security backup_world_0 "encode_key [8]"
      "\<lparr>bw_backup = Some [8], bw_session = Some [8], bw_fresh = 9\<rparr>"
      "\<lparr>bw_backup = Some [8], bw_session = None, bw_fresh = 20\<rparr>" "encode_key [8]"]
  show ?thesis by (simp add: demo_create) (simp add: backup_server_def decode_encode_key)
qed

end
