(* ===== verification/ChatModules.thy ===== *)
theory ChatModules
  imports DirectChats Handles MessageUseCases Notifications Security
begin

text \<open>
  The public modules for messages, direct chats, handles, media, notifications and security:
  each method runs one use case and translates its input and answer where the public types
  differ. The listeners of \<open>DefaultMessagingModule\<close> are theory Listeners.
\<close>

section \<open>Messages\<close>

definition msm_getMessages ::
    "nat \<Rightarrow> 'w messaging_env \<Rightarrow> handle_id \<Rightarrow> Recipient \<Rightarrow> int option \<Rightarrow> string option \<Rightarrow>
     ('w, Message list \<times> string option) loop_io" where
  "msm_getMessages fuel E handleId recipient limit nextToken =
     loop_await (ucm_getMessages fuel E handleId recipient limit nextToken) (\<lambda>(messages, resultNextToken).
       once (ret (map message_fromEntityToAPI messages, resultNextToken)))"

definition msm_getMessage ::
    "'w messaging_env \<Rightarrow> handle_id \<Rightarrow> Recipient \<Rightarrow> event_id \<Rightarrow> ('w, Message option) io" where
  "msm_getMessage E handleId recipient messageId =
     await (ucm_getMessage E handleId recipient messageId) (\<lambda>r. ret (map_option message_fromEntityToAPI r))"

definition msm_searchMessages ::
    "'w messaging_env \<Rightarrow> handle_id \<Rightarrow> string \<Rightarrow> int option \<Rightarrow> string option \<Rightarrow>
     ('w, SearchMessagesItem list \<times> string option) io" where
  "msm_searchMessages E handleId searchText limit nextToken =
     await (ucm_searchMessages E handleId searchText limit nextToken) (\<lambda>(messages, resultNextToken).
       ret (map search_item_fromEntityToAPI messages, resultNextToken))"

definition msm_getChatSummaries ::
    "'w messaging_env \<Rightarrow> handle_id \<Rightarrow> Recipient list \<Rightarrow> ('w, ChatSummary list) io" where
  "msm_getChatSummaries E handleId recipients =
     await (ucm_getChatSummaries E handleId recipients) (\<lambda>rs. ret (map summary_fromEntityToAPI rs))"

definition msm_markAsRead :: "'w messaging_env \<Rightarrow> handle_id \<Rightarrow> Recipient \<Rightarrow> ('w, unit) io" where
  "msm_markAsRead E handleId recipient = ucm_markAsRead E handleId recipient"

definition msm_markAsUnread :: "'w messaging_env \<Rightarrow> handle_id \<Rightarrow> Recipient \<Rightarrow> ('w, unit) io" where
  "msm_markAsUnread E handleId recipient = ucm_markAsUnread E handleId recipient"

definition msm_sendTypingNotification ::
    "'w messaging_env \<Rightarrow> handle_id \<Rightarrow> Recipient \<Rightarrow> bool \<Rightarrow> ('w, unit) io" where
  "msm_sendTypingNotification E handleId recipient isTyping =
     ucm_sendTypingNotification E handleId recipient isTyping"

text \<open>
  What makes a message a reply wins over what puts it in a thread. The mentions are checked
  first, so an unknown one sends nothing.
\<close>

definition msm_sendMessage ::
    "'w messaging_env \<Rightarrow> handle_id \<Rightarrow> Recipient \<Rightarrow> string \<Rightarrow> MessageMention list \<Rightarrow>
     event_id option \<Rightarrow> event_id option \<Rightarrow> ('w, unit) io" where
  "msm_sendMessage E handleId recipient message mentions threadId replyToMessageId =
     await (lift_result (map_result mention_fromAPIToEntity mentions)) (\<lambda>ms.
       if truthy_str replyToMessageId
       then ucm_sendReplyMessage E handleId recipient (the replyToMessageId) message ms
       else if truthy_str threadId
       then ucm_sendThreadMessage E handleId recipient (the threadId) message ms
       else ucm_sendMessage E handleId recipient message ms)"

definition msm_editMessage ::
    "'w messaging_env \<Rightarrow> handle_id \<Rightarrow> Recipient \<Rightarrow> event_id \<Rightarrow> string \<Rightarrow> ('w, unit) io" where
  "msm_editMessage E handleId recipient messageId message =
     ucm_editMessage E handleId recipient messageId message"

definition msm_deleteMessage ::
    "'w messaging_env \<Rightarrow> handle_id \<Rightarrow> Recipient \<Rightarrow> event_id \<Rightarrow> RedactReasonEntity option \<Rightarrow> ('w, unit) io" where
  "msm_deleteMessage E handleId recipient messageId reason =
     ucm_deleteMessage E handleId recipient messageId reason"

text \<open>
  The mentions of a caption are passed on untranslated. What reads them distinguishes those
  of a handle from all others, which it takes for mentions of the chat.
\<close>

fun mention_passed_on :: "MessageMention \<Rightarrow> MessageMentionEntity" where
  "mention_passed_on (HandleMention handleId name) = HandleMentionEntity handleId name"
| "mention_passed_on ChatMention = ChatMentionEntity"
| "mention_passed_on (OtherMention _) = ChatMentionEntity"

definition msm_sendMedia ::
    "'w messaging_env \<Rightarrow> media_cache \<Rightarrow> handle_id \<Rightarrow> SendMediaInput \<Rightarrow> MessageMention list option \<Rightarrow>
     ('w, media_cache) io" where
  "msm_sendMedia E cache handleId inp mentions =
     ucm_sendMedia E cache handleId (inp\<lparr>sm_mentions := map_option (map mention_passed_on) mentions\<rparr>)"

definition msm_editMediaCaption ::
    "'w messaging_env \<Rightarrow> media_cache \<Rightarrow> handle_id \<Rightarrow> Recipient \<Rightarrow> event_id \<Rightarrow> string \<Rightarrow>
     MessageMention list option \<Rightarrow> ('w, media_cache) io" where
  "msm_editMediaCaption E cache handleId recipient messageId caption mentions =
     ucm_editMediaCaption E cache handleId recipient messageId caption
       (map_option (map mention_passed_on) mentions)"

definition msm_toggleReaction ::
    "'w messaging_env \<Rightarrow> handle_id \<Rightarrow> Recipient \<Rightarrow> event_id \<Rightarrow> string \<Rightarrow> ('w, unit) io" where
  "msm_toggleReaction E handleId recipient messageId content =
     ucm_toggleReaction E handleId recipient messageId content"

text \<open>Pinning and unpinning run the same use case, which toggles.\<close>

definition msm_pinMessage :: "'w messaging_env \<Rightarrow> handle_id \<Rightarrow> Recipient \<Rightarrow> event_id \<Rightarrow> ('w, unit) io" where
  "msm_pinMessage E handleId recipient messageId = ucm_pinUnpinMessage E handleId recipient messageId"

definition msm_unpinMessage :: "'w messaging_env \<Rightarrow> handle_id \<Rightarrow> Recipient \<Rightarrow> event_id \<Rightarrow> ('w, unit) io" where
  "msm_unpinMessage E handleId recipient messageId = ucm_pinUnpinMessage E handleId recipient messageId"

definition msm_getPinnedMessages ::
    "'w messaging_env \<Rightarrow> handle_id \<Rightarrow> Recipient \<Rightarrow> ('w, Message list) io" where
  "msm_getPinnedMessages E handleId recipient =
     await (ucm_getPinnedMessages E handleId recipient) (\<lambda>rs. ret (map message_fromEntityToAPI rs))"

definition msm_createPoll ::
    "'w messaging_env \<Rightarrow> handle_id \<Rightarrow> Recipient \<Rightarrow> PollType \<Rightarrow> string \<Rightarrow> string list \<Rightarrow> int \<Rightarrow> ('w, unit) io" where
  "msm_createPoll E handleId recipient type question answers maxSelections =
     ucm_createPoll E handleId recipient (poll_type_fromAPIToEntity type) question answers maxSelections"

definition msm_sendPollResponse ::
    "'w messaging_env \<Rightarrow> handle_id \<Rightarrow> Recipient \<Rightarrow> event_id \<Rightarrow> string list \<Rightarrow> ('w, unit) io" where
  "msm_sendPollResponse E handleId recipient pollId answers =
     ucm_sendPollResponse E handleId recipient pollId answers"

definition msm_editPoll ::
    "'w messaging_env \<Rightarrow> handle_id \<Rightarrow> Recipient \<Rightarrow> event_id \<Rightarrow> PollType \<Rightarrow> string \<Rightarrow> string list \<Rightarrow> int \<Rightarrow>
     ('w, unit) io" where
  "msm_editPoll E handleId recipient pollId type question answers maxSelections =
     ucm_editPoll E handleId recipient pollId (poll_type_fromAPIToEntity type) question answers maxSelections"

definition msm_endPoll :: "'w messaging_env \<Rightarrow> handle_id \<Rightarrow> Recipient \<Rightarrow> event_id \<Rightarrow> ('w, unit) io" where
  "msm_endPoll E handleId recipient pollId = ucm_endPoll E handleId recipient pollId"

record PollResponses =
  po_talliedAnswers :: "(string \<times> nat) list"
  po_totalVotes :: nat
  po_endedAt :: "int option"

definition poll_responses_fromEntityToAPI :: "PollResponsesEntity \<Rightarrow> PollResponses" where
  "poll_responses_fromEntityToAPI e =
     \<lparr>po_talliedAnswers = pr_talliedAnswers e, po_totalVotes = pr_totalVotes e, po_endedAt = pr_endedAt e\<rparr>"

definition poll_responses_fromAPIToEntity :: "PollResponses \<Rightarrow> PollResponsesEntity" where
  "poll_responses_fromAPIToEntity d =
     \<lparr>pr_talliedAnswers = po_talliedAnswers d, pr_totalVotes = po_totalVotes d, pr_endedAt = po_endedAt d\<rparr>"

definition msm_getPollResponses ::
    "nat \<Rightarrow> 'w messaging_env \<Rightarrow> handle_id \<Rightarrow> Recipient \<Rightarrow> event_id \<Rightarrow> ('w, PollResponses) loop_io" where
  "msm_getPollResponses fuel E handleId recipient pollId =
     loop_await (ucm_getPollResponses fuel E handleId recipient pollId) (\<lambda>r.
       once (ret (poll_responses_fromEntityToAPI r)))"

interpretation poll_responses: enum_codec poll_responses_fromEntityToAPI poll_responses_fromAPIToEntity
  by unfold_locales (simp_all add: poll_responses_fromAPIToEntity_def poll_responses_fromEntityToAPI_def)

section \<open>Direct chats\<close>

record DirectChat =
  dca_id :: Recipient
  dca_otherHandle :: HandleEntity

record DirectChatInvitation =
  dia_chatId :: Recipient
  dia_inviterHandle :: HandleEntity

definition direct_chat_fromEntityToAPI :: "DirectChatEntity \<Rightarrow> DirectChat" where
  "direct_chat_fromEntityToAPI e = \<lparr>dca_id = de_chatId e, dca_otherHandle = de_otherHandle e\<rparr>"

definition direct_invitation_fromEntityToAPI :: "DirectChatInvitationEntity \<Rightarrow> DirectChatInvitation" where
  "direct_invitation_fromEntityToAPI e =
     \<lparr>dia_chatId = di_chatId e, dia_inviterHandle = di_inviterHandle e\<rparr>"

definition dcm_createChat :: "'w chat_sdk \<Rightarrow> handle_id \<Rightarrow> handle_id \<Rightarrow> ('w, Recipient) io" where
  "dcm_createChat S handleId handleIdToChatTo = ucd_createChat S handleId handleIdToChatTo"

definition dcm_acceptInvitation :: "'w chat_sdk \<Rightarrow> handle_id \<Rightarrow> string \<Rightarrow> ('w, unit) io" where
  "dcm_acceptInvitation S handleId chatId = ucd_acceptInvitation S handleId chatId"

definition dcm_declineInvitation :: "'w chat_sdk \<Rightarrow> handle_id \<Rightarrow> string \<Rightarrow> ('w, unit) io" where
  "dcm_declineInvitation S handleId chatId = ucd_declineInvitation S handleId chatId"

definition dcm_listInvitations :: "'w chat_sdk \<Rightarrow> handle_id \<Rightarrow> ('w, DirectChatInvitation list) io" where
  "dcm_listInvitations S handleId =
     await (ucd_listInvitations S handleId) (\<lambda>rs. ret (map direct_invitation_fromEntityToAPI rs))"

definition dcm_listJoined :: "'w chat_sdk \<Rightarrow> handle_id \<Rightarrow> ('w, DirectChat list) io" where
  "dcm_listJoined S handleId =
     await (ucd_listJoinedChats S handleId) (\<lambda>rs. ret (map direct_chat_fromEntityToAPI rs))"

definition dcm_blockHandle :: "'w chat_sdk \<Rightarrow> handle_id \<Rightarrow> handle_id \<Rightarrow> ('w, unit) io" where
  "dcm_blockHandle S handleId handleIdToBlock = ucd_blockHandle S handleId handleIdToBlock"

definition dcm_unblockHandle :: "'w chat_sdk \<Rightarrow> handle_id \<Rightarrow> handle_id \<Rightarrow> ('w, unit) io" where
  "dcm_unblockHandle S handleId handleIdToUnblock = ucd_unblockHandle S handleId handleIdToUnblock"

definition dcm_listBlockedHandles :: "'w chat_sdk \<Rightarrow> handle_id \<Rightarrow> ('w, handle_id list) io" where
  "dcm_listBlockedHandles S handleId = ucd_listBlockedHandles S handleId"

section \<open>Handles\<close>

record OwnedHandle = HandleEntity +
  oa_owner :: string
  oa_owners :: "Owner list"

definition handle_fromEntityToAPI :: "OwnedHandleEntity \<Rightarrow> OwnedHandle" where
  "handle_fromEntityToAPI e =
     \<lparr>he_handleId = he_handleId e, he_name = he_name e, oa_owner = oh_owner e,
      oa_owners = copy_owners (oh_owners e)\<rparr>"

definition hdm_provisionHandle ::
    "'x session_env \<Rightarrow> ('s, 'st) storage_module \<Rightarrow> ProvisionHandleUseCaseInput \<Rightarrow>
     (('x, 's) session_state, OwnedHandle) io" where
  "hdm_provisionHandle E M inp =
     await (ucs_provisionHandle E M inp) (\<lambda>h. ret (handle_fromEntityToAPI h))"

definition hdm_deprovisionHandle ::
    "'x session_env \<Rightarrow> ('s, 'st) storage_module \<Rightarrow> handle_id \<Rightarrow> (('x, 's) session_state, unit) io" where
  "hdm_deprovisionHandle E M i = await (ucs_deprovisionHandle E M i) (\<lambda>_. ret ())"

definition hdm_updateHandle :: "'w graphql_client \<Rightarrow> handle_id \<Rightarrow> string \<Rightarrow> ('w, OwnedHandle) io" where
  "hdm_updateHandle G handleId name =
     await (ucs_updateHandle G handleId name) (\<lambda>h. ret (handle_fromEntityToAPI h))"

definition hdm_listHandles ::
    "'w graphql_client \<Rightarrow> int option \<Rightarrow> string option \<Rightarrow> ('w, OwnedHandle list \<times> string option) io" where
  "hdm_listHandles G limit nextToken =
     await (ucs_listHandles G limit nextToken) (\<lambda>(handles, resultNextToken).
       ret (map handle_fromEntityToAPI handles, resultNextToken))"

section \<open>Media\<close>

definition mdm_downloadMediaFile ::
    "'w media_env \<Rightarrow> (handle_id \<Rightarrow> ('w, 'c) io) \<Rightarrow> media_cache \<Rightarrow> handle_id \<Rightarrow> string \<Rightarrow>
     FileEncryptionInfoEntity option \<Rightarrow> ('w, bytes \<times> media_cache) io" where
  "mdm_downloadMediaFile E matrixClient cache handleId uri encryptionInfo =
     uc_downloadMediaFile E matrixClient cache handleId uri
       (map_option file_encryption_fromAPIToEntity encryptionInfo)"

section \<open>Notifications\<close>

definition ntm_getDecodedInfo ::
    "'w notification_env \<Rightarrow> handle_id \<Rightarrow> room_id \<Rightarrow> event_id \<Rightarrow> ('w, NotificationInfo) io" where
  "ntm_getDecodedInfo E handleId roomId eventId = ucn_getDecodedInfo E handleId roomId eventId"

definition ntm_getSettings :: "'w notification_env \<Rightarrow> handle_id \<Rightarrow> ('w, NotificationSettings) io" where
  "ntm_getSettings E handleId = ucn_getSettings E handleId"

definition ntm_setDefaultEventRules :: "'w notification_env \<Rightarrow> handle_id \<Rightarrow> bool \<Rightarrow> ('w, unit) io" where
  "ntm_setDefaultEventRules E handleId invitations = ucn_setDefaultEventRules E handleId invitations"

definition ntm_setDefaultChatRules ::
    "'w notification_env \<Rightarrow> handle_id \<Rightarrow> MessageNotificationLevel \<Rightarrow> ('w, unit) io" where
  "ntm_setDefaultChatRules E handleId level = ucn_setDefaultChatRules E handleId level"

definition ntm_setRecipientChatRules ::
    "'w notification_env \<Rightarrow> handle_id \<Rightarrow> Recipient \<Rightarrow> MessageNotificationLevel \<Rightarrow> ('w, unit) io" where
  "ntm_setRecipientChatRules E handleId recipient level = ucn_setRecipientChatRules E handleId recipient level"

definition ntm_clearRecipientChatRules ::
    "'w notification_env \<Rightarrow> handle_id \<Rightarrow> Recipient \<Rightarrow> ('w, unit) io" where
  "ntm_clearRecipientChatRules E handleId recipient = ucn_clearRecipientChatRules E handleId recipient"

section \<open>Security\<close>

definition scm_isVerified :: "'w security_env \<Rightarrow> handle_id \<Rightarrow> ('w, bool) io" where
  "scm_isVerified E handleId = ucx_isVerified E handleId"

definition scm_onSessionVerificationChanged ::
    "'w security_env \<Rightarrow> handle_id \<Rightarrow> (bool \<Rightarrow> ('w, unit) io) \<Rightarrow> ('w, unit) io" where
  "scm_onSessionVerificationChanged E handleId handler = ucx_onSessionVerificationChanged E handleId handler"

definition scm_getBackupState :: "'w security_env \<Rightarrow> handle_id \<Rightarrow> ('w, BackupState) io" where
  "scm_getBackupState E handleId = ucx_getBackupState E handleId"

definition scm_createBackup :: "'w security_env \<Rightarrow> handle_id \<Rightarrow> ('w, string) io" where
  "scm_createBackup E handleId = ucx_createBackup E handleId"

definition scm_recover :: "'w security_env \<Rightarrow> handle_id \<Rightarrow> string \<Rightarrow> ('w, unit) io" where
  "scm_recover E handleId backupKey = ucx_recover E handleId backupKey"

definition scm_rotateBackupKey :: "'w security_env \<Rightarrow> handle_id \<Rightarrow> ('w, string) io" where
  "scm_rotateBackupKey E handleId = ucx_rotateBackupKey E handleId"

definition scm_resetBackupKey :: "'w security_env \<Rightarrow> handle_id \<Rightarrow> ('w, string) io" where
  "scm_resetBackupKey E handleId = ucx_resetBackupKey E handleId"

definition scm_onVerificationRequestReceived ::
    "'w security_env \<Rightarrow> handle_id \<Rightarrow> (json \<Rightarrow> ('w, unit) io) \<Rightarrow> ('w, unit) io" where
  "scm_onVerificationRequestReceived E handleId handler = ucx_onVerificationRequestReceived E handleId handler"

definition scm_requestVerification :: "'w security_env \<Rightarrow> handle_id \<Rightarrow> ('w, unit) io" where
  "scm_requestVerification E handleId = ucx_requestVerification E handleId"

definition scm_acceptVerificationRequest ::
    "'w security_env \<Rightarrow> handle_id \<Rightarrow> handle_id \<Rightarrow> string \<Rightarrow> ('w, unit) io" where
  "scm_acceptVerificationRequest E handleId senderId flowId = ucx_acceptVerification E handleId senderId flowId"

definition scm_startVerification :: "'w security_env \<Rightarrow> handle_id \<Rightarrow> ('w, unit) io" where
  "scm_startVerification E handleId = ucx_startVerification E handleId"

definition scm_approveVerification :: "'w security_env \<Rightarrow> handle_id \<Rightarrow> ('w, unit) io" where
  "scm_approveVerification E handleId = ucx_approveVerification E handleId"

definition scm_declineVerification :: "'w security_env \<Rightarrow> handle_id \<Rightarrow> ('w, unit) io" where
  "scm_declineVerification E handleId = ucx_declineVerification E handleId"

definition scm_cancelVerification :: "'w security_env \<Rightarrow> handle_id \<Rightarrow> ('w, unit) io" where
  "scm_cancelVerification E handleId = ucx_cancelVerification E handleId"

end
