(* ===== verification/Client.thy ===== *)
theory Client
  imports Sessions SyncWindow
begin

text \<open>
  The client object of the SDK (\<open>src/public/secureCommsClient.ts\<close>): starting and stopping the
  syncing of a handle, asking whether it is ready, and the reset. It runs the session manager
  (theory Sessions) and, on the handle's Matrix client, the syncing of theory SyncWindow.
\<close>

section \<open>State and environment\<close>

text \<open>The sessions, and for every Matrix client the manager's syncing.\<close>

type_synonym ('x, 's) client_state = "('x, 's) session_state \<times> (nat \<Rightarrow> sync_state)"

record 'x sync_env =
  ye_isSignedIn :: "('x, bool) io"
  ye_removeAllKeys :: "('x, unit) io"
  ye_supportsSlidingSync :: "nat \<Rightarrow> ('x, bool) io"
  ye_onRoom :: "nat \<Rightarrow> ('x, unit) io"
  ye_startClient :: "nat \<Rightarrow> bool \<Rightarrow> ('x, unit) io"
  ye_syncState :: "nat \<Rightarrow> 'x \<Rightarrow> string option"
  ye_isInitialSyncComplete :: "nat \<Rightarrow> 'x \<Rightarrow> bool"

definition with_sessions :: "(('x, 's) session_state, 'a) io \<Rightarrow> (('x, 's) client_state, 'a) io" where
  "with_sessions m w = (case m (fst w) of (r, s) \<Rightarrow> (r, (s, snd w)))"

definition set_sync :: "nat \<Rightarrow> (sync_state \<Rightarrow> sync_state) \<Rightarrow> (('x, 's) client_state, unit) io" where
  "set_sync c f w = (Inr (), (fst w, (snd w)(c := f (snd w c))))"

definition get_sync :: "nat \<Rightarrow> (('x, 's) client_state, sync_state) io" where
  "get_sync c w = (Inr (snd w c), w)"

definition outside :: "('x, 'a) io \<Rightarrow> (('x, 's) client_state, 'a) io" where
  "outside m = with_sessions (ext m)"

section \<open>Syncing of a Matrix client\<close>

text \<open>
  \<open>startSyncing\<close> and \<open>stopSyncing\<close> log whatever fails. The listener of new rooms is registered
  after the sliding sync was made, and removed before the client is stopped.
\<close>

definition run_startSyncing :: "'x sync_env \<Rightarrow> nat \<Rightarrow> (('x, 's) client_state, unit) io" where
  "run_startSyncing Y c =
     try_catch
       (await (outside (ye_supportsSlidingSync Y c)) (\<lambda>useSlidingSync.
        await (if useSlidingSync
               then await (set_sync c (startSyncing (Some True))) (\<lambda>_. outside (ye_onRoom Y c))
               else ret ()) (\<lambda>_.
        await (get_sync c) (\<lambda>s. outside (ye_startClient Y c (sy_sliding s))))))
       (\<lambda>_. ret ())"

definition run_stopSyncing :: "'x session_env \<Rightarrow> nat \<Rightarrow> (('x, 's) client_state, unit) io" where
  "run_stopSyncing E c =
     try_catch
       (await (get_sync c) (\<lambda>s.
        await (if sy_listener s then outside (sx_dropSyncListener E c) else ret ()) (\<lambda>_.
        await (set_sync c (stopSyncing False)) (\<lambda>_.
        await (outside (sx_stopClient E c)) (\<lambda>_.
        set_sync c (stopSyncing True))))))
       (\<lambda>_. ret ())"

definition isReady :: "'x sync_env \<Rightarrow> nat \<Rightarrow> (('x, 's) client_state, bool) io" where
  "isReady Y c w =
     (Inr (ye_syncState Y c (st_ext (fst w)) = Some ''SYNCING'' \<and> ye_isInitialSyncComplete Y c (st_ext (fst w))), w)"

section \<open>The client\<close>

definition sdk_startSyncing ::
    "'x sync_env \<Rightarrow> 'x session_env \<Rightarrow> ('s, 'st) storage_module \<Rightarrow> handle_id \<Rightarrow> string option \<Rightarrow>
     (('x, 's) client_state, unit) io" where
  "sdk_startSyncing Y E M i deviceId =
     await (outside (ye_isSignedIn Y)) (\<lambda>signedIn.
     if \<not> signedIn then throw NotAuthorizedError
     else await (with_sessions (getMatrixClient E M i deviceId)) (\<lambda>matrixClient.
          run_startSyncing Y (cl_id matrixClient)))"

definition sdk_isReady ::
    "'x sync_env \<Rightarrow> 'x session_env \<Rightarrow> ('s, 'st) storage_module \<Rightarrow> handle_id \<Rightarrow> string option \<Rightarrow>
     (('x, 's) client_state, bool) io" where
  "sdk_isReady Y E M i deviceId =
     await (with_sessions (getMatrixClient E M i deviceId)) (\<lambda>matrixClient. isReady Y (cl_id matrixClient))"

definition sdk_stopSyncing ::
    "'x session_env \<Rightarrow> ('s, 'st) storage_module \<Rightarrow> handle_id \<Rightarrow> (('x, 's) client_state, unit) io" where
  "sdk_stopSyncing E M i =
     await (with_sessions (getMatrixClient E M i None)) (\<lambda>matrixClient. run_stopSyncing E (cl_id matrixClient))"

text \<open>\<open>handleIds\<close> are the keys of the manager's record of sessions, in its order.\<close>

definition sdk_reset ::
    "'x sync_env \<Rightarrow> 'x session_env \<Rightarrow> ('s, 'st) storage_module \<Rightarrow> handle_id list \<Rightarrow>
     (('x, 's) client_state, unit) io" where
  "sdk_reset Y E M handleIds =
     await (outside (ye_removeAllKeys Y)) (\<lambda>_. with_sessions (reset_sessions E M handleIds))"

section \<open>Facts\<close>

lemma start_needs_sign_in:
  assumes "ye_isSignedIn Y (st_ext (fst w)) = (Inr False, x)"
  shows "sdk_startSyncing Y E M i deviceId w = (Inl NotAuthorizedError, ((fst w)\<lparr>st_ext := x\<rparr>, snd w))"
  using assms by (simp add: sdk_startSyncing_def outside_def with_sessions_def ext_def await_def throw_def)

lemma outside_keeps_sync [simp]: "snd (snd (outside m w)) = snd w"
  by (simp add: outside_def with_sessions_def split: prod.split)

text \<open>Starting and stopping never fail, and do to the window what theory SyncWindow says.\<close>

lemma stop_twice: "stopSyncing True (stopSyncing False s) = stopSyncing True s"
  by (simp add: stopSyncing_def Let_def)

lemmas sync_steps = io_simps set_sync_def get_sync_def

lemma start_swallows: "fst (run_startSyncing Y c w) = Inr ()"
  by (simp add: run_startSyncing_def try_catch_def ret_def split: prod.split sum.split)

lemma stop_swallows: "fst (run_stopSyncing E c w) = Inr ()"
  by (simp add: run_stopSyncing_def try_catch_def ret_def split: prod.split sum.split)

lemma start_window:
  "snd (snd (run_startSyncing Y c w)) = snd w \<or>
   snd (snd (run_startSyncing Y c w)) = (snd w)(c := startSyncing (Some True) (snd w c))"
  by (simp add: run_startSyncing_def sync_steps split: sum.split)

lemma stop_window:
  "snd (snd (run_stopSyncing E c w)) = snd w \<or>
   (\<exists>b. snd (snd (run_stopSyncing E c w)) = (snd w)(c := stopSyncing b (snd w c)))"
  by (auto simp: run_stopSyncing_def sync_steps stop_twice split: sum.split)

text \<open>Every client's window keeps its invariant through whatever the client object does.\<close>

definition windows_ok :: "('x, 's) client_state \<Rightarrow> bool" where
  "windows_ok w \<longleftrightarrow> (\<forall>c. window_ok (snd w c))"

lemma windows_ok_start: "windows_ok w \<Longrightarrow> windows_ok (snd (run_startSyncing Y c w))"
  using start_window [of Y c w] by (auto simp: windows_ok_def window_ok_start)

lemma windows_ok_stop: "windows_ok w \<Longrightarrow> windows_ok (snd (run_stopSyncing E c w))"
  using stop_window [of E c w] by (auto simp: windows_ok_def window_ok_stop)

end
