(* ===== verification/FileSharing.thy ===== *)
theory FileSharing
  imports MessageUseCases
begin

text \<open>
  A file from one handle to another: the use case that sends media
  (\<open>src/private/domain/use-cases/messaging/sendMediaUseCase.ts\<close>), the reading of the event it
  sends (\<open>messageTransformer.ts\<close>), and the use case that downloads the file the content names
  (\<open>downloadMediaFileUseCase.ts\<close>), composed. The theory holds what the property that spans
  them in the root theory rests on.
\<close>

section \<open>Where a download looks for the credential\<close>

lemma js_includes_mid: "js_includes (a @ b @ c) b"
proof (induction a)
  case Nil
  have "js_startsWith (b @ c) b" by (rule js_startsWith_append)
  then show ?case by (cases "b @ c") auto
qed simp

text \<open>A name that stays one segment of a URL's path, and one part of an object key.\<close>

definition plain_name :: "string \<Rightarrow> bool" where
  "plain_name s \<longleftrightarrow> set s \<inter> set ''/?#_'' = {}"

lemma plain_name_chars:
  "plain_name s \<Longrightarrow> CHR ''/'' \<notin> set s \<and> CHR ''?'' \<notin> set s \<and> CHR ''#'' \<notin> set s \<and> CHR ''_'' \<notin> set s"
  by (auto simp: plain_name_def)

lemma pathname_of_media_url:
  assumes "plain_name b" "plain_name r" "plain_name p" "plain_name i" "p \<noteq> []"
  shows "url_pathname (media_url b r (p @ ''/'' @ i)) = Some (''/'' @ p @ ''_'' @ i)"
proof -
  let ?host = "b @ ''.s3.'' @ r @ ''.amazonaws.com''"
  let ?host_char = "\<lambda>c. c \<noteq> CHR ''/'' \<and> c \<noteq> CHR ''?'' \<and> c \<noteq> CHR ''#''"
  note plain = assms(1-4) [THEN plain_name_chars]
  have key: "sanitize_key (p @ ''/'' @ i) = p @ ''_'' @ i"
    by (rule sanitize_key_folder) (use plain assms(5) in auto)
  have "media_url b r (p @ ''/'' @ i) = ''mxc://'' @ ?host @ ''/'' @ p @ ''_'' @ i"
    by (simp add: media_url_def key [simplified])
  then have "after_scheme (media_url b r (p @ ''/'' @ i)) = Some (?host @ ''/'' @ p @ ''_'' @ i)"
    by simp
  moreover have "dropWhile ?host_char (?host @ ''/'' @ p @ ''_'' @ i) = ''/'' @ p @ ''_'' @ i"
    using plain by (subst dropWhile_append2) auto
  moreover have "takeWhile (\<lambda>c. c \<noteq> CHR ''?'' \<and> c \<noteq> CHR ''#'') (''/'' @ p @ ''_'' @ i) = ''/'' @ p @ ''_'' @ i"
    using plain by (subst takeWhile_eq_all_conv) auto
  ultimately show ?thesis by (simp add: url_pathname_def)
qed

text \<open>The room whose credential is asked for is the one in whose folder the file is.\<close>

lemma room_of_media_url:
  assumes "plain_name b" "plain_name r" "plain_name p" "plain_name i" "p \<noteq> []"
  shows "extractRoomId (media_url b r (p @ ''/'' @ i)) hs = Inr (''!'' @ p @ '':'' @ hs)"
proof -
  note plain = assms(3,4) [THEN plain_name_chars]
  have "js_split CHR ''/'' (''/'' @ p @ ''_'' @ i) = [[], p @ ''_'' @ i]"
    using plain js_split_no_sep [of "CHR ''/''" "p @ ''_'' @ i"] by simp
  moreover have "js_split CHR ''_'' (p @ ''_'' @ i) = [p, i]"
    using plain js_split_append_sep [of "CHR ''_''" p i] js_split_no_sep [of "CHR ''_''" i] by simp
  ultimately have "extractObjectKeyPrefix (media_url b r (p @ ''/'' @ i)) = Inr (Some p)"
    using pathname_of_media_url [OF assms]
    by (simp add: extractObjectKeyPrefix_def js_index_def del: append.simps append_Cons)
  then show ?thesis by (simp add: extractRoomId_def)
qed

section \<open>What the content of a message says about its file\<close>

text \<open>
  What an application hands to the download: of an encrypted file its place and the
  information to decrypt it, as the content has it, and otherwise the content's place.
\<close>

fun str_of_json :: "json \<Rightarrow> string option" where
  "str_of_json (JStr s) = Some s"
| "str_of_json _ = None"

definition encryption_info :: "json_object \<Rightarrow> FileEncryptionInfoEntity" where
  "encryption_info f =
     \<lparr>fe_key = obj_get f ''key'', fe_iv = nullish (str_of_json (obj_get f ''iv'')) '''',
      fe_v = str_of_json (obj_get f ''v''),
      fe_hashes = (case obj_get f ''hashes'' of JObj h \<Rightarrow> Some (str_of_json (obj_get h ''sha256'')) | _ \<Rightarrow> None)\<rparr>"

definition file_source :: "json_object \<Rightarrow> (string \<times> FileEncryptionInfoEntity option) option" where
  "file_source c =
     (case obj_get c ''encryptedFile'' of
        JObj f \<Rightarrow> map_option (\<lambda>u. (u, Some (encryption_info f))) (str_of_json (obj_get f ''url''))
      | _ \<Rightarrow> map_option (\<lambda>u. (u, None)) (str_of_json (obj_get c ''uri'')))"

lemma encryption_info_cong:
  assumes "\<And>k. k \<in> {''key'', ''iv'', ''v'', ''hashes''} \<Longrightarrow> obj_get f k = obj_get g k"
  shows "encryption_info f = encryption_info g"
  by (simp add: encryption_info_def assms)

lemma source_of_plain:
  assumes "obj_get c ''uri'' = JStr u" "obj_get c ''encryptedFile'' = encrypted_file (JObj [(''url'', JStr u)])"
  shows "file_source c = Some (u, None)"
  using assms by (simp add: file_source_def encrypted_file_def obj_get_Cons)

lemma source_of_encrypted:
  assumes "obj_get c ''encryptedFile'' = encrypted_file (JObj [(''file'', JObj (js_spread info [(''url'', JStr u)]))])"
  shows "file_source c = Some (u, Some (encryption_info info))"
proof -
  let ?f = "[(''url'', JStr u), (''key'', obj_get info ''key''), (''iv'', obj_get info ''iv''),
      (''hashes'', obj_get info ''hashes''), (''v'', obj_get info ''v'')]"
  have "obj_get c ''encryptedFile'' = JObj ?f"
    using assms by (simp add: encrypted_file_def obj_get_Cons obj_get_spread)
  moreover have "encryption_info ?f = encryption_info info"
    by (rule encryption_info_cong) (auto simp: obj_get_Cons)
  ultimately show ?thesis by (simp add: file_source_def obj_get_Cons)
qed

section \<open>Sending and downloading\<close>

lemma fresh_room_credential:
  assumes "fresh_cache cache"
  shows "getRoomMediaCredential E cache h fw r w = (Inr (cred, cache'), w') \<longleftrightarrow>
    (\<exists>c. media_credential_get E h fw r w = (Inr c, w') \<and> cred = room_credential E fw c
       \<and> cache' = cache\<lparr>mm_next := mm_next cache + 1, mm_entries := (mm_entries cache)(mm_next cache \<mapsto> c)\<rparr>)"
  by (auto simp: getRoomMediaCredential_def Let_def fresh_cache_miss [OF assms] await_Inr_iff ret_apply)

text \<open>
  The file that was sent is uploaded before the message, as it is or encrypted, and the
  content that is sent is read as one that says where.
\<close>

lemma sent_media_source:
  assumes "ms_sendMedia M inp w = (Inr (), w')" and "ms_media M = Some T"
    and "sm_threadId inp = None" and "sm_replyToMessageId inp = None"
  obtains content c uri info d name ct w0 w1 where
    "cm_sendMessage (ms_client M) (recipient_value (sm_recipient inp)) content w1 = (Inr (), w')"
    and "messageContentFromMessageEvent (JObj content) = Inr c"
    and "file_source c = Some (uri, info)"
    and "uploadMediaFile (mt_env T) (sm_mediaCredential inp) d name ct w0 = (Inr uri, w1)"
    and "(info = None \<and> d = sm_file inp) \<or>
         (\<exists>enc w2. info = Some (encryption_info enc) \<and> ms_encryptAttachment M (sm_file inp) w2 = (Inr (d, enc), w0))"
proof -
  obtain inp' t i content v1 v2 where inp': "inp' = inp\<lparr>sm_thumbnail := t, sm_thumbnailInfo := i\<rparr>"
    and made: "(case sm_recipient inp of
            ChannelId _ \<Rightarrow> handleUnencryptedFile M T inp' (getMsgType (sm_fileType inp))
          | _ \<Rightarrow> handleEncryptedFile M T inp' (getMsgType (sm_fileType inp))) v1 = (Inr content, v2)"
    and sent: "cm_sendMessage (ms_client M) (recipient_value (sm_recipient inp)) content v2 = (Inr (), w')"
    using assms by (rule ms_sendMedia_Inr)
  have same: "sm_file inp' = sm_file inp" "sm_mediaCredential inp' = sm_mediaCredential inp" by (simp_all add: inp')
  consider (plain) "handleUnencryptedFile M T inp' (getMsgType (sm_fileType inp)) v1 = (Inr content, v2)"
    | (encrypted) "handleEncryptedFile M T inp' (getMsgType (sm_fileType inp)) v1 = (Inr content, v2)"
    using made by (auto split: Recipient.splits)
  then show ?thesis
  proof cases
    case plain
    then obtain thumb uri u1 where
      up: "uploadMediaFile (mt_env T) (sm_mediaCredential inp') (sm_file inp') (sm_fileName inp') (sm_fileType inp') u1 = (Inr uri, v2)"
      and content: "content = media_content (homeServer_of M) inp' (getMsgType (sm_fileType inp)) thumb (''url'', JStr uri)"
      and thumb: "fst ` set thumb \<subseteq> {''thumbnail_info'', ''thumbnail_url'', ''thumbnail_file''}"
      by (rule handleUnencryptedFile_Inr)
    obtain c where "messageContentFromMessageEvent (JObj content) = Inr c" "obj_get c ''uri'' = JStr uri"
      "obj_get c ''encryptedFile'' = encrypted_file (JObj [(''url'', JStr uri)])"
      using media_content_read [of "(''url'', JStr uri)" thumb "homeServer_of M" inp' "getMsgType (sm_fileType inp)"] thumb
      by (auto simp: content)
    then show ?thesis using that [OF sent] source_of_plain up same by metis
  next
    case encrypted
    then obtain thumb d enc uri u1 u2 where
      enc: "ms_encryptAttachment M (sm_file inp') u1 = (Inr (d, enc), u2)"
      and up: "uploadMediaFile (mt_env T) (sm_mediaCredential inp') d (sm_fileName inp') (sm_fileType inp') u2 = (Inr uri, v2)"
      and content: "content = media_content (homeServer_of M) inp' (getMsgType (sm_fileType inp)) thumb
           (''file'', JObj (js_spread enc [(''url'', JStr uri)]))"
      and thumb: "fst ` set thumb \<subseteq> {''thumbnail_info'', ''thumbnail_url'', ''thumbnail_file''}"
      by (rule handleEncryptedFile_Inr)
    obtain c where "messageContentFromMessageEvent (JObj content) = Inr c"
      "obj_get c ''encryptedFile'' = encrypted_file (JObj [(''file'', JObj (js_spread enc [(''url'', JStr uri)]))])"
      using media_content_read [of "(''file'', JObj (js_spread enc [(''url'', JStr uri)]))" thumb "homeServer_of M" inp'
          "getMsgType (sm_fileType inp)"] thumb
      by (auto simp: content)
    then show ?thesis using that [OF sent] source_of_encrypted enc up same by metis
  qed
qed

text \<open>The use case sends with a credential it has just asked for.\<close>

lemma sent_with_credential:
  assumes "ucm_sendMedia En cache h inp w = (Inr cache', w')" and "fresh_cache cache"
  obtains client wc w0 v1 where "me_client En h w = (Inr client, w0)"
    and "media_credential_get (mt_env (me_tools En)) h True (recipient_value (sm_recipient inp)) w0 = (Inr wc, v1)"
    and "ms_sendMedia (service_over En (Some (me_tools En)) client)
           (inp\<lparr>sm_mediaCredential := room_credential (mt_env (me_tools En)) True wc\<rparr>) v1 = (Inr (), w')"
proof -
  from assms(1) obtain client w0 cred c2 v1 where client: "me_client En h w = (Inr client, w0)" and
    "getRoomMediaCredential (mt_env (me_tools En)) cache h True (recipient_value (sm_recipient inp)) w0 = (Inr (cred, c2), v1)"
    "ms_sendMedia (service_over En (Some (me_tools En)) client) (inp\<lparr>sm_mediaCredential := cred\<rparr>) v1 = (Inr (), w')"
    by (auto simp: ucm_sendMedia_def await_Inr_iff ret_apply)
  then obtain wc where
    "media_credential_get (mt_env (me_tools En)) h True (recipient_value (sm_recipient inp)) w0 = (Inr wc, v1)"
    "ms_sendMedia (service_over En (Some (me_tools En)) client)
       (inp\<lparr>sm_mediaCredential := room_credential (mt_env (me_tools En)) True wc\<rparr>) v1 = (Inr (), w')"
    by (auto simp: fresh_room_credential [OF assms(2)])
  with client show ?thesis by (rule that)
qed

lemma decrypt_done: "env_decryptAttachment E d i w = (Inr f, w') \<Longrightarrow> cm_decryptFile E d i w = (Inr f, w')"
  by (simp add: cm_decryptFile_def try_catch_apply)

text \<open>The upload of the use case, made with the credential of the room's folder.\<close>

lemma download_of_upload:
  assumes store: "\<And>region c ob w w' region' c'. env_s3_put E region c ob w = (Inr (), w') \<Longrightarrow>
      env_s3_get E region' c' (po_bucket ob, po_key ob) w' = (Inr (Some (po_body ob)), w')"
    and uuid: "\<And>w i w'. env_uuid E w = (Inr i, w') \<Longrightarrow> plain_name i"
    and names: "plain_name (cfg_roomMediaBucket (env_config E))" "plain_name (cfg_region (env_config E))"
      "plain_name p" "p \<noteq> []"
    and folder: "rmc_keyPrefix wc = p @ ''/''"
    and read: "\<And>w. \<exists>c. media_credential_get E h False (''!'' @ p @ '':'' @ cfg_homeServer (env_config E)) w = (Inr c, w)"
    and client: "\<And>w. \<exists>x. getClient h w = (Inr x, w)"
    and fresh: "fresh_cache cache"
    and up: "uploadMediaFile E (room_credential E True wc) d name ct w = (Inr uri, w')"
    and dec: "(case info of None \<Rightarrow> ret d | Some i \<Rightarrow> cm_decryptFile E d i) w' = (Inr file', w')"
  shows "\<exists>cache'. uc_downloadMediaFile E getClient cache h uri info w' = (Inr (file', cache'), w')"
proof -
  let ?b = "cfg_roomMediaBucket (env_config E)" and ?r = "cfg_region (env_config E)"
  from up obtain i w1 where i: "env_uuid E w = (Inr i, w1)"
    and uri: "uri = media_url ?b ?r (p @ ''/'' @ i)"
    by (auto simp: room_credential_def object_key_def folder elim: uploadMediaFile_Inr)
  have room: "extractRoomId uri (cfg_homeServer (env_config E)) = Inr (''!'' @ p @ '':'' @ cfg_homeServer (env_config E))"
    unfolding uri by (rule room_of_media_url) (use names uuid [OF i] in auto)
  have "js_includes uri ?b"
    using js_includes_mid [of "''mxc://''" ?b] by (simp add: uri media_url_def)
  moreover obtain c where c: "media_credential_get E h False (''!'' @ p @ '':'' @ cfg_homeServer (env_config E)) w' = (Inr c, w')"
    using read by blast
  ultimately obtain cache' where
    cred: "download_getMediaCredential E cache h uri w' = (Inr (room_credential E False c, cache'), w')"
    using fresh_room_credential [OF fresh, THEN iffD2, OF exI, OF conjI, OF c conjI, OF refl refl]
    by (simp add: download_getMediaCredential_def room io_simps)
  obtain x where x: "getClient h w' = (Inr x, w')" using client by blast
  have "downloadMediaFile E (room_credential E False c) uri info w' =
      (case info of None \<Rightarrow> ret d | Some i \<Rightarrow> cm_decryptFile E d i) w'"
    by (rule upload_then_get [OF store _ _ names(4) _ _ up])
      (use names(3) uuid in \<open>auto simp: room_credential_def folder dest: plain_name_chars\<close>)
  with dec have "downloadMediaFile E (room_credential E False c) uri info w' = (Inr file', w')" by simp
  with x cred show ?thesis by (simp add: uc_downloadMediaFile_def io_simps)
qed

section \<open>A store, a service of credentials and a cipher\<close>

text \<open>Every handle gets credentials for the folder of the room \<open>!room1:hs\<close>; the cipher adds a byte.\<close>

definition room1_credential :: MediaBucketCredential where
  "room1_credential =
     \<lparr>mbc_accessKeyId = ''a'', mbc_expiration = 0, mbc_identityId = ''i'', mbc_keyPrefix = ''room1/'',
      mbc_secretAccessKey = ''s'', mbc_sessionToken = ''t''\<rparr>"

definition shared_store :: "(string \<times> string \<rightharpoonup> bytes) media_env" where
  "shared_store = store_env
     \<lparr>env_graphql := offline_client
        \<lparr>gc_getMediaBucketCredential := (\<lambda>_ w. (Inr \<lparr>gr_errors = None, gr_data = Some room1_credential\<rparr>, w))\<rparr>,
      env_decryptAttachment := (\<lambda>f _. ret (tl f))\<rparr>"

definition sharing_env :: "(string \<times> string \<rightharpoonup> bytes) messaging_env" where
  "sharing_env =
     \<lparr>me_client = (\<lambda>_. ret (demo_messages demo_events, demo_poll demo_pages [])),
      me_tools = \<lparr>mt_env = shared_store, mt_thumbnail = (\<lambda>_ _. ret None)\<rparr>,
      me_encryptAttachment = (\<lambda>f. ret (1 # f, []))\<rparr>"

lemma shared_credential: "media_credential_get shared_store h fw r w =
    (Inr \<lparr>rmc_accessKeyId = ''a'', rmc_secretAccessKey = ''s'', rmc_sessionToken = ''t'',
          rmc_keyPrefix = ''room1/'', rmc_expiry = 0\<rparr>, w)"
  by (simp add: media_credential_get_def api_getMediaBucketCredential_def performQuery_def shared_store_def
      room1_credential_def io_simps)

lemma shared_put: "env_s3_put shared_store region c ob w = (Inr (), w((po_bucket ob, po_key ob) \<mapsto> po_body ob))"
  and shared_get: "env_s3_get shared_store region c k w = (Inr (w k), w)"
  and shared_uuid: "env_uuid shared_store = ret ''4f1d''"
  and shared_decrypt: "env_decryptAttachment shared_store f i = ret (tl f)"
  and shared_config: "cfg_roomMediaBucket (env_config shared_store) = ''rooms''"
    "cfg_region (env_config shared_store) = ''r''" "cfg_homeServer (env_config shared_store) = ''hs''"
  by (simp_all add: shared_store_def store_env_def plain_env_def)

lemma sharing_sends:
  "\<exists>cache' w'. ucm_sendMedia sharing_env empty_cache ''bob'' (demo_file\<lparr>sm_recipient := ChatId ''!room1:hs''\<rparr>) Map.empty
     = (Inr cache', w')"
proof -
  have "getRoomMediaCredential shared_store empty_cache h fw r w =
      (Inr (room_credential shared_store fw \<lparr>rmc_accessKeyId = ''a'', rmc_secretAccessKey = ''s'', rmc_sessionToken = ''t'',
          rmc_keyPrefix = ''room1/'', rmc_expiry = 0\<rparr>, empty_cache\<lparr>mm_next := 1, mm_entries := [0 \<mapsto>
         \<lparr>rmc_accessKeyId = ''a'', rmc_secretAccessKey = ''s'', rmc_sessionToken = ''t'',
          rmc_keyPrefix = ''room1/'', rmc_expiry = 0\<rparr>]\<rparr>), w)" for h fw r w
    by (simp add: getRoomMediaCredential_def empty_cache_def shared_credential io_simps)
  then show ?thesis
    by (simp add: ucm_sendMedia_def sharing_env_def io_simps ms_sendMedia_def service_over_def demo_file_def
        getMsgType_def handleEncryptedFile_def uploadMediaFile_def s3_upload_def shared_put shared_uuid
        cm_sendMessage_def demo_messages_def or_fail_def truthy_str_def)
qed

end
