(* ===== verification/ContentTypes.thy ===== *)
theory ContentTypes
  imports Messaging
begin

text \<open>
  The types of message contents: the interfaces of \<open>src/public/typings/messageContent.ts\<close> and
  \<open>mediaInfo.ts\<close> as descriptions that a value can be checked against. The readers of theory
  Messages build their objects with unchecked casts (\<open>as Image\<close>), so that a content has
  the interface it is cast to is something to prove, and depends on the event.
\<close>

section \<open>Types and their values\<close>

text \<open>A field of an object has its name, whether it is optional, and its type.\<close>

datatype ts_type =
    TsString
  | TsNumber
  | TsBoolean
  | TsArray ts_type
  | TsObject "(string \<times> bool \<times> ts_type) list"

fun has_type :: "ts_type \<Rightarrow> json \<Rightarrow> bool"
  and has_fields :: "(string \<times> bool \<times> ts_type) list \<Rightarrow> json_object \<Rightarrow> bool" where
  "has_type TsString v = (case v of JStr _ \<Rightarrow> True | _ \<Rightarrow> False)"
| "has_type TsNumber v = (case v of JNum _ \<Rightarrow> True | _ \<Rightarrow> False)"
| "has_type TsBoolean v = (case v of JBool _ \<Rightarrow> True | _ \<Rightarrow> False)"
| "has_type (TsArray t) v = (case v of JArr xs \<Rightarrow> list_all (has_type t) xs | _ \<Rightarrow> False)"
| "has_type (TsObject fs) v = (case v of JObj kvs \<Rightarrow> has_fields fs kvs | _ \<Rightarrow> False)"
| "has_fields [] kvs = True"
| "has_fields ((k, opt, t) # fs) kvs =
     ((opt \<and> obj_get kvs k = JUndef \<or> has_type t (obj_get kvs k)) \<and> has_fields fs kvs)"

lemma has_fields_append [simp]: "has_fields (fs @ gs) kvs \<longleftrightarrow> has_fields fs kvs \<and> has_fields gs kvs"
  by (induction fs) auto

section \<open>The interfaces\<close>

definition BaseMessageContent :: "(string \<times> bool \<times> ts_type) list" where
  "BaseMessageContent =
     [(''type'', False, TsString), (''isEdited'', False, TsBoolean),
      (''threadId'', True, TsString), (''repliedToMessageId'', True, TsString)]"

definition KeyVerificationRequest :: "(string \<times> bool \<times> ts_type) list" where
  "KeyVerificationRequest = BaseMessageContent @
     [(''body'', False, TsString), (''fromDevice'', False, TsString),
      (''methods'', False, TsArray TsString), (''timestamp'', False, TsNumber)]"

definition SelfDestructInfo :: ts_type where
  "SelfDestructInfo = TsObject
     [(''clientDuration'', True, TsNumber), (''clientExpiry'', True, TsNumber), (''serverExpiry'', True, TsNumber)]"

definition SelfDestructible :: "(string \<times> bool \<times> ts_type) list" where
  "SelfDestructible = BaseMessageContent @ [(''selfDestructInfo'', True, SelfDestructInfo)]"

definition Emote :: "(string \<times> bool \<times> ts_type) list" where
  "Emote = SelfDestructible @ [(''emote'', False, TsString)]"

definition Notice :: "(string \<times> bool \<times> ts_type) list" where
  "Notice = SelfDestructible @ [(''notice'', False, TsString)]"

definition TextContent :: "(string \<times> bool \<times> ts_type) list" where
  "TextContent = SelfDestructible @ [(''text'', False, TsString)]"

definition Location :: "(string \<times> bool \<times> ts_type) list" where
  "Location = SelfDestructible @ [(''description'', False, TsString), (''geoUri'', False, TsString)]"

definition BaseMediaInfo :: "(string \<times> bool \<times> ts_type) list" where
  "BaseMediaInfo = [(''mimeType'', False, TsString), (''size'', False, TsNumber), (''filename'', False, TsString)]"

definition ImageMedia :: ts_type where
  "ImageMedia = TsObject (BaseMediaInfo @ [(''width'', False, TsNumber), (''height'', False, TsNumber)])"

definition VideoMedia :: ts_type where
  "VideoMedia = TsObject (BaseMediaInfo @
     [(''width'', False, TsNumber), (''height'', False, TsNumber), (''duration'', False, TsNumber)])"

definition AudioMedia :: ts_type where
  "AudioMedia = TsObject (BaseMediaInfo @ [(''duration'', False, TsNumber)])"

definition FileMedia :: ts_type where
  "FileMedia = TsObject BaseMediaInfo"

definition ThumbnailInfo :: ts_type where
  "ThumbnailInfo = TsObject
     [(''width'', False, TsNumber), (''height'', False, TsNumber), (''blurHash'', False, TsString),
      (''mimeType'', False, TsString), (''size'', False, TsNumber)]"

text \<open>\<open>EncryptedFile\<close> is a type of the Matrix SDK, the parameter \<open>F\<close>.\<close>

definition Image :: "ts_type \<Rightarrow> (string \<times> bool \<times> ts_type) list" where
  "Image F = SelfDestructible @
     [(''caption'', True, TsString), (''uri'', False, TsString), (''info'', False, ImageMedia),
      (''thumbnailUri'', False, TsString), (''thumbnailInfo'', False, ThumbnailInfo),
      (''encryptedFile'', True, F)]"

definition Video :: "ts_type \<Rightarrow> (string \<times> bool \<times> ts_type) list" where
  "Video F = SelfDestructible @
     [(''caption'', True, TsString), (''uri'', False, TsString), (''info'', False, VideoMedia),
      (''thumbnailUri'', False, TsString), (''thumbnailInfo'', False, ThumbnailInfo),
      (''encryptedFile'', True, F)]"

definition Audio :: "ts_type \<Rightarrow> (string \<times> bool \<times> ts_type) list" where
  "Audio F = SelfDestructible @
     [(''caption'', True, TsString), (''uri'', False, TsString), (''info'', False, AudioMedia),
      (''encryptedFile'', True, F)]"

definition File :: "ts_type \<Rightarrow> (string \<times> bool \<times> ts_type) list" where
  "File F = SelfDestructible @
     [(''caption'', True, TsString), (''uri'', False, TsString), (''info'', False, FileMedia),
      (''encryptedFile'', True, F)]"

text \<open>The interface that the reader casts the content of a message type to.\<close>

definition content_interface :: "ts_type \<Rightarrow> string \<Rightarrow> ts_type" where
  "content_interface F msgtype = TsObject
     (if msgtype = ''m.text'' then TextContent
      else if msgtype = ''m.emote'' then Emote
      else if msgtype = ''m.notice'' then Notice
      else if msgtype = ''m.image'' then Image F
      else if msgtype = ''m.file'' then File F
      else if msgtype = ''m.audio'' then Audio F
      else if msgtype = ''m.video'' then Video F
      else if msgtype = ''m.location'' then Location
      else if msgtype = ''m.key.verification.request'' then KeyVerificationRequest
      else BaseMessageContent)"

section \<open>The contents of room messages as the Matrix specification types them\<close>

definition relates_to :: ts_type where
  "relates_to = TsObject
     [(''rel_type'', True, TsString), (''event_id'', True, TsString),
      (''m.in_reply_to'', True, TsObject [(''event_id'', True, TsString)])]"

definition media_info :: "(string \<times> bool \<times> ts_type) list" where
  "media_info = [(''mimetype'', False, TsString), (''size'', False, TsNumber)]"

definition picture_size :: "(string \<times> bool \<times> ts_type) list" where
  "picture_size = [(''w'', False, TsNumber), (''h'', False, TsNumber)]"

definition thumbnail_schema :: ts_type where
  "thumbnail_schema = TsObject
     (media_info @ picture_size @ [(''blurhash'', False, TsString)])"

text \<open>The file of a media message is at \<open>url\<close>; one that is encrypted has a \<open>file\<close> instead.\<close>

definition media_event :: "ts_type \<Rightarrow> (string \<times> bool \<times> ts_type) list" where
  "media_event info =
     [(''body'', True, TsString), (''url'', False, TsString), (''filename'', True, TsString),
      (''fileName'', True, TsString), (''info'', False, info)]"

definition event_schema :: "string \<Rightarrow> (string \<times> bool \<times> ts_type) list" where
  "event_schema msgtype =
     [(''msgtype'', False, TsString), (''m.relates_to'', True, relates_to)] @
     (if msgtype = ''m.text'' \<or> msgtype = ''m.emote'' \<or> msgtype = ''m.notice'' then [(''body'', False, TsString)]
      else if msgtype = ''m.image'' then media_event (TsObject (media_info @ picture_size @
        [(''thumbnail_url'', False, TsString), (''thumbnail_info'', True, thumbnail_schema)]))
      else if msgtype = ''m.file'' then media_event (TsObject media_info)
      else if msgtype = ''m.audio''
        then (''caption'', True, TsString) # media_event (TsObject (media_info @ [(''duration'', False, TsNumber)]))
      else if msgtype = ''m.video'' then media_event (TsObject (media_info @ picture_size @
        [(''duration'', False, TsNumber), (''thumbnail_url'', False, TsString),
         (''thumbnail_info'', False, thumbnail_schema)]))
      else if msgtype = ''m.location'' then [(''body'', False, TsString), (''geo_uri'', False, TsString)]
      else if msgtype = ''m.key.verification.request''
        then [(''body'', False, TsString), (''from_device'', False, TsString),
              (''methods'', False, TsArray TsString), (''timestamp'', False, TsNumber)]
      else [])"

section \<open>Lemmas\<close>

lemma has_type_iffs:
  "has_type TsString v \<longleftrightarrow> (\<exists>s. v = JStr s)" "has_type TsNumber v \<longleftrightarrow> (\<exists>n. v = JNum n)"
  "has_type TsBoolean v \<longleftrightarrow> (\<exists>b. v = JBool b)"
  "has_type (TsArray t) v \<longleftrightarrow> (\<exists>xs. v = JArr xs \<and> list_all (has_type t) xs)"
  "has_type (TsObject fs) v \<longleftrightarrow> (\<exists>kvs. v = JObj kvs \<and> has_fields fs kvs)"
  by (auto split: json.splits)

declare has_type.simps [simp del]

lemma map_of_rev_distinct: "distinct (map fst kvs) \<Longrightarrow> map_of (rev kvs) k = map_of kvs k"
proof (induction kvs)
  case (Cons e kvs)
  then show ?case
    by (cases e) (force simp: map_add_def split: option.split dest: map_of_SomeD)
qed simp

lemma obj_get_base_content:
  "obj_get (base_content ct b t r) k =
     (if k = ''type'' then js_nullish ct (JStr ''unknown'')
      else if k = ''isEdited'' then JBool b
      else if k = ''threadId'' then (if js_truthy t then t else JUndef)
      else if k = ''repliedToMessageId'' then (if js_truthy r then r else JUndef)
      else JUndef)"
  by (simp add: base_content_def spread_if_def obj_get_Cons)

definition str_or_undef :: "json \<Rightarrow> bool" where
  "str_or_undef v \<longleftrightarrow> v = JUndef \<or> has_type TsString v"

lemma relations_typed:
  assumes "v = JUndef \<or> has_type relates_to v"
  shows "str_or_undef (thread_of v)" "str_or_undef (reply_of v)"
  using assms by (auto simp: str_or_undef_def thread_of_def reply_of_def relates_to_def has_type_iffs)

lemma base_typed:
  assumes "str_or_undef t" "str_or_undef r"
    and "fst ` set added \<inter> {''type'', ''isEdited'', ''threadId'', ''repliedToMessageId''} = {}"
  shows "has_fields BaseMessageContent (js_spread (base_content (JStr mt) b t r) added)"
  using assms
  by (auto simp: BaseMessageContent_def obj_get_spread obj_get_base_content js_nullish_def str_or_undef_def has_type_iffs)

lemma destructible_typed:
  assumes "str_or_undef t" "str_or_undef r"
    and "fst ` set added \<inter> {''type'', ''isEdited'', ''threadId'', ''repliedToMessageId'', ''selfDestructInfo''} = {}"
  shows "has_fields SelfDestructible (js_spread (base_content (JStr mt) b t r) added)"
proof -
  have "has_fields BaseMessageContent (js_spread (base_content (JStr mt) b t r) added)"
    by (rule base_typed) (use assms in auto)
  moreover have "''selfDestructInfo'' \<notin> fst ` set added" using assms(3) by auto
  ultimately show ?thesis by (simp add: SelfDestructible_def obj_get_spread obj_get_base_content)
qed

text \<open>The added a reader adds are found in the content as it built them.\<close>

lemma has_fields_spread:
  assumes "\<And>k opt t. (k, opt, t) \<in> set fs \<Longrightarrow> k \<in> fst ` set added" "distinct (map fst added)"
    and "has_fields fs added"
  shows "has_fields fs (js_spread base added)"
  using assms
proof (induction fs)
  case (Cons f fs)
  obtain k opt t where f: "f = (k, opt, t)" by (cases f)
  have "obj_get (js_spread base added) k = obj_get added k"
    using Cons.prems(1) [of k opt t] map_of_rev_distinct [OF Cons.prems(2)]
    by (simp add: f obj_get_spread) (simp add: obj_get_def)
  with Cons f show ?case by auto
qed simp

text \<open>The readers of media give every field of their interface its type.\<close>

definition media_part :: "ts_type \<Rightarrow> ts_type \<Rightarrow> (string \<times> bool \<times> ts_type) list" where
  "media_part F info =
     [(''caption'', True, TsString), (''uri'', False, TsString), (''info'', False, info),
      (''encryptedFile'', True, F)]"

definition thumbnail_part :: "(string \<times> bool \<times> ts_type) list" where
  "thumbnail_part = [(''thumbnailUri'', False, TsString), (''thumbnailInfo'', False, ThumbnailInfo)]"

lemma file_name_typed:
  assumes "obj_get kvs ''filename'' = JUndef \<or> has_type TsString (obj_get kvs ''filename'')"
    and "obj_get kvs ''fileName'' = JUndef \<or> has_type TsString (obj_get kvs ''fileName'')"
  shows "has_type TsString (file_name (JObj kvs) fallback)"
  using assms by (auto simp: file_name_def js_nullish_def has_type_iffs)

lemmas media_schema = media_event_def media_info_def picture_size_def thumbnail_schema_def
lemmas media_types = BaseMediaInfo_def ImageMedia_def VideoMedia_def AudioMedia_def FileMedia_def ThumbnailInfo_def
  media_part_def thumbnail_part_def
lemmas media_readers = getImageContent_def getFileContent_def getAudioContent_def getVideoContent_def

lemma file_typed:
  assumes "has_fields (event_schema ''m.file'') kvs"
    and "encrypted_file (JObj kvs) = JUndef \<or> has_type F (encrypted_file (JObj kvs))"
  shows "has_fields (media_part F FileMedia) (getFileContent (JObj kvs))"
proof -
  have name: "has_type TsString (file_name (JObj kvs) ''file'')"
    by (rule file_name_typed) (use assms(1) in \<open>simp_all add: event_schema_def media_schema\<close>)
  from assms(1) obtain info where "obj_get kvs ''info'' = JObj info" "has_fields media_info info"
    by (auto simp: event_schema_def media_event_def has_type_iffs(5))
  with assms name show ?thesis
    by (auto simp: event_schema_def media_schema media_types media_readers Let_def obj_get_Cons has_type_iffs(5))
qed

lemma audio_typed:
  assumes "has_fields (event_schema ''m.audio'') kvs"
    and "encrypted_file (JObj kvs) = JUndef \<or> has_type F (encrypted_file (JObj kvs))"
  shows "has_fields (media_part F AudioMedia) (getAudioContent (JObj kvs))"
proof -
  have name: "has_type TsString (file_name (JObj kvs) ''audio'')"
    by (rule file_name_typed) (use assms(1) in \<open>simp_all add: event_schema_def media_schema\<close>)
  from assms(1) obtain info where "obj_get kvs ''info'' = JObj info" "has_fields (media_info @ [(''duration'', False, TsNumber)]) info"
    by (auto simp: event_schema_def media_event_def has_type_iffs(5))
  with assms name show ?thesis
    by (auto simp: event_schema_def media_schema media_types media_readers Let_def obj_get_Cons has_type_iffs(5))
qed

lemma image_typed:
  assumes "has_fields (event_schema ''m.image'') kvs"
    and "encrypted_file (JObj kvs) = JUndef \<or> has_type F (encrypted_file (JObj kvs))"
  shows "has_fields (media_part F ImageMedia @ thumbnail_part) (getImageContent (JObj kvs))"
proof -
  have name: "has_type TsString (file_name (JObj kvs) ''image'')"
    by (rule file_name_typed) (use assms(1) in \<open>simp_all add: event_schema_def media_schema\<close>)
  from assms(1) obtain info where info: "obj_get kvs ''info'' = JObj info"
    "has_fields (media_info @ picture_size @
       [(''thumbnail_url'', False, TsString), (''thumbnail_info'', True, thumbnail_schema)]) info"
    by (auto simp: event_schema_def media_event_def has_type_iffs(5))
  have "has_type TsNumber (js_or (js_opt k (obj_get info ''thumbnail_info'')) (JNum 0))" if "k \<in> {''w'', ''h'', ''size''}" for k
    using info(2) that by (auto simp: thumbnail_schema_def media_info_def picture_size_def has_type_iffs js_or_def)
  moreover have "has_type TsString (js_or (js_opt k (obj_get info ''thumbnail_info'')) (JStr s))" if "k \<in> {''mimetype'', ''blurhash''}" for k s
    using info(2) that by (auto simp: thumbnail_schema_def media_info_def picture_size_def has_type_iffs js_or_def)
  ultimately show ?thesis using assms name info
    by (auto simp: event_schema_def media_event_def media_info_def picture_size_def media_types media_readers Let_def
        obj_get_Cons has_type_iffs(5))
qed

lemma video_typed:
  assumes "has_fields (event_schema ''m.video'') kvs"
    and "encrypted_file (JObj kvs) = JUndef \<or> has_type F (encrypted_file (JObj kvs))"
  shows "has_fields (media_part F VideoMedia @ thumbnail_part) (getVideoContent (JObj kvs))"
proof -
  have name: "has_type TsString (file_name (JObj kvs) ''video'')"
    by (rule file_name_typed) (use assms(1) in \<open>simp_all add: event_schema_def media_schema\<close>)
  from assms(1) obtain info thumb where "obj_get kvs ''info'' = JObj info"
    "has_fields (media_info @ picture_size @ [(''duration'', False, TsNumber), (''thumbnail_url'', False, TsString)]) info"
    "obj_get info ''thumbnail_info'' = JObj thumb"
    "has_fields (media_info @ picture_size @ [(''blurhash'', False, TsString)]) thumb"
    by (auto simp: event_schema_def media_event_def thumbnail_schema_def has_type_iffs(5))
  with assms name show ?thesis
    by (auto simp: event_schema_def media_event_def media_info_def picture_size_def media_types media_readers Let_def
        obj_get_Cons has_type_iffs(5))
qed

text \<open>The casts of the reader, by message type, and what it adds.\<close>

lemma spread_typed:
  assumes "str_or_undef t" and "str_or_undef r" and "has_fields fs added" and "distinct (map fst added)"
    and "fst ` set fs \<subseteq> fst ` set added"
    and "fst ` set added \<inter> {''type'', ''isEdited'', ''threadId'', ''repliedToMessageId'', ''selfDestructInfo''} = {}"
  shows "has_fields (SelfDestructible @ fs) (js_spread (base_content (JStr mt) b t r) added)"
  using destructible_typed [OF assms(1,2,6)] has_fields_spread [OF _ assms(4,3)] assms(5) by force

lemma interface_parts:
  "has_fields (Image F) c \<longleftrightarrow> has_fields (SelfDestructible @ media_part F ImageMedia @ thumbnail_part) c"
  "has_fields (Video F) c \<longleftrightarrow> has_fields (SelfDestructible @ media_part F VideoMedia @ thumbnail_part) c"
  "has_fields (Audio F) c \<longleftrightarrow> has_fields (SelfDestructible @ media_part F AudioMedia) c"
  "has_fields (File F) c \<longleftrightarrow> has_fields (SelfDestructible @ media_part F FileMedia) c"
  by (auto simp: Image_def Video_def Audio_def File_def media_part_def thumbnail_part_def)

text \<open>What the reader adds for each message type.\<close>

definition added_fields :: "string \<Rightarrow> json_object \<Rightarrow> json_object" where
  "added_fields mt kvs =
     (if mt = ''m.text'' then [(''text'', obj_get kvs ''body'')]
      else if mt = ''m.emote'' then [(''emote'', obj_get kvs ''body'')]
      else if mt = ''m.notice'' then [(''notice'', obj_get kvs ''body'')]
      else if mt = ''m.image'' then getImageContent (JObj kvs)
      else if mt = ''m.file'' then getFileContent (JObj kvs)
      else if mt = ''m.audio'' then getAudioContent (JObj kvs)
      else if mt = ''m.video'' then getVideoContent (JObj kvs)
      else if mt = ''m.location'' then [(''description'', obj_get kvs ''body''), (''geoUri'', obj_get kvs ''geo_uri'')]
      else if mt = ''m.key.verification.request''
        then [(''body'', obj_get kvs ''body''), (''fromDevice'', obj_get kvs ''from_device''),
              (''methods'', obj_get kvs ''methods''), (''timestamp'', obj_get kvs ''timestamp'')]
      else [])"

lemma content_read:
  assumes "shown_content e = JObj kvs" and "obj_get kvs ''msgtype'' = JStr mt"
  shows "messageContentFromMessageEvent e =
    Inr (js_spread (base_content (JStr mt) (is_edit e) (thread_of (obj_get kvs ''m.relates_to''))
           (reply_of (obj_get kvs ''m.relates_to''))) (added_fields mt kvs))"
  by (simp add: messageContentFromMessageEvent_def assms added_fields_def Let_def) (simp add: js_spread_def)

lemma added_keys:
  "distinct (map fst (added_fields mt kvs))"
  "fst ` set (added_fields mt kvs) \<inter> {''type'', ''isEdited'', ''threadId'', ''repliedToMessageId'', ''selfDestructInfo''} = {}"
  by (cases "mt = ''m.key.verification.request''"; simp add: added_fields_def media_readers Let_def)+

text \<open>The same, one message type at a time.\<close>

lemma added_fields_eqs:
  "added_fields ''m.text'' kvs = [(''text'', obj_get kvs ''body'')]"
  "added_fields ''m.emote'' kvs = [(''emote'', obj_get kvs ''body'')]"
  "added_fields ''m.notice'' kvs = [(''notice'', obj_get kvs ''body'')]"
  "added_fields ''m.image'' kvs = getImageContent (JObj kvs)"
  "added_fields ''m.file'' kvs = getFileContent (JObj kvs)"
  "added_fields ''m.audio'' kvs = getAudioContent (JObj kvs)"
  "added_fields ''m.video'' kvs = getVideoContent (JObj kvs)"
  "added_fields ''m.location'' kvs = [(''description'', obj_get kvs ''body''), (''geoUri'', obj_get kvs ''geo_uri'')]"
  by (simp_all add: added_fields_def)

lemma content_interface_eqs:
  "content_interface F ''m.text'' = TsObject TextContent"
  "content_interface F ''m.emote'' = TsObject Emote"
  "content_interface F ''m.notice'' = TsObject Notice"
  "content_interface F ''m.image'' = TsObject (Image F)"
  "content_interface F ''m.file'' = TsObject (File F)"
  "content_interface F ''m.audio'' = TsObject (Audio F)"
  "content_interface F ''m.video'' = TsObject (Video F)"
  "content_interface F ''m.location'' = TsObject Location"
  by (simp_all add: content_interface_def)


lemma destructible_content:
  assumes "has_fields fs (added_fields mt kvs)" and "fst ` set fs \<subseteq> fst ` set (added_fields mt kvs)"
    and "str_or_undef t" and "str_or_undef r"
  shows "has_fields (SelfDestructible @ fs) (js_spread (base_content (JStr mt) b t r) (added_fields mt kvs))"
  by (rule spread_typed [OF assms(3,4,1) added_keys(1) assms(2) added_keys(2)])

lemma added_typed_media:
  assumes "has_fields (event_schema mt) kvs" and "mt \<in> {''m.image'', ''m.file'', ''m.audio'', ''m.video''}"
    and "encrypted_file (JObj kvs) = JUndef \<or> has_type F (encrypted_file (JObj kvs))"
    and "str_or_undef t" and "str_or_undef r"
  shows "has_type (content_interface F mt) (JObj (js_spread (base_content (JStr mt) b t r) (added_fields mt kvs)))"
proof -
  consider "mt = ''m.image''" | "mt = ''m.file''" | "mt = ''m.audio''" | "mt = ''m.video''"
    using assms(2) by auto
  then show ?thesis
  proof cases
    case 1
    have "has_fields (media_part F ImageMedia @ thumbnail_part) (added_fields mt kvs)"
      using image_typed assms(1,3) unfolding 1 added_fields_eqs by blast
    then have "has_fields (Image F) (js_spread (base_content (JStr mt) b t r) (added_fields mt kvs))"
      unfolding interface_parts
      by (rule destructible_content [OF _ _ assms(4,5)])
        (simp add: 1 added_fields_eqs getImageContent_def Let_def media_part_def thumbnail_part_def)
    then show ?thesis by (simp only: 1 content_interface_eqs has_type_iffs(5)) blast
  next
    case 2
    have "has_fields (media_part F FileMedia) (added_fields mt kvs)"
      using file_typed assms(1,3) unfolding 2 added_fields_eqs by blast
    then have "has_fields (File F) (js_spread (base_content (JStr mt) b t r) (added_fields mt kvs))"
      unfolding interface_parts
      by (rule destructible_content [OF _ _ assms(4,5)])
        (simp add: 2 added_fields_eqs getFileContent_def Let_def media_part_def)
    then show ?thesis by (simp only: 2 content_interface_eqs has_type_iffs(5)) blast
  next
    case 3
    have "has_fields (media_part F AudioMedia) (added_fields mt kvs)"
      using audio_typed assms(1,3) unfolding 3 added_fields_eqs by blast
    then have "has_fields (Audio F) (js_spread (base_content (JStr mt) b t r) (added_fields mt kvs))"
      unfolding interface_parts
      by (rule destructible_content [OF _ _ assms(4,5)])
        (simp add: 3 added_fields_eqs getAudioContent_def Let_def media_part_def)
    then show ?thesis by (simp only: 3 content_interface_eqs has_type_iffs(5)) blast
  next
    case 4
    have "has_fields (media_part F VideoMedia @ thumbnail_part) (added_fields mt kvs)"
      using video_typed assms(1,3) unfolding 4 added_fields_eqs by blast
    then have "has_fields (Video F) (js_spread (base_content (JStr mt) b t r) (added_fields mt kvs))"
      unfolding interface_parts
      by (rule destructible_content [OF _ _ assms(4,5)])
        (simp add: 4 added_fields_eqs getVideoContent_def Let_def media_part_def thumbnail_part_def)
    then show ?thesis by (simp only: 4 content_interface_eqs has_type_iffs(5)) blast
  qed
qed

lemma added_typed_words:
  assumes "has_fields (event_schema mt) kvs" and "mt \<in> {''m.text'', ''m.emote'', ''m.notice'', ''m.location''}"
    and "str_or_undef t" and "str_or_undef r"
  shows "has_type (content_interface F mt) (JObj (js_spread (base_content (JStr mt) b t r) (added_fields mt kvs)))"
proof -
  consider "mt = ''m.text''" | "mt = ''m.emote''" | "mt = ''m.notice''" | "mt = ''m.location''"
    using assms(2) by auto
  then obtain fs where fs: "content_interface F mt = TsObject (SelfDestructible @ fs)"
    "has_fields fs (added_fields mt kvs)" "fst ` set fs \<subseteq> fst ` set (added_fields mt kvs)"
  proof cases
    case 1
    show ?thesis by (rule that [of "[(''text'', False, TsString)]"])
        (use assms(1) in \<open>simp_all add: 1 added_fields_eqs content_interface_eqs TextContent_def event_schema_def obj_get_Cons\<close>)
  next
    case 2
    show ?thesis by (rule that [of "[(''emote'', False, TsString)]"])
        (use assms(1) in \<open>simp_all add: 2 added_fields_eqs content_interface_eqs Emote_def event_schema_def obj_get_Cons\<close>)
  next
    case 3
    show ?thesis by (rule that [of "[(''notice'', False, TsString)]"])
        (use assms(1) in \<open>simp_all add: 3 added_fields_eqs content_interface_eqs Notice_def event_schema_def obj_get_Cons\<close>)
  next
    case 4
    show ?thesis by (rule that [of "[(''description'', False, TsString), (''geoUri'', False, TsString)]"])
        (use assms(1) in \<open>simp_all add: 4 added_fields_eqs content_interface_eqs Location_def event_schema_def obj_get_Cons\<close>)
  qed
  show ?thesis unfolding fs(1) has_type_iffs using destructible_content [OF fs(2,3) assms(3,4)] by blast
qed

lemma added_typed_others:
  assumes "has_fields (event_schema mt) kvs"
    and "mt \<notin> {''m.text'', ''m.emote'', ''m.notice'', ''m.location'', ''m.image'', ''m.file'', ''m.audio'', ''m.video''}"
    and "str_or_undef t" and "str_or_undef r"
  shows "has_type (content_interface F mt) (JObj (js_spread (base_content (JStr mt) b t r) (added_fields mt kvs)))"
proof (cases "mt = ''m.key.verification.request''")
  case True
  let ?fs = "[(''body'', False, TsString), (''fromDevice'', False, TsString), (''methods'', False, TsArray TsString),
    (''timestamp'', False, TsNumber)]"
  have "has_fields BaseMessageContent (js_spread (base_content (JStr mt) b t r) (added_fields mt kvs))"
    by (rule base_typed [OF assms(3,4)]) (simp add: True added_fields_def)
  moreover have "has_fields ?fs (js_spread (base_content (JStr mt) b t r) (added_fields mt kvs))"
    by (rule has_fields_spread)
      (use assms(1) in \<open>auto simp: True added_fields_def event_schema_def obj_get_Cons\<close>)
  ultimately show ?thesis by (simp add: True content_interface_def KeyVerificationRequest_def has_type_iffs(5))
next
  case False
  then have none: "added_fields mt kvs = []" "content_interface F mt = TsObject BaseMessageContent"
    using assms(2) by (simp_all add: added_fields_def content_interface_def)
  show ?thesis unfolding none has_type_iffs using base_typed [OF assms(3,4), of "[]"] by simp
qed

lemma added_typed:
  assumes "has_fields (event_schema mt) kvs"
    and "encrypted_file (JObj kvs) = JUndef \<or> has_type F (encrypted_file (JObj kvs))"
    and "str_or_undef t" and "str_or_undef r"
  shows "has_type (content_interface F mt) (JObj (js_spread (base_content (JStr mt) b t r) (added_fields mt kvs)))"
proof -
  consider "mt \<in> {''m.image'', ''m.file'', ''m.audio'', ''m.video''}"
    | "mt \<in> {''m.text'', ''m.emote'', ''m.notice'', ''m.location''}"
    | "mt \<notin> {''m.text'', ''m.emote'', ''m.notice'', ''m.location'', ''m.image'', ''m.file'', ''m.audio'', ''m.video''}"
    by fast
  then show ?thesis
  proof cases
    case 1
    then show ?thesis by (rule added_typed_media [OF assms(1) _ assms(2-4)])
  next
    case 2
    then show ?thesis by (rule added_typed_words [OF assms(1) _ assms(3,4)])
  next
    case 3
    then show ?thesis by (rule added_typed_others [OF assms(1) _ assms(3,4)])
  qed
qed

section \<open>The media this SDK sends\<close>

lemma media_content_gets:
  assumes "fst fileEntry \<in> {''url'', ''file''}"
  shows "obj_get (media_content hs inp mt thumb fileEntry) ''msgtype'' = JStr (msgtype_value mt)"
    "obj_get (media_content hs inp mt thumb fileEntry) ''m.relates_to'' = JUndef"
    "obj_get (media_content hs inp mt thumb fileEntry) ''body'' = JStr (nullish (sm_caption inp) '''')"
    "obj_get (media_content hs inp mt thumb fileEntry) ''filename'' = JStr (sm_fileName inp)"
    "obj_get (media_content hs inp mt thumb fileEntry) ''fileName'' = JUndef"
    "obj_get (media_content hs inp mt thumb fileEntry) ''url'' = (if fst fileEntry = ''url'' then snd fileEntry else JUndef)"
    "obj_get (media_content hs inp mt thumb fileEntry) ''info'' =
       JObj (thumb @ [(''mimetype'', JStr (sm_fileType inp)), (''size'', JNum (sm_fileSize inp))])"
    "shown_content (JObj (media_content hs inp mt thumb fileEntry)) = JObj (media_content hs inp mt thumb fileEntry)"
  using assms by (cases fileEntry; auto simp: obj_get_media_content obj_get_Cons shown_content_def is_edit_def)+

lemma file_event_typed:
  assumes "fileEntry = (''url'', JStr u)" and "fst ` set thumb \<subseteq> {''thumbnail_info'', ''thumbnail_url'', ''thumbnail_file''}"
  shows "has_fields (event_schema ''m.file'') (media_content hs inp MT_File thumb fileEntry)"
proof -
  have "obj_get (thumb @ kvs) k = obj_get kvs k" if "k \<in> {''mimetype'', ''size''}" for k kvs
    using that assms(2) by (auto simp: obj_get_append)
  with media_content_gets [of fileEntry hs inp MT_File thumb] assms(1) show ?thesis
    by (simp add: event_schema_def media_schema has_type_iffs obj_get_Cons)
qed

text \<open>An encrypted file has no \<open>uri\<close>; a picture has no size and a recording no duration.\<close>

lemma uri_missing:
  assumes "mt = MT_File \<or> mt = MT_Image \<or> mt = MT_Video \<or> mt = MT_Audio"
    and "has_type (content_interface F (msgtype_value mt)) (JObj c)"
  shows "obj_get c ''uri'' \<noteq> JUndef"
  using assms
  by (elim disjE) (auto simp: content_interface_eqs has_type_iffs interface_parts media_part_def)

lemma size_missing:
  assumes "has_type (content_interface F (msgtype_value mt)) (JObj c)" and "obj_get c ''info'' = JObj info"
    and "obj_get info ''width'' = JUndef" and "obj_get info ''duration'' = JUndef"
  shows "mt = MT_File"
  using assms
  by (cases mt) (auto simp: content_interface_eqs has_type_iffs interface_parts media_part_def ImageMedia_def
      VideoMedia_def AudioMedia_def)

section \<open>Polls and membership changes\<close>

definition PollContent :: "(string \<times> bool \<times> ts_type) list" where
  "PollContent = SelfDestructible @
     [(''kind'', False, TsString), (''question'', False, TsString), (''answers'', False, TsArray TsString),
      (''maxSelections'', False, TsNumber)]"

definition PollResponseContent :: "(string \<times> bool \<times> ts_type) list" where
  "PollResponseContent = SelfDestructible @
     [(''pollId'', False, TsString), (''answers'', False, TsArray TsString)]"

definition MembershipChangeContent :: "(string \<times> bool \<times> ts_type) list" where
  "MembershipChangeContent = BaseMessageContent @
     [(''state'', False, TsString),
      (''handle'', False, TsObject [(''handleId'', False, TsString), (''name'', False, TsString)])]"

text \<open>A question or an answer that has words, as the clients send them.\<close>

definition worded :: "json \<Rightarrow> bool" where
  "worded v \<longleftrightarrow> (\<exists>kvs s. v = JObj kvs \<and> obj_get kvs ''org.matrix.msc1767.text'' = JStr s \<and> s \<noteq> '''')"

lemma worded_text: "worded v \<Longrightarrow> \<exists>s. poll_text v = Inr (JStr s)"
  by (auto simp: worded_def poll_text_def sum_bind_simps)

lemma worded_texts:
  "list_all worded vs \<Longrightarrow> \<exists>xs. map_result poll_text vs = Inr xs \<and> list_all (has_type TsString) xs"
proof (induction vs)
  case (Cons v vs)
  then obtain s xs where "poll_text v = Inr (JStr s)" "map_result poll_text vs = Inr xs" "list_all (has_type TsString) xs"
    using worded_text [of v] by auto
  moreover have "has_type TsString (JStr s)" by (simp add: has_type_iffs)
  ultimately show ?case by (simp add: sum_bind_simps)
qed simp

text \<open>A poll with words is read as the poll it is declared as, and so is a response to it.\<close>

lemma poll_content_typed:
  assumes "ev_type e = POLL_START" "ev_content e = JObj kvs" "obj_get kvs POLL_START = JObj poll"
    and "obj_get poll ''kind'' = JStr kind" "worded (obj_get poll ''question'')"
    and "obj_get poll ''answers'' = JArr answers" "list_all worded answers"
    and "obj_get poll ''max_selections'' = JUndef \<or> has_type TsNumber (obj_get poll ''max_selections'')"
  shows "\<exists>c. messageContentFromPollEvent e = Inr c \<and> has_type (TsObject PollContent) (JObj c)"
proof -
  obtain q where q: "poll_text (obj_get poll ''question'') = Inr (JStr q)" using worded_text [OF assms(5)] by blast
  obtain xs where xs: "map_result poll_text answers = Inr xs" "list_all (has_type TsString) xs"
    using worded_texts [OF assms(7)] by blast
  have "\<exists>n. js_or (obj_get poll ''max_selections'') (JNum 1) = JNum n"
    using assms(8) by (auto simp: js_or_def has_type_iffs)
  then obtain n where n: "js_or (obj_get poll ''max_selections'') (JNum 1) = JNum n" ..
  have "messageContentFromPollEvent e = Inr (js_spread [(''type'', JStr POLL_START), (''isEdited'', JBool False)]
      [(''kind'', JStr kind), (''question'', JStr q), (''answers'', JArr xs), (''maxSelections'', JNum n)])"
    using assms(1-4,6) q xs(1) n by (simp add: messageContentFromPollEvent_def Let_def sum_bind_simps)
  then show ?thesis
    using xs(2)
    by (simp add: js_spread_def PollContent_def SelfDestructible_def BaseMessageContent_def has_type_iffs obj_get_Cons)
      (rule exI [of _ False], simp)
qed

lemma poll_response_typed:
  assumes "ev_type e = POLL_RESPONSE" "ev_content e = JObj kvs" "obj_get kvs POLL_RESPONSE = JObj response"
    and "obj_get kvs ''m.relates_to'' = JObj rel" "obj_get rel ''event_id'' = JStr i"
    and "obj_get response ''answers'' = JArr answers" "list_all worded answers"
  shows "\<exists>c. messageContentFromPollEvent e = Inr c \<and> has_type (TsObject PollResponseContent) (JObj c)"
proof -
  obtain xs where xs: "map_result poll_text answers = Inr xs" "list_all (has_type TsString) xs"
    using worded_texts [OF assms(7)] by blast
  have "messageContentFromPollEvent e = Inr (js_spread [(''type'', JStr POLL_RESPONSE), (''isEdited'', JBool False)]
      [(''pollId'', JStr i), (''answers'', JArr xs)])"
    using assms(1-6) xs(1) by (simp add: messageContentFromPollEvent_def Let_def sum_bind_simps event_types)
  then show ?thesis
    using xs(2)
    by (simp add: js_spread_def PollResponseContent_def SelfDestructible_def BaseMessageContent_def has_type_iffs obj_get_Cons)
      (rule exI [of _ False], simp)
qed

text \<open>
  A message about a change of membership never has the type it is declared as: the reader gives it
  neither a type nor whether it was edited.
\<close>

lemma member_content_untyped:
  assumes "messageContentFromMemberEvent c k = Inr kvs"
  shows "\<not> has_type (TsObject MembershipChangeContent) (JObj kvs)"
  using assms
  by (auto simp: messageContentFromMemberEvent_def sum_bind_Inr_iff MembershipChangeContent_def BaseMessageContent_def
      has_type_iffs obj_get_Cons obj_get_def split: if_splits)

section \<open>Property\<close>



text \<open>
  Of the media this SDK sends, only plain files have the type that the SDK declares. The
  content of a sent media message, read back, has the interface of its message type exactly
  when it is a file (no picture, video or audio) that was not encrypted: an encrypted one
  has no \<open>uri\<close>, pictures and videos no size, and recordings no duration.
\<close>

theorem sent_media_typed_iff:
  assumes "fileEntry = (''url'', JStr u) \<or> fileEntry = (''file'', f)"
    and "fst ` set thumb \<subseteq> {''thumbnail_info'', ''thumbnail_url'', ''thumbnail_file''}"
  shows "\<exists>c. messageContentFromMessageEvent (JObj (media_content hs inp mt thumb fileEntry)) = Inr c
    \<and> (has_type (content_interface F (msgtype_value mt)) (JObj c) \<longleftrightarrow> mt = MT_File \<and> fst fileEntry = ''url'')"
proof -
  let ?kvs = "media_content hs inp mt thumb fileEntry"
  have entry: "fst fileEntry \<in> {''url'', ''file''}" using assms(1) by auto
  note gets = media_content_gets [OF entry, of hs inp mt thumb]
  let ?c = "js_spread (base_content (JStr (msgtype_value mt)) (is_edit (JObj ?kvs)) (thread_of JUndef) (reply_of JUndef))
      (added_fields (msgtype_value mt) ?kvs)"
  have read: "messageContentFromMessageEvent (JObj ?kvs) = Inr ?c"
    using content_read [OF gets(8,1)] gets(2) by simp
  have absent: "obj_get (thumb @ kvs) k = obj_get kvs k" if "k \<in> {''w'', ''h'', ''duration''}" for k kvs
    using that assms(2) by (auto simp: obj_get_append)
  have uri: "obj_get ?c ''uri'' = obj_get ?kvs ''url''"
    by (cases mt; simp add: added_fields_eqs media_readers Let_def obj_get_spread obj_get_Cons)
  obtain info where info: "obj_get ?c ''info'' = JObj info" "obj_get info ''width'' = JUndef" "obj_get info ''duration'' = JUndef"
    by (cases mt; simp add: added_fields_eqs media_readers Let_def obj_get_spread obj_get_Cons media_content_gets [OF entry] absent)
  have only: "mt = MT_File \<and> fst fileEntry = ''url''"
    if typed: "has_type (content_interface F (msgtype_value mt)) (JObj ?c)"
  proof -
    have plain: "mt = MT_File" by (rule size_missing [OF typed info])
    then have "obj_get ?c ''uri'' \<noteq> JUndef" using uri_missing [OF _ typed] by blast
    then have "fst fileEntry = ''url''" unfolding uri gets(6) by (simp split: if_split_asm)
    with plain show ?thesis ..
  qed
  have "has_type (content_interface F (msgtype_value mt)) (JObj ?c)" if "mt = MT_File" "fst fileEntry = ''url''"
  proof -
    have "fileEntry = (''url'', JStr u)" using assms(1) that(2) by auto
    then have "has_fields (event_schema ''m.file'') ?kvs" and "encrypted_file (JObj ?kvs) = JUndef"
      using file_event_typed [OF _ assms(2)] by (simp_all add: that(1) encrypted_file_def obj_get_media_content obj_get_Cons)
    then show ?thesis
      using added_typed [of "''m.file''" ?kvs F "thread_of JUndef" "reply_of JUndef"] relations_typed [of JUndef] that(1) by simp
  qed
  with only read show ?thesis by blast
qed

theorem sent_media_typed_iff_witness:
  "\<exists>c. messageContentFromMessageEvent (JObj (media_content ''hs'' demo_file MT_Image [] (''url'', JStr ''mxc://b/1''))) = Inr c
    \<and> \<not> has_type (content_interface TsString ''m.image'') (JObj c)"
  using sent_media_typed_iff [of "(''url'', JStr ''mxc://b/1'')" "''mxc://b/1''" JUndef "[]" "''hs''" demo_file MT_Image TsString] by auto

end
