(* ===== verification/Overlap.thy ===== *)
theory Overlap
  imports Handles
begin

text \<open>
  Overlapping calls of the session manager. A method of \<open>SessionManager\<close>
  (\<open>src/private/data/session/sessionManager.ts\<close>) runs without interruption from one \<open>await\<close> to
  the next, and other calls may run in between. Theory Sessions gives each method as a whole;
  here each is a task that pauses at the awaits of the source, the two are shown to agree
  when nothing overlaps, and tasks are interleaved by a schedule. The work queue of a handle
  orders its \<open>ensureValidSession\<close> calls, but \<open>deleteSession\<close> is not put in the queue.
\<close>

section \<open>Tasks\<close>

text \<open>
  A task has settled, or will run its next stretch from the state it then finds. \<open>call\<close> is
  a stretch of one call; \<open>and_then\<close> continues in a new stretch; \<open>sync\<close> runs code without an
  await before a task's first stretch, in the same one.
\<close>

datatype ('w, 'a) task = Done "'a result" | Pause "'w \<Rightarrow> ('w, 'a) task \<times> 'w"

definition call :: "('w, 'a) io \<Rightarrow> ('w, 'a) task" where
  "call m = Pause (\<lambda>w. case m w of (r, w') \<Rightarrow> (Done r, w'))"

primrec and_then :: "('w, 'a) task \<Rightarrow> ('a \<Rightarrow> ('w, 'b) task) \<Rightarrow> ('w, 'b) task" where
  "and_then (Done r) = (\<lambda>k. case r of Inl e \<Rightarrow> Done (Inl e) | Inr x \<Rightarrow> k x)"
| "and_then (Pause f) = (\<lambda>k. Pause (\<lambda>w. case (map_prod and_then id \<circ> f) w of (g, w') \<Rightarrow> (g k, w')))"

primrec or_else :: "('w, 'a) task \<Rightarrow> (sc_error \<Rightarrow> ('w, 'a) task) \<Rightarrow> ('w, 'a) task" where
  "or_else (Done r) = (\<lambda>h. case r of Inl e \<Rightarrow> h e | Inr x \<Rightarrow> Done (Inr x))"
| "or_else (Pause f) = (\<lambda>h. Pause (\<lambda>w. case (map_prod or_else id \<circ> f) w of (g, w') \<Rightarrow> (g h, w')))"

text \<open>The next stretch of a task; nothing is left to run of a settled one.\<close>

fun advance :: "('w, 'a) task \<Rightarrow> 'w \<Rightarrow> ('w, 'a) task \<times> 'w" where
  "advance (Done r) w = (Done r, w)"
| "advance (Pause f) w = f w"

definition sync :: "('w, 'a) io \<Rightarrow> ('a \<Rightarrow> ('w, 'b) task) \<Rightarrow> ('w, 'b) task" where
  "sync m k = Pause (\<lambda>w. case m w of
       (Inl e, w') \<Rightarrow> (Done (Inl e), w')
     | (Inr x, w') \<Rightarrow> advance (k x) w')"

text \<open>A task that nothing interrupts.\<close>

primrec finish :: "('w, 'a) task \<Rightarrow> ('w, 'a) io" where
  "finish (Done r) = (\<lambda>w. (r, w))"
| "finish (Pause f) = (\<lambda>w. case (map_prod finish id \<circ> f) w of (g, w') \<Rightarrow> g w')"

lemma task_Pause:
  "and_then (Pause f) k = Pause (\<lambda>w. (and_then (fst (f w)) k, snd (f w)))"
  "or_else (Pause f) h = Pause (\<lambda>w. (or_else (fst (f w)) h, snd (f w)))"
  "finish (Pause f) w = finish (fst (f w)) (snd (f w))"
  by (simp_all add: fun_eq_iff split_beta)

declare and_then.simps(2) [simp del] or_else.simps(2) [simp del] finish.simps(2) [simp del] task_Pause [simp]

text \<open>Induction over a task: every stretch leads to a task for which the claim is known.\<close>

lemma task_induct:
  assumes "\<And>r. P (Done r)" and "\<And>f. (\<And>w. P (fst (f w))) \<Longrightarrow> P (Pause f)"
  shows "P t"
proof (induction t)
  case (Pause f)
  show ?case by (rule assms(2), rule Pause) (auto simp: fsts.simps intro: rangeI)
qed (rule assms(1))

lemma finish_call [simp]: "finish (call m) = m"
  by (simp add: call_def fun_eq_iff split: prod.split)

lemma finish_and_then [simp]: "finish (and_then t k) = await (finish t) (\<lambda>x. finish (k x))"
proof (induction t rule: task_induct)
  case (1 r)
  then show ?case by (cases r) (simp_all add: await_def fun_eq_iff)
next
  case (2 f)
  then show ?case by (simp add: fun_eq_iff await_def)
qed

lemma finish_or_else [simp]: "finish (or_else t h) = try_catch (finish t) (\<lambda>e. finish (h e))"
proof (induction t rule: task_induct)
  case (1 r)
  then show ?case by (cases r) (simp_all add: try_catch_def fun_eq_iff)
next
  case (2 f)
  then show ?case by (simp add: fun_eq_iff try_catch_def)
qed

lemma finish_advance: "finish (fst (advance t w)) (snd (advance t w)) = finish t w"
  by (cases t) simp_all

lemma finish_sync [simp]: "finish (sync m k) = await m (\<lambda>x. finish (k x))"
  by (auto simp: sync_def fun_eq_iff await_def finish_advance split: prod.split sum.split)

lemma finish_Done [simp]: "finish (Done (Inr x)) = ret x" "finish (Done (Inl e)) = throw e"
  by (simp_all add: ret_def throw_def fun_eq_iff)

section \<open>The methods of the session manager, with their awaits\<close>

definition clear_timer :: "'x session_env \<Rightarrow> session \<Rightarrow> (('x, 's) session_state, unit) io" where
  "clear_timer E session =
     (case se_refreshTimeout session of Some t \<Rightarrow> ext (sx_clearTimeout E t) | None \<Rightarrow> ret ())"

text \<open>The pause in the middle is the zero-length timeout that lets background watchers end.\<close>

definition deleteSession_task ::
    "'x session_env \<Rightarrow> ('s, 'st) storage_module \<Rightarrow> handle_id \<Rightarrow> bool \<Rightarrow>
     (('x, 's) session_state, unit) task" where
  "deleteSession_task E M handleId deleteStorage =
     sync (get_session handleId) (\<lambda>found.
       case found of
         None \<Rightarrow> Done (Inr ())
       | Some session \<Rightarrow>
           sync (clear_timer E session) (\<lambda>_.
           and_then (call (ext (cm_stopSyncing E (cl_id (se_client session))))) (\<lambda>_.
           and_then (call (ret ())) (\<lambda>_.
           and_then (call (store (sm_use M handleId None))) (\<lambda>handleStorage.
           and_then (case handleStorage of
                       Some st \<Rightarrow> call (store (sm_deleteToken M st)) | None \<Rightarrow> Done (Inr ())) (\<lambda>_.
           and_then (if deleteStorage
                     then and_then (call (ext (cm_clearRustCrypto E (cl_id (se_client session))
                                      (crypto_prefix handleId)))) (\<lambda>_.
                            call (store (sm_delete M handleId)))
                     else call (store (sm_close M handleId))) (\<lambda>_.
             call (put_session handleId None))))))))"

definition fromService_task ::
    "'x session_env \<Rightarrow> handle_id \<Rightarrow> string option \<Rightarrow> (('x, 's) session_state, string \<times> string) task" where
  "fromService_task E handleId deviceId =
     sync (case deviceId of Some d \<Rightarrow> ret d | None \<Rightarrow> ext (sx_uuid E)) (\<lambda>d.
     and_then (call (ext (session_get (sx_graphql E) handleId d))) (\<lambda>newSession.
     and_then (Done (decodeToken E (sn_token newSession))) (\<lambda>(_, tokenDeviceId).
       Done (Inr (sn_token newSession, nullish deviceId tokenDeviceId)))))"

definition fromStorage_task ::
    "'x session_env \<Rightarrow> ('s, 'st) storage_module \<Rightarrow> 'st option \<Rightarrow>
     (('x, 's) session_state, (string \<times> string \<times> bool) option) task" where
  "fromStorage_task E M handleStorage =
     and_then (case handleStorage of Some st \<Rightarrow> call (store (sm_getToken M st)) | None \<Rightarrow> Done (Inr None))
       (\<lambda>storedAccessToken.
         if \<not> truthy_str storedAccessToken then Done (Inr None)
         else and_then (Done (decodeToken E (the storedAccessToken))) (\<lambda>(expiry, deviceId).
              sync (isTokenExpiredOrExpiringSoon E expiry) (\<lambda>bad.
                Done (Inr (Some (the storedAccessToken, deviceId, \<not> bad))))))"

definition fromStorageOrService_task ::
    "'x session_env \<Rightarrow> ('s, 'st) storage_module \<Rightarrow> handle_id \<Rightarrow> 'st option \<Rightarrow> string option \<Rightarrow>
     (('x, 's) session_state, string) task" where
  "fromStorageOrService_task E M handleId handleStorage deviceIdIfNoStoredSession =
     and_then (fromStorage_task E M handleStorage) (\<lambda>stored.
       case stored of
         Some (token, deviceId, True) \<Rightarrow> Done (Inr token)
       | _ \<Rightarrow>
           and_then (fromService_task E handleId
                       (nullish_opt (map_option (\<lambda>(_, d, _). d) stored) deviceIdIfNoStoredSession))
             (\<lambda>(token, _). Done (Inr token)))"

definition createNewSession_task ::
    "'x session_env \<Rightarrow> ('s, 'st) storage_module \<Rightarrow> handle_id \<Rightarrow> string option \<Rightarrow> string option \<Rightarrow>
     (('x, 's) session_state, string) task" where
  "createNewSession_task E M handleId storePassphrase deviceIdIfNoStoredSession =
     and_then (call (store (sm_use M handleId storePassphrase))) (\<lambda>handleStorage.
     and_then (fromStorageOrService_task E M handleId handleStorage deviceIdIfNoStoredSession) (\<lambda>accessToken.
     and_then (Done (decodeToken E accessToken)) (\<lambda>(expiry, _).
     and_then (call (ext (createMatrixClient E handleId accessToken storePassphrase (handleStorage \<noteq> None))))
       (\<lambda>matrixClient.
     sync (scheduleTokenRefresh E handleId expiry storePassphrase) (\<lambda>refreshTimeout.
     sync (put_session handleId (Some
         \<lparr>se_accessToken = accessToken, se_storePassphrase = storePassphrase,
          se_client = matrixClient, se_refreshTimeout = refreshTimeout\<rparr>)) (\<lambda>_.
     and_then (case handleStorage of
                 Some st \<Rightarrow> call (store (sm_saveToken M st accessToken)) | None \<Rightarrow> Done (Inr ())) (\<lambda>_.
       Done (Inr accessToken))))))))"

definition installToken_task ::
    "'x session_env \<Rightarrow> ('s, 'st) storage_module \<Rightarrow> handle_id \<Rightarrow> session \<Rightarrow> string \<Rightarrow>
     int \<Rightarrow> string option \<Rightarrow> (('x, 's) session_state, string option) task" where
  "installToken_task E M handleId cachedSession newToken newExpiry storePassphrase =
     sync (clear_timer E cachedSession) (\<lambda>_.
     sync (scheduleTokenRefresh E handleId newExpiry storePassphrase) (\<lambda>refreshTimeout.
     sync (ext (sx_setAccessToken E (cl_id (se_client cachedSession)) newToken)) (\<lambda>_.
     sync (put_session handleId (Some
         \<lparr>se_accessToken = newToken, se_storePassphrase = storePassphrase,
          se_client = (se_client cachedSession)\<lparr>cl_token := newToken\<rparr>,
          se_refreshTimeout = refreshTimeout\<rparr>)) (\<lambda>_.
     and_then (call (store (sm_use M handleId storePassphrase))) (\<lambda>handleStorage.
     and_then (case handleStorage of
                 Some st \<Rightarrow> call (store (sm_saveToken M st newToken)) | None \<Rightarrow> Done (Inr ())) (\<lambda>_.
       Done (Inr (Some newToken))))))))"

definition refresh_task ::
    "'x session_env \<Rightarrow> ('s, 'st) storage_module \<Rightarrow> handle_id \<Rightarrow> session \<Rightarrow> string \<Rightarrow>
     string option \<Rightarrow> (('x, 's) session_state, string option) task" where
  "refresh_task E M handleId cachedSession deviceId storePassphrase =
     or_else
       (and_then (fromService_task E handleId (Some deviceId)) (\<lambda>(newToken, _).
        and_then (Done (decodeToken E newToken)) (\<lambda>(newExpiry, _).
          installToken_task E M handleId cachedSession newToken newExpiry storePassphrase)))
       (\<lambda>_. and_then (deleteSession_task E M handleId False) (\<lambda>_. Done (Inr None)))"

definition tryUse_task ::
    "'x session_env \<Rightarrow> ('s, 'st) storage_module \<Rightarrow> handle_id \<Rightarrow> session \<Rightarrow> string option \<Rightarrow>
     (('x, 's) session_state, string option) task" where
  "tryUse_task E M handleId cachedSession storePassphrase =
     and_then (Done (decodeToken E (se_accessToken cachedSession))) (\<lambda>(expiry, deviceId).
     sync (isTokenExpiredOrExpiringSoon E expiry) (\<lambda>bad.
       if \<not> bad \<and> isUsingToken (se_client cachedSession) (se_accessToken cachedSession)
       then Done (Inr (Some (se_accessToken cachedSession)))
       else sync (isTokenExpired E expiry) (\<lambda>expired.
         if expired
         then and_then (deleteSession_task E M handleId False) (\<lambda>_. Done (Inr None))
         else refresh_task E M handleId cachedSession deviceId storePassphrase)))"

definition ensureValid_task ::
    "'x session_env \<Rightarrow> ('s, 'st) storage_module \<Rightarrow> handle_id \<Rightarrow> string option \<Rightarrow> string option \<Rightarrow>
     (('x, 's) session_state, string) task" where
  "ensureValid_task E M handleId storePassphrase deviceIdIfNoStoredSession =
     sync (get_session handleId) (\<lambda>cachedSession.
       let newStorePassphrase =
             nullish_opt (Option.bind cachedSession se_storePassphrase) storePassphrase
       in and_then (case cachedSession of
                      None \<Rightarrow> Done (Inr None)
                    | Some c \<Rightarrow> tryUse_task E M handleId c newStorePassphrase) (\<lambda>validAccessToken.
            if truthy_str validAccessToken then Done (Inr (the validAccessToken))
            else createNewSession_task E M handleId newStorePassphrase deviceIdIfNoStoredSession))"

text \<open>
  \<open>getMatrixClient\<close> reads the record when the promise of the queue has settled, in a stretch
  of its own.
\<close>

definition getMatrixClient_task ::
    "'x session_env \<Rightarrow> ('s, 'st) storage_module \<Rightarrow> handle_id \<Rightarrow> string option \<Rightarrow>
     (('x, 's) session_state, client_manager) task" where
  "getMatrixClient_task E M handleId deviceIdIfNoStoredSession =
     and_then (ensureValid_task E M handleId None deviceIdIfNoStoredSession) (\<lambda>_.
     and_then (call (get_session handleId)) (\<lambda>session.
       Done (case session of Some s \<Rightarrow> Inr (se_client s) | None \<Rightarrow> Inl TypeError)))"

text \<open>The deprovisioning of a handle (\<open>deprovisionHandleUseCase.ts\<close>).\<close>

definition deprovision_task ::
    "'x session_env \<Rightarrow> ('s, 'st) storage_module \<Rightarrow> handle_id \<Rightarrow> (('x, 's) session_state, OwnedHandleEntity) task" where
  "deprovision_task E M handleId =
     and_then (call (ext (hs_delete (sx_graphql E) handleId))) (\<lambda>handle.
     and_then (deleteSession_task E M handleId True) (\<lambda>_.
       Done (Inr handle)))"

section \<open>Without overlap the tasks are the methods\<close>

declare finish.simps(1) [simp del] and_then.simps(1) [simp del]

lemma finish_lift [simp]: "finish (Done r) = lift_result r"
  by (simp add: lift_result_def fun_eq_iff finish.simps(1))

lemma finish_option: "finish (case v of None \<Rightarrow> t | Some x \<Rightarrow> f x) = (case v of None \<Rightarrow> finish t | Some x \<Rightarrow> finish (f x))"
  by (cases v) simp_all

lemma finish_if: "finish (if b then t else u) = (if b then finish t else finish u)"
  by simp

lemma lift_result_value: "lift_result (Inr x) = ret x" "lift_result (Inl e) = throw e"
  by (simp_all add: fun_eq_iff io_simps)

lemmas finish_rules = finish_option finish_if prod.case_distrib [of finish] lift_result_value clear_timer_def

lemma finish_deleteSession: "finish (deleteSession_task E M h d) = deleteSession E M h d"
  by (simp add: deleteSession_task_def deleteSession_def finish_rules cong: if_cong option.case_cong)

lemma finish_fromService: "finish (fromService_task E h d) = getAccessTokenFromService E h d"
  by (simp add: fromService_task_def getAccessTokenFromService_def finish_rules cong: if_cong option.case_cong)

lemma finish_fromStorage: "finish (fromStorage_task E M hs) = getAccessTokenFromStorage E M hs"
  by (simp add: fromStorage_task_def getAccessTokenFromStorage_def finish_rules cong: if_cong option.case_cong)

lemma finish_fromStorageOrService:
  "finish (fromStorageOrService_task E M h hs d) = getAccessTokenFromStorageOrService E M h hs d"
proof -
  have eq: "finish (case stored of
         Some (token, deviceId, True) \<Rightarrow> Done (Inr token)
       | _ \<Rightarrow> and_then (fromService_task E h (nullish_opt (map_option (\<lambda>(_, d, _). d) stored) d))
             (\<lambda>(token, _). Done (Inr token))) =
      (case stored of
         Some (token, deviceId, True) \<Rightarrow> ret token
       | _ \<Rightarrow> await (getAccessTokenFromService E h (nullish_opt (map_option (\<lambda>(_, d, _). d) stored) d))
             (\<lambda>(token, _). ret token))" for stored
    by (auto simp: finish_fromService finish_rules split: option.split bool.split)
  show ?thesis
    by (simp only: fromStorageOrService_task_def getAccessTokenFromStorageOrService_def finish_and_then finish_fromStorage eq)
qed

lemma finish_createNewSession: "finish (createNewSession_task E M h p d) = createNewSession E M h p d"
  by (simp add: createNewSession_task_def createNewSession_def finish_fromStorageOrService finish_rules cong: if_cong option.case_cong)

lemma finish_refresh: "finish (refresh_task E M h c dev p) = refreshCachedSessionToken E M h c dev p"
  by (simp add: refresh_task_def installToken_task_def refreshCachedSessionToken_def finish_fromService finish_deleteSession finish_rules cong: if_cong option.case_cong)

lemma finish_tryUse: "finish (tryUse_task E M h c p) = tryUseCachedSession E M h c p"
  by (simp add: tryUse_task_def tryUseCachedSession_def handleExpiredToken_def finish_deleteSession finish_refresh finish_rules cong: if_cong option.case_cong)

lemma finish_ensureValid: "finish (ensureValid_task E M h p d) = ensureValidSessionBody E M h p d"
  by (simp add: ensureValid_task_def ensureValidSessionBody_def Let_def finish_tryUse finish_createNewSession finish_rules cong: if_cong option.case_cong)

lemma finish_getMatrixClient: "finish (getMatrixClient_task E M h d) = getMatrixClient E M h d"
  by (simp add: getMatrixClient_task_def getMatrixClient_def finish_ensureValid finish_rules
      option.case_distrib [of lift_result] cong: if_cong option.case_cong)

lemma finish_deprovision: "finish (deprovision_task E M h) = ucs_deprovisionHandle E M h"
  by (simp add: deprovision_task_def ucs_deprovisionHandle_def finish_deleteSession finish_rules cong: if_cong option.case_cong)

section \<open>Interleaving\<close>

text \<open>
  A caller that does not look at the answer, and a pool of such callers. A schedule names, one
  after the other, the task that runs its next stretch.
\<close>

definition forget :: "('w, 'a) task \<Rightarrow> ('w, unit) task" where
  "forget t = and_then t (\<lambda>_. Done (Inr ()))"

fun run_pool :: "nat list \<Rightarrow> ('w, unit) task list \<Rightarrow> 'w \<Rightarrow> ('w, unit) task list \<times> 'w" where
  "run_pool [] ts w = (ts, w)"
| "run_pool (i # is) ts w =
     (if i < length ts then (case advance (ts ! i) w of (t, w') \<Rightarrow> run_pool is (ts[i := t]) w')
      else run_pool is ts w)"

lemma run_pool_append: "run_pool (is @ js) ts w = (case run_pool is ts w of (ts', w') \<Rightarrow> run_pool js ts' w')"
  by (induction "is" ts w rule: run_pool.induct) (simp_all split: prod.split)

text \<open>A task that gets all the turns from some point on settles as if nothing overlapped.\<close>

lemma advance_settles:
  "\<exists>n. ((\<lambda>(t, w). advance t w) ^^ n) (t, w) = (Done (fst (finish t w)), snd (finish t w))"
proof (induction t arbitrary: w rule: task_induct)
  case (1 r)
  have "((\<lambda>(t, w). advance t w) ^^ 0) (Done r, w) = (Done (fst (finish (Done r) w)), snd (finish (Done r) w))"
    by (simp add: finish.simps(1) del: finish_lift)
  then show ?case by blast
next
  case (2 f)
  then obtain n where "((\<lambda>(t, w). advance t w) ^^ n) (f w)
      = (Done (fst (finish (fst (f w)) (snd (f w)))), snd (finish (fst (f w)) (snd (f w))))"
    by (metis prod.collapse)
  then have "((\<lambda>(t, w). advance t w) ^^ Suc n) (Pause f, w)
      = (Done (fst (finish (Pause f) w)), snd (finish (Pause f) w))"
    by (simp add: funpow_swap1)
  then show ?case by blast
qed

lemma run_pool_alone:
  assumes "i < length ts"
  shows "run_pool (replicate n i) ts w = (case ((\<lambda>(t, w). advance t w) ^^ n) (ts ! i, w) of (t, w') \<Rightarrow> (ts[i := t], w'))"
  using assms
proof (induction n arbitrary: ts w)
  case (Suc n)
  show ?case
  proof (cases "advance (ts ! i) w")
    case (Pair t w')
    with Suc show ?thesis by (simp add: funpow_swap1 split: prod.split)
  qed
qed simp

lemma run_pool_settles:
  assumes "i < length ts" and "finish (ts ! i) w = (r, w')"
  shows "\<exists>n. run_pool (replicate n i) ts w = (ts[i := Done r], w')"
proof -
  obtain n where "((\<lambda>(t, w). advance t w) ^^ n) (ts ! i, w) = (Done r, w')"
    using advance_settles [of "ts ! i" w] assms(2) by auto
  with run_pool_alone [OF assms(1), of n w] show ?thesis by auto
qed

section \<open>Invariants of every stretch\<close>

text \<open>
  \<open>keeps P V t\<close>: each stretch of \<open>t\<close> that finds a record of sessions with \<open>P\<close> leaves one,
  whatever other tasks did since the last stretch, and the value of \<open>t\<close> satisfies \<open>V\<close>.
\<close>

inductive keeps :: "(sessions \<Rightarrow> bool) \<Rightarrow> ('a \<Rightarrow> bool) \<Rightarrow> (('x, 's) session_state, 'a) task \<Rightarrow> bool"
  for P V where
  failed: "keeps P V (Done (Inl e))"
| settled: "V x \<Longrightarrow> keeps P V (Done (Inr x))"
| paused: "(\<And>s. P (st_sessions s) \<Longrightarrow> P (st_sessions (snd (f s))) \<and> keeps P V (fst (f s))) \<Longrightarrow>
    keeps P V (Pause f)"

inductive_simps keeps_simps: "keeps P V (Done (Inl e))" "keeps P V (Done (Inr x))"

lemma keeps_Done: "(\<And>x. r = Inr x \<Longrightarrow> V x) \<Longrightarrow> keeps P V (Done r)"
  by (cases r) (auto simp: keeps_simps)

lemma keeps_advance:
  "keeps P V t \<Longrightarrow> P (st_sessions s) \<Longrightarrow> P (st_sessions (snd (advance t s))) \<and> keeps P V (fst (advance t s))"
  by (erule keeps.cases) (auto simp: keeps_simps)

lemma keeps_call:
  assumes "on_sessions P m (\<lambda>x S. P S \<and> V x) P"
  shows "keeps P V (call m)"
  unfolding call_def
proof (rule keeps.paused)
  fix s :: "('a, 'b) session_state"
  assume P: "P (st_sessions s)"
  let ?m = "case m s of (r, w) \<Rightarrow> (Done r, w)"
  show "P (st_sessions (snd ?m)) \<and> keeps P V (fst ?m)"
    using on_sessionsD [OF assms P] by (cases "m s", cases "fst (m s)") (auto simp: keeps_simps)
qed

lemma keeps_sync:
  assumes "on_sessions P m (\<lambda>x S. P S \<and> R x) P" and "\<And>x. R x \<Longrightarrow> keeps P V (k x)"
  shows "keeps P V (sync m k)"
  unfolding sync_def
proof (rule keeps.paused)
  fix s :: "('a, 'b) session_state"
  assume P: "P (st_sessions s)"
  let ?m = "case m s of (Inl e, w) \<Rightarrow> (Done (Inl e), w) | (Inr x, w) \<Rightarrow> advance (k x) w"
  show "P (st_sessions (snd ?m)) \<and> keeps P V (fst ?m)"
    using on_sessionsD [OF assms(1) P] keeps_advance [OF assms(2)]
    by (auto split: prod.split sum.split intro: keeps.failed)
qed

lemma keeps_and_then:
  assumes "keeps P R t" and "\<And>x. R x \<Longrightarrow> keeps P V (k x)"
  shows "keeps P V (and_then t k)"
  using assms(1)
proof (induction rule: keeps.induct)
  case (paused f)
  then show ?case by (auto intro: keeps.paused)
qed (simp_all add: and_then.simps(1) assms(2) keeps.failed)

lemma keeps_or_else:
  assumes "keeps P V t" and "\<And>e. keeps P V (h e)"
  shows "keeps P V (or_else t h)"
  using assms(1)
proof (induction rule: keeps.induct)
  case (paused f)
  then show ?case by (auto intro: keeps.paused)
qed (simp_all add: assms(2) keeps.settled)

lemma keeps_option: "keeps P V t \<Longrightarrow> (\<And>x. v = Some x \<Longrightarrow> keeps P V (f x)) \<Longrightarrow>
    keeps P V (case v of None \<Rightarrow> t | Some x \<Rightarrow> f x)"
  by (cases v) simp_all

lemma keeps_forget: "keeps P V t \<Longrightarrow> keeps P (\<lambda>_. True) (forget t)"
  unfolding forget_def by (erule keeps_and_then) (rule keeps.settled, simp)

text \<open>Any schedule of a pool of such tasks keeps the invariant.\<close>

lemma run_pool_keeps:
  assumes "\<forall>t \<in> set ts. keeps P (\<lambda>_. True) t" and "P (st_sessions s)"
  shows "P (st_sessions (snd (run_pool is ts s)))"
  using assms
proof (induction "is" ts s rule: run_pool.induct)
  case (2 i "is" ts s)
  show ?case
  proof (cases "i < length ts")
    case True
    obtain t s' where step: "advance (ts ! i) s = (t, s')" by fastforce
    with keeps_advance [of P "\<lambda>_. True" "ts ! i" s] 2(3,4) True
    have "P (st_sessions s')" "keeps P (\<lambda>_. True) t" by auto
    moreover have "\<forall>t' \<in> set (ts[i := t]). keeps P (\<lambda>_. True) t'"
      using calculation(2) 2(3) by (auto dest: set_update_subset_insert [THEN subsetD])
    ultimately show ?thesis using 2(1) [OF True step [symmetric]] True step by simp
  next
    case False
    with 2 show ?thesis by simp
  qed
qed simp


section \<open>The tasks of the manager keep its invariant\<close>

lemma keeps_clear: "on_sessions P (clear_timer E c) (\<lambda>_. P) P"
  unfolding clear_timer_def by (rule on_sessions_option, rule on_sessions_ret, simp, rule on_sessions_ext)

lemma on_sessions_true: "on_sessions P m (\<lambda>_. P) P \<Longrightarrow> on_sessions P m (\<lambda>x S. P S \<and> True) P"
  by simp

lemmas keeps_sync0 = keeps_sync [OF on_sessions_true]
lemmas keeps_ext = keeps_call [OF on_sessions_true [OF on_sessions_ext]]
lemmas keeps_store = keeps_call [OF on_sessions_true [OF on_sessions_store]]

lemma on_sessions_read: "on_sessions P (get_session h) (\<lambda>_. P) P"
  by (simp add: on_sessions_def get_session_def)

lemma keeps_put:
  "(\<And>S. P S \<Longrightarrow> P (S(h := v))) \<Longrightarrow> keeps P (\<lambda>_. True) (call (put_session h v))"
  by (rule keeps_call, rule on_sessions_put, simp)

lemma deleteSession_keeps: "keeps (sessions_ok E) (\<lambda>_. True) (deleteSession_task E M h d)"
proof -
  note steps = keeps_ext keeps_store keeps.settled
  show ?thesis
    unfolding deleteSession_task_def
    apply (rule keeps_sync0 [OF on_sessions_read])
    apply (rule keeps_option, rule keeps.settled, simp)
    apply (rule keeps_sync0 [OF keeps_clear])
    apply (rule keeps_and_then [OF keeps_ext])
    apply (rule keeps_and_then [OF keeps_call [where V = "\<lambda>_. True"]], rule on_sessions_ret, simp)
    apply (rule keeps_and_then [OF keeps_store])
    apply (rule keeps_and_then [where R = "\<lambda>_. True"], rule keeps_option, rule keeps.settled, simp, rule keeps_store)
    apply (rule keeps_and_then [where R = "\<lambda>_. True"])
     apply (cases d, simp_all add: steps keeps_and_then [OF keeps_ext])
    apply (rule keeps_put, rule sessions_ok_remove, assumption)
    done
qed


lemma keeps_decode:
  assumes "sx_decode E '''' = None" and "\<And>x. valid_token E t \<Longrightarrow> keeps P V (k x)"
  shows "keeps P V (and_then (Done (decodeToken E t)) k)"
  using assms(2) valid_tokenI [OF assms(1)]
  by (cases "decodeToken E t") (auto simp: and_then.simps(1) keeps.failed)

lemma fromService_keeps:
  assumes "sx_decode E '''' = None"
  shows "keeps P (\<lambda>x. valid_token E (fst x)) (fromService_task E h d)"
  unfolding fromService_task_def
  apply (rule keeps_sync0 [where m = "case d of Some d \<Rightarrow> ret d | None \<Rightarrow> ext (sx_uuid E)"])
   apply (rule on_sessions_option, rule on_sessions_ext, rule on_sessions_ret, simp)
  apply (rule keeps_and_then [OF keeps_ext])
  apply (rule keeps_decode [OF assms])
  apply (auto intro: keeps.settled)
  done

lemma fromStorage_keeps:
  assumes "sx_decode E '''' = None"
  shows "keeps P (\<lambda>x. \<forall>t d b. x = Some (t, d, b) \<longrightarrow> valid_token E t) (fromStorage_task E M hs)"
  unfolding fromStorage_task_def
  apply (rule keeps_and_then [where R = "\<lambda>_. True"], rule keeps_option, rule keeps.settled, simp, rule keeps_store)
  subgoal for stored
    apply (cases "truthy_str stored")
     apply simp
     apply (rule keeps_decode [OF assms])
     apply (simp add: case_prod_unfold)
     apply (rule keeps_sync0 [OF on_sessions_expired(3)])
     apply (auto intro: keeps.settled)
    done
  done

lemma fromStorageOrService_keeps:
  assumes "sx_decode E '''' = None"
  shows "keeps P (valid_token E) (fromStorageOrService_task E M h hs d)"
proof -
  have service: "keeps P (valid_token E) (and_then (fromService_task E h d') (\<lambda>(token, _). Done (Inr token)))" for d'
    by (rule keeps_and_then [OF fromService_keeps [OF assms]]) (auto intro: keeps.settled)
  show ?thesis
    unfolding fromStorageOrService_task_def
    by (rule keeps_and_then [OF fromStorage_keeps [OF assms]])
      (auto split: option.split bool.split intro: service keeps.settled)
qed

lemma createNewSession_keeps:
  assumes "sx_decode E '''' = None"
  shows "keeps (sessions_ok E) (\<lambda>_. True) (createNewSession_task E M h p d)"
  unfolding createNewSession_task_def
  apply (rule keeps_and_then [OF keeps_store])
  apply (rule keeps_and_then [OF fromStorageOrService_keeps [OF assms]])
  apply (rule keeps_and_then [where R = "\<lambda>_. True"], rule keeps_Done, simp)
  apply (simp only: case_prod_unfold)
  apply (rule keeps_and_then [OF keeps_call [OF on_sessions_ext_value]], erule createMatrixClient_token)
  apply (rule keeps_sync0 [OF on_sessions_schedule])
  apply (rule keeps_sync0, rule on_sessions_put)
   apply (simp add: sessions_ok_upd session_ok_def isUsingToken_def)
  apply (rule keeps_and_then [where R = "\<lambda>_. True"], rule keeps_option, rule keeps.settled, simp, rule keeps_store)
  apply (rule keeps.settled, simp)
  done

lemma installToken_keeps:
  assumes "valid_token E t"
  shows "keeps (sessions_ok E) (\<lambda>_. True) (installToken_task E M h c t ex p)"
  unfolding installToken_task_def
  apply (rule keeps_sync0 [OF keeps_clear])
  apply (rule keeps_sync0 [OF on_sessions_schedule])
  apply (rule keeps_sync0 [OF on_sessions_ext])
  apply (rule keeps_sync0, rule on_sessions_put)
   apply (simp add: sessions_ok_upd session_ok_def isUsingToken_def assms)
  apply (rule keeps_and_then [OF keeps_store])
  apply (rule keeps_and_then [where R = "\<lambda>_. True"], rule keeps_option, rule keeps.settled, simp, rule keeps_store)
  apply (rule keeps.settled, simp)
  done

lemma refresh_keeps:
  assumes "sx_decode E '''' = None"
  shows "keeps (sessions_ok E) (\<lambda>_. True) (refresh_task E M h c dev p)"
proof -
  have removed: "keeps (sessions_ok E) (\<lambda>_. True)
      (and_then (deleteSession_task E M h False) (\<lambda>_. Done (Inr None)))"
    by (rule keeps_and_then [OF deleteSession_keeps], rule keeps.settled, simp)
  show ?thesis
    unfolding refresh_task_def
    apply (rule keeps_or_else [OF _ removed])
    apply (rule keeps_and_then [OF fromService_keeps [OF assms]])
    apply (simp only: case_prod_unfold)
    apply (rule keeps_and_then [where R = "\<lambda>_. True"], rule keeps_Done, simp)
    apply (rule installToken_keeps, assumption)
    done
qed

lemma ensureValid_keeps:
  assumes "sx_decode E '''' = None"
  shows "keeps (sessions_ok E) (\<lambda>_. True) (ensureValid_task E M h p d)"
proof -
  have removed: "keeps (sessions_ok E) (\<lambda>_. True)
      (and_then (deleteSession_task E M h False) (\<lambda>_. Done (Inr None)))"
    by (rule keeps_and_then [OF deleteSession_keeps], rule keeps.settled, simp)
  have used: "keeps (sessions_ok E) (\<lambda>_. True) (tryUse_task E M h c p')" for c p'
    unfolding tryUse_task_def
    apply (rule keeps_and_then [where R = "\<lambda>_. True"], rule keeps_Done, simp)
    apply (simp only: case_prod_unfold)
    apply (rule keeps_sync0 [OF on_sessions_expired(3)])
    apply (auto intro: keeps.settled intro!: keeps_sync0 [OF on_sessions_expired(1)] removed refresh_keeps [OF assms])
    done
  show ?thesis
    unfolding ensureValid_task_def Let_def
    apply (rule keeps_sync0 [OF on_sessions_read])
    apply (rule keeps_and_then [where R = "\<lambda>_. True"])
     apply (rule keeps_option, rule keeps.settled, simp, rule used)
    apply (auto intro: keeps.settled createNewSession_keeps [OF assms])
    done
qed

text \<open>
  The jobs that may overlap: making a session valid (for a caller, or for the refresh timer),
  asking for the client, deleting a session, and deprovisioning a handle.
\<close>

datatype job =
    EnsureValid handle_id "string option" "string option"
  | MatrixClient handle_id "string option"
  | DeleteSession handle_id bool
  | Deprovision handle_id

primrec job_task ::
    "'x session_env \<Rightarrow> ('s, 'st) storage_module \<Rightarrow> job \<Rightarrow> (('x, 's) session_state, unit) task" where
  "job_task E M (EnsureValid h p d) = forget (ensureValid_task E M h p d)"
| "job_task E M (MatrixClient h d) = forget (getMatrixClient_task E M h d)"
| "job_task E M (DeleteSession h b) = deleteSession_task E M h b"
| "job_task E M (Deprovision h) = forget (deprovision_task E M h)"

lemma job_keeps:
  assumes "sx_decode E '''' = None"
  shows "keeps (sessions_ok E) (\<lambda>_. True) (job_task E M j)"
proof (cases j)
  case (EnsureValid h p d)
  then show ?thesis by (simp add: keeps_forget [OF ensureValid_keeps [OF assms]])
next
  case (MatrixClient h d)
  have "keeps (sessions_ok E) (\<lambda>_. True) (getMatrixClient_task E M h d)"
    unfolding getMatrixClient_task_def
    by (rule keeps_and_then [OF ensureValid_keeps [OF assms]],
        rule keeps_and_then [OF keeps_call [OF on_sessions_true [OF on_sessions_read]]], rule keeps_Done, simp)
  then show ?thesis using MatrixClient by (simp add: keeps_forget)
next
  case (DeleteSession h b)
  then show ?thesis by (simp add: deleteSession_keeps)
next
  case (Deprovision h)
  have "keeps (sessions_ok E) (\<lambda>_. True) (deprovision_task E M h)"
    unfolding deprovision_task_def
    by (rule keeps_and_then [OF keeps_ext], rule keeps_and_then [OF deleteSession_keeps], rule keeps.settled, simp)
  then show ?thesis using Deprovision by (simp add: keeps_forget)
qed

section \<open>A refresh and a deletion\<close>

lemma finish_forget: "finish (forget t) = await (finish t) (\<lambda>_. ret ())"
  by (simp add: forget_def lift_result_value)

lemma advance_and_then:
  "advance (and_then (sync m j) k) w = (and_then (fst (advance (sync m j) w)) k, snd (advance (sync m j) w))"
  by (simp add: sync_def)

text \<open>
  The first stretch of a call that finds the token about to expire ends with the request for a
  new one; what is left is the installation of the token in the answer.
\<close>

lemma service_asked:
  assumes "ext (session_get (sx_graphql E) h dev) s = (Inr n, s1)"
    and "decodeToken E (sn_token n) = Inr r"
  shows "advance (fromService_task E h (Some dev)) s = (Done (Inr (sn_token n, dev)), s1)"
  using assms by (simp add: fromService_task_def sync_def ret_apply call_def and_then.simps(1) case_prod_unfold)

lemma refresh_asked:
  assumes "ext (session_get (sx_graphql E) h dev) s = (Inr n, s1)"
    and "decodeToken E (sn_token n) = Inr (ex', dev')"
  shows "advance (refresh_task E M h c dev p) s =
    (or_else (installToken_task E M h c (sn_token n) ex' p)
       (\<lambda>_. and_then (deleteSession_task E M h False) (\<lambda>_. Done (Inr None))), s1)"
proof -
  have "advance (or_else (and_then (fromService_task E h (Some dev)) k) g) s
      = (or_else (and_then (fst (advance (fromService_task E h (Some dev)) s)) k) g,
         snd (advance (fromService_task E h (Some dev)) s))" for k :: "string \<times> string \<Rightarrow> (('a, 'b) session_state, string option) task" and g
    by (simp add: fromService_task_def sync_def)
  then show ?thesis
    by (simp add: refresh_task_def service_asked [OF assms] assms(2) and_then.simps(1))
qed

definition answered_task ::
    "'x session_env \<Rightarrow> ('s, 'st) storage_module \<Rightarrow> handle_id \<Rightarrow> session \<Rightarrow> string \<Rightarrow> int \<Rightarrow>
     string option \<Rightarrow> string option \<Rightarrow> (('x, 's) session_state, string) task" where
  "answered_task E M h c t ex p d =
     and_then (or_else (installToken_task E M h c t ex (nullish_opt (se_storePassphrase c) p))
         (\<lambda>_. and_then (deleteSession_task E M h False) (\<lambda>_. Done (Inr None))))
       (\<lambda>validAccessToken.
          if truthy_str validAccessToken then Done (Inr (the validAccessToken))
          else createNewSession_task E M h (nullish_opt (se_storePassphrase c) p) d)"

lemma ensureValid_asked:
  assumes "st_sessions s h = Some c" and "decodeToken E (se_accessToken c) = Inr (ex, dev)"
    and "\<not> token_fresh E (st_ext s) ex" and "sx_now E (st_ext s) div 1000 < ex"
    and "ext (session_get (sx_graphql E) h dev) s = (Inr n, s1)"
    and "decodeToken E (sn_token n) = Inr (ex', dev')"
  shows "advance (job_task E M (EnsureValid h p d)) s = (forget (answered_task E M h c (sn_token n) ex' p d), s1)"
proof -
  have attempt: "advance (and_then (tryUse_task E M h c p') k) s
      = (and_then (fst (advance (refresh_task E M h c dev p') s)) k, snd (advance (refresh_task E M h c dev p') s))"
    for p' and k :: "string option \<Rightarrow> (('a, 'b) session_state, string) task"
    using assms(1-4)
    by (simp add: tryUse_task_def and_then.simps(1) [of "Inr _"] advance_and_then)
      (simp add: sync_def fresh_not_bad expired_apply)
  have "advance (ensureValid_task E M h p d) s = (answered_task E M h c (sn_token n) ex' p d, s1)"
    using assms(1)
    by (cases "se_storePassphrase c")
      (simp_all add: ensureValid_task_def answered_task_def sync_def get_session_def Let_def attempt
        refresh_asked [OF assms(5,6)] cong: if_cong)
  then show ?thesis by (simp add: forget_def ensureValid_task_def advance_and_then)
qed

text \<open>Timers can be set and cleared, and a client takes a new token, without an error.\<close>

definition timers_work :: "'x session_env \<Rightarrow> bool" where
  "timers_work E \<longleftrightarrow> (\<forall>i w. \<exists>w'. sx_clearTimeout E i w = (Inr (), w'))
     \<and> (\<forall>h p d w. \<exists>i w'. sx_setTimeout E h p d w = (Inr i, w'))
     \<and> (\<forall>c t w. \<exists>w'. sx_setAccessToken E c t w = (Inr (), w'))"

lemma clear_works:
  assumes "timers_work E"
  shows "\<exists>w. clear_timer E c s = (Inr (), s\<lparr>st_ext := w\<rparr>)"
proof (cases "se_refreshTimeout c")
  case None
  then have "clear_timer E c s = (Inr (), s\<lparr>st_ext := st_ext s\<rparr>)"
    by (simp add: clear_timer_def ret_apply)
  then show ?thesis by blast
next
  case (Some i)
  obtain w where "sx_clearTimeout E i (st_ext s) = (Inr (), w)"
    using assms unfolding timers_work_def by blast
  then show ?thesis using Some by (auto simp: clear_timer_def ext_def)
qed

lemma schedule_works:
  assumes "timers_work E"
  shows "\<exists>i w. scheduleTokenRefresh E h ex p s = (Inr i, s\<lparr>st_ext := w\<rparr>)"
proof -
  let ?D = "(ex - sx_now E (st_ext s) div 1000 - sx_refreshMinutes E * 60) * 1000"
  obtain i w where "sx_setTimeout E h p ?D (st_ext s) = (Inr i, w)"
    using assms unfolding timers_work_def by blast
  then have "scheduleTokenRefresh E h ex p s = (if sx_refreshMinutes E > 0 \<and> ?D > 0
      then (Inr (Some i), s\<lparr>st_ext := w\<rparr>) else (Inr None, s\<lparr>st_ext := st_ext s\<rparr>))"
    by (simp add: schedule_apply Let_def await_def ext_def ret_apply)
  then show ?thesis by (metis (full_types))
qed

lemma setToken_works:
  assumes "timers_work E"
  shows "\<exists>w. ext (sx_setAccessToken E c t) s = (Inr (), s\<lparr>st_ext := w\<rparr>)"
  using assms [unfolded timers_work_def, THEN conjunct2, THEN conjunct2, rule_format, of c t "st_ext s"]
  by (force simp: ext_def)

context token_store
begin

lemma token_installed:
  assumes "ok (st_store s)" and "timers_work E"
  shows "\<exists>s'. finish (installToken_task E M h c t ex p) s = (Inr (Some t), s')
    \<and> session_of h t (st_sessions s') \<and> tok (st_store s') = (tok (st_store s))(h := Some t)"
proof -
  obtain w1 where clear: "clear_timer E c s = (Inr (), s\<lparr>st_ext := w1\<rparr>)"
    using clear_works [OF assms(2)] by blast
  obtain i w2 where schedule: "scheduleTokenRefresh E h ex p (s\<lparr>st_ext := w1\<rparr>) = (Inr i, s\<lparr>st_ext := w2\<rparr>)"
    using schedule_works [OF assms(2), of h ex p "s\<lparr>st_ext := w1\<rparr>"] by auto
  obtain w3 where set: "ext (sx_setAccessToken E (cl_id (se_client c)) t) (s\<lparr>st_ext := w2\<rparr>)
      = (Inr (), s\<lparr>st_ext := w3\<rparr>)"
    using setToken_works [OF assms(2), of "cl_id (se_client c)" t "s\<lparr>st_ext := w2\<rparr>"] by auto
  obtain st s1 where use: "sm_use M h p (st_store s) = (Inr (Some st), s1)" "ok s1" "holds s1 h st"
    "tok s1 = tok (st_store s)" using use_law [OF assms(1)] by blast
  obtain s2 where save: "sm_saveToken M st t s1 = (Inr (), s2)" "tok s2 = (tok s1)(h := Some t)"
    using save_law [OF use(2,3)] by blast
  show ?thesis
    using clear schedule set use save
    by (simp add: installToken_task_def await_def put_session_def store_def lift_result_value
        ret_apply session_of_def)
qed

text \<open>
  So a deletion that runs between the request and its answer is undone by the installation.
\<close>

lemma refresh_undoes_deletion:
  assumes "ok (st_store s)" and "timers_work E" and "t \<noteq> ''''"
  shows "\<exists>s'. finish (forget (answered_task E M h c t ex p d)) s = (Inr (), s')
    \<and> session_of h t (st_sessions s') \<and> tok (st_store s') h = Some t"
proof -
  obtain s' where "finish (installToken_task E M h c t ex (nullish_opt (se_storePassphrase c) p)) s = (Inr (Some t), s')"
    "session_of h t (st_sessions s')" "tok (st_store s') = (tok (st_store s))(h := Some t)"
    using token_installed [OF assms(1,2)] by blast
  then show ?thesis
    using assms(3) by (simp add: answered_task_def finish_forget await_def try_catch_def truthy_str_def ret_apply finish_if
        lift_result_value)
qed

end

section \<open>Demonstration\<close>

text \<open>The account service of theory Handles, which also answers a session with a new token.\<close>

definition fresh_token :: string where
  "fresh_token = replicate 900 CHR ''n''"

definition fresh_answer :: SecureCommsSession where
  "fresh_answer = \<lparr>ss_createdAtEpochMs = 0, ss_deviceId = ''dev'', ss_expiresAtEpochMs = 900000,
     ss_handleId = ''ann'', ss_handleName = ''Ann'', ss_owner = ''o'', ss_owners = [], ss_token = fresh_token\<rparr>"

definition demo_refresh_env :: "int session_env" where
  "demo_refresh_env = demo_account_env
     \<lparr>sx_graphql := (sx_graphql demo_account_env)
        \<lparr>gc_getSession := (\<lambda>_ w. (Inr \<lparr>gr_errors = None, gr_data = Some fresh_answer\<rparr>, w))\<rparr>\<rparr>"

lemma demo_refresh_decodes:
  "decodeToken demo_refresh_env demo_token = Inr (90, ''dev'')"
  "decodeToken demo_refresh_env fresh_token = Inr (900, ''dev'')" "fresh_token \<noteq> ''''"
  by (simp_all add: demo_refresh_env_def demo_account_env_def decodeToken_def demo_token_def
      fresh_token_def truthy_num_def truthy_str_def)

lemma demo_refresh_clock:
  "sx_now demo_refresh_env x = x" "sx_refreshMinutes demo_refresh_env = 1"
  by (simp_all add: demo_refresh_env_def demo_account_env_def)

lemma demo_refresh_asked:
  "ext (session_get (sx_graphql demo_refresh_env) ''ann'' ''dev'') s
     = (Inr (session_fromGraphQLToEntity fresh_answer), s)"
  by (simp add: demo_refresh_env_def session_get_def api_getSecureCommsSession_def performQuery_def
      ext_def await_def ret_apply)

lemma demo_refresh_timers: "timers_work demo_refresh_env"
  by (simp add: timers_work_def demo_refresh_env_def demo_account_env_def demo_session_env_def ret_apply)

lemma demo_refresh_deprovision:
  "\<exists>v s'. ucs_deprovisionHandle demo_refresh_env (indexeddb_module working_env) ''ann''
      (demo_session_state 60000 [''ann'' \<mapsto> demo_session]) = (Inr v, s')"
proof -
  let ?M = "indexeddb_module working_env"
    and ?s = "demo_session_state 60000 [''ann'' \<mapsto> demo_session]"
  have use: "sm_use ?M ''ann'' None (st_store ?s) = (Inr (Some 0), st_store ?s)"
    by (simp add: indexeddb_module_def demo_use)
  obtain w where del: "sm_deleteToken ?M 0 (st_store ?s) = (Inr (), w)" "storage_ok w"
    using idb.del_law [OF demo_stored_ok(1,2)] by blast
  obtain w' where delete: "sm_delete ?M ''ann'' w = (Inr (), w')"
    using idb.delete_law [OF del(2)] by blast
  obtain v where "ext (hs_delete (sx_graphql demo_refresh_env) ''ann'') ?s = (Inr v, ?s)"
    by (simp add: demo_refresh_env_def demo_account_env_def ext_def hs_delete_def
      api_deleteSecureCommsHandle_def performQuery_def await_def ret_apply demo_session_state_def)
  moreover have "\<exists>s'. deleteSession demo_refresh_env ?M ''ann'' True ?s = (Inr (), s')"
    using use del(1) delete
    by (simp add: deleteSession_def get_session_def await_def ret_apply cm_clearRustCrypto_def
        store_def ext_def put_session_def cm_stopSyncing_def try_catch_def demo_session_state_def
        demo_session_def demo_refresh_env_def demo_account_env_def demo_session_env_def)
  ultimately show ?thesis
    by (auto simp: ucs_deprovisionHandle_def await_def ret_apply)
qed

section \<open>Properties\<close>

text \<open>
  The tasks are the methods. Run without interruption, the tasks of the session manager
  give the results and the states of its methods as theory Sessions has them, and so does the
  task of the deprovisioning of a handle.
\<close>

theorem tasks_alone:
  "finish (ensureValid_task E M h p d) = ensureValidSessionBody E M h p d
   \<and> finish (getMatrixClient_task E M h d) = getMatrixClient E M h d
   \<and> finish (deleteSession_task E M h b) = deleteSession E M h b
   \<and> finish (deprovision_task E M h) = ucs_deprovisionHandle E M h"
  by (simp add: finish_ensureValid finish_getMatrixClient finish_deleteSession finish_deprovision)

text \<open>
  C25: Overlapping work keeps the sessions consistent. Whatever calls overlap (making sessions
  valid, asking for clients, deleting sessions, deprovisioning handles), in whatever order their
  stretches run and wherever the schedule stops, every recorded session holds a token that
  decodes and its client uses that token, provided this holds at the start and the empty string
  is no token. The schedules include those that the queue of a handle forbids.
\<close>

theorem overlap_keeps_sessions:
  assumes "sx_decode E '''' = None" and "sessions_ok E (st_sessions s)"
  shows "sessions_ok E (st_sessions (snd (run_pool is (map (job_task E M) jobs) s)))"
proof (rule run_pool_keeps [where P = "sessions_ok E"])
  show "\<forall>t \<in> set (map (job_task E M) jobs). keeps (sessions_ok E) (\<lambda>_. True) t"
    using job_keeps [OF assms(1)] by auto
qed (rule assms(2))

theorem overlap_keeps_sessions_witness:
  "sessions_ok demo_refresh_env (st_sessions (snd (run_pool [0, 1, 1, 0, 2, 1, 0]
      (map (job_task demo_refresh_env (indexeddb_module working_env))
        [EnsureValid ''ann'' None None, Deprovision ''ann'', MatrixClient ''ann'' None])
      (demo_session_state 60000 [''ann'' \<mapsto> demo_session]))))"
  by (rule overlap_keeps_sessions)
    (simp add: demo_refresh_env_def demo_account_env_def,
     simp add: demo_session_state_def sessions_ok_def session_ok_def valid_token_def isUsingToken_def
      demo_session_def demo_refresh_decodes)

text \<open>
  C26: A deprovisioned handle can come back. The deletion of a session is not put in the queue of
  its handle. Let a call find the token of a handle about to expire and ask the service for
  a new one, and let the handle be deprovisioned before the answer is installed. The
  deprovisioning succeeds, and once it has, no session of the handle is recorded and no token is
  stored. Then the first call goes on, and when both calls have settled without an error, the
  session is recorded again and the storage of the deleted handle holds the new token.
\<close>

theorem deprovisioned_handle_returns:
  assumes "storage_ok (st_store s)" and "st_sessions s h = Some c"
    and "decodeToken E (se_accessToken c) = Inr (ex, dev)"
    and "\<not> token_fresh E (st_ext s) ex" and "sx_now E (st_ext s) div 1000 < ex"
    and "ext (session_get (sx_graphql E) h dev) s = (Inr n, s1)"
    and "decodeToken E (sn_token n) = Inr r" and "sn_token n \<noteq> ''''"
    and "ucs_deprovisionHandle E (indexeddb_module working_env) h s1 = (Inr v, s2)"
    and "timers_work E"
  shows "st_sessions s2 h = None \<and> stored_token (st_store s2) h = None
    \<and> (\<exists>is js t s'. 
        run_pool is (map (job_task E (indexeddb_module working_env)) [EnsureValid h p d, Deprovision h]) s
          = ([t, Done (Inr ())], s2)
        \<and> run_pool js [t, Done (Inr ())] s2 = ([Done (Inr ()), Done (Inr ())], s')
        \<and> session_of h (sn_token n) (st_sessions s') \<and> stored_token (st_store s') h = Some (sn_token n))"
proof -
  let ?M = "indexeddb_module working_env"
  obtain ex' dev' where r: "r = (ex', dev')" by fastforce
  let ?rest = "forget (answered_task E ?M h c (sn_token n) ex' p d)"
  note first = ensureValid_asked [OF assms(2-6) assms(7) [unfolded r], of ?M p d]
  have same: "st_store s1 = st_store s" "st_sessions s1 = st_sessions s"
    using ext_keeps [OF assms(6)] by simp_all
  obtain s0 where del: "deleteSession E ?M h True s0 = (Inr (), s2)" "st_store s0 = st_store s"
    "st_sessions s0 = st_sessions s"
    using assms(9) same by (auto elim!: deprovision_Inr dest: ext_keeps)
  have gone: "storage_ok (st_store s2) \<and> stored_token (st_store s2) = (stored_token (st_store s))(h := None)"
    using idb.deletion_forgets [OF _ _ del(1)] assms(1,2) del(2,3) by simp
  have none: "st_sessions s2 h = None"
    using on_sessionsD(1) [OF removal_sessions [of "\<lambda>_. True"] _ del(1)] by simp
  have "finish (job_task E ?M (Deprovision h)) s1 = (Inr (), s2)"
    using assms(9) by (simp add: finish_forget finish_deprovision await_def ret_apply)
  then obtain m where m: "run_pool (replicate m 1) [?rest, job_task E ?M (Deprovision h)] s1 = ([?rest, Done (Inr ())], s2)"
    using run_pool_settles [of 1 "[?rest, job_task E ?M (Deprovision h)]" s1 "Inr ()" s2] by auto
  have is_: "run_pool (0 # replicate m 1) (map (job_task E ?M) [EnsureValid h p d, Deprovision h]) s
      = ([?rest, Done (Inr ())], s2)"
    using first m by (simp del: job_task.simps)
  obtain s' where s': "finish ?rest s2 = (Inr (), s')" "session_of h (sn_token n) (st_sessions s')"
    "stored_token (st_store s') h = Some (sn_token n)"
    using idb.refresh_undoes_deletion [OF conjunct1 [OF gone] assms(10,8), of h c ex' p d] by auto
  then obtain k where k: "run_pool (replicate k 0) [?rest, Done (Inr ())] s2 = ([Done (Inr ()), Done (Inr ())], s')"
    using run_pool_settles [of 0 "[?rest, Done (Inr ())]" s2 "Inr ()" s'] by auto
  have "stored_token (st_store s2) h = None" using gone by simp
  then show ?thesis
    by (intro conjI exI [of _ "0 # replicate m 1"] exI [of _ "replicate k 0"] exI [of _ ?rest]
        exI [of _ s'] none is_ k s'(2,3))
qed

theorem deprovisioned_handle_returns_witness:
  "\<exists>is t s2 js s'.
      run_pool is (map (job_task demo_refresh_env (indexeddb_module working_env))
          [EnsureValid ''ann'' None None, Deprovision ''ann''])
        (demo_session_state 60000 [''ann'' \<mapsto> demo_session]) = ([t, Done (Inr ())], s2)
    \<and> stored_token (st_store s2) ''ann'' = None
    \<and> run_pool js [t, Done (Inr ())] s2 = ([Done (Inr ()), Done (Inr ())], s')
    \<and> stored_token (st_store s') ''ann'' = Some fresh_token"
proof -
  let ?s = "demo_session_state 60000 [''ann'' \<mapsto> demo_session]"
  obtain v s2 where s2: "ucs_deprovisionHandle demo_refresh_env (indexeddb_module working_env) ''ann'' ?s = (Inr v, s2)"
    using demo_refresh_deprovision by blast
  note facts = demo_state_sel demo_session_sel demo_refresh_decodes demo_refresh_clock token_fresh_def
  have answer: "sn_token (session_fromGraphQLToEntity fresh_answer) = fresh_token"
    by (simp add: session_fromGraphQLToEntity_def fresh_answer_def)
  have "st_sessions ?s ''ann'' = Some demo_session" 
    "decodeToken demo_refresh_env (se_accessToken demo_session) = Inr (90, ''dev'')"
    "\<not> token_fresh demo_refresh_env (st_ext ?s) 90" "sx_now demo_refresh_env (st_ext ?s) div 1000 < 90"
    by (simp_all add: facts)
  from deprovisioned_handle_returns [OF demo_stored_ok(1) this demo_refresh_asked _ _ s2
      demo_refresh_timers, where p = None and d = None, unfolded answer, OF demo_refresh_decodes(2,3)]
  show ?thesis by blast
qed

end
