(* ===== verification/Doubles.thy ===== *)
theory Doubles
  imports Complex_Main "HOL-Library.Log_Nat"
begin

text \<open>
  The numbers of JavaScript where they are not whole: a quotient or product of doubles is the
  exact result rounded to 53 significant bits, ties to the even neighbour. \<open>double\<close> is this
  rounding on rationals, within the range of the normal doubles (the sizes of pictures stay far
  inside it); \<open>js_round\<close> is \<open>Math.round\<close>. The lemmas bound the error of the rounding.
\<close>

section \<open>Rounding\<close>

text \<open>\<open>pow2 k\<close> is the power of two with the exponent \<open>k\<close>.\<close>

definition pow2 :: "int \<Rightarrow> rat" where
  "pow2 k = (if 0 \<le> k then 2 ^ nat k else 1 / 2 ^ nat (- k))"

text \<open>The exponent of a positive number: it is at least \<open>pow2 k\<close> and less than twice that.\<close>

definition exponent :: "rat \<Rightarrow> int" where
  "exponent x =
     (case quotient_of x of (p, q) \<Rightarrow>
        let k = bitlen p - bitlen q in if pow2 k \<le> x then k else k - 1)"

definition round_half_even :: "rat \<Rightarrow> int" where
  "round_half_even x =
     (let n = \<lfloor>x\<rfloor>; d = x - of_int n
      in if d < 1 / 2 then n else if 1 / 2 < d then n + 1 else if even n then n else n + 1)"

definition double :: "rat \<Rightarrow> rat" where
  "double x =
     (if x = 0 then 0
      else let k = exponent \<bar>x\<bar> - 52
           in sgn x * of_int (round_half_even (\<bar>x\<bar> / pow2 k)) * pow2 k)"

definition js_round :: "rat \<Rightarrow> int" where
  "js_round x = \<lfloor>x + 1 / 2\<rfloor>"

section \<open>The error of the rounding\<close>

lemma pow2_pos [simp]: "0 < pow2 k"
  by (simp add: pow2_def)

lemma pow2_add: "pow2 (j + k) = pow2 j * pow2 k"
proof -
  have "pow2 k = 2 powi k" for k by (simp add: pow2_def power_int_def divide_simps)
  then show ?thesis by (simp add: power_int_add)
qed

lemma bitlen_pos: "0 < p \<Longrightarrow> pow2 (bitlen p - 1) \<le> of_int p \<and> of_int p < pow2 (bitlen p)"
proof -
  assume p: "0 < p"
  then have "1 \<le> bitlen p" using bitlen_eq_zero_iff [of p] bitlen_nonneg [of p] by linarith
  moreover have "(2 ^ nat (bitlen p - 1) :: int) \<le> p" "p < 2 ^ nat (bitlen p)"
    using bitlen_bounds [OF p] by simp_all
  then have "(of_int (2 ^ nat (bitlen p - 1)) :: rat) \<le> of_int p" "(of_int p :: rat) < of_int (2 ^ nat (bitlen p))"
    by (simp_all only: of_int_le_iff of_int_less_iff)
  ultimately show ?thesis by (simp add: pow2_def)
qed

lemma exponent_bounds:
  assumes "0 < x"
  shows "pow2 (exponent x) \<le> x \<and> x < 2 * pow2 (exponent x)"
proof -
  obtain p q where pq: "quotient_of x = (p, q)" by fastforce
  have x: "x = of_int p / of_int q" and q: "0 < q"
    using quotient_of_div [OF pq] quotient_of_denom_pos [OF pq] by simp_all
  with assms have p: "0 < p" by (simp add: zero_less_divide_iff)
  note P = bitlen_pos [OF p] and Q = bitlen_pos [OF q]
  let ?k = "bitlen p - bitlen q"
  have double: "pow2 (k + 1) = 2 * pow2 k" "pow2 k = 2 * pow2 (k - 1)" for k
    using pow2_add [of k 1] pow2_add [of "k - 1" 1] by (simp_all add: pow2_def [of 1])
  have "of_int p < pow2 ?k * pow2 (bitlen q)" using P pow2_add [of ?k "bitlen q"] by simp
  also have "\<dots> \<le> pow2 ?k * (2 * of_int q)"
    using Q double(2) [of "bitlen q"] by (intro mult_left_mono) (auto intro: less_imp_le)
  finally have upper: "x < 2 * pow2 ?k" using q by (simp add: x divide_simps algebra_simps)
  have "pow2 (?k - 1) * of_int q \<le> pow2 (?k - 1) * pow2 (bitlen q)"
    using Q by (intro mult_left_mono) (auto intro: less_imp_le)
  also have "\<dots> = pow2 (bitlen p - 1)" using pow2_add [of "?k - 1" "bitlen q"] by simp
  also have "\<dots> \<le> of_int p" using P by simp
  finally have "pow2 (?k - 1) \<le> x" using q by (simp add: x divide_simps)
  with upper double(2) [of ?k] show ?thesis by (auto simp: exponent_def pq Let_def)
qed

lemma round_half_even_error: "\<bar>of_int (round_half_even y) - y\<bar> \<le> 1 / 2"
proof -
  have "of_int \<lfloor>y\<rfloor> \<le> y" "y < of_int \<lfloor>y\<rfloor> + 1" by linarith+
  then show ?thesis by (auto simp: round_half_even_def Let_def abs_le_iff)
qed

text \<open>A double is off by at most one part in \<open>2\<close> to the power \<open>53\<close>.\<close>

lemma double_error:
  assumes "0 \<le> x"
  shows "\<bar>double x - x\<bar> \<le> x / 2 ^ 53"
proof (cases "x = 0")
  case False
  with assms have pos: "0 < x" by simp
  let ?k = "exponent x - 52"
  let ?n = "round_half_even (x / pow2 ?k)"
  have x: "x = x / pow2 ?k * pow2 ?k" using pow2_pos [of ?k] by (metis less_irrefl nonzero_eq_divide_eq)
  have "double x - x = (of_int ?n - x / pow2 ?k) * pow2 ?k"
    using pos x by (simp add: double_def Let_def left_diff_distrib)
  then have "\<bar>double x - x\<bar> = \<bar>of_int ?n - x / pow2 ?k\<bar> * pow2 ?k"
    by (simp add: abs_mult abs_of_pos)
  also have "\<dots> \<le> 1 / 2 * pow2 ?k"
    by (intro mult_right_mono round_half_even_error) (simp add: less_imp_le)
  also have "\<dots> = pow2 (exponent x) / 2 ^ 53"
    using pow2_add [of "exponent x" "- 52"] by (simp add: pow2_def [of "- 52"])
  also have "\<dots> \<le> x / 2 ^ 53"
    using exponent_bounds [OF pos] by (intro divide_right_mono) simp_all
  finally show ?thesis .
qed (simp add: double_def)

lemma double_bounds:
  assumes "0 \<le> x"
  shows "x - x / 2 ^ 53 \<le> double x" "double x \<le> x + x / 2 ^ 53" "0 \<le> double x"
proof -
  show "x - x / 2 ^ 53 \<le> double x" "double x \<le> x + x / 2 ^ 53"
    using double_error [OF assms] unfolding abs_le_iff by linarith+
  then show "0 \<le> double x" using assms by simp
qed

lemma double_near:
  assumes "0 \<le> x" "x \<le> 2 ^ 50"
  shows "x - 1 / 8 \<le> double x" "double x \<le> x + 1 / 8"
proof -
  have "x / 2 ^ 53 \<le> 2 ^ 50 / 2 ^ 53" using assms(2) by (rule divide_right_mono) simp
  then have "x / 2 ^ 53 \<le> 1 / 8" by simp
  then show "x - 1 / 8 \<le> double x" "double x \<le> x + 1 / 8"
    using double_bounds [OF assms(1)] by linarith+
qed

lemma js_round_bounds: "of_int (js_round x) \<le> x + 1 / 2" "x - 1 / 2 < of_int (js_round x)"
  unfolding js_round_def by linarith+

lemma js_round_le: "x < of_int n + 1 / 2 \<Longrightarrow> js_round x \<le> n"
  using js_round_bounds(1) [of x] by linarith

lemma js_round_ge: "of_int n - 1 / 2 \<le> x \<Longrightarrow> n \<le> js_round x"
  unfolding js_round_def by linarith

lemma js_round_small:
  assumes "0 \<le> x" "x \<le> 499 / 1000"
  shows "js_round (double x) = 0"
proof (rule antisym)
  have "x / 2 ^ 53 \<le> 1 / 1000" using assms(2) by simp
  then show "js_round (double x) \<le> 0"
    using double_bounds(2) [OF assms(1)] assms(2) by (intro js_round_le) simp
  show "0 \<le> js_round (double x)"
    using double_bounds(3) [OF assms(1)] by (intro js_round_ge) simp
qed

end
