(* ===== verification/Thumbnails.thy ===== *)
theory Thumbnails
  imports Messaging Doubles
begin

text \<open>
  The thumbnails of sent pictures and videos: \<open>generateThumbnailAndBlurHash\<close> of
  \<open>src/private/data/media/matrixMediaService.ts\<close>, the generator that the messaging service uses for
  an image or video that comes without a thumbnail. The browser's elements and canvases, and the
  encoder of the package \<open>blurhash\<close>, are the parameter \<open>dom\<close>; the sizes are computed in doubles
  as the source computes them. The limits of 300 pixels are the defaults, which the only
  caller uses.
\<close>

section \<open>Sizes\<close>

definition maxThumbWidth :: nat where "maxThumbWidth = 300"

definition maxThumbHeight :: nat where "maxThumbHeight = 300"

text \<open>
  The limit divided by a side. For a side of 0 the quotient is infinite in JavaScript; the
  minimum with 1 taken next makes that the same as 1.
\<close>

definition side_ratio :: "nat \<Rightarrow> nat \<Rightarrow> rat" where
  "side_ratio limit side = (if side = 0 then 1 else double (of_nat limit / of_nat side))"

definition thumb_scale :: "nat \<Rightarrow> nat \<Rightarrow> rat" where
  "thumb_scale width height =
     min (min (side_ratio maxThumbWidth width) (side_ratio maxThumbHeight height)) 1"

definition scaled_side :: "nat \<Rightarrow> rat \<Rightarrow> int" where
  "scaled_side side scale = js_round (double (of_nat side * scale))"

definition scaledWidth :: "nat \<Rightarrow> nat \<Rightarrow> int" where
  "scaledWidth width height = scaled_side width (thumb_scale width height)"

definition scaledHeight :: "nat \<Rightarrow> nat \<Rightarrow> int" where
  "scaledHeight width height = scaled_side height (thumb_scale width height)"

text \<open>The height of the small canvas for the blur hash; a width of 0 makes it no finite number.\<close>

definition blurWidth :: int where "blurWidth = 100"

definition blurHeight :: "int \<Rightarrow> int \<Rightarrow> int option" where
  "blurHeight sw sh =
     (if sw = 0 then None
      else Some (js_round (double (double (of_int sh / of_int sw) * of_int blurWidth))))"

section \<open>Drawing and encoding\<close>

text \<open>
  The browser. A loaded picture or video is a number with its width and height, and a video's
  duration; a canvas with a drawing context is a number. A height that is not finite is \<open>None\<close>.
\<close>

record 'w dom =
  dm_loadImage :: "bytes \<Rightarrow> string \<Rightarrow> ('w, nat \<times> nat \<times> nat) io"
  dm_loadVideo :: "bytes \<Rightarrow> string \<Rightarrow> ('w, nat \<times> nat \<times> nat \<times> rat) io"
  dm_seek :: "nat \<Rightarrow> rat \<Rightarrow> ('w, unit) io"
  dm_canvas :: "('w, nat option) io"
  dm_resize :: "nat \<Rightarrow> int \<Rightarrow> int option \<Rightarrow> ('w, unit) io"
  dm_drawImage :: "nat \<Rightarrow> nat \<Rightarrow> int \<Rightarrow> int option \<Rightarrow> ('w, unit) io"
  dm_getImageData :: "nat \<Rightarrow> int \<Rightarrow> int option \<Rightarrow> ('w, bytes) io"
  dm_encode :: "bytes \<Rightarrow> int \<Rightarrow> int option \<Rightarrow> nat \<Rightarrow> nat \<Rightarrow> ('w, string) io"
  dm_toBlob :: "nat \<Rightarrow> string \<Rightarrow> ('w, (bytes \<times> string) option) io"

text \<open>A video is shown at its first second, or just before its end when it is shorter.\<close>

definition seek_time :: "rat \<Rightarrow> rat" where
  "seek_time duration = min 1 (max 0 (double (duration - double (1 / 10))))"

definition loadMedia :: "'w dom \<Rightarrow> MsgType \<Rightarrow> bytes \<Rightarrow> string \<Rightarrow> ('w, nat \<times> nat \<times> nat) io" where
  "loadMedia D kind file mimeType =
     or_fail ''Failed to load media''
       (if kind = MT_Video
        then await (dm_loadVideo D file mimeType) (\<lambda>(video, width, height, duration).
             await (dm_seek D video (seek_time duration)) (\<lambda>_. ret (video, width, height)))
        else dm_loadImage D file mimeType)"

definition new_context :: "'w dom \<Rightarrow> string \<Rightarrow> ('w, nat) io" where
  "new_context D message =
     await (dm_canvas D) (\<lambda>ctx. case ctx of None \<Rightarrow> throw (PlainError message) | Some c \<Rightarrow> ret c)"

definition drawAndEncode :: "'w dom \<Rightarrow> nat \<Rightarrow> nat \<Rightarrow> nat \<Rightarrow> ('w, ThumbnailAndBlurhashOutput) io" where
  "drawAndEncode D source width height =
     (let sw = scaledWidth width height; sh = scaledHeight width height; bh = blurHeight sw sh in
      await (new_context D ''Failed to get canvas context'') (\<lambda>canvas.
      await (dm_resize D canvas sw (Some sh)) (\<lambda>_.
      await (dm_drawImage D canvas source sw (Some sh)) (\<lambda>_.
      await (new_context D ''Failed to get blur canvas context'') (\<lambda>blurCanvas.
      await (dm_resize D blurCanvas blurWidth bh) (\<lambda>_.
      await (dm_drawImage D blurCanvas source blurWidth bh) (\<lambda>_.
      await (dm_getImageData D blurCanvas blurWidth bh) (\<lambda>blurImageData.
      await (dm_encode D blurImageData blurWidth bh 4 4) (\<lambda>blurHash.
      await (dm_toBlob D canvas ''image/jpeg'') (\<lambda>thumbBlob.
        case thumbBlob of
          None \<Rightarrow> throw (PlainError ''Failed to create blob'')
        | Some (thumbBuffer, mimeType) \<Rightarrow>
            ret \<lparr>tb_thumbnail = Some thumbBuffer, tb_mimeType = mimeType, tb_width = sw, tb_height = sh,
                 tb_size = int (length thumbBuffer), tb_blurHash = blurHash\<rparr>))))))))))"

definition generateThumbnailAndBlurHash ::
    "'w dom \<Rightarrow> bytes \<Rightarrow> string \<Rightarrow> ('w, ThumbnailAndBlurhashOutput) io" where
  "generateThumbnailAndBlurHash D file mimeType =
     (if js_startsWith mimeType ''image''
      then await (loadMedia D MT_Image file mimeType) (\<lambda>(img, width, height). drawAndEncode D img width height)
      else if js_startsWith mimeType ''video''
      then await (loadMedia D MT_Video file mimeType) (\<lambda>(video, width, height). drawAndEncode D video width height)
      else throw (PlainError (''Unsupported MIME type: '' @ mimeType)))"

section \<open>Lemmas\<close>

lemma js_round_close:
  assumes "0 \<le> x" "of_int k - 1 / 4 \<le> x" "x \<le> of_int k + 1 / 4" "k \<le> 2 ^ 40"
  shows "js_round (double x) = k"
proof -
  have "(of_int k :: rat) \<le> 2 ^ 40" using assms(4) of_int_le_iff [where 'a = rat, of k "2 ^ 40"] by simp
  then have "x \<le> 2 ^ 50" using assms(3) by simp
  from assms(2,3) double_near [OF assms(1) this] show ?thesis
    by (intro antisym js_round_le js_round_ge) linarith+
qed

text \<open>A side times its ratio is the limit, up to rounding.\<close>

lemma side_ratio_bounds:
  assumes "0 < side" "limit \<le> 1000"
  shows "of_nat side * side_ratio limit side \<le> of_nat limit + 1 / 8"
    and "of_nat limit - 1 / 8 \<le> of_nat side * side_ratio limit side" and "0 \<le> side_ratio limit side"
proof -
  let ?q = "of_nat limit / of_nat side :: rat"
  have q: "0 \<le> ?q" and mult: "of_nat side * ?q = of_nat limit" using assms(1) by simp_all
  have limit: "(of_nat limit :: rat) \<le> 1000" using assms(2) of_nat_le_iff [where 'a = rat, of limit 1000] by simp
  have "of_nat side * (?q - ?q / 2 ^ 53) \<le> of_nat side * double ?q"
    "of_nat side * double ?q \<le> of_nat side * (?q + ?q / 2 ^ 53)"
    using double_bounds [OF q] by (intro mult_left_mono; simp)+
  then show "of_nat side * side_ratio limit side \<le> of_nat limit + 1 / 8"
    and "of_nat limit - 1 / 8 \<le> of_nat side * side_ratio limit side"
    using assms(1) limit by (simp_all add: side_ratio_def right_diff_distrib distrib_left mult)
  show "0 \<le> side_ratio limit side" using double_bounds(3) [OF q] assms(1) by (simp add: side_ratio_def)
qed

text \<open>The scale of a picture, for its longer and for its shorter side.\<close>

lemma of_nat_bound: "n \<le> m \<Longrightarrow> (of_nat n :: rat) \<le> of_nat m"
  by simp

lemma thumb_scale_bounds:
  assumes "0 < width" "0 < height"
  shows "0 \<le> thumb_scale width height" "thumb_scale width height \<le> 1"
    and "of_nat width * thumb_scale width height \<le> 300 + 1 / 8"
    and "of_nat height * thumb_scale width height \<le> 300 + 1 / 8"
proof -
  note W = side_ratio_bounds [OF assms(1), of maxThumbWidth] and H = side_ratio_bounds [OF assms(2), of maxThumbHeight]
  show "0 \<le> thumb_scale width height" "thumb_scale width height \<le> 1"
    using W(3) H(3) by (simp_all add: thumb_scale_def maxThumbWidth_def maxThumbHeight_def)
  have "of_nat width * thumb_scale width height \<le> of_nat width * side_ratio maxThumbWidth width"
    "of_nat height * thumb_scale width height \<le> of_nat height * side_ratio maxThumbHeight height"
    by (intro mult_left_mono; simp add: thumb_scale_def)+
  then show "of_nat width * thumb_scale width height \<le> 300 + 1 / 8"
    "of_nat height * thumb_scale width height \<le> 300 + 1 / 8"
    using W(1) H(1) by (simp_all add: maxThumbWidth_def maxThumbHeight_def)
qed

lemma thumb_scale_commute: "thumb_scale width height = thumb_scale height width"
  by (simp add: thumb_scale_def maxThumbWidth_def maxThumbHeight_def min.commute)

lemma longer_side:
  assumes "0 < height" "height \<le> width"
  shows "min 300 (of_nat width) - 1 / 8 \<le> of_nat width * thumb_scale width height"
proof -
  have pos: "0 < width" using assms by simp
  note W = side_ratio_bounds [OF pos, of maxThumbWidth] and H = side_ratio_bounds [OF assms(1), of maxThumbHeight]
  have "of_nat height * side_ratio maxThumbHeight height \<le> of_nat width * side_ratio maxThumbHeight height"
    using H(3) of_nat_bound [OF assms(2)] by (intro mult_right_mono) (simp_all add: maxThumbHeight_def)
  with H(2) W(2) show ?thesis
    unfolding thumb_scale_def min_mult_distrib_left
    by (simp add: maxThumbWidth_def maxThumbHeight_def min_def)
qed

lemma scaled_side_near:
  assumes "0 \<le> r" "r \<le> 1" "side \<le> 2 ^ 40"
  shows "of_int (scaled_side side r) \<le> of_nat side * r + 5 / 8"
    and "of_nat side * r - 5 / 8 \<le> of_int (scaled_side side r)"
proof -
  have s: "(of_nat side :: rat) \<le> 2 ^ 40" using of_nat_bound [OF assms(3)] by simp
  have p: "0 \<le> of_nat side * r" using assms(1) by simp
  have "of_nat side * r \<le> of_nat side" using assms(2) by (simp add: mult_left_le)
  with s have "of_nat side * r \<le> 2 ^ 50" by simp
  note near = double_near [OF p this]
  show "of_int (scaled_side side r) \<le> of_nat side * r + 5 / 8"
    "of_nat side * r - 5 / 8 \<le> of_int (scaled_side side r)"
    using near js_round_bounds [of "double (of_nat side * r)"] unfolding scaled_side_def by linarith+
qed

text \<open>The longer side becomes the limit, or stays as it is.\<close>

lemma longer_side_scaled:
  assumes "0 < height" "height \<le> width" "width \<le> 2 ^ 40"
  shows "scaled_side width (thumb_scale width height) = min 300 (int width)"
proof -
  have pos: "0 < width" using assms by simp
  note B = thumb_scale_bounds [OF pos assms(1)] and L = longer_side [OF assms(1,2)]
  have "of_nat width * thumb_scale width height \<le> of_nat width" using B(2) by (simp add: mult_left_le)
  with B(3) have "of_nat width * thumb_scale width height \<le> min 300 (of_nat width) + 1 / 8" by (simp add: min_def)
  moreover have "(of_int (min 300 (int width)) :: rat) = min 300 (of_nat width)" by (simp add: of_int_min)
  ultimately show ?thesis
    unfolding scaled_side_def using L B(1) by (intro js_round_close) auto
qed

lemma shorter_side_scaled:
  assumes "0 < height" "height \<le> width" "width \<le> 2 ^ 40"
  shows "scaled_side height (thumb_scale width height) \<le> min 300 (int height)"
    and "0 \<le> scaled_side height (thumb_scale width height)"
proof -
  have pos: "0 < width" using assms by simp
  note B = thumb_scale_bounds [OF pos assms(1)]
  have "of_nat height * thumb_scale width height \<le> of_nat height" using B(2) by (simp add: mult_left_le)
  with B(4) have le: "of_nat height * thumb_scale width height \<le> min 300 (of_nat height) + 1 / 8" by (simp add: min_def)
  have p: "0 \<le> of_nat height * thumb_scale width height" using B(1) by simp
  have "(of_nat width :: rat) \<le> 2 ^ 40" using of_nat_bound [OF assms(3)] by simp
  with le have "of_nat height * thumb_scale width height \<le> 2 ^ 50" by (simp add: min_def split: if_splits)
  note near = double_near [OF p this]
  have m: "(of_int (min 300 (int height)) :: rat) = min 300 (of_nat height)" by (simp add: of_int_min)
  show "scaled_side height (thumb_scale width height) \<le> min 300 (int height)"
    unfolding scaled_side_def by (rule js_round_le) (use near le m in linarith)
  show "0 \<le> scaled_side height (thumb_scale width height)"
    unfolding scaled_side_def by (rule js_round_ge) (use double_bounds(3) [OF p] in simp)
qed

lemma thumb_sizes:
  assumes "0 < width" "0 < height" "width \<le> 2 ^ 40" "height \<le> 2 ^ 40"
  shows "(if height \<le> width then scaledWidth width height = min 300 (int width)
            \<and> 0 \<le> scaledHeight width height \<and> scaledHeight width height \<le> min 300 (int height)
          else scaledHeight width height = min 300 (int height)
            \<and> 0 \<le> scaledWidth width height \<and> scaledWidth width height \<le> min 300 (int width))"
  using longer_side_scaled [of height width] shorter_side_scaled [of height width]
    longer_side_scaled [of width height] shorter_side_scaled [of width height] assms
    thumb_scale_commute [of width height]
  by (auto simp: scaledWidth_def scaledHeight_def)

text \<open>The thumbnail has the proportions of the picture, up to the rounding of its sides.\<close>

lemma thumb_proportions:
  assumes "0 < width" "0 < height" "width \<le> 2 ^ 40" "height \<le> 2 ^ 40"
  shows "\<bar>scaledWidth width height * int height - scaledHeight width height * int width\<bar> \<le> int width + int height"
proof -
  note B = thumb_scale_bounds [OF assms(1,2)]
  let ?s = "thumb_scale width height" and ?w = "of_nat width :: rat" and ?h = "of_nat height :: rat"
  let ?x = "of_int (scaledWidth width height) :: rat" and ?y = "of_int (scaledHeight width height) :: rat"
  have "?x * ?h \<le> (?w * ?s + 5 / 8) * ?h" "(?w * ?s - 5 / 8) * ?h \<le> ?x * ?h"
    "?y * ?w \<le> (?h * ?s + 5 / 8) * ?w" "(?h * ?s - 5 / 8) * ?w \<le> ?y * ?w"
    using scaled_side_near [OF B(1,2) assms(3)] scaled_side_near [OF B(1,2) assms(4)]
    by (auto simp: scaledWidth_def scaledHeight_def intro!: mult_right_mono)
  then have "\<bar>?x * ?h - ?y * ?w\<bar> \<le> ?w + ?h"
    using assms(1,2) by (simp add: abs_le_iff algebra_simps)
  then have "(of_int \<bar>scaledWidth width height * int height - scaledHeight width height * int width\<bar> :: rat)
      \<le> of_int (int width + int height)" by simp
  then show ?thesis by (simp only: of_int_le_iff)
qed

text \<open>
  A picture that is more than 200 times as wide as high: the canvas of the blur hash has no
  row left.
\<close>

lemma thin_height:
  assumes "0 < height" "201 * height \<le> width" "width \<le> 2 ^ 40"
  shows "scaledHeight width height \<le> 1"
proof (cases "width \<le> 300")
  case True
  then have "height = 1" using assms(1,2) by simp
  then show ?thesis using shorter_side_scaled(1) [of height width] assms by (simp add: scaledHeight_def)
next
  case False
  let ?x = "of_nat height * thumb_scale width height"
  have pos: "0 < width" using False by simp
  note B = thumb_scale_bounds [OF pos assms(1)]
  have "of_nat (201 * height) * thumb_scale width height \<le> of_nat width * thumb_scale width height"
    using of_nat_bound [OF assms(2)] B(1) by (intro mult_right_mono)
  with B(3) have x: "201 * ?x \<le> 300 + 1 / 8" by simp
  have p: "0 \<le> ?x" using B(1) by simp
  have "js_round (double ?x) \<le> 1"
    by (rule js_round_le) (use double_bounds(2) [OF p] x p in simp)
  then show ?thesis by (simp add: scaledHeight_def scaled_side_def)
qed

lemma thin_blur:
  assumes "0 < height" "201 * height \<le> width" "width \<le> 2 ^ 40"
  shows "blurHeight (scaledWidth width height) (scaledHeight width height) = Some 0"
proof -
  have pos: "0 < width" and hw: "height \<le> width" using assms(1,2) by simp_all
  have sw: "201 \<le> scaledWidth width height"
    using longer_side_scaled [OF assms(1) hw assms(3)] assms(1,2) by (simp add: scaledWidth_def)
  have sh: "0 \<le> scaledHeight width height" "scaledHeight width height \<le> 1"
    using shorter_side_scaled(2) [OF assms(1) hw assms(3)] thin_height [OF assms] by (simp_all add: scaledHeight_def)
  let ?q = "of_int (scaledHeight width height) / of_int (scaledWidth width height) :: rat"
  have q: "0 \<le> ?q" using sw sh(1) by simp
  have "?q \<le> 1 / 201" using sw sh by (intro frac_le) simp_all
  with double_bounds [OF q] have d: "0 \<le> double ?q * of_int blurWidth" "double ?q * of_int blurWidth \<le> 499 / 1000"
    by (simp_all add: blurWidth_def)
  from js_round_small [OF d] sw show ?thesis by (simp add: blurHeight_def)
qed

text \<open>
  What the HTML specification says of \<open>getImageData\<close>: an area without a row, or without a
  finite height, is an error.
\<close>

definition refuses_empty_area :: "'w dom \<Rightarrow> bool" where
  "refuses_empty_area D \<longleftrightarrow>
     (\<forall>c width height w. height = None \<or> height = Some 0 \<longrightarrow> isl (fst (dm_getImageData D c width height w)))"

definition loads_with_size :: "'w dom \<Rightarrow> bytes \<Rightarrow> string \<Rightarrow> nat \<Rightarrow> nat \<Rightarrow> bool" where
  "loads_with_size D file mimeType width height \<longleftrightarrow>
     (\<forall>m w p w'. loadMedia D m file mimeType w = (Inr p, w') \<longrightarrow> snd p = (width, height))"

lemma generated_Inr:
  assumes "generateThumbnailAndBlurHash D file mimeType w = (Inr out, w')"
    and "loads_with_size D file mimeType width height"
  obtains source w1 where "drawAndEncode D source width height w1 = (Inr out, w')"
  using assms
  by (fastforce simp: generateThumbnailAndBlurHash_def loads_with_size_def await_Inr_iff throw_apply split: if_splits)

lemma thin_never_drawn:
  assumes "refuses_empty_area D" and "blurHeight (scaledWidth width height) (scaledHeight width height) = Some 0"
  shows "drawAndEncode D source width height w \<noteq> (Inr out, w')"
proof
  assume "drawAndEncode D source width height w = (Inr out, w')"
  then obtain c d w1 w2 where "dm_getImageData D c blurWidth (Some 0) w1 = (Inr d, w2)"
    unfolding drawAndEncode_def Let_def assms(2) by (auto simp: await_Inr_iff)
  with assms(1) show False unfolding refuses_empty_area_def by (metis fst_conv isl_def sum.distinct(1))
qed

section \<open>Demonstration\<close>

text \<open>A browser that loads every file as a picture of one size.\<close>

definition demo_dom :: "nat \<Rightarrow> nat \<Rightarrow> 'w dom" where
  "demo_dom width height =
     \<lparr>dm_loadImage = (\<lambda>_ _. ret (0, width, height)),
      dm_loadVideo = (\<lambda>_ _. ret (0, width, height, 10)), dm_seek = (\<lambda>_ _. ret ()), dm_canvas = ret (Some 0),
      dm_resize = (\<lambda>_ _ _. ret ()), dm_drawImage = (\<lambda>_ _ _ _. ret ()),
      dm_getImageData = (\<lambda>_ _ h. if h = None \<or> h = Some 0 then throw (PlainError ''IndexSizeError'') else ret [0]),
      dm_encode = (\<lambda>_ _ _ _ _. ret ''hash''), dm_toBlob = (\<lambda>_ t. ret (Some ([1], t)))\<rparr>"

lemma demo_dom_sel:
  "refuses_empty_area (demo_dom width height)"
  "loads_with_size (demo_dom width height) file mimeType width height"
  by (simp_all add: refuses_empty_area_def loads_with_size_def loadMedia_def or_fail_def demo_dom_def io_simps)

lemma demo_square: "scaledWidth 600 600 = 300" "scaledHeight 600 600 = 300" "blurHeight 300 300 = Some 100"
proof -
  show "scaledWidth 600 600 = 300" "scaledHeight 600 600 = 300"
    using longer_side_scaled [of 600 600] by (simp_all add: scaledWidth_def scaledHeight_def)
  have "js_round (double (double 1 * 100)) = 100"
    using double_bounds [of 1] by (intro js_round_close) simp_all
  then show "blurHeight 300 300 = Some 100" by (simp add: blurHeight_def blurWidth_def)
qed

lemma demo_generated:
  "generateThumbnailAndBlurHash (demo_dom 600 600) file ''image/png'' w =
     (Inr \<lparr>tb_thumbnail = Some [1], tb_mimeType = ''image/jpeg'', tb_width = 300, tb_height = 300,
           tb_size = 1, tb_blurHash = ''hash''\<rparr>, w)"
  by (simp add: generateThumbnailAndBlurHash_def loadMedia_def or_fail_def demo_dom_def drawAndEncode_def new_context_def
      io_simps demo_square)

section \<open>Properties\<close>

text \<open>
  C19: A thumbnail fits. When a thumbnail is made of a picture or a video whose sides are
  positive, its longer side is 300 pixels, or as long as that of the picture when this is
  shorter; no side is longer than that of the picture; and its proportions are those of the
  picture up to one pixel on each side. The rounding errors of the doubles never show.
\<close>

theorem thumbnail_fits:
  assumes "generateThumbnailAndBlurHash D file mimeType w = (Inr out, w')"
    and "loads_with_size D file mimeType width height"
    and "0 < width" "0 < height" "width \<le> 2 ^ 40" "height \<le> 2 ^ 40"
  shows "max (tb_width out) (tb_height out) = min 300 (max (int width) (int height))
    \<and> 0 \<le> tb_width out \<and> tb_width out \<le> int width \<and> 0 \<le> tb_height out \<and> tb_height out \<le> int height
    \<and> \<bar>tb_width out * int height - tb_height out * int width\<bar> \<le> int width + int height"
proof -
  obtain source w1 where "drawAndEncode D source width height w1 = (Inr out, w')"
    by (rule generated_Inr [OF assms(1,2)])
  then have "tb_width out = scaledWidth width height" "tb_height out = scaledHeight width height"
    by (auto simp: drawAndEncode_def Let_def await_Inr_iff ret_apply throw_apply split: option.splits)
  then show ?thesis
    using thumb_sizes [OF assms(3-6)] thumb_proportions [OF assms(3-6)] by (auto split: if_splits)
qed

theorem thumbnail_fits_witness:
  "\<exists>out. generateThumbnailAndBlurHash (demo_dom 600 600) [] ''image/png'' () = (Inr out, ())
    \<and> max (tb_width out) (tb_height out) = 300"
  using thumbnail_fits [OF demo_generated demo_dom_sel(2)] demo_generated by fastforce

text \<open>
  C18: A long thin picture cannot be sent. Of a picture or video at least 201 times as wide as
  high, the canvas for the blur hash gets the height 0, which the browser refuses to read. So
  sending it without a thumbnail of one's own ends in the error of the generator, before
  anything is encrypted, uploaded or sent.
\<close>

theorem thin_picture_not_sent:
  assumes "refuses_empty_area D" and "loads_with_size D (sm_file inp) (sm_fileType inp) width height"
    and "0 < height" "201 * height \<le> width" "width \<le> 2 ^ 40"
    and "ms_media M = Some T"
    and "mt_thumbnail T = (\<lambda>f t. await (generateThumbnailAndBlurHash D f t) (\<lambda>out. ret (Some out)))"
    and "js_startsWith (sm_fileType inp) ''image'' \<or> js_startsWith (sm_fileType inp) ''video''"
    and "sm_thumbnail inp = None \<or> \<not> truthy_str (map_option ti_blurHash (sm_thumbnailInfo inp))"
  shows "\<exists>e w'. generateThumbnailAndBlurHash D (sm_file inp) (sm_fileType inp) w = (Inl e, w')
    \<and> ms_sendMedia M inp w = (Inl e, w')"
proof (cases "generateThumbnailAndBlurHash D (sm_file inp) (sm_fileType inp) w")
  case (Pair r w')
  show ?thesis
  proof (cases r)
    case (Inl e)
    have "generateThumbnail T inp w = (Inl e, w')"
      using assms(7,9) Pair Inl by (auto simp: generateThumbnail_def await_def)
    then show ?thesis
      using assms(6,8) Pair Inl by (auto simp: ms_sendMedia_def getMsgType_def Let_def await_def)
  next
    case (Inr out)
    with Pair generated_Inr [of D "sm_file inp" "sm_fileType inp" w out w' width height] assms(2)
    obtain source w1 where "drawAndEncode D source width height w1 = (Inr out, w')" by blast
    then show ?thesis using thin_never_drawn [OF assms(1) thin_blur [OF assms(3-5)]] by blast
  qed
qed

theorem thin_picture_not_sent_witness:
  "\<exists>e w'. ms_sendMedia
      (demo_service\<lparr>ms_media := Some (demo_tools
         \<lparr>mt_thumbnail := (\<lambda>f t. await (generateThumbnailAndBlurHash (demo_dom 4020 20) f t) (\<lambda>out. ret (Some out)))\<rparr>)\<rparr>)
      (demo_file\<lparr>sm_fileType := ''image/png''\<rparr>) Map.empty = (Inl e, w')"
proof -
  let ?inp = "demo_file\<lparr>sm_fileType := ''image/png''\<rparr>"
    and ?T = "demo_tools\<lparr>mt_thumbnail := (\<lambda>f t. await (generateThumbnailAndBlurHash (demo_dom 4020 20) f t) (\<lambda>out. ret (Some out)))\<rparr>"
  have "\<exists>e w'. generateThumbnailAndBlurHash (demo_dom 4020 20) (sm_file ?inp) (sm_fileType ?inp) Map.empty = (Inl e, w')
      \<and> ms_sendMedia (demo_service\<lparr>ms_media := Some ?T\<rparr>) ?inp Map.empty = (Inl e, w')"
    by (rule thin_picture_not_sent [OF demo_dom_sel, where T = ?T]) (simp_all add: demo_file_def)
  then show ?thesis by blast
qed

end
