(* ===== verification/Conversation.thy ===== *)
theory Conversation
  imports MessageUseCases
begin

text \<open>
  Conversations: the listing of messages against the timeline that the server keeps. The locale
  \<open>timeline_server\<close> states what listing needs of the Matrix client for one room: pages that go
  through the timeline from the newest event on, and decryption. It is interpreted on a server
  in memory. Over it, a listing is the next stretch of the timeline, listings that follow
  each other's tokens leave nothing out, and a text that one handle sends is listed by another.
\<close>

section \<open>Listings and what they show\<close>

text \<open>Listings that follow each other's tokens until one has none.\<close>

inductive read_on ::
    "'w message_client \<Rightarrow> room_id \<Rightarrow> int option \<Rightarrow> string option \<Rightarrow> 'w \<Rightarrow> ListMessagesOutput list \<Rightarrow> 'w \<Rightarrow> bool"
  for C r limit where
  last: "cm_listMessages n C r limit tok w = Some (Inr out, w') \<Longrightarrow> \<not> truthy_str (lm_nextToken out) \<Longrightarrow>
    read_on C r limit tok w [out] w'"
| more: "cm_listMessages n C r limit tok w = Some (Inr out, w1) \<Longrightarrow> truthy_str (lm_nextToken out) \<Longrightarrow>
    read_on C r limit (lm_nextToken out) w1 outs w' \<Longrightarrow> read_on C r limit tok w (out # outs) w'"

text \<open>The ids of the messages of a listing, in the main list and in the threads.\<close>

definition timeline_ids :: "timeline \<Rightarrow> event_id set" where
  "timeline_ids t = mg_messageId ` (set (tl_main t) \<union> (\<Union>(k, ms) \<in> set (tl_threads t). set ms))"

definition output_ids :: "ListMessagesOutput \<Rightarrow> event_id set" where
  "output_ids out = timeline_ids \<lparr>tl_main = lm_messages out, tl_threads = lm_threads out\<rparr>"

text \<open>
  The ids of the events that are messages: the listed types but not edits, with an id, and whose
  content is not of an unknown type.
\<close>

definition message_ids :: "(matrix_event \<Rightarrow> matrix_event) \<Rightarrow> matrix_event list \<Rightarrow> event_id set" where
  "message_ids plain es =
     {i. \<exists>e \<in> set es. listed_event e \<and> ev_id (plain e) = Some i
        \<and> (\<exists>m. message_fromMatrixToEntity '''' (plain e) = Inr (Some m) \<and> \<not> skip_message m)}"

lemma fromMatrix_user:
  "message_fromMatrixToEntity u e = Inr (Some m) \<Longrightarrow>
     message_fromMatrixToEntity u' e = Inr (Some (m\<lparr>mg_isOwn := (Some u' = ev_sender e)\<rparr>))
     \<and> ev_id e = Some (mg_messageId m)"
  by (auto simp: message_fromMatrixToEntity_def sum_bind_Inr_iff truthy_str_def split: if_splits option.splits)

lemma upsert_ids_set: "mg_messageId ` set (upsert_message m xs) = insert (mg_messageId m) (mg_messageId ` set xs)"
  using arg_cong [OF upsert_ids [of m xs], of set] by auto

lemma thread_ids:
  "(\<Union>(k, ms) \<in> set (map_set threadId (upsert_message m (nullish (map_of ts threadId) [])) ts). mg_messageId ` set ms)
     = insert (mg_messageId m) (\<Union>(k, ms) \<in> set ts. mg_messageId ` set ms)"
proof (induction ts)
  case (Cons t ts)
  then show ?case by (cases t) (auto simp: upsert_ids_set)
qed (simp add: nullish_def)

lemma timeline_ids_eq:
  "timeline_ids t = mg_messageId ` set (tl_main t) \<union> (\<Union>(k, ms) \<in> set (tl_threads t). mg_messageId ` set ms)"
  by (auto simp: timeline_ids_def)

lemma place_message_ids: "timeline_ids (place_message m t) = insert (mg_messageId m) (timeline_ids t)"
  by (simp add: place_message_def timeline_ids_eq Let_def thread_ids upsert_ids_set)

lemma route_event_ids:
  assumes "route_event C r u w e t = Inr t'"
  shows "timeline_ids t' = timeline_ids t \<union>
    {i. ev_id e = Some i \<and> (\<exists>m. message_fromMatrixToEntity '''' e = Inr (Some m) \<and> \<not> skip_message m)}"
proof -
  obtain v where v: "message_fromMatrixToEntity u e = Inr v"
    using assms by (auto simp: route_event_def sum_bind_Inr_iff)
  show ?thesis
  proof (cases v)
    case None
    then have "t' = t" using assms v by (simp add: route_event_def sum_bind_def)
    moreover have "message_fromMatrixToEntity '''' e \<noteq> Inr (Some m)" for m
      using fromMatrix_user [of "''''" e m u] v None by auto
    ultimately show ?thesis by simp
  next
    case (Some m)
    from fromMatrix_user [of u e m "''''"] v Some
    have m: "message_fromMatrixToEntity '''' e = Inr (Some (m\<lparr>mg_isOwn := (Some '''' = ev_sender e)\<rparr>))"
      "ev_id e = Some (mg_messageId m)" by simp_all
    have skip: "skip_message (m\<lparr>mg_isOwn := b\<rparr>) = skip_message m" for b by (simp add: skip_message_def)
    have id': "timeline_ids t' = insert (mg_messageId m) (timeline_ids t)" if "\<not> skip_message m"
      using assms v Some that
      by (auto simp: route_event_def sum_bind_Inr_iff sum_bind_simps Let_def place_message_ids with_member_handle_def
          with_sender_name_def split: if_splits)
    have "t' = t" if "skip_message m"
      using assms v Some that by (simp add: route_event_def sum_bind_simps)
    with id' m show ?thesis by (cases "skip_message m") (auto simp: skip)
  qed
qed

lemma route_events_ids:
  "route_events C r u w (map plain (filter listed_event es)) t = Inr t' \<Longrightarrow>
     timeline_ids t' = timeline_ids t \<union> message_ids plain es"
proof (induction es arbitrary: t)
  case (Cons e es)
  show ?case
  proof (cases "listed_event e")
    case True
    with Cons.prems obtain t1 where "route_event C r u w (plain e) t = Inr t1"
      "route_events C r u w (map plain (filter listed_event es)) t1 = Inr t'"
      by (auto simp: sum_bind_Inr_iff)
    then show ?thesis using Cons.IH route_event_ids True by (fastforce simp: message_ids_def)
  next
    case False
    then show ?thesis using Cons by (auto simp: message_ids_def)
  qed
qed (simp add: message_ids_def)

lemma route_event_placed:
  assumes "route_event C r u w e t = Inr t'"
  shows "t' = t \<or> (\<exists>m. t' = place_message m t \<and> ev_id e = Some (mg_messageId m))"
proof -
  obtain v where v: "message_fromMatrixToEntity u e = Inr v"
    using assms by (auto simp: route_event_def sum_bind_Inr_iff)
  show ?thesis
  proof (cases v)
    case None
    then show ?thesis using assms v by (simp add: route_event_def sum_bind_simps)
  next
    case (Some m)
    have "ev_id e = Some (mg_messageId m)" using fromMatrix_user [of u e m u] v Some by simp
    then show ?thesis
      using assms v Some
      by (auto simp: route_event_def sum_bind_Inr_iff sum_bind_simps Let_def with_member_handle_def
          with_sender_name_def split: if_splits)
  qed
qed

lemma place_message_keeps:
  assumes "m \<in> set (tl_main t)" "mg_messageId m1 \<noteq> mg_messageId m"
  shows "m \<in> set (tl_main (place_message m1 t))"
proof -
  have "m \<in> set xs \<Longrightarrow> m \<in> set (upsert_message m1 xs)" for xs
    using assms(2) by (induction xs) auto
  with assms(1) show ?thesis by (simp add: place_message_def Let_def)
qed

text \<open>A message stays in the main list while events with other ids are routed.\<close>

lemma route_events_keep:
  "route_events C r u w es t = Inr t' \<Longrightarrow> m \<in> set (tl_main t) \<Longrightarrow>
     (\<And>e. e \<in> set es \<Longrightarrow> ev_id e \<noteq> Some (mg_messageId m)) \<Longrightarrow> m \<in> set (tl_main t')"
proof (induction es arbitrary: t)
  case (Cons e es)
  from Cons.prems(1) obtain t1 where t1: "route_event C r u w e t = Inr t1" "route_events C r u w es t1 = Inr t'"
    by (auto simp: sum_bind_Inr_iff)
  have "m \<in> set (tl_main t1)"
    using route_event_placed [OF t1(1)] Cons.prems(2) Cons.prems(3) [of e] place_message_keeps by auto
  then show ?case using Cons.IH t1(2) Cons.prems(3) by auto
qed simp

text \<open>The event of a text is read as that text.\<close>

lemma text_event_read:
  assumes "ev_type e = MSG_MESSAGE" "ev_content e = JObj (buildMessageContent hs rcpt text mentions)"
    and "ev_id e = Some i" "i \<noteq> ''''"
  shows "\<exists>m. message_fromMatrixToEntity u e = Inr (Some m) \<and> mg_messageId m = i
    \<and> mg_content m = [(''type'', JStr ''m.text''), (''isEdited'', JBool False), (''text'', JStr text)]
    \<and> he_handleId (mg_senderHandle m) = nullish (ev_sender e) ''''"
proof -
  let ?b = "buildMessageContent hs rcpt text mentions"
  have b: "obj_get ?b ''msgtype'' = JStr ''m.text''" "obj_get ?b ''body'' = JStr text" "obj_get ?b ''m.relates_to'' = JUndef"
    by (simp_all add: obj_get_text_content obj_get_Cons)
  have "messageContentFromMessageEvent (JObj ?b) =
      Inr [(''type'', JStr ''m.text''), (''isEdited'', JBool False), (''text'', JStr text)]"
    by (simp add: messageContentFromMessageEvent_def shown_content_def is_edit_def Let_def
        obj_get_simps b base_content_def js_nullish_def thread_of_def reply_of_def spread_if_def)
       (simp add: js_spread_def)
  moreover have "\<not> content_missing (JObj ?b)" by (simp add: content_missing_def buildMessageContent_def)
  ultimately show ?thesis
    using assms
    by (simp add: message_fromMatrixToEntity_def truthy_str_def mapped_content_def relations_of_def sum_bind_simps)
       (simp add: js_spread_def)
qed

text \<open>Of calls made together, each one is made in a world that the ones before it left.\<close>

lemma promise_all_each:
  assumes "promise_all ms w = (Inr xs, w')" and "m \<in> set ms"
    and "\<And>m w x w'. m \<in> set ms \<Longrightarrow> m w = (x, w') \<Longrightarrow> f w' = f w"
  shows "\<exists>x w1 w2. x \<in> set xs \<and> f w1 = f w \<and> m w1 = (Inr x, w2)"
  using assms
proof (induction ms arbitrary: w xs)
  case (Cons m1 ms)
  obtain x1 w1 xs1 where m1: "m1 w = (Inr x1, w1)" and ms: "promise_all ms w1 = (Inr xs1, w')" and xs: "xs = x1 # xs1"
    using Cons.prems(1) by (auto split: prod.splits sum.splits)
  show ?case
  proof (cases "m = m1")
    case True
    then show ?thesis using m1 xs by auto
  next
    case False
    then have "\<exists>x w2 w3. x \<in> set xs1 \<and> f w2 = f w1 \<and> m w2 = (Inr x, w3)"
      using Cons.prems(2,3) by (intro Cons.IH [OF ms]) auto
    moreover have "f w1 = f w" using Cons.prems(3) [of m1] m1 by simp
    ultimately show ?thesis using xs by auto
  qed
qed simp

section \<open>What listing needs of the server\<close>

text \<open>
  \<open>evs\<close> is the room's timeline, newest first; \<open>pos\<close> is the place in it a page token stands
  for; \<open>plain\<close> is an event after decryption. A page may be shorter than was asked for; its
  token, if it has one, stands for the place after it, and without one the timeline is at its end.
\<close>

locale timeline_server =
  fixes C :: "'w message_client" and r :: room_id
    and evs :: "'w \<Rightarrow> matrix_event list" and pos :: "string option \<Rightarrow> nat"
    and plain :: "matrix_event \<Rightarrow> matrix_event"
  assumes page_law: "mc_messagesRequest C r tok n w = (Inr (chunk, tok'), w') \<Longrightarrow> evs w' = evs w
      \<and> (\<exists>k \<le> nat n. chunk = take k (drop (pos tok) (evs w))
           \<and> (if truthy_str tok' then pos tok' = pos tok + k else length (evs w) \<le> pos tok + k))"
    and decrypt_law: "mc_decrypt C e w = (Inr e', w') \<Longrightarrow> e' = plain e \<and> evs w' = evs w"
    and plain_law: "\<not> ev_isEncrypted e \<Longrightarrow> plain e = e" "plain (plain e) = plain e"
    and user_law: "user_and_room C r w = (Inr u, w') \<Longrightarrow> evs w' = evs w"
begin

lemma decrypt_all:
  assumes "promise_all (map (\<lambda>e. if ev_isEncrypted e then mc_decrypt C e else ret e) es) w = (Inr es', w')"
  shows "es' = map plain es \<and> evs w' = evs w"
  using assms
proof (induction es arbitrary: w es')
  case (Cons e es)
  obtain e1 es1 w1 where e: "(if ev_isEncrypted e then mc_decrypt C e else ret e) w = (Inr e1, w1)"
    and es: "promise_all (map (\<lambda>e. if ev_isEncrypted e then mc_decrypt C e else ret e) es) w1 = (Inr es1, w')"
    and es': "es' = e1 # es1"
    using Cons.prems by (auto split: prod.splits sum.splits simp del: if_split_asm)
  have "e1 = plain e \<and> evs w1 = evs w"
    using e decrypt_law plain_law(1) by (cases "ev_isEncrypted e") (auto simp: ret_apply)
  then show ?case using Cons.IH [OF es] es' by simp
qed simp

text \<open>
  What every round of the loop keeps: the events so far are the listed ones of a stretch of the
  timeline from where the listing began, and the token stands for the place after the stretch.
\<close>

definition stretch ::
    "'w \<Rightarrow> int \<Rightarrow> string option \<Rightarrow> nat \<Rightarrow> matrix_event list \<times> string option \<Rightarrow> bool" where
  "stretch w L tok j s \<longleftrightarrow>
     fst s = map plain (filter listed_event (take j (drop (pos tok) (evs w)))) \<and> int (length (fst s)) \<le> max 1 L
     \<and> (if truthy_str (snd s) then pos (snd s) = pos tok + j else length (evs w) \<le> pos tok + j)"

lemma stretch_same: "evs w' = evs w \<Longrightarrow> stretch w' = stretch w"
  by (simp add: stretch_def fun_eq_iff)

lemma round_extends:
  assumes "page_round C r L (es, t) w = (Inr s', w')"
    and "es = map plain (filter listed_event (take j (drop (pos tok) (evs w))))" and "pos t = pos tok + j"
    and "int (length es) < max 1 L"
  shows "evs w' = evs w \<and> (\<exists>k. stretch w L tok (j + k) s')"
proof -
  obtain chunk t' w1 es' where page: "mc_messagesRequest C r t (max 1 (L - int (length es))) w = (Inr (chunk, t'), w1)"
    and decrypted: "promise_all (map (\<lambda>e. if ev_isEncrypted e then mc_decrypt C e else ret e)
        (es @ filter listed_event chunk)) w1 = (Inr es', w')"
    and s': "s' = (es', t')"
    using assms(1) by (auto simp: page_round_def await_Inr_iff ret_apply)
  from page_law [OF page, unfolded assms(3)] obtain k where w1: "evs w1 = evs w" and k: "k \<le> nat (max 1 (L - int (length es)))"
    and chunk: "chunk = take k (drop (pos tok + j) (evs w))"
    and t': "if truthy_str t' then pos t' = pos tok + j + k else length (evs w) \<le> pos tok + j + k"
    by auto
  from decrypt_all [OF decrypted] w1 have es': "es' = map plain (es @ filter listed_event chunk)" and w': "evs w' = evs w"
    by simp_all
  have "take (j + k) (drop (pos tok) (evs w)) = take j (drop (pos tok) (evs w)) @ chunk"
    by (simp add: chunk take_add add.commute)
  then have "es' = map plain (filter listed_event (take (j + k) (drop (pos tok) (evs w))))"
    using es' by (simp add: assms(2) plain_law(2))
  moreover have "length (filter listed_event chunk) \<le> k"
    using length_filter_le [of listed_event chunk] by (simp add: chunk)
  then have "int (length es') \<le> max 1 L" using k assms(4) es' by simp
  ultimately show ?thesis using w' s' t' by (auto simp: stretch_def add.assoc)
qed

lemma loop_stretch:
  assumes "do_while n (page_round C r L) (more_pages L) ([], tok) w = Some (Inr s', w')"
  shows "evs w' = evs w \<and> (\<exists>j. stretch w L tok j s') \<and> \<not> more_pages L s'"
proof -
  have "do_while n (page_round C r L) (more_pages L) (es, t) w1 = Some (Inr s', w') \<Longrightarrow>
      es = map plain (filter listed_event (take j (drop (pos tok) (evs w1)))) \<Longrightarrow> pos t = pos tok + j \<Longrightarrow>
      int (length es) < max 1 L \<Longrightarrow>
      evs w' = evs w1 \<and> (\<exists>j. stretch w1 L tok j s') \<and> \<not> more_pages L s'" for es t w1 j
  proof (induction n arbitrary: es t w1 j)
    case (Suc n)
    obtain s1 w2 where round: "page_round C r L (es, t) w1 = (Inr s1, w2)"
      and rest: "if more_pages L s1 then do_while n (page_round C r L) (more_pages L) s1 w2 = Some (Inr s', w')
        else s1 = s' \<and> w2 = w'"
      using Suc.prems(1) by (auto split: prod.splits sum.splits if_splits)
    from round_extends [OF round Suc.prems(2-4)] obtain k where same: "evs w2 = evs w1"
      and k: "stretch w1 L tok (j + k) s1" by blast
    show ?case
    proof (cases "more_pages L s1")
      case True
      obtain es1 t1 where s1: "s1 = (es1, t1)" by fastforce
      have more: "truthy_str t1" "int (length es1) < max 1 L" using True by (auto simp: s1 more_pages_def)
      have "evs w' = evs w2 \<and> (\<exists>j. stretch w2 L tok j s') \<and> \<not> more_pages L s'"
        by (rule Suc.IH [of es1 t1 w2 "j + k"])
          (use True rest k s1 same more in \<open>simp_all add: stretch_def\<close>)
      then show ?thesis using same stretch_same [OF same] by simp
    next
      case False
      then show ?thesis using rest same k by auto
    qed
  qed simp
  from this [of "[]" tok w 0] assms show ?thesis by simp
qed

lemma listing_routed:
  assumes "cm_listMessages n C r limit tok w = Some (Inr out, w')"
  obtains u t j where "evs w' = evs w"
    and "route_events C r u w' (map plain (filter listed_event (take j (drop (pos tok) (evs w)))))
      \<lparr>tl_main = [], tl_threads = []\<rparr> = Inr t"
    and "lm_messages out = tl_main t" "lm_threads out = tl_threads t"
    and "int (length (filter listed_event (take j (drop (pos tok) (evs w))))) \<le> max 1 (nullish limit 10)"
    and "if truthy_str (lm_nextToken out)
       then pos (lm_nextToken out) = pos tok + j
         \<and> nullish limit 10 \<le> int (length (filter listed_event (take j (drop (pos tok) (evs w)))))
       else length (evs w) \<le> pos tok + j"
proof -
  obtain u w1 es t where user: "user_and_room C r w = (Inr u, w1)"
    and loop: "do_while n (page_round C r (nullish limit 10)) (more_pages (nullish limit 10)) ([], tok) w1
        = Some (Inr (es, lm_nextToken out), w')"
    and route: "route_events C r u w' es \<lparr>tl_main = [], tl_threads = []\<rparr> = Inr t"
      "lm_messages out = tl_main t" "lm_threads out = tl_threads t"
    using assms
    by (fastforce simp: cm_listMessages_def loop_await_def loop_or_fail_def once_def await_def ret_apply
      split: option.splits prod.splits sum.splits)
  from loop_stretch [OF loop] user_law [OF user]
  obtain j where same: "evs w' = evs w" and j: "stretch w (nullish limit 10) tok j (es, lm_nextToken out)"
    and more: "\<not> more_pages (nullish limit 10) (es, lm_nextToken out)"
    using stretch_same [of w1 w] by auto
  moreover have "length es = length (filter listed_event (take j (drop (pos tok) (evs w))))"
    using j by (simp add: stretch_def)
  ultimately show ?thesis using that [of u j t] route by (auto simp: stretch_def more_pages_def split: if_splits)
qed

lemma listing_stretch:
  assumes "cm_listMessages n C r limit tok w = Some (Inr out, w')"
  shows "evs w' = evs w \<and> (\<exists>j. output_ids out = message_ids plain (take j (drop (pos tok) (evs w)))
    \<and> int (length (filter listed_event (take j (drop (pos tok) (evs w))))) \<le> max 1 (nullish limit 10)
    \<and> (if truthy_str (lm_nextToken out)
       then pos (lm_nextToken out) = pos tok + j
         \<and> nullish limit 10 \<le> int (length (filter listed_event (take j (drop (pos tok) (evs w)))))
       else length (evs w) \<le> pos tok + j))"
  using assms
proof (rule listing_routed)
  fix u t j
  assume *: "evs w' = evs w"
    "int (length (filter listed_event (take j (drop (pos tok) (evs w))))) \<le> max 1 (nullish limit 10)"
    "if truthy_str (lm_nextToken out)
       then pos (lm_nextToken out) = pos tok + j
         \<and> nullish limit 10 \<le> int (length (filter listed_event (take j (drop (pos tok) (evs w)))))
       else length (evs w) \<le> pos tok + j"
    and route: "route_events C r u w' (map plain (filter listed_event (take j (drop (pos tok) (evs w)))))
      \<lparr>tl_main = [], tl_threads = []\<rparr> = Inr t" "lm_messages out = tl_main t" "lm_threads out = tl_threads t"
  have "output_ids out = message_ids plain (take j (drop (pos tok) (evs w)))"
    using route_events_ids [OF route(1)] route(2,3) by (simp add: output_ids_def timeline_ids_def)
  with * show ?thesis by blast
qed

lemma read_on_covers:
  "read_on C r limit tok w outs w' \<Longrightarrow> evs w' = evs w
    \<and> (\<exists>Ws. concat Ws = drop (pos tok) (evs w) \<and> map output_ids outs = map (message_ids plain) Ws
        \<and> (\<forall>W \<in> set Ws. int (length (filter listed_event W)) \<le> max 1 (nullish limit 10)))"
proof (induction rule: read_on.induct)
  case (last n tok w out w')
  from listing_stretch [OF last(1)] last(2) obtain j where "evs w' = evs w"
    and ids: "output_ids out = message_ids plain (take j (drop (pos tok) (evs w)))"
    and "int (length (filter listed_event (take j (drop (pos tok) (evs w))))) \<le> max 1 (nullish limit 10)"
    and "length (evs w) \<le> pos tok + j" by auto
  then show ?case by (intro conjI exI [of _ "[drop (pos tok) (evs w)]"]) simp_all
next
  case (more n tok w out w1 outs w')
  from listing_stretch [OF more(1)] more(2) obtain j where same: "evs w1 = evs w"
    and ids: "output_ids out = message_ids plain (take j (drop (pos tok) (evs w)))"
    and len: "int (length (filter listed_event (take j (drop (pos tok) (evs w))))) \<le> max 1 (nullish limit 10)"
    and tok: "pos (lm_nextToken out) = pos tok + j" by auto
  from more.IH obtain Ws where w': "evs w' = evs w1"
    and Ws: "concat Ws = drop (pos (lm_nextToken out)) (evs w1)" "map output_ids outs = map (message_ids plain) Ws"
      "\<forall>W \<in> set Ws. int (length (filter listed_event W)) \<le> max 1 (nullish limit 10)"
    by blast
  have "concat (take j (drop (pos tok) (evs w)) # Ws) = drop (pos tok) (evs w)"
    using Ws(1) append_take_drop_id [of j "drop (pos tok) (evs w)"] by (simp add: tok same add.commute)
  then show ?case using w' same ids len Ws(2,3)
    by (intro conjI exI [of _ "take j (drop (pos tok) (evs w)) # Ws"]) simp_all
qed

end

text \<open>
  A listing returns when every page with a token brings an event: as many rounds as the
  timeline has events are enough, and one.
\<close>

locale advancing_server = timeline_server +
  assumes progress: "mc_messagesRequest C r tok n w = (Inr (chunk, tok'), w') \<Longrightarrow> 1 \<le> n \<Longrightarrow>
      truthy_str tok' \<Longrightarrow> chunk \<noteq> []"
begin

lemma loop_returns:
  "length (evs w) - pos t < n \<Longrightarrow> do_while n (page_round C r L) (more_pages L) (es, t) w \<noteq> None"
proof (induction n arbitrary: es t w)
  case (Suc n)
  show ?case
  proof (cases "page_round C r L (es, t) w")
    case (Pair x w')
    show ?thesis
    proof (cases "\<exists>s'. x = Inr s' \<and> more_pages L s'")
      case True
      then obtain es' t' where s': "x = Inr (es', t')" "more_pages L (es', t')" by auto
      obtain chunk w1 es1 where page: "mc_messagesRequest C r t (max 1 (L - int (length es))) w = (Inr (chunk, t'), w1)"
        and decrypted: "promise_all (map (\<lambda>e. if ev_isEncrypted e then mc_decrypt C e else ret e)
          (es @ filter listed_event chunk)) w1 = (Inr es1, w')"
        using Pair s'(1) by (auto simp: page_round_def await_Inr_iff ret_apply)
      have "truthy_str t'" using s'(2) by (simp add: more_pages_def)
      with page_law [OF page] progress [OF page] obtain k where "evs w1 = evs w"
        "pos t' = pos t + k" "take k (drop (pos t) (evs w)) \<noteq> []" by auto
      moreover have "evs w' = evs w1" using decrypt_all [OF decrypted] by simp
      moreover have "0 < k" "pos t < length (evs w)" using calculation(3) by (auto simp: take_eq_Nil)
      ultimately have "length (evs w') - pos t' < n" using Suc.prems by simp
      then show ?thesis using Suc.IH Pair s' by simp
    next
      case False
      then show ?thesis using Pair by (cases x) auto
    qed
  qed
qed simp

lemma listing_returns:
  assumes "length (evs w) - pos tok < n"
  shows "cm_listMessages n C r limit tok w \<noteq> None"
proof -
  have "do_while n (page_round C r L) (more_pages L) ([], tok) w1 \<noteq> None"
    if "user_and_room C r w = (Inr u, w1)" for u w1 L
    using user_law [OF that] assms by (intro loop_returns) simp
  then show ?thesis
    by (auto simp: cm_listMessages_def loop_await_None_iff loop_or_fail_None_iff once_def simp del: do_while.simps
        split: prod.splits)
qed

end

section \<open>A text from one handle to another\<close>

definition relates_to_event :: "event_id \<Rightarrow> matrix_event \<Rightarrow> bool" where
  "relates_to_event i e \<longleftrightarrow> js_opt ''event_id'' (js_opt ''m.relates_to'' (ev_content e)) = JStr i"

text \<open>
  \<open>S\<close> is the client of the sender \<open>me\<close>, \<open>C\<close> that of the reader. A sent content becomes the newest
  event of the room, under an id that no event has or refers to; the relations of the event
  stay readable when it is encrypted. The edits of an event are events of the room that refer to it.
\<close>

locale conversation = timeline_server +
  fixes S :: "'a message_client" and me :: user_id
  assumes newest_law: "pos None = 0"
    and sent_law: "mc_sendMessage S r content w = (Inr (), w') \<Longrightarrow> \<exists>e i. evs w' = e # evs w
      \<and> ev_type e \<in> {MSG_MESSAGE, MSG_ENCRYPTED} \<and> is_edit (ev_content e) = is_edit (JObj content)
      \<and> ev_type (plain e) = MSG_MESSAGE \<and> ev_content (plain e) = JObj content
      \<and> ev_id (plain e) = Some i \<and> i \<noteq> '''' \<and> ev_sender (plain e) = Some me
      \<and> (\<forall>e' \<in> set (evs w). ev_id (plain e') \<noteq> Some i \<and> \<not> relates_to_event i e')
      \<and> (js_opt ''m.relates_to'' (JObj content) = JUndef \<longrightarrow> \<not> relates_to_event i e)"
    and keep_law: "user_and_room C r w = (x, w') \<Longrightarrow> evs w' = evs w" "need_room C r w = (y, w') \<Longrightarrow> evs w' = evs w"
    and replace_law: "e \<in> set (nullish (mc_replacements C r i w) []) \<Longrightarrow> e \<in> set (evs w) \<and> relates_to_event i e"
begin

lemma newest_listed:
  assumes "evs w = e # es" and "cm_listMessages n C r limit None w = Some (Inr out, w')"
    and "0 < nullish limit 10" and "listed_event e"
    and "\<And>u. \<exists>m. message_fromMatrixToEntity u (plain e) = Inr (Some m) \<and> \<not> skip_message m
      \<and> \<not> js_truthy (obj_get (mg_content m) ''threadId'')"
    and "ev_type (plain e) \<noteq> MSG_MEMBER" and "\<And>e'. e' \<in> set es \<Longrightarrow> ev_id (plain e') \<noteq> ev_id (plain e)"
  shows "evs w' = evs w \<and> (\<exists>u m. message_fromMatrixToEntity u (plain e) = Inr (Some m)
    \<and> with_sender_name C r w' m \<in> set (lm_messages out))"
  using assms(2)
proof (rule listing_routed)
  fix u t j
  assume same: "evs w' = evs w"
    and route: "route_events C r u w' (map plain (filter listed_event (take j (drop (pos None) (evs w)))))
      \<lparr>tl_main = [], tl_threads = []\<rparr> = Inr t" "lm_messages out = tl_main t"
    and j: "if truthy_str (lm_nextToken out) then pos (lm_nextToken out) = pos None + j
        \<and> nullish limit 10 \<le> int (length (filter listed_event (take j (drop (pos None) (evs w)))))
       else length (evs w) \<le> pos None + j"
  from j assms(1,3) newest_law obtain i where "j = Suc i" by (cases j) (auto split: if_splits)
  then have es: "filter listed_event (take j (drop (pos None) (evs w))) = e # filter listed_event (take i es)"
    using assms(1,4) newest_law by simp
  obtain m where m: "message_fromMatrixToEntity u (plain e) = Inr (Some m)" "\<not> skip_message m"
    "\<not> js_truthy (obj_get (mg_content m) ''threadId'')" using assms(5) by blast
  let ?m = "with_sender_name C r w' m"
  have "route_event C r u w' (plain e) \<lparr>tl_main = [], tl_threads = []\<rparr> = Inr \<lparr>tl_main = [?m], tl_threads = []\<rparr>"
    using m assms(6)
    by (simp add: route_event_def sum_bind_simps place_message_def Let_def with_sender_name_def)
  then have rest: "route_events C r u w' (map plain (filter listed_event (take i es))) \<lparr>tl_main = [?m], tl_threads = []\<rparr> = Inr t"
    using route(1) es by (simp add: sum_bind_simps)
  have "ev_id (plain e) = Some (mg_messageId ?m)"
    using fromMatrix_user [OF m(1)] by (simp add: with_sender_name_def)
  then have "ev_id e' \<noteq> Some (mg_messageId ?m)" if "e' \<in> set (map plain (filter listed_event (take i es)))" for e'
    using that assms(7) by (auto dest: in_set_takeD)
  then have "?m \<in> set (tl_main t)" by (intro route_events_keep [OF rest]) simp_all
  with same m(1) route(2) show ?thesis by auto
qed

lemma replacements:
  assumes "cm_getReplacements C r i w = (x, w')"
  shows "evs w' = evs w"
    and "\<lbrakk>\<And>e. e \<in> set (evs w) \<Longrightarrow> \<not> relates_to_event i e; x = Inr edits\<rbrakk> \<Longrightarrow> edits = []"
proof -
  obtain y w1 where user: "user_and_room C r w = (y, w1)" by fastforce
  have same: "evs w1 = evs w" by (rule keep_law(1) [OF user])
  then show "evs w' = evs w"
    using assms user
    by (auto simp: cm_getReplacements_def await_def or_fail_def peek_def lift_result_def try_catch_def ret_apply
        throw_apply split: sum.splits prod.splits)
  assume fresh: "\<And>e. e \<in> set (evs w) \<Longrightarrow> \<not> relates_to_event i e" and x: "x = Inr edits"
  have "nullish (mc_replacements C r i w1) [] = []"
    using replace_law [of _ i w1] fresh same by (metis list.set_intros(1) neq_Nil_conv)
  then show "edits = []"
    using assms user x
    by (auto simp: cm_getReplacements_def await_def or_fail_def peek_def lift_result_def try_catch_def ret_apply
        split: sum.splits)
qed

lemma keeps_about:
  "cm_getReactions C r i w = (x, w') \<Longrightarrow> evs w' = evs w"
  "cm_getReadReceipts C r (Some e) j w = (y, w'') \<Longrightarrow> evs w'' = evs w"
proof -
  show "cm_getReactions C r i w = (x, w') \<Longrightarrow> evs w' = evs w"
    using keep_law(2) [of w]
    by (cases "need_room C r w")
      (auto simp: cm_getReactions_def or_fail_def await_def peek_def try_catch_def ret_apply throw_apply
        split: sum.splits prod.splits)
  show "cm_getReadReceipts C r (Some e) j w = (y, w'') \<Longrightarrow> evs w'' = evs w"
    using keep_law(2) [of w]
    by (cases "need_room C r w")
      (auto simp: cm_getReadReceipts_def or_fail_def await_def peek_def try_catch_def ret_apply throw_apply
        split: sum.splits prod.splits)
qed

lemma process_keeps:
  assumes "processMessage M r m w = (x, w')" and "ms_client M = C"
  shows "evs w' = evs w"
    and "\<lbrakk>\<And>e. e \<in> set (evs w) \<Longrightarrow> \<not> relates_to_event (mg_messageId m) e; x = Inr m'\<rbrakk> \<Longrightarrow>
      mg_content m' = mg_content m \<and> mg_senderHandle m' = mg_senderHandle m \<and> mg_messageId m' = mg_messageId m"
proof -
  obtain edits w1 where edits: "cm_getReplacements C r (mg_messageId m) w = (edits, w1)" by fastforce
  obtain rs w2 where rs: "cm_getReactions C r (mg_messageId m) w1 = (rs, w2)" by fastforce
  obtain ps w3 where ps: "cm_getReadReceipts C r (Some (id_event (mg_messageId m))) (Some (mg_messageId m)) w2 = (ps, w3)"
    by fastforce
  have run: "x = (case edits of Inl e \<Rightarrow> Inl e | Inr es \<Rightarrow> (case rs of Inl e \<Rightarrow> Inl e | Inr rx \<Rightarrow>
      (case ps of Inl e \<Rightarrow> Inl e | Inr px \<Rightarrow>
        Inr (m\<lparr>mg_content := list_edited es (mg_content m), mg_reactions := rx, mg_receipts := px\<rparr>))))" "w' = w3"
    using assms edits rs ps
    by (auto simp: processMessage_def complete_message_def Let_def promise_both_def await_def ret_apply
        split: sum.splits)
  show "evs w' = evs w"
    using replacements(1) [OF edits] keeps_about(1) [OF rs] keeps_about(2) [OF ps] run(2) by simp
  assume "\<And>e. e \<in> set (evs w) \<Longrightarrow> \<not> relates_to_event (mg_messageId m) e" and x: "x = Inr m'"
  then have "es = []" if "edits = Inr es" for es using replacements(2) [OF edits] that by blast
  with run(1) x show "mg_content m' = mg_content m \<and> mg_senderHandle m' = mg_senderHandle m \<and> mg_messageId m' = mg_messageId m"
    by (auto simp: list_edited_def split: sum.splits)
qed

lemma text_sent:
  assumes "ms_client M1 = S" "recipient_value rcpt = r"
    and "ms_sendMessage M1 rcpt text mentions w = (Inr (), w')"
  obtains e i where "evs w' = e # evs w" "listed_event e" "ev_type (plain e) \<noteq> MSG_MEMBER"
    and "ev_id (plain e) = Some i"
    and "\<forall>e' \<in> set (evs w). ev_id (plain e') \<noteq> Some i \<and> \<not> relates_to_event i e'" "\<not> relates_to_event i e"
    and "\<And>u. \<exists>m. message_fromMatrixToEntity u (plain e) = Inr (Some m) \<and> mg_messageId m = i
      \<and> mg_content m = [(''type'', JStr ''m.text''), (''isEdited'', JBool False), (''text'', JStr text)]
      \<and> he_handleId (mg_senderHandle m) = me"
proof -
  let ?content = "buildMessageContent (homeServer_of M1) rcpt text mentions"
  have send: "mc_sendMessage S r ?content w = (Inr (), w')"
    using assms
    by (auto simp: ms_sendMessage_def cm_sendMessage_def or_fail_def try_catch_def throw_apply split: prod.splits sum.splits)
  have none: "js_opt ''m.relates_to'' (JObj ?content) = JUndef" by (simp add: obj_get_text_content obj_get_Cons)
  obtain e i where e: "evs w' = e # evs w" "ev_type e \<in> {MSG_MESSAGE, MSG_ENCRYPTED}" "\<not> is_edit (ev_content e)"
    "ev_type (plain e) = MSG_MESSAGE" "ev_content (plain e) = JObj ?content" "ev_id (plain e) = Some i" "i \<noteq> ''''"
    "ev_sender (plain e) = Some me"
    "\<forall>e' \<in> set (evs w). ev_id (plain e') \<noteq> Some i \<and> \<not> relates_to_event i e'" "\<not> relates_to_event i e"
    using sent_law [OF send] none by (auto simp: is_edit_def)
  show ?thesis
    by (rule that [OF e(1) _ _ e(6) e(9,10)])
      (use e(2-4) text_event_read [OF e(4,5,6,7)] e(8) in \<open>auto simp: listed_event_def event_types\<close>)
qed

lemma text_listed:
  assumes "ms_client M1 = S" "ms_client M2 = C" "recipient_value rcpt = r"
    and "ms_sendMessage M1 rcpt text mentions w = (Inr (), w')"
    and "ms_list n M2 rcpt limit None w' = Some (Inr (ms, tok), w'')" and "0 < nullish limit 10"
  shows "\<exists>m \<in> set ms. obj_get (mg_content m) ''type'' = JStr ''m.text'' \<and> obj_get (mg_content m) ''text'' = JStr text
    \<and> he_handleId (mg_senderHandle m) = me \<and> (\<forall>e \<in> set (evs w). ev_id (plain e) \<noteq> Some (mg_messageId m))"
proof -
  obtain e i where e: "evs w' = e # evs w" "listed_event e" "ev_type (plain e) \<noteq> MSG_MEMBER" "ev_id (plain e) = Some i"
    and fresh: "\<forall>e' \<in> set (evs w). ev_id (plain e') \<noteq> Some i \<and> \<not> relates_to_event i e'" "\<not> relates_to_event i e"
    and read: "\<And>u. \<exists>m. message_fromMatrixToEntity u (plain e) = Inr (Some m) \<and> mg_messageId m = i
      \<and> mg_content m = [(''type'', JStr ''m.text''), (''isEdited'', JBool False), (''text'', JStr text)]
      \<and> he_handleId (mg_senderHandle m) = me"
    using text_sent [OF assms(1,3,4)] by metis
  obtain out w1 main threads w2 where
    list: "cm_listMessages n C r limit None w' = Some (Inr out, w1)"
    and main: "promise_all (map (processMessage M2 r) (lm_messages out)) w1 = (Inr main, w2)"
    and ms: "ms = sort_key mg_timestamp (main @ concat threads)"
    using assms(2,3,5) by (elim ms_list_Inr) auto
  have "evs w1 = evs w' \<and> (\<exists>u m. message_fromMatrixToEntity u (plain e) = Inr (Some m)
      \<and> with_sender_name C r w1 m \<in> set (lm_messages out))"
  proof (rule newest_listed [OF e(1) list assms(6)])
    show "listed_event e" by (rule e(2))
    show "\<exists>m. message_fromMatrixToEntity u (plain e) = Inr (Some m) \<and> \<not> skip_message m
        \<and> \<not> js_truthy (obj_get (mg_content m) ''threadId'')" for u
      using read [of u] by (auto simp: skip_message_def obj_get_def)
    show "ev_type (plain e) \<noteq> MSG_MEMBER" by (rule e(3))
    show "\<And>e'. e' \<in> set (evs w) \<Longrightarrow> ev_id (plain e') \<noteq> ev_id (plain e)" using fresh(1) e(4) by auto
  qed
  then obtain u m where same: "evs w1 = evs w'" and m: "message_fromMatrixToEntity u (plain e) = Inr (Some m)"
    and listed: "with_sender_name C r w1 m \<in> set (lm_messages out)" by blast
  let ?m = "with_sender_name C r w1 m"
  from read [of u] m have is_m: "mg_messageId ?m = i" "he_handleId (mg_senderHandle ?m) = me"
    "mg_content ?m = [(''type'', JStr ''m.text''), (''isEdited'', JBool False), (''text'', JStr text)]"
    by (simp_all add: with_sender_name_def)
  have "\<exists>x w3 w4. x \<in> set main \<and> evs w3 = evs w1 \<and> processMessage M2 r ?m w3 = (Inr x, w4)"
    using listed process_keeps(1) [OF _ assms(2)] by (intro promise_all_each [OF main]) auto
  then obtain x w3 w4 where x: "x \<in> set main" "evs w3 = evs w1" "processMessage M2 r ?m w3 = (Inr x, w4)" by blast
  have "mg_content x = mg_content ?m \<and> mg_senderHandle x = mg_senderHandle ?m \<and> mg_messageId x = mg_messageId ?m"
    by (rule process_keeps(2) [OF x(3) assms(2)]) (use x(2) same e(1) fresh is_m(1) in auto)
  then show ?thesis
    using x(1) is_m fresh(1) by (intro bexI [of _ x]) (simp_all add: obj_get_def ms)
qed

end

section \<open>A server in memory\<close>

text \<open>
  The timelines of the rooms, newest event first. A new event gets an id longer than every id in
  the room, a page token is a position, and every user is in the room of theory RoomsService's
  demonstration.
\<close>

type_synonym chat_world = "room_id \<Rightarrow> matrix_event list"

definition known_ids :: "matrix_event list \<Rightarrow> string list" where
  "known_ids es = concat (map (\<lambda>e. (case ev_id e of Some i \<Rightarrow> [i] | None \<Rightarrow> []) @
     (case js_opt ''event_id'' (js_opt ''m.relates_to'' (ev_content e)) of JStr i \<Rightarrow> [i] | _ \<Rightarrow> [])) es)"

definition fresh_id :: "matrix_event list \<Rightarrow> event_id" where
  "fresh_id es = CHR ''$'' # replicate (sum_list (map length (known_ids es))) CHR ''x''"

definition sent_event :: "user_id \<Rightarrow> json_object \<Rightarrow> matrix_event list \<Rightarrow> matrix_event" where
  "sent_event u content es =
     \<lparr>ev_id = Some (fresh_id es), ev_rawId = Some (fresh_id es), ev_type = MSG_MESSAGE, ev_content = JObj content,
      ev_sender = Some u, ev_stateKey = None, ev_ts = int (length es), ev_status = None,
      ev_isRedacted = False, ev_redaction = JUndef, ev_isEncrypted = False\<rparr>"

definition page_pos :: "string option \<Rightarrow> nat" where
  "page_pos tok = (case tok of None \<Rightarrow> 0 | Some s \<Rightarrow> read_digits s)"

definition chat_page :: "matrix_event list \<Rightarrow> string option \<Rightarrow> int \<Rightarrow> matrix_event list \<times> string option" where
  "chat_page es tok n =
     (let rest = drop (page_pos tok) es; m = nat n
      in (take m rest, if m < length rest then Some (show_nat (page_pos tok + m)) else None))"

definition chat_client :: "user_id \<Rightarrow> chat_world message_client" where
  "chat_client u = (demo_messages [])
     \<lparr>mc_rooms := (quiet_client [demo_room])\<lparr>rc_getUserId := ret (Some u)\<rparr>,
      mc_findEvent := (\<lambda>r i w. find (\<lambda>e. ev_id e = Some i) (w r)),
      mc_liveEvents := (\<lambda>r w. Some (rev (w r))),
      mc_replacements := (\<lambda>r i w. Some (filter (\<lambda>e. relates_to_event i e \<and> is_edit (ev_content e)) (w r))),
      mc_sendMessage := (\<lambda>r content w. (Inr (), w(r := sent_event u content (w r) # w r))),
      mc_messagesRequest := (\<lambda>r tok n w. (Inr (chat_page (w r) tok n), w))\<rparr>"

lemma known_idsI:
  "e \<in> set es \<Longrightarrow> ev_id e = Some i \<Longrightarrow> i \<in> set (known_ids es)"
  "e \<in> set es \<Longrightarrow> relates_to_event i e \<Longrightarrow> i \<in> set (known_ids es)"
  by (force simp: known_ids_def relates_to_event_def)+

lemma fresh_id_new: "fresh_id es \<notin> set (known_ids es)"
proof
  assume "fresh_id es \<in> set (known_ids es)"
  then have "length (fresh_id es) \<le> sum_list (map length (known_ids es))"
    by (intro member_le_sum_list) auto
  then show False by (simp add: fresh_id_def)
qed

lemma show_nat_nonempty: "show_nat n \<noteq> ''''"
  by (subst show_nat.simps) simp

lemma chat_page_law:
  assumes "chat_page es tok n = (chunk, tok')"
  shows "chunk = take (nat n) (drop (page_pos tok) es)
    \<and> (if truthy_str tok' then page_pos tok' = page_pos tok + nat n \<and> nat n < length (drop (page_pos tok) es)
       else length es \<le> page_pos tok + nat n)"
  using assms
  by (auto simp: chat_page_def Let_def truthy_str_def show_nat_nonempty page_pos_def read_show_nat split: if_splits)

lemma chat_client_sel [simp]:
  "mc_messagesRequest (chat_client u) r tok n w = (Inr (chat_page (w r) tok n), w)"
  "mc_decrypt (chat_client u) = ret"
  "mc_sendMessage (chat_client u) r content w = (Inr (), w(r := sent_event u content (w r) # w r))"
  "mc_replacements (chat_client u) r i w = Some (filter (\<lambda>e. relates_to_event i e \<and> is_edit (ev_content e)) (w r))"
  by (simp_all add: chat_client_def demo_messages_def)

lemma room_lookups_pure:
  assumes "room_reads_pure (mc_rooms C)"
  shows "reads_only (user_and_room C r)" "reads_only (need_room C r)"
proof -
  have "reads_only (promise_both (cm_getUserId (mc_rooms C)) (cm_getRoom (mc_rooms C) r))"
    using reads_only_getUserId [OF assms] reads_only_getRoom [OF assms, of r]
    by (auto simp: reads_only_def promise_both_def case_prod_unfold split: sum.split)
  then show "reads_only (user_and_room C r)"
    unfolding user_and_room_def by (rule reads_only_await) (auto split: option.split)
  show "reads_only (need_room C r)"
    unfolding need_room_def using assms by (intro reads_only_await reads_only_getRoom) (auto split: option.split)
qed

lemma chat_client_reads:
  "user_and_room (chat_client u) r w = (x, w') \<Longrightarrow> w' = w"
  "need_room (chat_client u) r w = (y, w'') \<Longrightarrow> w'' = w"
proof -
  have "room_reads_pure (mc_rooms (chat_client u))"
    using quiet_client_pure [of "[demo_room]"] by (simp add: chat_client_def room_reads_pure_def)
  from room_lookups_pure [OF this, of r]
  show "user_and_room (chat_client u) r w = (x, w') \<Longrightarrow> w' = w"
    "need_room (chat_client u) r w = (y, w'') \<Longrightarrow> w'' = w"
    by (auto dest: reads_onlyD [where w = w])
qed

lemma chat_client_sends:
  "\<exists>e i. (w(r := sent_event u content (w r) # w r)) r = e # w r
    \<and> ev_type e \<in> {MSG_MESSAGE, MSG_ENCRYPTED} \<and> is_edit (ev_content e) = is_edit (JObj content)
    \<and> ev_type e = MSG_MESSAGE \<and> ev_content e = JObj content
    \<and> ev_id e = Some i \<and> i \<noteq> '''' \<and> ev_sender e = Some u
    \<and> (\<forall>e' \<in> set (w r). ev_id e' \<noteq> Some i \<and> \<not> relates_to_event i e')
    \<and> (js_opt ''m.relates_to'' (JObj content) = JUndef \<longrightarrow> \<not> relates_to_event i e)"
  by (intro exI [of _ "sent_event u content (w r)"] exI [of _ "fresh_id (w r)"])
    (use known_idsI [of _ "w r"] fresh_id_new [of "w r"] in
      \<open>auto simp: sent_event_def relates_to_event_def fresh_id_def\<close>)

interpretation chat: conversation "chat_client v" r "\<lambda>w. w r" page_pos "\<lambda>e. e" "chat_client u" u for u v r
proof (unfold_locales, goal_cases)
  case (1 tok n w chunk tok' w')
  then show ?case using chat_page_law [of "w r" tok n chunk tok'] by (auto intro!: exI [of _ "nat n"])
next
  case 7
  then show ?case using chat_client_sends [where r = r and u = u] by (simp only: chat_client_sel prod.inject) blast
qed (auto simp: ret_apply page_pos_def dest: chat_client_reads)

interpretation chat: advancing_server "chat_client v" r "\<lambda>w. w r" page_pos "\<lambda>e. e" for v r
proof (unfold_locales, goal_cases)
  case (1 tok n w chunk tok' w')
  with chat_page_law [of "w r" tok n chunk tok'] show ?case by (auto simp: take_eq_Nil)
qed

section \<open>Demonstration\<close>

definition chat_service :: "user_id \<Rightarrow> chat_world messaging_service" where
  "chat_service u = \<lparr>ms_client = chat_client u, ms_polls = demo_poll demo_pages [], ms_media = None,
     ms_encryptAttachment = (\<lambda>f. ret (f, []))\<rparr>"

definition text_event :: "user_id \<Rightarrow> string \<Rightarrow> matrix_event list \<Rightarrow> matrix_event" where
  "text_event u text es = sent_event u (buildMessageContent ''hs'' (ChatId ''!r:hs'') text []) es"

lemma chat_user: "u \<noteq> '''' \<Longrightarrow> user_and_room (chat_client u) ''!r:hs'' w = (Inr u, w)"
  by (simp add: user_and_room_def chat_client_def io_simps promise_both_def cm_getUserId_def cm_getRoom_def
      or_fail_def demo_room_def truthy_str_def quiet_client_def)

text \<open>A listing of one message from a place in the timeline where a text is.\<close>

lemma chat_lists_one:
  assumes "drop (page_pos tok) (w ''!r:hs'') = text_event u text es # rest" and "v \<noteq> ''''"
  obtains m where "cm_listMessages 1 (chat_client v) ''!r:hs'' (Some 1) tok w =
      Some (Inr \<lparr>lm_messages = [m], lm_threads = [],
        lm_nextToken = (if rest = [] then None else Some (show_nat (page_pos tok + 1)))\<rparr>, w)"
    and "mg_messageId m = fresh_id es"
proof -
  let ?e = "text_event u text es"
  have e: "ev_type ?e = MSG_MESSAGE" "ev_content ?e = JObj (buildMessageContent ''hs'' (ChatId ''!r:hs'') text [])"
    "ev_id ?e = Some (fresh_id es)" "fresh_id es \<noteq> ''''" "\<not> ev_isEncrypted ?e"
    by (simp_all add: text_event_def sent_event_def fresh_id_def)
  obtain m where m: "message_fromMatrixToEntity v ?e = Inr (Some m)" "mg_messageId m = fresh_id es"
    "mg_content m = [(''type'', JStr ''m.text''), (''isEdited'', JBool False), (''text'', JStr text)]"
    using text_event_read [OF e(1-4)] by blast
  let ?m = "with_sender_name (chat_client v) ''!r:hs'' w m"
  have listed: "listed_event ?e" using e(1,2) by (simp add: listed_event_def is_edit_def obj_get_text_content obj_get_Cons)
  have page: "chat_page (w ''!r:hs'') tok 1 = ([?e], if rest = [] then None else Some (show_nat (page_pos tok + 1)))"
    using assms(1) by (simp add: chat_page_def)
  have route: "route_event (chat_client v) ''!r:hs'' v w ?e \<lparr>tl_main = [], tl_threads = []\<rparr>
      = Inr \<lparr>tl_main = [?m], tl_threads = []\<rparr>"
    using m e(1) by (simp add: route_event_def sum_bind_simps place_message_def Let_def with_sender_name_def
      skip_message_def obj_get_def event_types)
  have "cm_listMessages 1 (chat_client v) ''!r:hs'' (Some 1) tok w =
      Some (Inr \<lparr>lm_messages = [?m], lm_threads = [],
        lm_nextToken = (if rest = [] then None else Some (show_nat (page_pos tok + 1)))\<rparr>, w)"
    using assms(2) e(5) listed route
    by (simp add: cm_listMessages_def loop_await_def loop_or_fail_def once_def chat_user page_round_def page
        await_def ret_apply more_pages_def sum_bind_simps)
  then show ?thesis using m(2) by (intro that [of ?m]) (simp_all add: with_sender_name_def)
qed

definition two_texts :: chat_world where
  "two_texts = (\<lambda>_. [text_event ''@bob:hs'' ''there'' [text_event ''@bob:hs'' ''hi'' []], text_event ''@bob:hs'' ''hi'' []])"

lemma two_texts_read:
  obtains out1 out2 where "read_on (chat_client ''@ann:hs'') ''!r:hs'' (Some 1) None two_texts [out1, out2] two_texts"
proof -
  let ?first = "text_event ''@bob:hs'' ''hi'' []"
  obtain m1 where "cm_listMessages 1 (chat_client ''@ann:hs'') ''!r:hs'' (Some 1) None two_texts =
      Some (Inr \<lparr>lm_messages = [m1], lm_threads = [], lm_nextToken = Some (show_nat 1)\<rparr>, two_texts)"
    by (rule chat_lists_one [of None two_texts "''@bob:hs''" "''there''" "[?first]" "[?first]" "''@ann:hs''"])
      (simp_all add: two_texts_def page_pos_def)
  moreover obtain m2 where "cm_listMessages 1 (chat_client ''@ann:hs'') ''!r:hs'' (Some 1) (Some (show_nat 1)) two_texts =
      Some (Inr \<lparr>lm_messages = [m2], lm_threads = [], lm_nextToken = None\<rparr>, two_texts)"
    by (rule chat_lists_one [of "Some (show_nat 1)" two_texts "''@bob:hs''" "''hi''" "[]" "[]" "''@ann:hs''"])
      (simp_all add: two_texts_def page_pos_def read_show_nat)
  ultimately show ?thesis
    by (intro that [of "\<lparr>lm_messages = [m1], lm_threads = [], lm_nextToken = Some (show_nat 1)\<rparr>"
          "\<lparr>lm_messages = [m2], lm_threads = [], lm_nextToken = None\<rparr>"] read_on.more read_on.last)
      (simp_all add: truthy_str_def show_nat_nonempty)
qed

lemma chat_about:
  assumes "v \<noteq> ''''"
  shows "(\<And>e. e \<in> set (w ''!r:hs'') \<Longrightarrow> \<not> relates_to_event i e) \<Longrightarrow>
      cm_getReplacements (chat_client v) ''!r:hs'' i w = (Inr [], w)"
    and "cm_getReactions (chat_client v) ''!r:hs'' i w = (Inr [], w)"
    and "cm_getReadReceipts (chat_client v) ''!r:hs'' (Some e) j w = (Inr [], w)"
proof -
  have room: "need_room (chat_client v) ''!r:hs'' w = (Inr demo_room, w)" for w
    by (simp add: need_room_def chat_client_def io_simps cm_getRoom_def or_fail_def demo_room_def quiet_client_def)
  have none: "mc_annotations (chat_client v) r i w = None" "mc_receipts (chat_client v) r k w = None" for r i k w
    by (simp_all add: chat_client_def demo_messages_def)
  show "cm_getReactions (chat_client v) ''!r:hs'' i w = (Inr [], w)"
    "cm_getReadReceipts (chat_client v) ''!r:hs'' (Some e) j w = (Inr [], w)"
    by (simp_all add: cm_getReactions_def cm_getReadReceipts_def or_fail_def io_simps room peek_def none)
  assume "\<And>e. e \<in> set (w ''!r:hs'') \<Longrightarrow> \<not> relates_to_event i e"
  then have "filter (\<lambda>e. relates_to_event i e \<and> is_edit (ev_content e)) (w ''!r:hs'') = []"
    by (simp add: filter_empty_conv)
  then show "cm_getReplacements (chat_client v) ''!r:hs'' i w = (Inr [], w)"
    using chat_user [OF assms, of w] by (simp add: cm_getReplacements_def or_fail_def io_simps peek_def)
qed

text \<open>Bob sends a text to the empty room, and Ann lists it.\<close>

lemma bob_to_ann:
  "\<exists>w' ms. ms_sendMessage (chat_service ''@bob:hs'') (ChatId ''!r:hs'') ''hi'' [] (\<lambda>_. []) = (Inr (), w')
    \<and> ms_list 1 (chat_service ''@ann:hs'') (ChatId ''!r:hs'') (Some 1) None w' = Some (Inr (ms, None), w')"
proof -
  let ?w = "(\<lambda>_. [])(''!r:hs'' := [text_event ''@bob:hs'' ''hi'' []]) :: chat_world"
  have homeServer: "homeServer_of (chat_service u) = ''hs''" for u
    by (simp add: homeServer_of_def chat_service_def chat_client_def)
  have sent: "ms_sendMessage (chat_service ''@bob:hs'') (ChatId ''!r:hs'') ''hi'' [] (\<lambda>_. []) = (Inr (), ?w)"
    unfolding ms_sendMessage_def homeServer
    by (simp add: cm_sendMessage_def chat_service_def or_fail_def try_catch_def text_event_def)
  obtain m where list: "cm_listMessages 1 (chat_client ''@ann:hs'') ''!r:hs'' (Some 1) None ?w =
      Some (Inr \<lparr>lm_messages = [m], lm_threads = [], lm_nextToken = None\<rparr>, ?w)"
    by (rule chat_lists_one [of None ?w "''@bob:hs''" "''hi''" "[]" "[]" "''@ann:hs''"]) (simp_all add: page_pos_def)
  have "cm_getReplacements (chat_client ''@ann:hs'') ''!r:hs'' (mg_messageId m) ?w = (Inr [], ?w)"
    by (rule chat_about(1))
      (simp_all add: relates_to_event_def text_event_def sent_event_def obj_get_text_content obj_get_Cons)
  then have "\<exists>x. processMessage (chat_service ''@ann:hs'') ''!r:hs'' m ?w = (Inr x, ?w)"
    by (simp add: processMessage_def complete_message_def chat_service_def promise_both_def chat_about(2,3)
        io_simps Let_def)
  then obtain x where x: "processMessage (chat_service ''@ann:hs'') ''!r:hs'' m ?w = (Inr x, ?w)" by blast
  have "ms_list 1 (chat_service ''@ann:hs'') (ChatId ''!r:hs'') (Some 1) None ?w = Some (Inr ([x], None), ?w)"
    using list x by (simp add: ms_list_def Let_def chat_service_def loop_await_def once_def await_def ret_apply)
  then show ?thesis using sent by blast
qed

section \<open>Properties\<close>

text \<open>
  C10: Reading on shows the whole timeline. Listings that follow each other's tokens until one
  has none cut the room's timeline, from where the first one began, into consecutive pieces; each
  listing shows exactly the messages of its piece, of at most the limit of listed events; and
  reading changes nothing of the timeline. So no message is left out, however the server cuts
  its pages. The hypothesis is the contract of the pages and of decryption (locale \<open>timeline_server\<close>).
\<close>

theorem reading_on_shows_all:
  assumes "timeline_server C r evs pos plain" and "read_on C r limit tok w outs w'"
  shows "evs w' = evs w \<and> (\<exists>pieces. concat pieces = drop (pos tok) (evs w)
    \<and> map output_ids outs = map (message_ids plain) pieces
    \<and> (\<forall>piece \<in> set pieces. int (length (filter listed_event piece)) \<le> max 1 (nullish limit 10)))"
  using timeline_server.read_on_covers [OF assms] .

theorem reading_on_shows_all_witness:
  "\<exists>out1 out2 pieces. read_on (chat_client ''@ann:hs'') ''!r:hs'' (Some 1) None two_texts [out1, out2] two_texts
    \<and> concat pieces = two_texts ''!r:hs'' \<and> [output_ids out1, output_ids out2] = map (message_ids (\<lambda>e. e)) pieces"
proof -
  obtain out1 out2 where read: "read_on (chat_client ''@ann:hs'') ''!r:hs'' (Some 1) None two_texts [out1, out2] two_texts"
    by (rule two_texts_read)
  have "\<exists>pieces. concat pieces = two_texts ''!r:hs''
      \<and> map output_ids [out1, out2] = map (message_ids (\<lambda>e. e)) pieces"
    using reading_on_shows_all [OF chat.timeline_server_axioms read]
    by (elim conjE exE, intro exI conjI, simp add: page_pos_def) assumption
  then have "\<exists>pieces. concat pieces = two_texts ''!r:hs''
      \<and> [output_ids out1, output_ids out2] = map (message_ids (\<lambda>e. e)) pieces"
    by (simp only: list.map)
  then obtain pieces where pieces: "concat pieces = two_texts ''!r:hs''"
    "[output_ids out1, output_ids out2] = map (message_ids (\<lambda>e. e)) pieces" by (elim exE conjE)
  show ?thesis by (intro exI conjI) (rule read pieces)+
qed



end
