(* ===== verification/Connection.thy ===== *)
theory Connection
  imports Sessions Media Messages SyncWindow
begin

text \<open>
  How the SDK is set up and how it reaches the homeserver: the service configuration
  (\<open>src/private/data/common/config.ts\<close>), the options of \<open>DefaultSecureCommsClient\<close>
  (\<open>src/public/secureCommsClient.ts\<close>), and in \<open>MatrixClientManager\<close> the construction of the
  Matrix client, the function \<open>authFetch\<close> that all its requests go through, and the lists of the
  sliding sync. The configuration manager of the platform, \<open>fetch\<close> and the Matrix SDK are
  parameters.
\<close>

section \<open>Configuration\<close>

text \<open>Whether there is a section for the service, and what binding it answers.\<close>

record configuration_manager =
  cm_hasConfigSet :: "string \<Rightarrow> bool"
  cm_bindConfigSet :: "string \<Rightarrow> SecureCommsServiceConfig result"

definition getSecureCommsServiceConfig :: "configuration_manager \<Rightarrow> SecureCommsServiceConfig result" where
  "getSecureCommsServiceConfig C =
     (if \<not> cm_hasConfigSet C ''secureCommsService'' then Inl (SecureCommsServiceConfigNotFoundError None)
      else cm_bindConfigSet C ''secureCommsService'')"

text \<open>
  The options of the client, with the private ones, and what its constructor makes of them for the
  session manager, the storage module, the media credentials and the key manager. Crypto
  providers (\<open>'p\<close>), key managers (\<open>'k\<close>) and what is made of them by default are the
  platform's.
\<close>

record ('x, 'p, 'k) client_options =
  op_storageProviderFactory :: bool
  op_sudoCryptoProvider :: "'p option"
  op_sudoKeyManager :: "'k option"
  op_autoRefreshTokenMinutesBeforeExpiration :: "int option"
  op_enableCrypto :: "bool option"
  op_apiClient :: "'x graphql_client option"
  op_secureCommsServiceConfig :: "SecureCommsServiceConfig option"
  op_identityServiceConfig :: "IdentityServiceConfig option"

record ('x, 'p, 'k) client_defaults =
  df_config :: configuration_manager
  df_identity :: "IdentityServiceConfig result"
  df_apiClient :: "'x graphql_client"
  df_cryptoProvider :: "string \<Rightarrow> string \<Rightarrow> 'p"
  df_keyManager :: "'p \<Rightarrow> 'k"

record ('x, 'k) client_setup =
  su_sessions :: "'x session_env"
  su_storage :: storage_env
  su_keyManager :: 'k
  su_config :: SecureCommsServiceConfig
  su_identity :: IdentityServiceConfig

definition construct_client ::
    "('x, 'p, 'k) client_defaults \<Rightarrow> 'x session_env \<Rightarrow> storage_env \<Rightarrow> ('x, 'p, 'k) client_options \<Rightarrow>
     ('x, 'k) client_setup result" where
  "construct_client D E S opts =
     sum_bind (case op_identityServiceConfig opts of Some i \<Rightarrow> Inr i | None \<Rightarrow> df_identity D) (\<lambda>identityServiceConfig.
     sum_bind (case op_secureCommsServiceConfig opts of
                 Some c \<Rightarrow> Inr c | None \<Rightarrow> getSecureCommsServiceConfig (df_config D)) (\<lambda>secureCommsServiceConfig.
       let storage = S\<lparr>se_factory := op_storageProviderFactory opts\<rparr>;
           apiClient = nullish (op_apiClient opts) (df_apiClient D);
           sudoCryptoProvider = nullish (op_sudoCryptoProvider opts)
             (df_cryptoProvider D ''SecureCommsClient'' ''com.sudoplatform.appservicename'');
           keyManager = nullish (op_sudoKeyManager opts) (df_keyManager D sudoCryptoProvider);
           sessions = E\<lparr>sx_graphql := apiClient,
                        sx_refreshMinutes := nullish (op_autoRefreshTokenMinutesBeforeExpiration opts) 5,
                        sx_enableCrypto := nullish (op_enableCrypto opts) False\<rparr>
       in Inr \<lparr>su_sessions = sessions, su_storage = storage, su_keyManager = keyManager,
               su_config = secureCommsServiceConfig, su_identity = identityServiceConfig\<rparr>))"

section \<open>The Matrix client of a session\<close>

text \<open>
  The options given to \<open>createClient\<close> of the Matrix SDK. A claim that the token lacks is
  \<open>undefined\<close>, also where it is put into text.
\<close>

record matrix_client_options =
  mo_baseUrl :: string
  mo_deviceId :: "string option"
  mo_token :: string
  mo_userId :: string
  mo_useAuthorizationHeader :: bool
  mo_hasStore :: bool
  mo_timelineSupport :: bool

record matrix_manager =
  mm_deviceId :: "string option"
  mm_homeServer :: "string option"
  mm_accessToken :: string
  mm_clientToken :: string

definition in_text :: "string option \<Rightarrow> string" where
  "in_text v = nullish v ''undefined''"

definition construct_manager ::
    "configuration_manager \<Rightarrow> string \<Rightarrow> (string \<rightharpoonup> string) \<Rightarrow> bool \<Rightarrow>
     (matrix_manager \<times> matrix_client_options) result" where
  "construct_manager C accessToken decoded hasStorage =
     sum_bind (getSecureCommsServiceConfig C) (\<lambda>config.
       let homeServer = decoded ''homeserver'';
           handleId = ''@'' @ in_text (decoded ''sub'') @ '':'' @ in_text homeServer
       in Inr (\<lparr>mm_deviceId = decoded ''device_id'', mm_homeServer = homeServer,
                mm_accessToken = accessToken, mm_clientToken = accessToken\<rparr>,
               \<lparr>mo_baseUrl = cfg_serviceEndpointUrl config, mo_deviceId = decoded ''device_id'',
                mo_token = accessToken, mo_userId = handleId, mo_useAuthorizationHeader = True,
                mo_hasStore = hasStorage, mo_timelineSupport = True\<rparr>))"

definition updateAccessToken :: "string \<Rightarrow> matrix_manager \<Rightarrow> matrix_manager" where
  "updateAccessToken token m = m\<lparr>mm_accessToken := token, mm_clientToken := token\<rparr>"

text \<open>\<open>signOut\<close> logs a failure and returns.\<close>

record 'w matrix_account =
  ma_logout :: "bool \<Rightarrow> ('w, unit) io"
  ma_isLoggedIn :: "('w, bool) io"
  ma_supportsFeature :: "string \<Rightarrow> ('w, bool) io"

definition cm_signOut :: "'w matrix_account \<Rightarrow> ('w, unit) io" where
  "cm_signOut A = try_catch (ma_logout A True) (\<lambda>_. ret ())"

definition cm_isSignedIn :: "'w matrix_account \<Rightarrow> ('w, bool) io" where
  "cm_isSignedIn A = ma_isLoggedIn A"

definition isSlidingSyncSupported :: "'w matrix_account \<Rightarrow> ('w, bool) io" where
  "isSlidingSyncSupported A = ma_supportsFeature A ''org.matrix.simplified_msc3575''"

section \<open>Requests\<close>

text \<open>
  The headers of a request by their names in small letters, as the Fetch standard compares
  them. \<open>headers_of\<close> is \<open>new Headers(init)\<close>: values of the same name are joined.
\<close>

type_synonym headers = "string \<rightharpoonup> string"

definition lower_char :: "char \<Rightarrow> char" where
  "lower_char c = (if 65 \<le> (of_char c :: nat) \<and> (of_char c :: nat) \<le> 90 then char_of (of_char c + 32 :: nat) else c)"

definition header_name :: "string \<Rightarrow> string" where
  "header_name n = map lower_char n"

definition header_set :: "string \<Rightarrow> string \<Rightarrow> headers \<Rightarrow> headers" where
  "header_set n v h = h(header_name n \<mapsto> v)"

definition header_append :: "string \<Rightarrow> string \<Rightarrow> headers \<Rightarrow> headers" where
  "header_append n v h =
     h(header_name n \<mapsto> (case h (header_name n) of None \<Rightarrow> v | Some old \<Rightarrow> old @ '', '' @ v))"

definition headers_of :: "(string \<times> string) list \<Rightarrow> headers" where
  "headers_of xs = foldl (\<lambda>h (n, v). header_append n v h) Map.empty xs"

text \<open>A request as it is given to \<open>fetch\<close>; \<open>'b\<close> is the rest of the settings: method, body and so on.\<close>

record 'b request =
  rq_input :: string
  rq_headers :: headers
  rq_rest :: "'b option"

definition SDK_VERSION :: string where "SDK_VERSION = ''development''"

definition auth_headers :: "bool \<Rightarrow> string \<Rightarrow> (string \<times> string) list \<Rightarrow> headers" where
  "auth_headers inNode accessToken initHeaders =
     header_set ''X-SudoPlatform-SCS-SDK'' (''JavaScript/'' @ SDK_VERSION)
       (header_set ''Authorization'' (''Bearer '' @ accessToken)
         (if inNode then header_set ''User-Agent'' ''SecureCommTest/1.0.0 Node'' (headers_of initHeaders)
          else headers_of initHeaders))"

text \<open>\<open>init\<close> has headers and a rest, or is left out.\<close>

definition authFetch ::
    "bool \<Rightarrow> ('b request \<Rightarrow> ('w, 'r) io) \<Rightarrow> string \<Rightarrow> string \<Rightarrow> ((string \<times> string) list \<times> 'b) option \<Rightarrow>
     ('w, 'r) io" where
  "authFetch inNode fetch accessToken inp init =
     fetch \<lparr>rq_input = inp, rq_headers = auth_headers inNode accessToken (case init of None \<Rightarrow> [] | Some (hs, _) \<Rightarrow> hs),
            rq_rest = map_option snd init\<rparr>"

section \<open>The lists of the sliding sync\<close>

text \<open>\<open>lazy\<close> is the Matrix SDK's key for the members that the events of the timeline need.\<close>

definition REQUIRED_STATE :: "string \<Rightarrow> (string \<times> string) list" where
  "REQUIRED_STATE lazy =
     [(''m.room.name'', ''''), (''m.room.avatar'', ''''), (''m.room.topic'', ''''),
      (''m.room.power_levels'', ''''), (MSG_MEMBER, lazy), (''m.room.join_rules'', ''''),
      (''m.room.canonical_alias'', ''''), (''m.room.encryption'', ''''), (MSG_MESSAGE, ''''),
      (''m.room.pinned_events'', ''''), (MSG_REACTION, ''''), (''m.room.redaction'', ''''),
      (POLL_START, '''')]"

record sliding_list =
  sl_required_state :: "(string \<times> string) list"
  sl_timeline_limit :: int
  sl_ranges :: "(int \<times> int) list"
  sl_sort :: "string list"

record sliding_sync =
  ss_url :: string
  ss_lists :: "(string \<times> sliding_list) list"
  ss_subscription :: "(string \<times> string) list \<times> int"
  ss_timeout :: int

definition createSlidingSyncInstance :: "string \<Rightarrow> string \<Rightarrow> sync_state \<Rightarrow> sliding_sync" where
  "createSlidingSyncInstance lazy homeserverUrl s =
     \<lparr>ss_url = homeserverUrl,
      ss_lists = [(''rooms'', \<lparr>sl_required_state = REQUIRED_STATE lazy, sl_timeline_limit = 20,
                               sl_ranges = [(0, sy_end s)],
                               sl_sort = [''by_notification_level'', ''by_recency'']\<rparr>)],
      ss_subscription = (REQUIRED_STATE lazy, 20), ss_timeout = 30000\<rparr>"

section \<open>Facts\<close>

text \<open>The tokens of the manager and of its Matrix client are the same at all times.\<close>

lemma manager_tokens:
  "construct_manager C t decoded b = Inr (m, opts) \<Longrightarrow>
     mm_accessToken m = t \<and> mm_clientToken m = t \<and> mo_token opts = t"
  "mm_accessToken (updateAccessToken t m) = t \<and> mm_clientToken (updateAccessToken t m) = t"
  by (auto simp: construct_manager_def sum_bind_Inr_iff Let_def updateAccessToken_def)

lemma signOut_returns: "fst (cm_signOut A w) = Inr ()"
  by (simp add: cm_signOut_def try_catch_def ret_def split: prod.split sum.split)

text \<open>Without a configuration nothing is constructed, unless it is among the options.\<close>

lemma construct_needs_config:
  assumes "\<not> cm_hasConfigSet (df_config D) ''secureCommsService''"
  shows "construct_manager (df_config D) t decoded b = Inl (SecureCommsServiceConfigNotFoundError None)"
    and "op_secureCommsServiceConfig opts = None \<Longrightarrow> isl (construct_client D E S opts)"
  using assms
  by (auto simp: construct_manager_def construct_client_def getSecureCommsServiceConfig_def sum_bind_def
      split: option.split sum.split)

text \<open>Automatic refresh is off when its minutes are 0, and on by default.\<close>

lemma refresh_option:
  assumes "construct_client D E S opts = Inr su"
  shows "op_autoRefreshTokenMinutesBeforeExpiration opts = Some 0 \<Longrightarrow>
      scheduleTokenRefresh (su_sessions su) h expiry p s = (Inr None, s)"
    and "op_autoRefreshTokenMinutesBeforeExpiration opts = None \<Longrightarrow> sx_refreshMinutes (su_sessions su) = 5"
  using assms
  by (auto simp: construct_client_def sum_bind_Inr_iff Let_def nullish_def scheduleTokenRefresh_def now_seconds_def await_def ret_apply)

text \<open>A new sliding sync asks for the window of theory SyncWindow.\<close>

lemma sliding_window:
  "map_option sl_ranges (map_of (ss_lists (createSlidingSyncInstance l url (startSyncing (Some True) s))) ''rooms'')
     = Some [(0, INITIAL_ROOM_LIST_SIZE - 1)]"
  by (simp add: createSlidingSyncInstance_def startSyncing_def)

lemma set_names:
  "header_name ''X-SudoPlatform-SCS-SDK'' = ''x-sudoplatform-scs-sdk''"
  "header_name ''Authorization'' = ''authorization''" "header_name ''User-Agent'' = ''user-agent''"
  by code_simp+

lemma auth_headers_values:
  "auth_headers b t hs ''authorization'' = Some (''Bearer '' @ t)"
  "n \<notin> {''authorization'', ''user-agent'', ''x-sudoplatform-scs-sdk''} \<Longrightarrow> auth_headers b t hs n = headers_of hs n"
  by (simp_all add: auth_headers_def header_set_def set_names)

section \<open>Properties\<close>

text \<open>
  C29: Requests carry the session's token. When a call has made the session of a handle valid, every
  request that the handle's Matrix client makes has exactly the returned token as its
  authorization, whatever headers it came with and however they were written, and keeps its
  other headers apart from the two that name the SDK.
\<close>

theorem requests_authorized:
  assumes "sx_decode E '''' = None" and "sessions_ok E (st_sessions s)"
    and "ensureValidSessionBody E M h p d s = (Inr t, s')"
  shows "\<exists>c. st_sessions s' h = Some c \<and> (\<forall>inNode inp init. \<exists>r.
      (\<forall>fetch w. authFetch inNode fetch (cl_token (se_client c)) inp init w = fetch r w)
    \<and> rq_input r = inp \<and> rq_rest r = map_option snd init
    \<and> rq_headers r ''authorization'' = Some (''Bearer '' @ t)
    \<and> (\<forall>n. n \<notin> {''authorization'', ''user-agent'', ''x-sudoplatform-scs-sdk''} \<longrightarrow>
         rq_headers r n = headers_of (case init of None \<Rightarrow> [] | Some (hs, _) \<Rightarrow> hs) n))"
proof -
  from on_sessionsD(1) [OF ensureValid_sessions [OF assms(1)] assms(2,3)]
  obtain c where c: "st_sessions s' h = Some c" "se_accessToken c = t" "session_ok E c"
    by (auto simp: session_of_def sessions_ok_def)
  then have t: "cl_token (se_client c) = t" by (simp add: session_ok_def isUsingToken_def)
  have "\<exists>r. (\<forall>fetch w. authFetch inNode fetch (cl_token (se_client c)) inp init w = fetch r w)
    \<and> rq_input r = inp \<and> rq_rest r = map_option snd init
    \<and> rq_headers r ''authorization'' = Some (''Bearer '' @ t)
    \<and> (\<forall>n. n \<notin> {''authorization'', ''user-agent'', ''x-sudoplatform-scs-sdk''} \<longrightarrow>
         rq_headers r n = headers_of (case init of None \<Rightarrow> [] | Some (hs, _) \<Rightarrow> hs) n)" for inNode inp init
    by (rule exI [of _ "\<lparr>rq_input = inp, rq_headers = auth_headers inNode t (case init of None \<Rightarrow> [] | Some (hs, _) \<Rightarrow> hs),
          rq_rest = map_option snd init\<rparr>"])
      (simp add: authFetch_def t auth_headers_values)
  with c(1) show ?thesis by blast
qed

theorem requests_authorized_witness:
  "\<exists>t s' c. ensureValidSessionBody demo_session_env (indexeddb_module working_env) ''ann'' None None
      (demo_session_state 0 Map.empty) = (Inr t, s') \<and> st_sessions s' ''ann'' = Some c
    \<and> (\<exists>r. authFetch False (\<lambda>r w. (Inr (), r # w)) (cl_token (se_client c)) ''/sync''
          (Some ([(''AUTHORIZATION'', ''Basic x'')], ())) [] = (Inr (), [r])
        \<and> rq_headers r ''authorization'' = Some (''Bearer '' @ t))"
proof -
  obtain s' where run: "ensureValidSessionBody demo_session_env (indexeddb_module working_env) ''ann'' None None
      (demo_session_state 0 Map.empty) = (Inr demo_token, s')"
    using demo_restart by blast
  have pre: "sx_decode demo_session_env '''' = None" "sessions_ok demo_session_env (st_sessions (demo_session_state 0 Map.empty))"
    by (simp_all add: demo_session_state_def sessions_ok_def demo_session_env_def)
  let ?init = "Some ([(''AUTHORIZATION'', ''Basic x'')], ())"
  show ?thesis
    by (rule exE [OF requests_authorized [OF pre run]], erule conjE, drule spec [of _ False], drule spec [of _ "''/sync''"],
        drule spec [of _ ?init], elim exE conjE, rule exI [of _ demo_token], rule exI [of _ s'], rule exI, rule conjI,
        rule run, rule conjI, assumption, rule exI, rule conjI, drule spec, drule spec, assumption, assumption)
qed

end
