(* ===== verification/StorageOverlap.thy ===== *)
theory StorageOverlap
  imports Storage
begin

text \<open>
  Overlapping calls of the storage module (\<open>src/public/modules/storageModule.ts\<close>). Theory Storage
  gives \<open>useHandleStorage\<close>, \<open>closeHandleStorage\<close> and \<open>deleteHandleStorage\<close> as a whole; here
  each call pauses at the awaits of the source, and the browser keeps for every database a queue
  of the requests to open and to delete it. A deletion waits until the last connection to the
  database is closed, and what was asked for after it waits behind it.
\<close>

section \<open>Calls, requests and the browser\<close>

datatype db_request = OpenRequest nat | DeleteRequest

datatype call_kind = UseStorage | CloseStorage | DeleteStorage

text \<open>
  Where a call is: not begun; waiting for its database; holding the handle's storage; after the
  teardown of the Matrix store; after \<open>closeStorage\<close>; before the storage leaves the cache.
\<close>

datatype call_state =
    Started | Opening nat | Using "nat option" | TornDown nat | Closed nat | Uncaching
  | Returned "nat option" | Failed sc_error

record storage_call =
  oc_handle :: handle_id
  oc_kind :: call_kind
  oc_state :: call_state

type_synonym request_queues = "string \<Rightarrow> db_request list"

record storage_system =
  os_world :: storage_world
  os_queue :: request_queues
  os_calls :: "storage_call list"

fun settled :: "call_state \<Rightarrow> bool" where
  "settled (Returned st) = True"
| "settled (Failed e) = True"
| "settled _ = False"

fun runnable :: "call_state \<Rightarrow> bool" where
  "runnable (Opening p) = False"
| "runnable st = (\<not> settled st)"

text \<open>What \<open>await useHandleStorage\<close> gives: the end of that call, or the next stretch of another.\<close>

definition used :: "call_kind \<Rightarrow> nat option \<Rightarrow> call_state" where
  "used kind st = (if kind = UseStorage then Returned st else Using st)"

definition provider_name :: "storage_world \<Rightarrow> nat \<Rightarrow> string" where
  "provider_name w p = (case sw_providers w p of Some pv \<Rightarrow> pv_dbName pv | None \<Rightarrow> '''')"

definition request :: "string \<Rightarrow> db_request \<Rightarrow> request_queues \<Rightarrow> request_queues" where
  "request n r q = q(n := q n @ [r])"

text \<open>
  The stretch of a call up to its next await. \<open>destroyDB\<close> closes the connection once more and
  asks for the deletion, which it does not await. The awaits of \<open>undefined\<close>, when there is no
  storage, are one pause.
\<close>

fun run_stretch ::
    "storage_env \<Rightarrow> handle_id \<Rightarrow> call_kind \<Rightarrow> call_state \<Rightarrow> storage_world \<Rightarrow> request_queues \<Rightarrow>
     call_state \<times> storage_world \<times> request_queues" where
  "run_stretch E h kind Started w q =
     (case sw_cache w h of
        Some p \<Rightarrow> (used kind (Some p), w, q)
      | None \<Rightarrow>
          if \<not> se_factory E then (used kind None, w, q)
          else (Opening (sw_next w), snd (new_provider h w),
                request (db_name h) (OpenRequest (sw_next w)) q))"
| "run_stretch E h kind (Using None) w q = (Uncaching, w, q)"
| "run_stretch E h kind (Using (Some p)) w q =
     (case fst (matrix_destroy E h w) of Inl e \<Rightarrow> (Failed e, w, q) | Inr _ \<Rightarrow> (TornDown p, w, q))"
| "run_stretch E h kind (TornDown p) w q =
     (case pv_closeDB p w of (Inl e, w') \<Rightarrow> (Failed e, w', q) | (Inr _, w') \<Rightarrow> (Closed p, w', q))"
| "run_stretch E h kind (Closed p) w q =
     (if kind = DeleteStorage
      then (case pv_closeDB p w of
              (Inl e, w') \<Rightarrow> (Failed e, w', q)
            | (Inr _, w') \<Rightarrow> (Uncaching, w', request (provider_name w' p) DeleteRequest q))
      else (Returned None, snd (uncache h w), q))"
| "run_stretch E h kind Uncaching w q = (Returned None, snd (uncache h w), q)"
| "run_stretch E h kind st w q = (st, w, q)"

text \<open>A call whose database was opened, or not, goes on to the end of \<open>useHandleStorage\<close>.\<close>

definition opened ::
    "storage_env \<Rightarrow> handle_id \<Rightarrow> call_kind \<Rightarrow> nat \<Rightarrow> storage_world \<Rightarrow> call_state \<times> storage_world" where
  "opened E h kind p w =
     (case pv_openDB E p w of
        (Inl _, w') \<Rightarrow> (Failed (PlainError ''failed to use handle storage''), w')
      | (Inr _, w') \<Rightarrow> (used kind (Some p), w'\<lparr>sw_cache := (sw_cache w')(h \<mapsto> p)\<rparr>))"

definition put_call :: "nat \<Rightarrow> call_state \<Rightarrow> storage_call list \<Rightarrow> storage_call list" where
  "put_call i st cs = cs[i := (cs ! i)\<lparr>oc_state := st\<rparr>]"

definition run_call :: "storage_env \<Rightarrow> nat \<Rightarrow> storage_system \<Rightarrow> storage_system" where
  "run_call E i s =
     (let c = os_calls s ! i in
      case run_stretch E (oc_handle c) (oc_kind c) (oc_state c) (os_world s) (os_queue s) of
        (st, w, q) \<Rightarrow> \<lparr>os_world = w, os_queue = q, os_calls = put_call i st (os_calls s)\<rparr>)"

definition serve_open :: "storage_env \<Rightarrow> nat \<Rightarrow> nat \<Rightarrow> string \<Rightarrow> storage_system \<Rightarrow> storage_system" where
  "serve_open E i p n s =
     (let c = os_calls s ! i in
      case opened E (oc_handle c) (oc_kind c) p (os_world s) of
        (st, w) \<Rightarrow> \<lparr>os_world = w, os_queue = (os_queue s)(n := tl (os_queue s n)),
                    os_calls = put_call i st (os_calls s)\<rparr>)"

definition serve_delete :: "string \<Rightarrow> storage_system \<Rightarrow> storage_system" where
  "serve_delete n s =
     s\<lparr>os_world := (os_world s)\<lparr>sw_dbs := (sw_dbs (os_world s))(n := None)\<rparr>,
       os_queue := (os_queue s)(n := tl (os_queue s n))\<rparr>"

definition start_call :: "handle_id \<Rightarrow> call_kind \<Rightarrow> storage_system \<Rightarrow> storage_system" where
  "start_call h kind s =
     s\<lparr>os_calls := os_calls s @ [\<lparr>oc_handle = h, oc_kind = kind, oc_state = Started\<rparr>]\<rparr>"

definition connected :: "storage_world \<Rightarrow> string \<Rightarrow> bool" where
  "connected w n \<longleftrightarrow> (\<exists>p pv. sw_providers w p = Some pv \<and> pv_dbName pv = n \<and> pv_open pv)"

inductive storage_step :: "storage_env \<Rightarrow> storage_system \<Rightarrow> storage_system \<Rightarrow> bool" for E where
  start: "storage_step E s (start_call h kind s)"
| run: "i < length (os_calls s) \<Longrightarrow> runnable (oc_state (os_calls s ! i)) \<Longrightarrow> storage_step E s (run_call E i s)"
| served_open: "os_queue s n = OpenRequest p # rest \<Longrightarrow> i < length (os_calls s) \<Longrightarrow>
    oc_state (os_calls s ! i) = Opening p \<Longrightarrow> storage_step E s (serve_open E i p n s)"
| served_delete: "os_queue s n = DeleteRequest # rest \<Longrightarrow> \<not> connected (os_world s) n \<Longrightarrow>
    storage_step E s (serve_delete n s)"

inductive_cases storage_stepE: "storage_step E s s'"

section \<open>Without overlap\<close>

text \<open>A call that nothing interrupts does what the operation of theory Storage does.\<close>

lemma use_cached_alone:
  assumes "sw_cache w h = Some p"
  shows "run_stretch E h UseStorage Started w q = (Returned (Some p), w, q)"
    and "useHandleStorage E h w = (Inr (Some p), w)"
  using assms by (simp_all add: used_def useHandleStorage_def map_upd_triv)

lemma use_alone:
  assumes "sw_cache w h = None" "se_factory E"
  shows "fst (run_stretch E h UseStorage Started w q) = Opening (sw_next w)"
    and "useHandleStorage E h w =
      (case opened E h UseStorage (sw_next w) (fst (snd (run_stretch E h UseStorage Started w q))) of
         (Returned st, w') \<Rightarrow> (Inr st, w') | (Failed e, w') \<Rightarrow> (Inl e, w'))"
  using assms
  by (auto simp: useHandleStorage_def opened_def used_def new_provider_def await_def ret_apply
      split: sum.splits prod.splits)

lemma close_alone:
  assumes "sw_cache w h = Some p" "sw_providers w p \<noteq> None" "se_matrixDestroyError E h = None"
  shows "run_stretch E h CloseStorage Started w q = (Using (Some p), w, q)"
    and "run_stretch E h CloseStorage (Using (Some p)) w q = (TornDown p, w, q)"
    and "\<exists>w1. run_stretch E h CloseStorage (TornDown p) w q = (Closed p, w1, q)
      \<and> run_stretch E h CloseStorage (Closed p) w1 q = (Returned None, snd (closeHandleStorage E h w), q)"
  using assms
  by (auto simp: used_def matrix_destroy_def ret_apply closeHandleStorage_def await_def
      use_cached_alone(2) pv_closeDB_def uncache_def)

lemma delete_alone:
  assumes "sw_cache w h = Some p" "sw_providers w p = Some pv" "se_matrixDestroyError E h = None"
  shows "\<exists>w1 w2. run_stretch E h DeleteStorage (TornDown p) w q = (Closed p, w1, q)
      \<and> run_stretch E h DeleteStorage (Closed p) w1 q = (Uncaching, w2, request (pv_dbName pv) DeleteRequest q)
      \<and> snd (uncache h (w2\<lparr>sw_dbs := (sw_dbs w2)(pv_dbName pv := None)\<rparr>)) = snd (deleteHandleStorage E h w)"
  using assms
  by (simp add: matrix_destroy_def ret_apply deleteHandleStorage_def await_def use_cached_alone(2)
      pv_closeDB_def pv_destroyDB_def uncache_def provider_name_def)

section \<open>Whose connection is whose\<close>

definition named :: "storage_world \<Rightarrow> nat \<Rightarrow> string \<Rightarrow> bool" where
  "named w p n \<longleftrightarrow> (\<exists>pv. sw_providers w p = Some pv \<and> pv_dbName pv = n)"

fun held :: "call_state \<Rightarrow> nat set" where
  "held (Opening p) = {p}"
| "held (Using (Some p)) = {p}"
| "held (TornDown p) = {p}"
| "held (Closed p) = {p}"
| "held _ = {}"

text \<open>The connections that the cache, the requests and the calls refer to are to their handle's database.\<close>

definition names_ok :: "storage_system \<Rightarrow> bool" where
  "names_ok s \<longleftrightarrow>
     (\<forall>p. sw_providers (os_world s) p \<noteq> None \<longrightarrow> p < sw_next (os_world s))
   \<and> (\<forall>h p. sw_cache (os_world s) h = Some p \<longrightarrow> named (os_world s) p (db_name h))
   \<and> (\<forall>n p. OpenRequest p \<in> set (os_queue s n) \<longrightarrow> named (os_world s) p n)
   \<and> (\<forall>c \<in> set (os_calls s). \<forall>p \<in> held (oc_state c). named (os_world s) p (db_name (oc_handle c)))"

text \<open>A stretch for a handle leaves alone what belongs to other databases.\<close>

definition only_for ::
    "handle_id \<Rightarrow> storage_world \<times> request_queues \<Rightarrow> storage_world \<times> request_queues \<Rightarrow> bool" where
  "only_for h x y \<longleftrightarrow>
     (\<forall>h'. h' \<noteq> h \<longrightarrow> sw_cache (fst y) h' = sw_cache (fst x) h')
   \<and> (\<forall>n. n \<noteq> db_name h \<longrightarrow> snd y n = snd x n \<and> sw_dbs (fst y) n = sw_dbs (fst x) n)
   \<and> (\<forall>p pv. pv_dbName pv \<noteq> db_name h \<longrightarrow>
        (sw_providers (fst y) p = Some pv \<longleftrightarrow> sw_providers (fst x) p = Some pv))
   \<and> (\<forall>p n. named (fst x) p n \<longrightarrow> named (fst y) p n)
   \<and> sw_next (fst x) \<le> sw_next (fst y)"

lemma named_db: "named w p (db_name h) \<Longrightarrow> named w p (db_name h') \<Longrightarrow> h' = h"
  by (auto simp: named_def db_name_inj)

lemma run_Using:
  "run_stretch E h kind (Using st) w q =
     (case st of None \<Rightarrow> (Uncaching, w, q)
      | Some p \<Rightarrow> (case se_matrixDestroyError E h of Some e \<Rightarrow> (Failed e, w, q) | None \<Rightarrow> (TornDown p, w, q)))"
  "held (Using st) = (case st of None \<Rightarrow> {} | Some p \<Rightarrow> {p})"
  by (auto simp: matrix_destroy_def ret_apply throw_apply split: option.splits)

lemma held_used: "p \<in> held (used kind st) \<Longrightarrow> st = Some p"
  by (auto simp: used_def run_Using split: if_splits option.splits)

lemma run_only_for:
  assumes "run_stretch E h kind st w q = (st', w', q')"
    and "\<forall>p \<in> held st. named w p (db_name h)" and "\<forall>p. sw_providers w p \<noteq> None \<longrightarrow> p < sw_next w"
  shows "only_for h (w, q) (w', q')"
    and "\<forall>p. sw_providers w' p \<noteq> None \<longrightarrow> p < sw_next w'"
    and "\<forall>p \<in> held st'. named w' p (db_name h) \<or> sw_cache w h = Some p"
    and "\<forall>n p. OpenRequest p \<in> set (q' n) \<longrightarrow> OpenRequest p \<in> set (q n) \<or> named w' p n"
    and "sw_cache w' h = sw_cache w h \<or> sw_cache w' h = None"
  using assms
  by (cases st; fastforce simp: only_for_def request_def new_provider_def run_Using pv_closeDB_def uncache_def
        provider_name_def named_def db_name_inj less_Suc_eq dest: held_used
        split: option.splits if_splits prod.splits)+

lemma opened_only_for:
  assumes "opened E h kind p w = (st', w')"
    and "named w p (db_name h)" and "\<forall>p. sw_providers w p \<noteq> None \<longrightarrow> p < sw_next w"
  shows "only_for h (w, q) (w', q)"
    and "\<forall>p. sw_providers w' p \<noteq> None \<longrightarrow> p < sw_next w'"
    and "\<forall>p' \<in> held st'. p' = p" and "sw_cache w' h = sw_cache w h \<or> sw_cache w' h = Some p"
    and "settled st' \<or> st' = used kind (Some p)"
  using assms
  by (fastforce simp: only_for_def opened_def pv_openDB_def named_def db_name_inj
        dest: held_used split: option.splits if_splits prod.splits)+

lemma in_set_tl: "x \<in> set (tl xs) \<Longrightarrow> x \<in> set xs"
  by (cases xs) simp_all

lemma put_call_simps:
  "i < length cs \<Longrightarrow> c \<in> set (put_call i st cs) \<Longrightarrow> c \<in> set cs \<or> (c = (cs ! i)\<lparr>oc_state := st\<rparr>)"
  "length (put_call i st cs) = length cs"
  by (auto simp: put_call_def dest: set_update_subset_insert [THEN subsetD])

lemma named_kept: "only_for h x y \<Longrightarrow> named (fst x) p n \<Longrightarrow> named (fst y) p n"
  by (simp add: only_for_def)

text \<open>A step of one call keeps the names, when what it newly refers to is named right.\<close>

lemma names_update:
  assumes "names_ok s" and "i < length (os_calls s)" and h: "h = oc_handle (os_calls s ! i)"
    and only: "only_for h (os_world s, q) (w', q')"
    and "\<forall>p. sw_providers w' p \<noteq> None \<longrightarrow> p < sw_next w'"
    and "\<forall>p \<in> held st'. named w' p (db_name h)"
    and "\<forall>n p. OpenRequest p \<in> set (q' n) \<longrightarrow> OpenRequest p \<in> set (os_queue s n) \<or> named w' p n"
    and "\<forall>p. sw_cache w' h = Some p \<longrightarrow> named w' p (db_name h)"
  shows "names_ok \<lparr>os_world = w', os_queue = q', os_calls = put_call i st' (os_calls s)\<rparr>"
proof -
  note kept = named_kept [OF only, simplified]
  have "named w' p (db_name h')" if "sw_cache w' h' = Some p" for h' p
  proof (cases "h' = h")
    case False
    then have "sw_cache (os_world s) h' = Some p" using that only by (simp add: only_for_def)
    then show ?thesis using assms(1) kept by (simp add: names_ok_def)
  qed (use that assms(8) in simp)
  moreover have "named w' p (db_name (oc_handle c))"
    if "c \<in> set (put_call i st' (os_calls s))" "p \<in> held (oc_state c)" for c p
    using put_call_simps(1) [OF assms(2) that(1)] that(2) assms(1,6) h kept by (auto simp: names_ok_def)
  moreover have "named w' p n" if "OpenRequest p \<in> set (q' n)" for n p
  proof -
    from assms(7) that have "OpenRequest p \<in> set (os_queue s n) \<or> named w' p n" by blast
    then show ?thesis using assms(1) kept by (auto simp: names_ok_def)
  qed
  ultimately show ?thesis using assms(5) by (auto simp: names_ok_def)
qed

lemma names_run:
  assumes "names_ok s" "i < length (os_calls s)"
  shows "names_ok (run_call E i s)"
    and "only_for (oc_handle (os_calls s ! i)) (os_world s, os_queue s) (os_world (run_call E i s), os_queue (run_call E i s))"
proof -
  let ?c = "os_calls s ! i"
  obtain st w q where run: "run_stretch E (oc_handle ?c) (oc_kind ?c) (oc_state ?c) (os_world s) (os_queue s) = (st, w, q)"
    by (cases "run_stretch E (oc_handle ?c) (oc_kind ?c) (oc_state ?c) (os_world s) (os_queue s)")
  have ok: "\<forall>p \<in> held (oc_state ?c). named (os_world s) p (db_name (oc_handle ?c))"
    "\<forall>p. sw_providers (os_world s) p \<noteq> None \<longrightarrow> p < sw_next (os_world s)"
    "\<forall>p. sw_cache (os_world s) (oc_handle ?c) = Some p \<longrightarrow> named (os_world s) p (db_name (oc_handle ?c))"
    using assms by (auto simp: names_ok_def)
  note R = run_only_for [OF run ok(1,2)]
  note kept = named_kept [OF R(1), simplified]
  show "names_ok (run_call E i s)"
    unfolding run_call_def Let_def run prod.case
    by (rule names_update [OF assms refl R(1,2) _ R(4)]) (use R(3,5) ok(3) kept in auto)
  show "only_for (oc_handle ?c) (os_world s, os_queue s) (os_world (run_call E i s), os_queue (run_call E i s))"
    using R(1) by (simp add: run_call_def Let_def run)
qed

lemma names_open:
  assumes "names_ok s" "i < length (os_calls s)" "oc_state (os_calls s ! i) = Opening p"
    and "os_queue s n = OpenRequest p # rest"
  shows "names_ok (serve_open E i p n s)" and "n = db_name (oc_handle (os_calls s ! i))"
    and "only_for (oc_handle (os_calls s ! i)) (os_world s, os_queue s)
      (os_world (serve_open E i p n s), os_queue (serve_open E i p n s))"
proof -
  let ?c = "os_calls s ! i"
  obtain st w where op: "opened E (oc_handle ?c) (oc_kind ?c) p (os_world s) = (st, w)" by fastforce
  have "?c \<in> set (os_calls s)" using assms(2) by simp
  with assms(1,3) have ok: "named (os_world s) p (db_name (oc_handle ?c))"
    "\<forall>p. sw_providers (os_world s) p \<noteq> None \<longrightarrow> p < sw_next (os_world s)"
    "\<forall>p. sw_cache (os_world s) (oc_handle ?c) = Some p \<longrightarrow> named (os_world s) p (db_name (oc_handle ?c))"
    by (auto simp: names_ok_def)
  have "named (os_world s) p n" using assms(1,4) by (simp add: names_ok_def)
  with ok(1) show n: "n = db_name (oc_handle ?c)" by (auto simp: named_def)
  note R = opened_only_for [OF op ok(1,2)]
  have only: "only_for (oc_handle ?c) (os_world s, os_queue s) (w, (os_queue s)(n := tl (os_queue s n)))"
    using R(1) [of "os_queue s"] n by (auto simp: only_for_def)
  note kept = named_kept [OF only, simplified]
  have tl_set: "r \<in> set (((os_queue s)(n := tl (os_queue s n))) m) \<Longrightarrow> r \<in> set (os_queue s m)" for r m
    by (auto split: if_splits dest: in_set_tl)
  show "names_ok (serve_open E i p n s)"
    unfolding serve_open_def Let_def op prod.case
    by (rule names_update [OF assms(1,2) refl only R(2)]) (use R(3,4) ok(1,3) kept tl_set in auto)
  show "only_for (oc_handle ?c) (os_world s, os_queue s)
      (os_world (serve_open E i p n s), os_queue (serve_open E i p n s))"
    using only by (simp add: serve_open_def Let_def op)
qed

lemma names_start: "names_ok s \<Longrightarrow> names_ok (start_call h kind s)"
  by (auto simp: names_ok_def start_call_def)

lemma names_delete: "names_ok s \<Longrightarrow> names_ok (serve_delete n s)"
  by (auto simp: names_ok_def serve_delete_def named_def dest!: in_set_tl split: if_splits)

lemma names_step: "storage_step E s s' \<Longrightarrow> names_ok s \<Longrightarrow> names_ok s'"
  by (elim storage_stepE) (simp_all add: names_start names_run(1) names_open(1) names_delete)

section \<open>One call of a handle at a time\<close>

definition pending :: "storage_system \<Rightarrow> handle_id \<Rightarrow> call_state list" where
  "pending s h = map oc_state (filter (\<lambda>c. oc_handle c = h \<and> \<not> settled (oc_state c)) (os_calls s))"

text \<open>The calls of different handles may overlap; those of one handle do not.\<close>

definition one_at_a_time :: "storage_system \<Rightarrow> bool" where
  "one_at_a_time s \<longleftrightarrow> (\<forall>h. length (pending s h) \<le> 1)"

text \<open>The system after the start of the application: databases may be there from before.\<close>

definition fresh_system :: "(string \<rightharpoonup> nat \<times> idb_stores) \<Rightarrow> storage_system" where
  "fresh_system dbs =
     \<lparr>os_world = \<lparr>sw_dbs = dbs, sw_providers = Map.empty, sw_next = 0, sw_cache = Map.empty\<rparr>,
      os_queue = (\<lambda>_. []), os_calls = []\<rparr>"

inductive orderly :: "storage_env \<Rightarrow> storage_system \<Rightarrow> bool" for E where
  fresh: "orderly E (fresh_system dbs)"
| step: "orderly E s \<Longrightarrow> storage_step E s s' \<Longrightarrow> one_at_a_time s' \<Longrightarrow> orderly E s'"

text \<open>
  What holds of a handle: an open connection to its database is the cached one, a requested
  deletion has no connection to wait for, and the stage of its call.
\<close>

fun stage_ok :: "storage_world \<Rightarrow> db_request list \<Rightarrow> handle_id \<Rightarrow> call_state \<Rightarrow> bool" where
  "stage_ok w rs h (Opening p) \<longleftrightarrow> sw_cache w h = None \<and> (\<exists>ds. rs = ds @ [OpenRequest p] \<and> set ds \<subseteq> {DeleteRequest})"
| "stage_ok w rs h (Using st) \<longleftrightarrow> set rs \<subseteq> {DeleteRequest} \<and> sw_cache w h = st"
| "stage_ok w rs h (TornDown p) \<longleftrightarrow> set rs \<subseteq> {DeleteRequest} \<and> sw_cache w h = Some p"
| "stage_ok w rs h (Closed p) \<longleftrightarrow> set rs \<subseteq> {DeleteRequest} \<and> \<not> connected w (db_name h)"
| "stage_ok w rs h Uncaching \<longleftrightarrow> set rs \<subseteq> {DeleteRequest} \<and> \<not> connected w (db_name h)"
| "stage_ok w rs h st \<longleftrightarrow> set rs \<subseteq> {DeleteRequest}"

fun stages_ok :: "storage_world \<Rightarrow> db_request list \<Rightarrow> handle_id \<Rightarrow> call_state list \<Rightarrow> bool" where
  "stages_ok w rs h [] \<longleftrightarrow> set rs \<subseteq> {DeleteRequest}"
| "stages_ok w rs h [st] \<longleftrightarrow> stage_ok w rs h st"
| "stages_ok w rs h sts \<longleftrightarrow> False"

definition tidy_for :: "storage_world \<Rightarrow> db_request list \<Rightarrow> handle_id \<Rightarrow> call_state list \<Rightarrow> bool" where
  "tidy_for w rs h sts \<longleftrightarrow>
     (\<forall>p pv. sw_providers w p = Some pv \<and> pv_dbName pv = db_name h \<and> pv_open pv \<longrightarrow> sw_cache w h = Some p)
   \<and> (DeleteRequest \<in> set rs \<longrightarrow> \<not> connected w (db_name h)) \<and> stages_ok w rs h sts"

definition tidy :: "storage_system \<Rightarrow> bool" where
  "tidy s \<longleftrightarrow> names_ok s \<and> (\<forall>h. tidy_for (os_world s) (os_queue s (db_name h)) h (pending s h))"

lemma tidy_elsewhere:
  assumes "only_for h x y" and "h' \<noteq> h" and "tidy_for (fst x) (snd x (db_name h')) h' sts"
  shows "tidy_for (fst y) (snd y (db_name h')) h' sts"
proof -
  have ne: "db_name h' \<noteq> db_name h" using assms(2) by (simp add: db_name_inj)
  have pv: "pv_dbName pv = db_name h' \<Longrightarrow> (sw_providers (fst y) p = Some pv) = (sw_providers (fst x) p = Some pv)" for p pv
    using assms(1) ne by (simp add: only_for_def)
  have "connected (fst y) (db_name h') = connected (fst x) (db_name h')"
    unfolding connected_def using pv by blast
  moreover have "sw_cache (fst y) h' = sw_cache (fst x) h'" "snd y (db_name h') = snd x (db_name h')"
    using assms(1,2) ne by (simp_all add: only_for_def)
  moreover have "stages_ok (fst y) rs h' sts = stages_ok (fst x) rs h' sts" for rs
  proof (cases sts)
    case (Cons st rest)
    then show ?thesis using calculation by (cases rest; cases st) simp_all
  qed simp
  ultimately show ?thesis using assms(3) pv by (auto simp: tidy_for_def)
qed

lemma tidy_stretch:
  assumes "run_stretch E h kind st w q = (st', w', q')" and "runnable st"
    and "tidy_for w (q (db_name h)) h [st]"
    and "\<forall>p \<in> held st. named w p (db_name h)" and "\<forall>p. sw_providers w p \<noteq> None \<longrightarrow> p < sw_next w"
  shows "tidy_for w' (q' (db_name h)) h (if settled st' then [] else [st'])"
proof (cases st)
  case Started
  show ?thesis
  proof (cases "sw_cache w h")
    case None
    then show ?thesis
      using assms Started
      by (auto simp: tidy_for_def used_def request_def new_provider_def connected_def split: if_splits)
  next
    case (Some p)
    then show ?thesis using assms Started by (auto simp: tidy_for_def used_def)
  qed
next
  case (Using o')
  then show ?thesis using assms by (auto simp: tidy_for_def run_Using connected_def split: option.splits)
next
  case (TornDown p)
  then obtain pv where pv: "sw_providers w p = Some pv" "pv_dbName pv = db_name h"
    using assms(4) by (auto simp: named_def)
  have only: "p' = p" if "sw_providers w p' = Some pv'" "pv_dbName pv' = db_name h" "pv_open pv'" for p' pv'
    using assms(3) that TornDown by (auto simp: tidy_for_def)
  let ?w = "w\<lparr>sw_providers := (sw_providers w)(p \<mapsto> pv\<lparr>pv_open := False\<rparr>)\<rparr>"
  have none: "\<not> pv_open pv'" if "sw_providers ?w p' = Some pv'" "pv_dbName pv' = db_name h" for p' pv'
    using that only pv by (auto split: if_splits)
  have "st' = Closed p" "w' = ?w" "q' = q" using assms(1) TornDown pv(1) by (simp_all add: pv_closeDB_def)
  then show ?thesis using assms(3) TornDown none by (auto simp: tidy_for_def connected_def simp del: fun_upd_apply)
next
  case (Closed p)
  then show ?thesis
    using assms
    by (auto simp: tidy_for_def pv_closeDB_def connected_def named_def request_def provider_name_def uncache_def
        split: if_splits)
next
  case Uncaching
  then show ?thesis using assms by (auto simp: tidy_for_def connected_def uncache_def)
qed (use assms in auto)

lemma tidy_opened:
  assumes "opened E h kind p w = (st', w')" and "tidy_for w rs h [Opening p]" and "rs = OpenRequest p' # rest"
    and "named w p (db_name h)"
  shows "tidy_for w' (tl rs) h (if settled st' then [] else [st'])"
proof -
  from assms(2) obtain ds where ds: "rs = ds @ [OpenRequest p]" "set ds \<subseteq> {DeleteRequest}"
    and none: "sw_cache w h = None"
    and closed: "\<And>p pv. sw_providers w p = Some pv \<Longrightarrow> pv_dbName pv = db_name h \<Longrightarrow> \<not> pv_open pv"
    by (auto simp: tidy_for_def)
  have rs: "rs = [OpenRequest p]" using ds assms(3) by (cases ds) auto
  show ?thesis
    using assms(1,4) rs none closed
    by (auto simp: tidy_for_def opened_def pv_openDB_def named_def used_def connected_def
        split: option.splits if_splits)
qed

lemma filter_update:
  assumes "i < length xs"
  shows "P (xs ! i) \<Longrightarrow> length (filter P xs) \<le> 1 \<Longrightarrow> filter P xs = [xs ! i]"
    and "P (xs ! i) \<Longrightarrow> length (filter P xs) \<le> 1 \<Longrightarrow> filter P (xs[i := y]) = (if P y then [y] else [])"
    and "\<not> P (xs ! i) \<Longrightarrow> \<not> P y \<Longrightarrow> filter P (xs[i := y]) = filter P xs"
proof -
  have xs: "filter P xs = filter P (take i xs) @ (if P (xs ! i) then [xs ! i] else []) @ filter P (drop (Suc i) xs)"
    using arg_cong [OF id_take_nth_drop [OF assms], of "filter P"] by simp
  have upd: "filter P (xs[i := y]) = filter P (take i xs) @ (if P y then [y] else []) @ filter P (drop (Suc i) xs)"
    using arg_cong [OF upd_conv_take_nth_drop [OF assms, of y], of "filter P"] by simp
  show "P (xs ! i) \<Longrightarrow> length (filter P xs) \<le> 1 \<Longrightarrow> filter P xs = [xs ! i]"
    "P (xs ! i) \<Longrightarrow> length (filter P xs) \<le> 1 \<Longrightarrow> filter P (xs[i := y]) = (if P y then [y] else [])"
    unfolding upd using xs by auto
  show "\<not> P (xs ! i) \<Longrightarrow> \<not> P y \<Longrightarrow> filter P (xs[i := y]) = filter P xs"
    unfolding upd using xs by simp
qed

lemma pending_put:
  assumes "i < length (os_calls s)" and "\<not> settled (oc_state (os_calls s ! i))" and "one_at_a_time s"
    and "h = oc_handle (os_calls s ! i)" and "os_calls s' = put_call i st (os_calls s)"
  shows "pending s h = [oc_state (os_calls s ! i)]"
    and "pending s' h = (if settled st then [] else [st])"
    and "h' \<noteq> h \<Longrightarrow> pending s' h' = pending s h'"
proof -
  have "length (filter (\<lambda>c. oc_handle c = h \<and> \<not> settled (oc_state c)) (os_calls s)) \<le> 1"
    using assms(3) by (simp add: one_at_a_time_def pending_def)
  note F = filter_update(1,2) [OF assms(1), where P = "\<lambda>c. oc_handle c = h \<and> \<not> settled (oc_state c)", OF _ this]
  show "pending s h = [oc_state (os_calls s ! i)]" using F(1) assms(2,4) by (simp add: pending_def)
  show "pending s' h = (if settled st then [] else [st])"
    using F(2) assms(2,4,5) by (simp add: pending_def put_call_def)
  show "h' \<noteq> h \<Longrightarrow> pending s' h' = pending s h'"
    using filter_update(3) [OF assms(1), where P = "\<lambda>c. oc_handle c = h' \<and> \<not> settled (oc_state c)"] assms(4,5)
    by (simp add: pending_def put_call_def)
qed

lemma tidy_update:
  assumes "tidy s" "one_at_a_time s" "names_ok s'"
    and "i < length (os_calls s)" and "\<not> settled (oc_state (os_calls s ! i))"
    and "h = oc_handle (os_calls s ! i)" and "os_calls s' = put_call i st (os_calls s)"
    and "only_for h (os_world s, os_queue s) (os_world s', os_queue s')"
    and "tidy_for (os_world s) (os_queue s (db_name h)) h [oc_state (os_calls s ! i)] \<Longrightarrow>
      tidy_for (os_world s') (os_queue s' (db_name h)) h (if settled st then [] else [st])"
  shows "tidy s'"
proof -
  note P = pending_put [OF assms(4,5,2,6,7)]
  have "tidy_for (os_world s') (os_queue s' (db_name h')) h' (pending s' h')" for h'
  proof (cases "h' = h")
    case True
    have "tidy_for (os_world s) (os_queue s (db_name h)) h (pending s h)" using assms(1) by (simp add: tidy_def)
    then show ?thesis using assms(9) by (simp add: True P(1,2) del: if_split)
  next
    case False
    then show ?thesis using tidy_elsewhere [OF assms(8) False, simplified] assms(1) P(3) by (simp add: tidy_def)
  qed
  then show ?thesis using assms(3) by (simp add: tidy_def)
qed

lemma tidy_run:
  assumes "tidy s" "one_at_a_time s" "i < length (os_calls s)" "runnable (oc_state (os_calls s ! i))"
  shows "tidy (run_call E i s)"
proof -
  let ?c = "os_calls s ! i"
  obtain st w q where run: "run_stretch E (oc_handle ?c) (oc_kind ?c) (oc_state ?c) (os_world s) (os_queue s) = (st, w, q)"
    by (cases "run_stretch E (oc_handle ?c) (oc_kind ?c) (oc_state ?c) (os_world s) (os_queue s)")
  have s': "run_call E i s = \<lparr>os_world = w, os_queue = q, os_calls = put_call i st (os_calls s)\<rparr>"
    by (simp add: run_call_def Let_def run)
  have names: "names_ok s" using assms(1) by (simp add: tidy_def)
  then have held: "\<forall>p \<in> held (oc_state ?c). named (os_world s) p (db_name (oc_handle ?c))"
    "\<forall>p. sw_providers (os_world s) p \<noteq> None \<longrightarrow> p < sw_next (os_world s)"
    using assms(3) by (auto simp: names_ok_def)
  show ?thesis
  proof (rule tidy_update [OF assms(1,2) names_run(1) [OF names assms(3)] assms(3) _ refl _ names_run(2) [OF names assms(3)]])
    show "\<not> settled (oc_state ?c)" using assms(4) by (cases "oc_state ?c") auto
    show "tidy_for (os_world s) (os_queue s (db_name (oc_handle ?c))) (oc_handle ?c) [oc_state ?c] \<Longrightarrow>
      tidy_for (os_world (run_call E i s)) (os_queue (run_call E i s) (db_name (oc_handle ?c))) (oc_handle ?c)
        (if settled st then [] else [st])"
      using tidy_stretch [OF run assms(4) _ held] by (simp add: s')
  qed (simp add: s')
qed

lemma tidy_open:
  assumes "tidy s" "one_at_a_time s" "i < length (os_calls s)" "oc_state (os_calls s ! i) = Opening p"
    and "os_queue s n = OpenRequest p # rest"
  shows "tidy (serve_open E i p n s)"
proof -
  let ?c = "os_calls s ! i"
  obtain st w where op: "opened E (oc_handle ?c) (oc_kind ?c) p (os_world s) = (st, w)" by fastforce
  have s': "serve_open E i p n s =
      \<lparr>os_world = w, os_queue = (os_queue s)(n := tl (os_queue s n)), os_calls = put_call i st (os_calls s)\<rparr>"
    by (simp add: serve_open_def Let_def op)
  have names: "names_ok s" using assms(1) by (simp add: tidy_def)
  note N = names_open(1) [OF names assms(3-5), of E] names_open(2) [OF names assms(3-5)] names_open(3) [OF names assms(3-5), of E]
  have "named (os_world s) p n" using names assms(5) by (simp add: names_ok_def)
  then have step: "tidy_for (os_world s) (os_queue s n) (oc_handle ?c) [Opening p] \<Longrightarrow>
      tidy_for w (tl (os_queue s n)) (oc_handle ?c) (if settled st then [] else [st])"
    using tidy_opened [OF op _ assms(5)] N(2) by simp
  show ?thesis
    by (rule tidy_update [OF assms(1,2) N(1) assms(3) _ refl _ N(3), where st = st])
      (use step assms(4) in \<open>simp_all add: s' flip: N(2)\<close>)
qed

lemma open_behind: "ds @ [OpenRequest p] = DeleteRequest # rs \<Longrightarrow> \<exists>ds'. ds = DeleteRequest # ds' \<and> rs = ds' @ [OpenRequest p]"
  by (cases ds) auto

lemma tidy_delete:
  assumes "tidy s" "os_queue s n = DeleteRequest # rest" "\<not> connected (os_world s) n"
  shows "tidy (serve_delete n s)"
proof -
  have "tidy_for (os_world (serve_delete n s)) (os_queue (serve_delete n s) (db_name h)) h (pending s h)" for h
  proof -
    have t: "tidy_for (os_world s) (os_queue s (db_name h)) h (pending s h)" using assms(1) by (simp add: tidy_def)
    have conn: "connected (w\<lparr>sw_dbs := d\<rparr>) = connected w" for w d by (simp add: connected_def fun_eq_iff)
    have "stages_ok (os_world s) (os_queue s (db_name h)) h (pending s h) \<Longrightarrow>
        stages_ok (os_world (serve_delete n s)) (os_queue (serve_delete n s) (db_name h)) h (pending s h)"
      using assms(2)
      by (cases "(os_world s, os_queue s (db_name h), h, pending s h)" rule: stages_ok.cases; cases "hd (pending s h)")
        (auto simp: serve_delete_def conn dest!: open_behind)
    then show ?thesis using t by (auto simp: tidy_for_def serve_delete_def conn dest: in_set_tl)
  qed
  moreover have "pending (serve_delete n s) = pending s" by (simp add: pending_def serve_delete_def fun_eq_iff)
  ultimately show ?thesis using assms(1) names_delete by (simp add: tidy_def)
qed

lemma tidy_start:
  assumes "tidy s" "one_at_a_time (start_call h kind s)"
  shows "tidy (start_call h kind s)"
proof -
  have p: "pending (start_call h kind s) h' = (if h' = h then pending s h @ [Started] else pending s h')" for h'
    by (simp add: pending_def start_call_def)
  then have none: "pending s h = []" using assms(2) by (auto simp: one_at_a_time_def dest: spec [of _ h])
  have "tidy_for (os_world s) (os_queue s (db_name h')) h' (pending (start_call h kind s) h')" for h'
    using assms(1) none p [of h'] by (auto simp: tidy_def tidy_for_def dest!: spec [of _ h'])
  then show ?thesis using assms(1) names_start by (simp add: tidy_def start_call_def)
qed

lemma orderly_tidy: "orderly E s \<Longrightarrow> tidy s \<and> one_at_a_time s"
proof (induction rule: orderly.induct)
  case (fresh dbs)
  show ?case
    by (auto simp: tidy_def names_ok_def tidy_for_def pending_def one_at_a_time_def fresh_system_def)
next
  case (step s s')
  from step.hyps(2) show ?case
    by (cases rule: storage_step.cases)
      (use step in \<open>auto intro: tidy_start tidy_run tidy_open tidy_delete\<close>)
qed

lemma queue_served:
  assumes "tidy s" and "os_queue s (db_name h) \<noteq> []"
  shows "\<exists>s'. storage_step E s s' \<and> os_queue s' (db_name h) = tl (os_queue s (db_name h))"
proof -
  have t: "tidy_for (os_world s) (os_queue s (db_name h)) h (pending s h)" using assms(1) by (simp add: tidy_def)
  obtain r rest where q: "os_queue s (db_name h) = r # rest" using assms(2) by (meson neq_Nil_conv)
  show ?thesis
  proof (cases r)
    case DeleteRequest
    then have "\<not> connected (os_world s) (db_name h)" using t q by (simp add: tidy_for_def)
    with q DeleteRequest have "storage_step E s (serve_delete (db_name h) s)"
      by (auto intro: storage_step.served_delete)
    then show ?thesis by (intro exI [of _ "serve_delete (db_name h) s"]) (simp add: serve_delete_def)
  next
    case (OpenRequest p)
    with t q have "Opening p \<in> set (pending s h)"
      by (cases "(os_world s, os_queue s (db_name h), h, pending s h)" rule: stages_ok.cases; cases "hd (pending s h)")
        (auto simp: tidy_for_def Cons_eq_append_conv)
    then obtain i where i: "i < length (os_calls s)" "oc_state (os_calls s ! i) = Opening p"
      by (auto simp: pending_def in_set_conv_nth)
    have "os_queue (serve_open E i p (db_name h) s) (db_name h) = tl (os_queue s (db_name h))"
      by (simp add: serve_open_def Let_def split: prod.split)
    moreover have "storage_step E s (serve_open E i p (db_name h) s)"
      using q OpenRequest i by (auto intro: storage_step.served_open)
    ultimately show ?thesis by blast
  qed
qed

section \<open>A connection that nobody closes\<close>

text \<open>
  The database of a handle has an open connection that is not the cached one, and its deletion
  was asked for. Of the calls for the handle all before the \<open>n\<close>th have settled, and none after.
\<close>

definition stuck :: "handle_id \<Rightarrow> nat \<Rightarrow> nat \<Rightarrow> nat \<times> idb_stores \<Rightarrow> storage_system \<Rightarrow> bool" where
  "stuck h n p db s \<longleftrightarrow> names_ok s
     \<and> sw_providers (os_world s) p = Some \<lparr>pv_dbName = db_name h, pv_open = True\<rparr>
     \<and> sw_cache (os_world s) h = None \<and> sw_dbs (os_world s) (db_name h) = Some db
     \<and> (\<exists>rest. os_queue s (db_name h) = DeleteRequest # rest) \<and> n \<le> length (os_calls s)
     \<and> (\<forall>i < length (os_calls s). oc_handle (os_calls s ! i) = h \<longrightarrow>
          (if i < n then settled (oc_state (os_calls s ! i))
           else oc_state (os_calls s ! i) = Started \<or> (\<exists>p'. oc_state (os_calls s ! i) = Opening p')))"

lemma stuck_unsettled:
  "stuck h n p db s \<Longrightarrow> n \<le> i \<Longrightarrow> i < length (os_calls s) \<Longrightarrow> oc_handle (os_calls s ! i) = h \<Longrightarrow>
     \<not> settled (oc_state (os_calls s ! i))"
  by (auto simp: stuck_def dest!: spec [of _ i])

text \<open>Whatever is done for another handle leaves it so.\<close>

lemma stuck_elsewhere:
  assumes "stuck h n p db s" and "names_ok s'" and "i < length (os_calls s)" and "oc_handle (os_calls s ! i) \<noteq> h"
    and "only_for (oc_handle (os_calls s ! i)) (os_world s, os_queue s) (os_world s', os_queue s')"
    and "os_calls s' = put_call i st (os_calls s)"
  shows "stuck h n p db s'"
proof -
  have "db_name h \<noteq> db_name (oc_handle (os_calls s ! i))" using assms(4) by (auto simp: db_name_inj)
  then show ?thesis
    using assms by (auto simp: stuck_def only_for_def put_call_def nth_list_update)
qed

lemma step_calls:
  "\<exists>st. os_calls (run_call E i s) = put_call i st (os_calls s)"
  "\<exists>st. os_calls (serve_open E i p m s) = put_call i st (os_calls s)"
  by (auto simp: run_call_def serve_open_def Let_def split: prod.split)

lemma stuck_run:
  assumes "stuck h n p db s" "se_factory E" "i < length (os_calls s)" "runnable (oc_state (os_calls s ! i))"
  shows "stuck h n p db (run_call E i s)"
proof (cases "oc_handle (os_calls s ! i) = h")
  case False
  have names: "names_ok s" using assms(1) by (simp add: stuck_def)
  obtain st where "os_calls (run_call E i s) = put_call i st (os_calls s)"
    using step_calls(1) by blast
  then show ?thesis using stuck_elsewhere [OF assms(1) _ assms(3) False] names_run [OF names assms(3)] by blast
next
  case True
  let ?c = "os_calls s ! i"
  from assms(1,3) True have "if i < n then settled (oc_state ?c) else oc_state ?c = Started \<or> (\<exists>p'. oc_state ?c = Opening p')"
    by (simp add: stuck_def)
  with assms(4) have st: "oc_state ?c = Started" "n \<le> i"
    by (auto split: if_splits elim: settled.elims)
  have names: "names_ok s" and none: "sw_cache (os_world s) h = None" using assms(1) by (simp_all add: stuck_def)
  have p: "p < sw_next (os_world s)" using assms(1) by (auto simp: stuck_def names_ok_def)
  have run: "run_stretch E h (oc_kind ?c) Started (os_world s) (os_queue s) =
      (Opening (sw_next (os_world s)), snd (new_provider h (os_world s)),
       request (db_name h) (OpenRequest (sw_next (os_world s))) (os_queue s))"
    using none assms(2) by simp
  have "run_call E i s = \<lparr>os_world = snd (new_provider h (os_world s)),
      os_queue = request (db_name h) (OpenRequest (sw_next (os_world s))) (os_queue s),
      os_calls = put_call i (Opening (sw_next (os_world s))) (os_calls s)\<rparr>"
    by (simp only: run_call_def Let_def True st(1) run prod.case)
  then show ?thesis
    using assms(1,3) p st(2) names_run(1) [OF names assms(3), of E]
    by (auto simp: stuck_def new_provider_def request_def put_call_def nth_list_update)
qed

lemma stuck_step:
  assumes "storage_step E s s'" "stuck h n p db s" "se_factory E"
  shows "stuck h n p db s'"
  using assms(1)
proof (cases rule: storage_step.cases)
  case (start h' kind)
  then show ?thesis
    using assms(2) names_start by (auto simp: stuck_def start_call_def nth_append less_Suc_eq)
next
  case (run i)
  then show ?thesis using stuck_run assms(2,3) by simp
next
  case (served_open m q rest i)
  have names: "names_ok s" using assms(2) by (simp add: stuck_def)
  have "m \<noteq> db_name h" using assms(2) served_open(2) by (auto simp: stuck_def)
  moreover have "m = db_name (oc_handle (os_calls s ! i))" using names_open(2) [OF names served_open(3,4,2)] .
  ultimately have ne: "oc_handle (os_calls s ! i) \<noteq> h" by auto
  obtain st where "os_calls (serve_open E i q m s) = put_call i st (os_calls s)"
    using step_calls(2) by blast
  then show ?thesis
    using stuck_elsewhere [OF assms(2) _ served_open(3) ne] names_open(1,3) [OF names served_open(3,4,2), of E]
      served_open(1) by blast
next
  case (served_delete m rest)
  have "connected (os_world s) (db_name h)" using assms(2) by (force simp: stuck_def connected_def)
  then have "m \<noteq> db_name h" using served_delete(3) by auto
  then show ?thesis using assms(2) served_delete(1) names_delete by (auto simp: stuck_def serve_delete_def)
qed

lemma stuck_forever:
  "(storage_step E)\<^sup>*\<^sup>* s s' \<Longrightarrow> stuck h n p db s \<Longrightarrow> se_factory E \<Longrightarrow> stuck h n p db s'"
  by (induction rule: rtranclp_induct) (auto intro: stuck_step)

lemma open_database_again:
  "open_database v ms x = Some db \<Longrightarrow> open_database v ms (Some db) = Some db"
  by (auto simp: open_database_def split: if_splits prod.splits)

text \<open>Three calls of one handle: two first uses, and a deletion after them.\<close>

definition three_calls :: "handle_id \<Rightarrow> call_state \<Rightarrow> call_state \<Rightarrow> call_state \<Rightarrow> storage_call list" where
  "three_calls h a b c =
     [\<lparr>oc_handle = h, oc_kind = UseStorage, oc_state = a\<rparr>, \<lparr>oc_handle = h, oc_kind = UseStorage, oc_state = b\<rparr>,
      \<lparr>oc_handle = h, oc_kind = DeleteStorage, oc_state = c\<rparr>]"

lemma three_calls_put:
  "put_call (length cs) x (cs @ three_calls h a b c) = cs @ three_calls h x b c"
  "put_call (Suc (length cs)) x (cs @ three_calls h a b c) = cs @ three_calls h a x c"
  "put_call (Suc (Suc (length cs))) x (cs @ three_calls h a b c) = cs @ three_calls h a b x"
  by (simp_all add: put_call_def three_calls_def nth_append list_update_append)

lemma three_calls_nth:
  "(cs @ three_calls h a b c) ! length cs = \<lparr>oc_handle = h, oc_kind = UseStorage, oc_state = a\<rparr>"
  "(cs @ three_calls h a b c) ! Suc (length cs) = \<lparr>oc_handle = h, oc_kind = UseStorage, oc_state = b\<rparr>"
  "(cs @ three_calls h a b c) ! Suc (Suc (length cs)) = \<lparr>oc_handle = h, oc_kind = DeleteStorage, oc_state = c\<rparr>"
  "length (three_calls h a b c) = 3" "three_calls h a b c \<noteq> []"
  by (simp_all add: three_calls_def nth_append)

lemma run_step:
  assumes "i < length (os_calls s)" "runnable (oc_state (os_calls s ! i))" "run_call E i s = s'"
  shows "storage_step E s s'"
  using storage_step.run [OF assms(1,2), of E] assms(3) by simp

lemma open_step:
  assumes "os_queue s n = OpenRequest p # rest" "i < length (os_calls s)" "oc_state (os_calls s ! i) = Opening p"
    and "serve_open E i p n s = s'"
  shows "storage_step E s s'"
  using storage_step.served_open [OF assms(1-3), of E] assms(4) by simp

lemma three_started:
  "(storage_step E)\<^sup>*\<^sup>* s (s\<lparr>os_calls := os_calls s @ three_calls h Started Started Started\<rparr>)"
proof -
  have "start_call h DeleteStorage (start_call h UseStorage (start_call h UseStorage s)) =
      s\<lparr>os_calls := os_calls s @ three_calls h Started Started Started\<rparr>"
    by (simp add: start_call_def three_calls_def)
  then show ?thesis
    by (metis storage_step.start rtranclp.rtrancl_into_rtrancl rtranclp.rtrancl_refl)
qed

text \<open>Both uses begin before the first database is open.\<close>

lemma two_openings:
  assumes "sw_cache w h = None" "q (db_name h) = []" "se_factory E" "se_openError E (db_name h) = None"
    and "open_database (length migrations) migrations (sw_dbs w (db_name h)) = Some db"
    and "k = sw_next w"
  shows "(storage_step E)\<^sup>*\<^sup>* \<lparr>os_world = w, os_queue = q, os_calls = cs @ three_calls h Started Started Started\<rparr>
      \<lparr>os_world = w\<lparr>sw_dbs := (sw_dbs w)(db_name h \<mapsto> db),
          sw_providers := (sw_providers w)(k \<mapsto> \<lparr>pv_dbName = db_name h, pv_open = True\<rparr>,
            Suc k \<mapsto> \<lparr>pv_dbName = db_name h, pv_open = True\<rparr>),
          sw_next := Suc (Suc k), sw_cache := (sw_cache w)(h \<mapsto> Suc k)\<rparr>,
        os_queue = q, os_calls = cs @ three_calls h (Returned (Some k)) (Returned (Some (Suc k))) Started\<rparr>"
proof -
  let ?closed = "\<lparr>pv_dbName = db_name h, pv_open = False\<rparr>" and ?open = "\<lparr>pv_dbName = db_name h, pv_open = True\<rparr>"
  let ?w1 = "w\<lparr>sw_next := Suc k, sw_providers := (sw_providers w)(k \<mapsto> ?closed)\<rparr>"
  let ?w2 = "w\<lparr>sw_next := Suc (Suc k), sw_providers := (sw_providers w)(k \<mapsto> ?closed, Suc k \<mapsto> ?closed)\<rparr>"
  let ?w3 = "w\<lparr>sw_next := Suc (Suc k), sw_dbs := (sw_dbs w)(db_name h \<mapsto> db),
      sw_providers := (sw_providers w)(Suc k \<mapsto> ?closed, k \<mapsto> ?open), sw_cache := (sw_cache w)(h \<mapsto> k)\<rparr>"
  note put = three_calls_put three_calls_nth
  have "storage_step E \<lparr>os_world = w, os_queue = q, os_calls = cs @ three_calls h Started Started Started\<rparr>
      \<lparr>os_world = ?w1, os_queue = q(db_name h := [OpenRequest k]), os_calls = cs @ three_calls h (Opening k) Started Started\<rparr>"
    by (rule run_step [where i = "length cs"]) (use assms in \<open>simp_all add: run_call_def Let_def put request_def new_provider_def\<close>)
  moreover have "storage_step E
      \<lparr>os_world = ?w1, os_queue = q(db_name h := [OpenRequest k]), os_calls = cs @ three_calls h (Opening k) Started Started\<rparr>
      \<lparr>os_world = ?w2, os_queue = q(db_name h := [OpenRequest k, OpenRequest (Suc k)]),
       os_calls = cs @ three_calls h (Opening k) (Opening (Suc k)) Started\<rparr>"
    by (rule run_step [where i = "Suc (length cs)"]) (use assms in \<open>simp_all add: run_call_def Let_def put request_def new_provider_def\<close>)
  moreover have "storage_step E
      \<lparr>os_world = ?w2, os_queue = q(db_name h := [OpenRequest k, OpenRequest (Suc k)]),
       os_calls = cs @ three_calls h (Opening k) (Opening (Suc k)) Started\<rparr>
      \<lparr>os_world = ?w3, os_queue = q(db_name h := [OpenRequest (Suc k)]),
       os_calls = cs @ three_calls h (Returned (Some k)) (Opening (Suc k)) Started\<rparr>"
    by (rule open_step [where i = "length cs" and p = k and n = "db_name h" and rest = "[OpenRequest (Suc k)]"])
      (use assms in \<open>simp_all add: serve_open_def Let_def put opened_def pv_openDB_def used_def\<close>)
  moreover have "storage_step E
      \<lparr>os_world = ?w3, os_queue = q(db_name h := [OpenRequest (Suc k)]),
       os_calls = cs @ three_calls h (Returned (Some k)) (Opening (Suc k)) Started\<rparr>
      \<lparr>os_world = w\<lparr>sw_dbs := (sw_dbs w)(db_name h \<mapsto> db),
          sw_providers := (sw_providers w)(k \<mapsto> ?open, Suc k \<mapsto> ?open),
          sw_next := Suc (Suc k), sw_cache := (sw_cache w)(h \<mapsto> Suc k)\<rparr>,
        os_queue = q, os_calls = cs @ three_calls h (Returned (Some k)) (Returned (Some (Suc k))) Started\<rparr>"
    by (rule open_step [where i = "Suc (length cs)" and p = "Suc k" and n = "db_name h" and rest = "[]"])
      (use assms open_database_again [OF assms(5)] in \<open>simp_all add: serve_open_def Let_def put opened_def pv_openDB_def
        used_def fun_upd_idem\<close>)
  ultimately show ?thesis by (meson converse_rtranclp_into_rtranclp rtranclp.rtrancl_refl)
qed

text \<open>The deletion that follows closes the second connection only.\<close>

lemma deletion_requested:
  assumes "sw_cache w h = Some p" "sw_providers w p = Some \<lparr>pv_dbName = db_name h, pv_open = True\<rparr>"
    and "q (db_name h) = []" "se_matrixDestroyError E h = None"
  shows "(storage_step E)\<^sup>*\<^sup>* \<lparr>os_world = w, os_queue = q, os_calls = cs @ three_calls h (Returned a) (Returned b) Started\<rparr>
      \<lparr>os_world = w\<lparr>sw_providers := (sw_providers w)(p \<mapsto> \<lparr>pv_dbName = db_name h, pv_open = False\<rparr>),
          sw_cache := (sw_cache w)(h := None)\<rparr>,
        os_queue = q(db_name h := [DeleteRequest]),
        os_calls = cs @ three_calls h (Returned a) (Returned b) (Returned None)\<rparr>"
proof -
  let ?w = "w\<lparr>sw_providers := (sw_providers w)(p \<mapsto> \<lparr>pv_dbName = db_name h, pv_open = False\<rparr>)\<rparr>"
  let ?s = "\<lambda>w q st. \<lparr>os_world = w, os_queue = q, os_calls = cs @ three_calls h (Returned a) (Returned b) st\<rparr>"
  let ?q = "q(db_name h := [DeleteRequest])"
  note simps = run_call_def Let_def three_calls_put three_calls_nth used_def matrix_destroy_def ret_apply pv_closeDB_def
    provider_name_def request_def uncache_def
  have "storage_step E (?s w q Started) (?s w q (Using (Some p)))"
    by (rule run_step [where i = "Suc (Suc (length cs))"]) (use assms in \<open>simp_all add: simps\<close>)
  moreover have "storage_step E (?s w q (Using (Some p))) (?s w q (TornDown p))"
    by (rule run_step [where i = "Suc (Suc (length cs))"]) (use assms in \<open>simp_all add: simps\<close>)
  moreover have "storage_step E (?s w q (TornDown p)) (?s ?w q (Closed p))"
    by (rule run_step [where i = "Suc (Suc (length cs))"]) (use assms in \<open>simp_all add: simps\<close>)
  moreover have "storage_step E (?s ?w q (Closed p)) (?s ?w ?q Uncaching)"
    by (rule run_step [where i = "Suc (Suc (length cs))"]) (use assms in \<open>simp_all add: simps\<close>)
  moreover have "storage_step E (?s ?w ?q Uncaching) (?s (?w\<lparr>sw_cache := (sw_cache w)(h := None)\<rparr>) ?q (Returned None))"
    by (rule run_step [where i = "Suc (Suc (length cs))"]) (use assms in \<open>simp_all add: simps\<close>)
  ultimately have "(storage_step E)\<^sup>*\<^sup>* (?s w q Started) (?s (?w\<lparr>sw_cache := (sw_cache w)(h := None)\<rparr>) ?q (Returned None))"
    by (meson converse_rtranclp_into_rtranclp rtranclp.rtrancl_refl)
  then show ?thesis by simp
qed

lemma names_steps: "(storage_step E)\<^sup>*\<^sup>* s s' \<Longrightarrow> names_ok s \<Longrightarrow> names_ok s'"
  by (induction rule: rtranclp_induct) (auto intro: names_step)

lemma stuck_after_three:
  assumes "names_ok s" "sw_cache (os_world s) h = None" "os_queue s (db_name h) = []"
    and "\<forall>c \<in> set (os_calls s). oc_handle c = h \<longrightarrow> settled (oc_state c)"
    and "se_factory E" "se_openError E (db_name h) = None" "se_matrixDestroyError E h = None"
    and "open_database (length migrations) migrations (sw_dbs (os_world s) (db_name h)) = Some db"
    and k: "k = sw_next (os_world s)"
  obtains s' where "(storage_step E)\<^sup>*\<^sup>* s s'"
    and "os_calls s' = os_calls s @ three_calls h (Returned (Some k)) (Returned (Some (Suc k))) (Returned None)"
    and "stuck h (length (os_calls s')) k db s'"
proof -
  let ?open = "\<lparr>pv_dbName = db_name h, pv_open = True\<rparr>"
  let ?w = "(os_world s)\<lparr>sw_dbs := (sw_dbs (os_world s))(db_name h \<mapsto> db),
      sw_providers := (sw_providers (os_world s))(k \<mapsto> ?open, Suc k \<mapsto> ?open),
      sw_next := Suc (Suc k), sw_cache := (sw_cache (os_world s))(h \<mapsto> Suc k)\<rparr>"
  let ?s' = "\<lparr>os_world = ?w\<lparr>sw_providers := (sw_providers ?w)(Suc k \<mapsto> \<lparr>pv_dbName = db_name h, pv_open = False\<rparr>),
          sw_cache := (sw_cache ?w)(h := None)\<rparr>,
      os_queue = (os_queue s)(db_name h := [DeleteRequest]),
      os_calls = os_calls s @ three_calls h (Returned (Some k)) (Returned (Some (Suc k))) (Returned None)\<rparr>"
  have started: "(storage_step E)\<^sup>*\<^sup>* s
      \<lparr>os_world = os_world s, os_queue = os_queue s, os_calls = os_calls s @ three_calls h Started Started Started\<rparr>"
    using three_started [of E s h] by (cases s) simp
  note opened = rtranclp_trans [OF started]
  have "(storage_step E)\<^sup>*\<^sup>* s \<lparr>os_world = ?w, os_queue = os_queue s,
       os_calls = os_calls s @ three_calls h (Returned (Some k)) (Returned (Some (Suc k))) Started\<rparr>"
    by (rule opened, rule two_openings [where q = "os_queue s", OF assms(2,3,5,6,8) k])
  note closed = rtranclp_trans [OF this]
  have steps: "(storage_step E)\<^sup>*\<^sup>* s ?s'"
    by (rule closed, rule deletion_requested) (use assms(3,7) in simp_all)
  have "\<forall>c \<in> set (os_calls ?s'). oc_handle c = h \<longrightarrow> settled (oc_state c)"
    using assms(4) by (simp add: three_calls_def ball_Un)
  then have "\<forall>i < length (os_calls ?s'). oc_handle (os_calls ?s' ! i) = h \<longrightarrow> settled (oc_state (os_calls ?s' ! i))"
    unfolding all_set_conv_all_nth .
  then have "stuck h (length (os_calls ?s')) k db ?s'"
    using names_steps [OF steps assms(1)] unfolding stuck_def by simp
  with steps show ?thesis by (intro that [of ?s']) simp_all
qed

section \<open>Properties\<close>

text \<open>
  C27: While the calls of each handle are made one after the other, the storage module keeps at
  most one connection to the database of a handle, the one in its cache; and the browser can
  always serve the request at the head of the handle's queue, so no deletion waits for a
  connection that is still open, and no opening behind it. The calls of different handles may
  overlap in any way, and calls may fail.
\<close>

theorem one_connection:
  assumes "orderly E s"
  shows "(\<forall>p pv. sw_providers (os_world s) p = Some pv \<and> pv_dbName pv = db_name h \<and> pv_open pv \<longrightarrow>
      sw_cache (os_world s) h = Some p)
    \<and> (os_queue s (db_name h) \<noteq> [] \<longrightarrow>
        (\<exists>s'. storage_step E s s' \<and> os_queue s' (db_name h) = tl (os_queue s (db_name h))))"
  using orderly_tidy [OF assms] queue_served [of s h E] by (auto simp: tidy_def tidy_for_def)

definition demo_opening :: storage_system where
  "demo_opening = run_call working_env 0 (start_call ''ann'' UseStorage (fresh_system Map.empty))"

lemma demo_opening_orderly: "orderly working_env demo_opening" "os_queue demo_opening (db_name ''ann'') = [OpenRequest 0]"
proof -
  have "orderly working_env (start_call ''ann'' UseStorage (fresh_system Map.empty))"
    by (rule orderly.step [OF orderly.fresh storage_step.start])
      (simp add: one_at_a_time_def pending_def start_call_def fresh_system_def)
  then show "orderly working_env demo_opening"
    unfolding demo_opening_def
    by (rule orderly.step [OF _ storage_step.run])
      (simp_all add: one_at_a_time_def pending_def start_call_def fresh_system_def run_call_def put_call_def
        working_env_def Let_def)
  show "os_queue demo_opening (db_name ''ann'') = [OpenRequest 0]"
    by (simp add: demo_opening_def start_call_def fresh_system_def run_call_def put_call_def
        working_env_def Let_def request_def)
qed

theorem one_connection_witness:
  "\<exists>s. storage_step working_env demo_opening s \<and> os_queue s (db_name ''ann'') = []"
  using one_connection [OF demo_opening_orderly(1), of "''ann''"] demo_opening_orderly(2) by simp

text \<open>
  C28: Two first uses of a handle's storage that overlap can lose a connection. Both then answer
  a storage of their own, of which only the second is in the cache; a deletion that follows
  returns as if all was done, but the module never closes the first connection: whatever calls of
  it come after, for this and other handles, and however they interleave, the database with its
  token is not deleted, and no later call for the handle ever settles.
\<close>

theorem overlapping_uses_block_deletion:
  assumes "names_ok s" "sw_cache (os_world s) h = None" "os_queue s (db_name h) = []"
    and "\<forall>c \<in> set (os_calls s). oc_handle c = h \<longrightarrow> settled (oc_state c)"
    and "se_factory E" "se_openError E (db_name h) = None" "se_matrixDestroyError E h = None"
    and "open_database (length migrations) migrations (sw_dbs (os_world s) (db_name h)) = Some db"
  shows "\<exists>s1 p p'. (storage_step E)\<^sup>*\<^sup>* s s1 \<and> p \<noteq> p'
    \<and> os_calls s1 = os_calls s @ three_calls h (Returned (Some p)) (Returned (Some p')) (Returned None)
    \<and> (\<forall>s2. (storage_step E)\<^sup>*\<^sup>* s1 s2 \<longrightarrow> sw_dbs (os_world s2) (db_name h) = Some db
        \<and> (\<forall>i. length (os_calls s1) \<le> i \<and> i < length (os_calls s2) \<and> oc_handle (os_calls s2 ! i) = h \<longrightarrow>
             \<not> settled (oc_state (os_calls s2 ! i))))"
proof -
  obtain s1 where s1: "(storage_step E)\<^sup>*\<^sup>* s s1"
    "os_calls s1 = os_calls s @ three_calls h (Returned (Some (sw_next (os_world s))))
      (Returned (Some (Suc (sw_next (os_world s))))) (Returned None)"
    "stuck h (length (os_calls s1)) (sw_next (os_world s)) db s1"
    by (rule stuck_after_three [OF assms refl])
  have after: "sw_dbs (os_world s2) (db_name h) = Some db \<and> (\<forall>i. length (os_calls s1) \<le> i \<and> i < length (os_calls s2)
      \<and> oc_handle (os_calls s2 ! i) = h \<longrightarrow> \<not> settled (oc_state (os_calls s2 ! i)))"
    if "(storage_step E)\<^sup>*\<^sup>* s1 s2" for s2
    using stuck_forever [OF that s1(3) assms(5)] stuck_unsettled [OF stuck_forever [OF that s1(3) assms(5)]]
    by (auto simp: stuck_def)
  show ?thesis
    by (rule exI [of _ s1], rule exI [of _ "sw_next (os_world s)"], rule exI [of _ "Suc (sw_next (os_world s))"])
      (use s1(1,2) after in simp)
qed

theorem overlapping_uses_block_deletion_witness:
  "\<exists>s1. (storage_step working_env)\<^sup>*\<^sup>* (fresh_system Map.empty) s1
    \<and> (\<forall>s2. (storage_step working_env)\<^sup>*\<^sup>* s1 s2 \<longrightarrow>
        sw_dbs (os_world s2) (db_name ''ann'') = Some (1, [''session'' \<mapsto> Map.empty]))"
proof -
  have "names_ok (fresh_system Map.empty)" by (simp add: names_ok_def fresh_system_def)
  from overlapping_uses_block_deletion [OF this, of "''ann''" working_env "(1, [''session'' \<mapsto> Map.empty])"]
  show ?thesis by (auto simp: fresh_system_def working_env_def open_database_new)
qed

end
